(* ===== verification/Prelude.thy ===== *)
theory Prelude
  imports Main "HOL-Library.AList" "HOL-Library.List_Lexorder" "HOL-Library.Word"
begin

text \<open>
  Shared vocabulary of the development: Python text as lists of code points, exceptions as the
  left side of a sum, dicts as association lists in insertion order, and the generic lemmas on
  them.  The collection \<open>result_simps\<close> unfolds the error monad, \<open>text_defs\<close> unfolds literals.
\<close>

named_theorems result_simps
named_theorems text_defs

section \<open>Types\<close>

text \<open>A Python \<open>str\<close> is a sequence of Unicode code points; \<open>bytes\<close> a sequence of octets.\<close>

type_synonym pystr = "nat list"
type_synonym uuid = nat
type_synonym timestamp = int
type_synonym 'v pydict = "(pystr \<times> 'v) list"

definition u :: "string \<Rightarrow> pystr" where
  "u s = map of_char s"

lemma u_Nil [simp]: "u [] = []"
  by (simp add: u_def)

lemma u_Cons [text_defs]: "u (c # cs) = of_char c # u cs"
  by (simp add: u_def)

lemmas [text_defs] = u_Nil

lemma u_eq_iff [simp]: "u a = u b \<longleftrightarrow> a = b"
proof -
  have "inj (of_char :: char \<Rightarrow> nat)"
    by (rule injI) simp
  then show ?thesis
    by (simp add: u_def inj_map_eq_map)
qed

lemma length_u [simp]: "length (u s) = length s"
  by (simp add: u_def)

lemma u_eq_Nil_iff [simp]: "u s = [] \<longleftrightarrow> s = []" "[] = u s \<longleftrightarrow> s = []"
  by (auto simp: u_def)

section \<open>Results: a raised exception is \<open>Inl\<close>\<close>

definition bindE :: "'e + 'a \<Rightarrow> ('a \<Rightarrow> 'e + 'b) \<Rightarrow> 'e + 'b" where
  "bindE m f = (case m of Inl e \<Rightarrow> Inl e | Inr x \<Rightarrow> f x)"

definition requireE :: "'e \<Rightarrow> bool \<Rightarrow> 'e + unit" where
  "requireE e b = (if b then Inr () else Inl e)"

definition some_or :: "'e \<Rightarrow> 'a option \<Rightarrow> 'e + 'a" where
  "some_or e m = (case m of None \<Rightarrow> Inl e | Some x \<Rightarrow> Inr x)"

fun mapE :: "('a \<Rightarrow> 'e + 'b) \<Rightarrow> 'a list \<Rightarrow> 'e + 'b list" where
  "mapE f [] = Inr []"
| "mapE f (x # xs) = bindE (f x) (\<lambda>y. bindE (mapE f xs) (\<lambda>ys. Inr (y # ys)))"

lemma bindE_simps [simp, result_simps]:
  "bindE (Inl e) f = Inl e"
  "bindE (Inr x) f = f x"
  by (simp_all add: bindE_def)

lemma bindE_Inr_iff [result_simps]:
  "bindE m f = Inr y \<longleftrightarrow> (\<exists>x. m = Inr x \<and> f x = Inr y)"
  by (cases m) auto

lemma bindE_Inl_iff [result_simps]:
  "bindE m f = Inl e \<longleftrightarrow> m = Inl e \<or> (\<exists>x. m = Inr x \<and> f x = Inl e)"
  by (cases m) auto

lemma bindE_assoc: "bindE (bindE m f) g = bindE m (\<lambda>x. bindE (f x) g)"
  by (cases m) auto

lemma requireE_iff [simp, result_simps]:
  "requireE e b = Inr x \<longleftrightarrow> b"
  "requireE e b = Inl e' \<longleftrightarrow> \<not> b \<and> e' = e"
  by (auto simp: requireE_def)

lemma requireE_bool [simp]:
  "requireE e True = Inr ()" "requireE e False = Inl e"
  by (simp_all add: requireE_def)

lemma bind_requireE [simp]:
  "bindE (requireE e b) f = (if b then f () else Inl e)"
  by (simp add: requireE_def)

lemma some_or_iff [simp, result_simps]:
  "some_or e m = Inr x \<longleftrightarrow> m = Some x"
  "some_or e m = Inl e' \<longleftrightarrow> m = None \<and> e' = e"
  by (auto simp: some_or_def split: option.splits)

lemma some_or_simps [simp]:
  "some_or e None = Inl e" "some_or e (Some x) = Inr x"
  by (simp_all add: some_or_def)

lemma mapE_Inr_length: "mapE f xs = Inr ys \<Longrightarrow> length ys = length xs"
  by (induction xs arbitrary: ys) (auto simp: result_simps)

lemma mapE_Inr_list_all2: "mapE f xs = Inr ys \<Longrightarrow> list_all2 (\<lambda>x y. f x = Inr y) xs ys"
  by (induction xs arbitrary: ys) (auto simp: result_simps)

lemma mapE_Inr_in: "mapE f xs = Inr ys \<Longrightarrow> y \<in> set ys \<Longrightarrow> \<exists>x \<in> set xs. f x = Inr y"
  by (drule mapE_Inr_list_all2) (fastforce simp: list_all2_conv_all_nth in_set_conv_nth)

lemma mapE_Inl: "mapE f xs = Inl e \<Longrightarrow> \<exists>x \<in> set xs. f x = Inl e"
  by (induction xs) (auto simp: bindE_Inl_iff)

lemma mapE_total: "(\<And>x. x \<in> set xs \<Longrightarrow> \<exists>y. f x = Inr y) \<Longrightarrow> \<exists>ys. mapE f xs = Inr ys"
proof (induction xs)
  case (Cons x xs)
  then obtain y ys where "f x = Inr y" "mapE f xs = Inr ys" by (metis list.set_intros)
  then show ?case by simp
qed simp

lemma mapE_all_Inr: "(\<And>x. x \<in> set xs \<Longrightarrow> f x = Inr (g x)) \<Longrightarrow> mapE f xs = Inr (map g xs)"
  by (induction xs) auto

section \<open>Dicts\<close>

text \<open>
  Assigning to a key that is present keeps its position, a new key goes to the end
  (\<open>AList.update\<close>); \<open>dict.get\<close> is \<open>map_of\<close>.
\<close>

abbreviation dict_get :: "('k \<times> 'v) list \<Rightarrow> 'k \<Rightarrow> 'v option" where
  "dict_get \<equiv> map_of"

abbreviation dict_set :: "'k \<Rightarrow> 'v \<Rightarrow> ('k \<times> 'v) list \<Rightarrow> ('k \<times> 'v) list" where
  "dict_set \<equiv> AList.update"

definition dict_of :: "('k \<times> 'v) list \<Rightarrow> ('k \<times> 'v) list" where
  "dict_of kvs = fold (\<lambda>(k, v) d. dict_set k v d) kvs []"

definition dict_default :: "('k \<times> 'v) list \<Rightarrow> 'k \<Rightarrow> 'v \<Rightarrow> 'v" where
  "dict_default d k v = (case dict_get d k of None \<Rightarrow> v | Some w \<Rightarrow> w)"

lemma dict_of_map_gen: "map_of (fold (\<lambda>(k, v) d. dict_set k v d) kvs d) = map_of d ++ map_of (rev kvs)"
  by (induction kvs arbitrary: d) (auto simp: update_conv' fun_eq_iff map_add_def split: option.splits)

lemma dict_of_map: "map_of (dict_of kvs) = map_of (rev kvs)"
  by (simp add: dict_of_def dict_of_map_gen)

text \<open>Python's \<open>sorted(set(xs))\<close>.\<close>

definition sorted_set :: "'a :: linorder list \<Rightarrow> 'a list" where
  "sorted_set xs = sort (remdups xs)"

lemma set_sorted_set [simp]: "set (sorted_set xs) = set xs"
  by (simp add: sorted_set_def)

lemma sorted_sorted_set [simp]: "sorted (sorted_set xs)"
  by (simp add: sorted_set_def)

lemma distinct_sorted_set [simp]: "distinct (sorted_set xs)"
  by (simp add: sorted_set_def)

lemma sorted_set_Nil_iff [simp]: "sorted_set xs = [] \<longleftrightarrow> xs = []"
  by (metis set_empty set_sorted_set)

lemma sorted_set_cong: "set xs = set ys \<Longrightarrow> sorted_set xs = sorted_set ys"
  by (metis distinct_sorted_set set_sorted_set sorted_distinct_set_unique sorted_sorted_set)

section \<open>Rows of a table\<close>

text \<open>
  A table is the list of its rows in insertion order.  \<open>select_where\<close> is the rows a WHERE
  clause selects, \<open>update_where\<close> an UPDATE with a WHERE clause (its row count is the number of
  selected rows), \<open>order_desc\<close> an ORDER BY \<open>k\<close> DESC.
\<close>

abbreviation select_where :: "('r \<Rightarrow> bool) \<Rightarrow> 'r list \<Rightarrow> 'r list" where
  "select_where \<equiv> filter"

definition update_where :: "('r \<Rightarrow> bool) \<Rightarrow> ('r \<Rightarrow> 'r) \<Rightarrow> 'r list \<Rightarrow> 'r list" where
  "update_where p f rs = map (\<lambda>r. if p r then f r else r) rs"

definition rowcount :: "('r \<Rightarrow> bool) \<Rightarrow> 'r list \<Rightarrow> nat" where
  "rowcount p rs = length (filter p rs)"

definition order_desc :: "('r \<Rightarrow> 'k :: linorder) \<Rightarrow> 'r list \<Rightarrow> 'r list" where
  "order_desc k rs = rev (sort_key k rs)"

definition first_row :: "'r list \<Rightarrow> 'r option" where
  "first_row rs = (case rs of [] \<Rightarrow> None | r # _ \<Rightarrow> Some r)"

lemma first_row_simps [simp]: "first_row [] = None" "first_row (r # rs) = Some r"
  by (simp_all add: first_row_def)

lemma first_row_Some_in: "first_row rs = Some r \<Longrightarrow> r \<in> set rs"
  by (cases rs) auto

lemma first_row_None [simp]: "first_row rs = None \<longleftrightarrow> rs = []"
  by (cases rs) auto

lemma length_update_where [simp]: "length (update_where p f rs) = length rs"
  by (simp add: update_where_def)

lemma update_where_Nil [simp]: "update_where p f [] = []"
  by (simp add: update_where_def)

lemma update_where_Cons [simp]:
  "update_where p f (r # rs) = (if p r then f r else r) # update_where p f rs"
  by (simp add: update_where_def)

lemma update_where_append [simp]:
  "update_where p f (rs @ ss) = update_where p f rs @ update_where p f ss"
  by (simp add: update_where_def)

lemma set_update_where: "set (update_where p f rs) = f ` {r \<in> set rs. p r} \<union> {r \<in> set rs. \<not> p r}"
  by (auto simp: update_where_def)

lemma map_update_where: "(\<And>r. p r \<Longrightarrow> g (f r) = g r) \<Longrightarrow> map g (update_where p f rs) = map g rs"
  by (induction rs) auto

lemma filter_update_where:
  "(\<And>r. r \<in> set rs \<Longrightarrow> p r \<Longrightarrow> \<not> q r \<and> \<not> q (f r)) \<Longrightarrow> filter q (update_where p f rs) = filter q rs"
  by (induction rs) auto

lemma set_order_desc [simp]: "set (order_desc k rs) = set rs"
  by (simp add: order_desc_def)

lemma length_order_desc [simp]: "length (order_desc k rs) = length rs"
  by (simp add: order_desc_def)

lemma order_desc_Nil_iff [simp]: "order_desc k rs = [] \<longleftrightarrow> rs = []"
  by (metis length_0_conv length_order_desc)

lemma first_row_order_desc_max:
  assumes "first_row (order_desc k rs) = Some r" and "r' \<in> set rs"
  shows "k r' \<le> k r"
proof -
  have rs: "sort_key k rs = rev (order_desc k rs)"
    by (simp add: order_desc_def)
  from assms(1) obtain ss where ss: "order_desc k rs = r # ss"
    by (cases "order_desc k rs") auto
  have "sorted (map k (sort_key k rs))"
    by simp
  then have "sorted (map k (rev ss @ [r]))"
    by (simp add: rs ss)
  then have "\<forall>x \<in> set (rev ss @ [r]). k x \<le> k r"
    by (auto simp: sorted_append)
  moreover have "r' \<in> set (rev ss @ [r])"
    using assms(2) rs ss by (metis set_sort rev.simps(2))
  ultimately show ?thesis by blast
qed

lemma rowcount_pos_iff: "0 < rowcount p rs \<longleftrightarrow> (\<exists>r \<in> set rs. p r)"
  by (auto simp: rowcount_def filter_empty_conv)

lemma rowcount_distinct_key:
  assumes "distinct (map key rs)"
  shows "rowcount (\<lambda>r. key r = k \<and> q r) rs = (if \<exists>r \<in> set rs. key r = k \<and> q r then 1 else 0)"
  using assms
proof (induction rs)
  case Nil
  then show ?case by (simp add: rowcount_def)
next
  case (Cons a rs)
  show ?case
  proof (cases "key a = k \<and> q a")
    case True
    with Cons.prems have "filter (\<lambda>r. key r = k \<and> q r) rs = []"
      by (auto simp: filter_empty_conv image_iff)
    with True show ?thesis by (auto simp: rowcount_def)
  next
    case False
    with Cons show ?thesis by (auto simp: rowcount_def)
  qed
qed

section \<open>List facts\<close>

lemma filter_key_unique:
  assumes "distinct (map key rs)" and "r \<in> set rs"
  shows "filter (\<lambda>x. key x = key r) rs = [r]"
  using assms
proof (induction rs)
  case Nil
  then show ?case by simp
next
  case (Cons a rs)
  show ?case
  proof (cases "a = r")
    case True
    with Cons.prems have "filter (\<lambda>x. key x = key r) rs = []"
      by (auto simp: filter_empty_conv image_iff)
    with True show ?thesis by simp
  next
    case False
    with Cons.prems have "key r \<in> key ` set rs" "key a \<notin> key ` set rs" by simp_all
    then have ne: "key a \<noteq> key r" by metis
    from False Cons.prems have "distinct (map key rs)" "r \<in> set rs" by simp_all
    then have "filter (\<lambda>x. key x = key r) rs = [r]" by (rule Cons.IH)
    with ne show ?thesis by simp
  qed
qed

lemma dropWhile_idem: "dropWhile p (dropWhile p xs) = dropWhile p xs"
  by (induction xs) auto

lemma takeWhile_neq_append: "c \<notin> set xs \<Longrightarrow> takeWhile (\<lambda>x. x \<noteq> c) (xs @ c # ys) = xs"
  by (induction xs) auto

lemma separator_inj:
  assumes "xs @ c # ys = xs' @ c # ys'" and "c \<notin> set xs" and "c \<notin> set xs'"
  shows "xs = xs' \<and> ys = ys'"
proof -
  have "xs = takeWhile (\<lambda>x. x \<noteq> c) (xs @ c # ys)"
    using assms(2) by (simp add: takeWhile_neq_append)
  also have "\<dots> = xs'"
    using assms(1,3) by (simp add: takeWhile_neq_append)
  finally show ?thesis using assms(1) by simp
qed

lemma find_Some_in: "List.find p xs = Some x \<Longrightarrow> x \<in> set xs \<and> p x"
  by (auto simp: find_Some_iff in_set_conv_nth)

end
