(* ===== verification/PyText.thy ===== *)
theory PyText
  imports Prelude
begin

text \<open>
  The methods of Python's \<open>str\<close> that the source calls, on lists of code points.  The tables of
  \<open>str.isdigit\<close> and \<open>str.isspace\<close> are complete (Unicode 15.0, the version of Python 3.12).  Case
  mapping covers the code points below 256; above, a character is its own lower and upper case.
\<close>

section \<open>Character classes\<close>

definition ascii_digit :: "nat \<Rightarrow> bool" where
  "ascii_digit c \<longleftrightarrow> 48 \<le> c \<and> c \<le> 57"

definition digit_ranges :: "(nat \<times> nat) list" where
  "digit_ranges =
     [(48, 57), (178, 179), (185, 185), (1632, 1641), (1776, 1785), (1984, 1993), (2406, 2415),
      (2534, 2543), (2662, 2671), (2790, 2799), (2918, 2927), (3046, 3055), (3174, 3183),
      (3302, 3311), (3430, 3439), (3558, 3567), (3664, 3673), (3792, 3801), (3872, 3881),
      (4160, 4169), (4240, 4249), (4969, 4977), (6112, 6121), (6160, 6169), (6470, 6479),
      (6608, 6618), (6784, 6793), (6800, 6809), (6992, 7001), (7088, 7097), (7232, 7241),
      (7248, 7257), (8304, 8304), (8308, 8313), (8320, 8329), (9312, 9320), (9332, 9340),
      (9352, 9360), (9450, 9450), (9461, 9469), (9471, 9471), (10102, 10110), (10112, 10120),
      (10122, 10130), (42528, 42537), (43216, 43225), (43264, 43273), (43472, 43481),
      (43504, 43513), (43600, 43609), (44016, 44025), (65296, 65305), (66720, 66729),
      (68160, 68163), (68912, 68921), (69216, 69224), (69714, 69722), (69734, 69743),
      (69872, 69881), (69942, 69951), (70096, 70105), (70384, 70393), (70736, 70745),
      (70864, 70873), (71248, 71257), (71360, 71369), (71472, 71481), (71904, 71913),
      (72016, 72025), (72784, 72793), (73040, 73049), (73120, 73129), (73552, 73561),
      (92768, 92777), (92864, 92873), (93008, 93017), (120782, 120831), (123200, 123209),
      (123632, 123641), (124144, 124153), (125264, 125273), (127232, 127242), (130032, 130041)]"

definition py_isdigit :: "nat \<Rightarrow> bool" where
  "py_isdigit c \<longleftrightarrow> list_ex (\<lambda>(lo, hi). lo \<le> c \<and> c \<le> hi) digit_ranges"

definition py_isspace :: "nat \<Rightarrow> bool" where
  "py_isspace c \<longleftrightarrow> (9 \<le> c \<and> c \<le> 13) \<or> (28 \<le> c \<and> c \<le> 32) \<or> c \<in> {133, 160, 5760, 8232, 8233, 8239, 8287, 12288}
     \<or> (8192 \<le> c \<and> c \<le> 8202)"

definition hex_value :: "nat \<Rightarrow> nat option" where
  "hex_value c =
     (if 48 \<le> c \<and> c \<le> 57 then Some (c - 48)
      else if 97 \<le> c \<and> c \<le> 102 then Some (c - 87)
      else if 65 \<le> c \<and> c \<le> 70 then Some (c - 55)
      else None)"

definition is_hex :: "nat \<Rightarrow> bool" where
  "is_hex c \<longleftrightarrow> hex_value c \<noteq> None"

definition is_lower_alpha :: "nat \<Rightarrow> bool" where
  "is_lower_alpha c \<longleftrightarrow> 97 \<le> c \<and> c \<le> 122"

definition is_upper_alpha :: "nat \<Rightarrow> bool" where
  "is_upper_alpha c \<longleftrightarrow> 65 \<le> c \<and> c \<le> 90"

lemma py_isdigit_ascii: "c \<le> 127 \<Longrightarrow> py_isdigit c \<longleftrightarrow> ascii_digit c"
  by (auto simp: py_isdigit_def digit_ranges_def ascii_digit_def)

section \<open>Case\<close>

definition lower_char :: "nat \<Rightarrow> nat" where
  "lower_char c =
     (if is_upper_alpha c \<or> (192 \<le> c \<and> c \<le> 222 \<and> c \<noteq> 215) then c + 32 else c)"

definition upper_char :: "nat \<Rightarrow> pystr" where
  "upper_char c =
     (if is_lower_alpha c \<or> (224 \<le> c \<and> c \<le> 254 \<and> c \<noteq> 247) then [c - 32]
      else if c = 181 then [924]
      else if c = 223 then [83, 83]
      else if c = 255 then [376]
      else [c])"

definition py_lower :: "pystr \<Rightarrow> pystr" where
  "py_lower s = map lower_char s"

definition py_upper :: "pystr \<Rightarrow> pystr" where
  "py_upper s = concat (map upper_char s)"

lemma lower_char_idem [simp]: "lower_char (lower_char c) = lower_char c"
  by (auto simp: lower_char_def is_upper_alpha_def)

lemma py_lower_idem [simp]: "py_lower (py_lower s) = py_lower s"
  by (simp add: py_lower_def)

lemma length_py_lower [simp]: "length (py_lower s) = length s"
  by (simp add: py_lower_def)

lemma py_lower_append [simp]: "py_lower (a @ b) = py_lower a @ py_lower b"
  by (simp add: py_lower_def)

lemma py_lower_Nil [simp]: "py_lower [] = []" "py_lower s = [] \<longleftrightarrow> s = []"
  by (simp_all add: py_lower_def)

lemma lower_char_not_upper: "\<not> is_upper_alpha (lower_char c)"
  by (auto simp: lower_char_def is_upper_alpha_def)

lemma set_py_lower: "c \<in> set (py_lower s) \<Longrightarrow> \<not> is_upper_alpha c"
  by (auto simp: py_lower_def lower_char_not_upper)

section \<open>Stripping\<close>

definition lstrip_by :: "(nat \<Rightarrow> bool) \<Rightarrow> pystr \<Rightarrow> pystr" where
  "lstrip_by p s = dropWhile p s"

definition rstrip_by :: "(nat \<Rightarrow> bool) \<Rightarrow> pystr \<Rightarrow> pystr" where
  "rstrip_by p s = rev (dropWhile p (rev s))"

definition strip_by :: "(nat \<Rightarrow> bool) \<Rightarrow> pystr \<Rightarrow> pystr" where
  "strip_by p s = rstrip_by p (lstrip_by p s)"

abbreviation py_strip :: "pystr \<Rightarrow> pystr" where
  "py_strip \<equiv> strip_by py_isspace"

abbreviation py_rstrip_chars :: "pystr \<Rightarrow> pystr \<Rightarrow> pystr" where
  "py_rstrip_chars s cs \<equiv> rstrip_by (\<lambda>c. c \<in> set cs) s"

abbreviation py_strip_chars :: "pystr \<Rightarrow> pystr \<Rightarrow> pystr" where
  "py_strip_chars s cs \<equiv> strip_by (\<lambda>c. c \<in> set cs) s"

lemma rstrip_by_idem [simp]: "rstrip_by p (rstrip_by p s) = rstrip_by p s"
  by (simp add: rstrip_by_def dropWhile_idem)

lemma rstrip_by_last: "rstrip_by p s \<noteq> [] \<Longrightarrow> \<not> p (last (rstrip_by p s))"
  by (simp add: rstrip_by_def last_rev hd_dropWhile)

lemma rstrip_by_prefix: "\<exists>t. s = rstrip_by p s @ t \<and> (\<forall>c \<in> set t. p c)"
proof -
  have "rev s = takeWhile p (rev s) @ dropWhile p (rev s)" by simp
  then have "s = rev (dropWhile p (rev s)) @ rev (takeWhile p (rev s))"
    by (metis rev_append rev_rev_ident)
  then show ?thesis
    by (metis rstrip_by_def set_rev set_takeWhileD)
qed

lemma set_rstrip_by: "set (rstrip_by p s) \<subseteq> set s"
  by (metis rstrip_by_prefix set_append Un_upper1)

lemma set_lstrip_by: "set (lstrip_by p s) \<subseteq> set s"
  by (auto simp: lstrip_by_def dest: set_dropWhileD)

lemma set_strip_by: "set (strip_by p s) \<subseteq> set s"
  using set_rstrip_by set_lstrip_by unfolding strip_by_def by blast

lemma length_rstrip_by: "length (rstrip_by p s) \<le> length s"
  by (simp add: rstrip_by_def) (metis length_dropWhile_le length_rev)

lemma rstrip_by_Nil [simp]: "rstrip_by p [] = []"
  by (simp add: rstrip_by_def)

lemma rstrip_by_none: "s = [] \<or> \<not> p (last s) \<Longrightarrow> rstrip_by p s = s"
  by (cases s rule: rev_cases) (auto simp: rstrip_by_def)

lemma rstrip_by_Nil_iff: "rstrip_by p s = [] \<longleftrightarrow> (\<forall>c \<in> set s. p c)"
  by (auto simp: rstrip_by_def)

lemma strip_by_ends:
  assumes "strip_by p s \<noteq> []"
  shows "\<not> p (hd (strip_by p s)) \<and> \<not> p (last (strip_by p s))"
proof -
  let ?l = "lstrip_by p s"
  obtain t where t: "?l = strip_by p s @ t"
    using rstrip_by_prefix [of ?l p] by (auto simp: strip_by_def)
  have "?l \<noteq> []" using assms t by auto
  then have "\<not> p (hd ?l)" by (simp add: lstrip_by_def hd_dropWhile)
  moreover have "hd ?l = hd (strip_by p s)" using assms t by (metis hd_append2)
  ultimately show ?thesis
    using assms rstrip_by_last [of p ?l] by (simp add: strip_by_def)
qed

lemma strip_by_idem [simp]: "strip_by p (strip_by p s) = strip_by p s"
proof (cases "strip_by p s = []")
  case True
  then show ?thesis by (simp add: strip_by_def lstrip_by_def)
next
  case False
  with strip_by_ends [OF False] have "lstrip_by p (strip_by p s) = strip_by p s"
    by (cases "strip_by p s") (auto simp: lstrip_by_def)
  with strip_by_ends [OF False] show ?thesis
    by (metis rstrip_by_none strip_by_def)
qed

section \<open>Prefixes, suffixes, occurrences\<close>

definition py_startswith :: "pystr \<Rightarrow> pystr \<Rightarrow> bool" where
  "py_startswith s p \<longleftrightarrow> take (length p) s = p"

definition py_endswith :: "pystr \<Rightarrow> pystr \<Rightarrow> bool" where
  "py_endswith s p \<longleftrightarrow> length p \<le> length s \<and> drop (length s - length p) s = p"

fun py_contains :: "pystr \<Rightarrow> pystr \<Rightarrow> bool" where
  "py_contains [] p = (p = [])"
| "py_contains (c # s) p = (py_startswith (c # s) p \<or> py_contains s p)"

lemma py_startswith_iff: "py_startswith s p \<longleftrightarrow> (\<exists>t. s = p @ t)"
  by (metis append_eq_conv_conj py_startswith_def)

lemma py_endswith_iff: "py_endswith s p \<longleftrightarrow> (\<exists>t. s = t @ p)"
proof
  assume "py_endswith s p"
  then show "\<exists>t. s = t @ p"
    unfolding py_endswith_def by (metis append_take_drop_id)
qed (auto simp: py_endswith_def)

lemma py_contains_iff: "py_contains s p \<longleftrightarrow> (\<exists>a b. s = a @ p @ b)"
proof (induction s)
  case Nil
  then show ?case by auto
next
  case (Cons c s)
  show ?case
  proof
    assume "py_contains (c # s) p"
    then consider "py_startswith (c # s) p" | "py_contains s p" by auto
    then show "\<exists>a b. c # s = a @ p @ b"
    proof cases
      case 1
      then show ?thesis by (metis append_Nil py_startswith_iff)
    next
      case 2
      with Cons.IH show ?thesis by (metis append_Cons)
    qed
  next
    assume "\<exists>a b. c # s = a @ p @ b"
    then obtain a b where ab: "c # s = a @ p @ b" by blast
    show "py_contains (c # s) p"
    proof (cases a)
      case Nil
      with ab have "py_startswith (c # s) p" by (metis append_Nil py_startswith_iff)
      then show ?thesis by simp
    next
      case (Cons a' as)
      with ab have "s = as @ p @ b" by simp
      then have "py_contains s p" using Cons.IH by blast
      then show ?thesis by simp
    qed
  qed
qed

section \<open>Splitting and joining\<close>

text \<open>\<open>s.split(c)\<close> for a one-character separator; never empty.\<close>

fun split_on :: "nat \<Rightarrow> pystr \<Rightarrow> pystr list" where
  "split_on c [] = [[]]"
| "split_on c (x # xs) =
     (if x = c then [] # split_on c xs
      else case split_on c xs of [] \<Rightarrow> [[x]] | w # ws \<Rightarrow> (x # w) # ws)"

lemma split_on_nonempty [simp]: "split_on c s \<noteq> []"
  by (cases s) (auto split: list.splits)

fun py_join :: "pystr \<Rightarrow> pystr list \<Rightarrow> pystr" where
  "py_join sep [] = []"
| "py_join sep [x] = x"
| "py_join sep (x # y # ys) = x @ sep @ py_join sep (y # ys)"

lemma py_join_Cons: "ys \<noteq> [] \<Longrightarrow> py_join sep (x # ys) = x @ sep @ py_join sep ys"
  by (cases ys) auto

lemma join_split_on: "py_join [c] (split_on c s) = s"
proof (induction s)
  case Nil
  then show ?case by simp
next
  case (Cons x xs)
  obtain w ws where w: "split_on c xs = w # ws"
    by (meson neq_Nil_conv split_on_nonempty)
  show ?case
  proof (cases "x = c")
    case True
    with Cons.IH show ?thesis by (simp add: py_join_Cons)
  next
    case False
    with Cons.IH w show ?thesis by (cases ws) auto
  qed
qed

lemma split_on_no_sep: "w \<in> set (split_on c s) \<Longrightarrow> c \<notin> set w"
  by (induction s arbitrary: w) (auto split: if_splits list.splits)

lemma set_split_on: "w \<in> set (split_on c s) \<Longrightarrow> set w \<subseteq> set s"
proof (induction s arbitrary: w)
  case Nil
  then show ?case by simp
next
  case (Cons a s)
  obtain v vs where "split_on c s = v # vs" by (meson neq_Nil_conv split_on_nonempty)
  with Cons show ?case by (fastforce split: if_splits)
qed

lemma split_on_single: "c \<notin> set s \<Longrightarrow> split_on c s = [s]"
  by (induction s) auto

lemma split_on_append: "c \<notin> set a \<Longrightarrow> split_on c (a @ c # b) = a # split_on c b"
  by (induction a) auto

text \<open>\<open>before, sep, after = s.partition(c)\<close>, and the same from the right.\<close>

definition py_partition :: "nat \<Rightarrow> pystr \<Rightarrow> pystr \<times> bool \<times> pystr" where
  "py_partition c s = (takeWhile (\<lambda>x. x \<noteq> c) s, c \<in> set s, drop 1 (dropWhile (\<lambda>x. x \<noteq> c) s))"

definition py_rpartition :: "nat \<Rightarrow> pystr \<Rightarrow> pystr \<times> bool \<times> pystr" where
  "py_rpartition c s =
     (if c \<in> set s
      then (rev (drop 1 (dropWhile (\<lambda>x. x \<noteq> c) (rev s))), True, rev (takeWhile (\<lambda>x. x \<noteq> c) (rev s)))
      else ([], False, s))"

lemma py_partition_append: "c \<notin> set a \<Longrightarrow> py_partition c (a @ c # b) = (a, True, b)"
  by (induction a) (auto simp: py_partition_def)

lemma py_partition_facts:
  assumes "py_partition c s = (a, b, d)"
  shows "set a \<subseteq> set s \<and> set d \<subseteq> set s \<and> c \<notin> set a \<and> (a = [] \<or> (s \<noteq> [] \<and> hd a = hd s))"
proof -
  have a: "a = takeWhile (\<lambda>x. x \<noteq> c) s" and d: "d = drop 1 (dropWhile (\<lambda>x. x \<noteq> c) s)"
    using assms by (auto simp: py_partition_def)
  have "set d \<subseteq> set s" unfolding d by (meson in_set_dropD set_dropWhileD subsetI)
  moreover have "set a \<subseteq> set s" "c \<notin> set a" unfolding a by (auto dest: set_takeWhileD)
  moreover have "a = [] \<or> (s \<noteq> [] \<and> hd a = hd s)" unfolding a by (cases s) auto
  ultimately show ?thesis by blast
qed

lemma py_partition_absent: "c \<notin> set s \<Longrightarrow> py_partition c s = (s, False, [])"
  by (induction s) (auto simp: py_partition_def)

lemma py_rpartition_absent: "c \<notin> set s \<Longrightarrow> py_rpartition c s = ([], False, s)"
  by (simp add: py_rpartition_def)

text \<open>\<open>s.split()\<close>: the maximal runs of non-space characters.\<close>

function split_ws :: "pystr \<Rightarrow> pystr list" where
  "split_ws s =
     (let t = dropWhile py_isspace s in
      if t = [] then []
      else takeWhile (\<lambda>c. \<not> py_isspace c) t # split_ws (dropWhile (\<lambda>c. \<not> py_isspace c) t))"
  by pat_completeness auto
termination
proof (relation "measure length", goal_cases)
  case 1
  show ?case by simp
next
  case (2 s t)
  from 2(2) obtain c cs where t: "t = c # cs" by (meson neq_Nil_conv)
  with 2 have "\<not> py_isspace c" by (metis hd_dropWhile list.sel(1))
  with t have "length (dropWhile (\<lambda>c. \<not> py_isspace c) t) < length t"
    by (simp add: le_imp_less_Suc length_dropWhile_le)
  also have "length t \<le> length s" using 2 by (simp add: length_dropWhile_le)
  finally show ?case by simp
qed

declare split_ws.simps [simp del]

section \<open>Numbers\<close>

definition digits_value :: "pystr \<Rightarrow> nat" where
  "digits_value s = fold (\<lambda>c n. 10 * n + (c - 48)) s 0"

definition hex_digits_value :: "pystr \<Rightarrow> nat" where
  "hex_digits_value s = fold (\<lambda>c n. 16 * n + (case hex_value c of None \<Rightarrow> 0 | Some v \<Rightarrow> v)) s 0"

fun nat_to_text :: "nat \<Rightarrow> pystr" where
  "nat_to_text n = (if n < 10 then [48 + n] else nat_to_text (n div 10) @ [48 + n mod 10])"

declare nat_to_text.simps [simp del]

definition int_to_text :: "int \<Rightarrow> pystr" where
  "int_to_text i = (if i < 0 then 45 # nat_to_text (nat (- i)) else nat_to_text (nat i))"

lemma nat_to_text_nonempty [simp]: "nat_to_text n \<noteq> []"
  by (subst nat_to_text.simps) auto

lemma nat_to_text_digits: "c \<in> set (nat_to_text n) \<Longrightarrow> ascii_digit c"
proof (induction n rule: nat_to_text.induct)
  case (1 n)
  show ?case
  proof (cases "n < 10")
    case True
    with 1(2) show ?thesis by (auto simp: nat_to_text.simps [of n] ascii_digit_def)
  next
    case False
    with 1 show ?thesis by (auto simp: nat_to_text.simps [of n] ascii_digit_def)
  qed
qed

lemma digits_value_snoc: "digits_value (s @ [c]) = 10 * digits_value s + (c - 48)"
  by (simp add: digits_value_def)

lemma digits_value_nat_to_text: "digits_value (nat_to_text n) = n"
proof (induction n rule: nat_to_text.induct)
  case (1 n)
  show ?case
  proof (cases "n < 10")
    case True
    then show ?thesis by (simp add: nat_to_text.simps [of n] digits_value_def)
  next
    case False
    with 1 show ?thesis by (simp add: nat_to_text.simps [of n] digits_value_snoc)
  qed
qed

lemma nat_to_text_inj: "nat_to_text m = nat_to_text n \<longleftrightarrow> m = n"
  by (metis digits_value_nat_to_text)

end
