(* ===== verification/Errors.thy ===== *)
theory Errors
  imports PyText
begin

text \<open>
  The exceptions of \<open>domain/errors.py\<close> with their HTTP mapping, the other Python exceptions that
  the modelled code raises, and the error envelope of \<open>api/middlewares/error_handlers.py\<close>.  The
  classes that are raised with a detail message carry it; the client never sees it.
\<close>

section \<open>Domain errors\<close>

datatype domain_error =
    EmailAlreadyRegisteredError
  | InvalidCredentialsError
  | NotAuthenticatedError
  | ForbiddenError
  | NotFoundError
  | DuplicateTargetError
  | InvalidTargetError pystr
  | InvalidPaginationCursorError
  | RefreshCsrfHeaderMissingError
  | TargetUnresolvedError
  | TargetResolutionBlockedError
  | DnsRebindingDetectedError
  | RedirectDestinationBlockedError
  | EgressDeniedError
  | ScannerExecutionBlockedError
  | SandboxUnavailableError pystr
  | SandboxSetupFailedError pystr
  | SandboxVerificationFailedError pystr
  | SandboxNotEstablishedError
  | AttestationNotConfirmedError
  | InvalidScanStateError

fun status_code :: "domain_error \<Rightarrow> nat" where
  "status_code EmailAlreadyRegisteredError = 409"
| "status_code InvalidCredentialsError = 401"
| "status_code NotAuthenticatedError = 401"
| "status_code ForbiddenError = 403"
| "status_code NotFoundError = 404"
| "status_code DuplicateTargetError = 409"
| "status_code (InvalidTargetError _) = 422"
| "status_code InvalidPaginationCursorError = 400"
| "status_code RefreshCsrfHeaderMissingError = 403"
| "status_code TargetUnresolvedError = 503"
| "status_code TargetResolutionBlockedError = 403"
| "status_code DnsRebindingDetectedError = 403"
| "status_code RedirectDestinationBlockedError = 403"
| "status_code EgressDeniedError = 403"
| "status_code ScannerExecutionBlockedError = 501"
| "status_code (SandboxUnavailableError _) = 503"
| "status_code (SandboxSetupFailedError _) = 503"
| "status_code (SandboxVerificationFailedError _) = 503"
| "status_code SandboxNotEstablishedError = 503"
| "status_code AttestationNotConfirmedError = 403"
| "status_code InvalidScanStateError = 409"

fun error_code :: "domain_error \<Rightarrow> pystr" where
  "error_code EmailAlreadyRegisteredError = u ''CONFLICT''"
| "error_code InvalidCredentialsError = u ''UNAUTHENTICATED''"
| "error_code NotAuthenticatedError = u ''UNAUTHENTICATED''"
| "error_code ForbiddenError = u ''FORBIDDEN''"
| "error_code NotFoundError = u ''NOT_FOUND''"
| "error_code DuplicateTargetError = u ''CONFLICT''"
| "error_code (InvalidTargetError _) = u ''UNPROCESSABLE_TARGET''"
| "error_code InvalidPaginationCursorError = u ''VALIDATION_ERROR''"
| "error_code RefreshCsrfHeaderMissingError = u ''FORBIDDEN''"
| "error_code TargetUnresolvedError = u ''TARGET_UNRESOLVED''"
| "error_code TargetResolutionBlockedError = u ''TARGET_RESOLUTION_BLOCKED''"
| "error_code DnsRebindingDetectedError = u ''TARGET_RESOLUTION_BLOCKED''"
| "error_code RedirectDestinationBlockedError = u ''TARGET_RESOLUTION_BLOCKED''"
| "error_code EgressDeniedError = u ''EGRESS_DENIED''"
| "error_code ScannerExecutionBlockedError = u ''SCANNER_EXECUTION_BLOCKED''"
| "error_code (SandboxUnavailableError _) = u ''SANDBOX_UNAVAILABLE''"
| "error_code (SandboxSetupFailedError _) = u ''SANDBOX_SETUP_FAILED''"
| "error_code (SandboxVerificationFailedError _) = u ''SANDBOX_VERIFICATION_FAILED''"
| "error_code SandboxNotEstablishedError = u ''SANDBOX_NOT_ESTABLISHED''"
| "error_code AttestationNotConfirmedError = u ''ATTESTATION_NOT_CONFIRMED''"
| "error_code InvalidScanStateError = u ''SCAN_INVALID_STATE''"

fun class_message :: "domain_error \<Rightarrow> pystr" where
  "class_message EmailAlreadyRegisteredError = u ''An account with this email already exists.''"
| "class_message InvalidCredentialsError = u ''Invalid email or password.''"
| "class_message NotAuthenticatedError = u ''Authentication required.''"
| "class_message ForbiddenError = u ''You do not have permission to access this resource.''"
| "class_message NotFoundError = u ''Resource not found.''"
| "class_message DuplicateTargetError =
     u ''A target with this URL is already registered for this owner.''"
| "class_message (InvalidTargetError _) = u ''Hostname/URL failed normalization/validation rules.''"
| "class_message InvalidPaginationCursorError = u ''Invalid pagination cursor.''"
| "class_message RefreshCsrfHeaderMissingError = u ''Missing required X-Refresh-Request header.''"
| "class_message TargetUnresolvedError = u ''Target could not be resolved for scanning.''"
| "class_message TargetResolutionBlockedError = u ''Target resolves to a disallowed address.''"
| "class_message DnsRebindingDetectedError = u ''Target resolves to a disallowed address.''"
| "class_message RedirectDestinationBlockedError = u ''Target resolves to a disallowed address.''"
| "class_message EgressDeniedError = u ''Destination is not authorized by the scan egress policy.''"
| "class_message ScannerExecutionBlockedError = u ''Scanner execution is not available.''"
| "class_message (SandboxUnavailableError _) = u ''Scan sandbox is not available on this runtime.''"
| "class_message (SandboxSetupFailedError _) = u ''Scan sandbox could not be established.''"
| "class_message (SandboxVerificationFailedError _) = u ''Scan sandbox failed verification.''"
| "class_message SandboxNotEstablishedError = u ''Scan sandbox is not established.''"
| "class_message AttestationNotConfirmedError =
     u ''Target does not have a confirmed authorization attestation.''"
| "class_message InvalidScanStateError =
     u ''Requested operation is not valid for the current scan state.''"

section \<open>Other exceptions\<close>

datatype transport_failure_kind =
  CONNECT_TIMEOUT | READ_TIMEOUT | TLS_ERROR | PROTOCOL_ERROR | RESPONSE_TOO_LARGE | CANCELLED

fun kind_value :: "transport_failure_kind \<Rightarrow> pystr" where
  "kind_value CONNECT_TIMEOUT = u ''connect_timeout''"
| "kind_value READ_TIMEOUT = u ''read_timeout''"
| "kind_value TLS_ERROR = u ''tls_error''"
| "kind_value PROTOCOL_ERROR = u ''protocol_error''"
| "kind_value RESPONSE_TOO_LARGE = u ''response_too_large''"
| "kind_value CANCELLED = u ''cancelled''"

datatype exn =
    Domain domain_error
  | ControlledTransportError transport_failure_kind pystr
  | ScanCancelledError
  | RequestBudgetExceededError
  | UnsupportedFingerprintCategory
  | ValueError
  | KeyError
  | LookupError
  | IntegrityError
  | OtherException pystr

text \<open>\<open>type(exc).__name__\<close>; an \<open>OtherException\<close> carries the name of its class.\<close>

fun domain_error_name :: "domain_error \<Rightarrow> pystr" where
  "domain_error_name EmailAlreadyRegisteredError = u ''EmailAlreadyRegisteredError''"
| "domain_error_name InvalidCredentialsError = u ''InvalidCredentialsError''"
| "domain_error_name NotAuthenticatedError = u ''NotAuthenticatedError''"
| "domain_error_name ForbiddenError = u ''ForbiddenError''"
| "domain_error_name NotFoundError = u ''NotFoundError''"
| "domain_error_name DuplicateTargetError = u ''DuplicateTargetError''"
| "domain_error_name (InvalidTargetError _) = u ''InvalidTargetError''"
| "domain_error_name InvalidPaginationCursorError = u ''InvalidPaginationCursorError''"
| "domain_error_name RefreshCsrfHeaderMissingError = u ''RefreshCsrfHeaderMissingError''"
| "domain_error_name TargetUnresolvedError = u ''TargetUnresolvedError''"
| "domain_error_name TargetResolutionBlockedError = u ''TargetResolutionBlockedError''"
| "domain_error_name DnsRebindingDetectedError = u ''DnsRebindingDetectedError''"
| "domain_error_name RedirectDestinationBlockedError = u ''RedirectDestinationBlockedError''"
| "domain_error_name EgressDeniedError = u ''EgressDeniedError''"
| "domain_error_name ScannerExecutionBlockedError = u ''ScannerExecutionBlockedError''"
| "domain_error_name (SandboxUnavailableError _) = u ''SandboxUnavailableError''"
| "domain_error_name (SandboxSetupFailedError _) = u ''SandboxSetupFailedError''"
| "domain_error_name (SandboxVerificationFailedError _) = u ''SandboxVerificationFailedError''"
| "domain_error_name SandboxNotEstablishedError = u ''SandboxNotEstablishedError''"
| "domain_error_name AttestationNotConfirmedError = u ''AttestationNotConfirmedError''"
| "domain_error_name InvalidScanStateError = u ''InvalidScanStateError''"

fun exn_name :: "exn \<Rightarrow> pystr" where
  "exn_name (Domain e) = domain_error_name e"
| "exn_name (ControlledTransportError _ _) = u ''ControlledTransportError''"
| "exn_name ScanCancelledError = u ''ScanCancelledError''"
| "exn_name RequestBudgetExceededError = u ''RequestBudgetExceededError''"
| "exn_name UnsupportedFingerprintCategory = u ''UnsupportedFingerprintCategory''"
| "exn_name ValueError = u ''ValueError''"
| "exn_name KeyError = u ''KeyError''"
| "exn_name LookupError = u ''LookupError''"
| "exn_name IntegrityError = u ''IntegrityError''"
| "exn_name (OtherException n) = n"

type_synonym 'a result = "exn + 'a"

abbreviation raise :: "domain_error \<Rightarrow> 'a result" where
  "raise e \<equiv> Inl (Domain e)"

section \<open>The error envelope\<close>

record error_response =
  er_status :: nat
  er_code :: pystr
  er_message :: pystr
  er_request_id :: pystr

datatype http_exn =
    DomainExn domain_error
  | RequestValidationError
  | HTTPException nat "pystr option"

definition http_error_codes :: "(nat \<times> pystr) list" where
  "http_error_codes =
     [(400, u ''VALIDATION_ERROR''), (401, u ''UNAUTHENTICATED''), (403, u ''FORBIDDEN''),
      (404, u ''NOT_FOUND''), (405, u ''NOT_FOUND''), (409, u ''CONFLICT''),
      (422, u ''VALIDATION_ERROR''), (429, u ''RATE_LIMITED''), (500, u ''INTERNAL_ERROR''),
      (503, u ''SCAN_CAPACITY_EXCEEDED'')]"

definition generic_error_message :: pystr where
  "generic_error_message = u ''The request could not be processed.''"

definition error_response_of :: "pystr \<Rightarrow> nat \<Rightarrow> pystr \<Rightarrow> pystr \<Rightarrow> error_response" where
  "error_response_of request_id status code message =
     \<lparr>er_status = status, er_code = code, er_message = message, er_request_id = request_id\<rparr>"

fun handle_exception :: "pystr \<Rightarrow> http_exn \<Rightarrow> error_response" where
  "handle_exception rid (DomainExn e) =
     error_response_of rid (status_code e) (error_code e) (class_message e)"
| "handle_exception rid RequestValidationError =
     error_response_of rid 400 (u ''VALIDATION_ERROR'') generic_error_message"
| "handle_exception rid (HTTPException status detail) =
     error_response_of rid status (dict_default http_error_codes status (u ''INTERNAL_ERROR''))
       (case detail of Some m \<Rightarrow> m | None \<Rightarrow> generic_error_message)"

text \<open>The blocked-destination family is indistinguishable to a client.\<close>

definition blocked_family :: "domain_error set" where
  "blocked_family =
     {TargetResolutionBlockedError, DnsRebindingDetectedError, RedirectDestinationBlockedError}"

lemma blocked_family_same_envelope:
  "e \<in> blocked_family \<Longrightarrow>
     handle_exception rid (DomainExn e) = handle_exception rid (DomainExn TargetResolutionBlockedError)"
  by (auto simp: blocked_family_def)

lemma detail_never_in_envelope:
  "handle_exception rid (DomainExn (InvalidTargetError d)) = handle_exception rid (DomainExn (InvalidTargetError d'))"
  "handle_exception rid (DomainExn (SandboxSetupFailedError d))
     = handle_exception rid (DomainExn (SandboxSetupFailedError d'))"
  "handle_exception rid (DomainExn (SandboxUnavailableError d))
     = handle_exception rid (DomainExn (SandboxUnavailableError d'))"
  "handle_exception rid (DomainExn (SandboxVerificationFailedError d))
     = handle_exception rid (DomainExn (SandboxVerificationFailedError d'))"
  by simp_all

end
