(* ===== verification/PyJson.thy ===== *)
theory PyJson
  imports Errors
begin

text \<open>
  JSON values as \<open>json.loads\<close> builds them, the stable writer \<open>dumps_stable\<close>
  (\<open>json.dumps(obj, sort_keys=True, separators=(",", ":"))\<close>, ASCII escapes), UUIDs as text.
  A float is kept as its own constructor with the text Python prints for it.
\<close>

datatype json =
    JNull
  | JBool bool
  | JInt int
  | JFloat pystr
  | JStr pystr
  | JArr "json list"
  | JObj "(pystr \<times> json) list"

section \<open>Writing\<close>

definition hex_digit :: "nat \<Rightarrow> nat" where
  "hex_digit d = (if d < 10 then 48 + d else 87 + d)"

fun hex_pad :: "nat \<Rightarrow> nat \<Rightarrow> pystr" where
  "hex_pad 0 n = []"
| "hex_pad (Suc k) n = hex_pad k (n div 16) @ [hex_digit (n mod 16)]"

definition unicode_escape :: "nat \<Rightarrow> pystr" where
  "unicode_escape c = [92, 117] @ hex_pad 4 c"

definition json_char :: "nat \<Rightarrow> pystr" where
  "json_char c =
     (if c = 34 then [92, 34]
      else if c = 92 then [92, 92]
      else if c = 10 then [92, 110]
      else if c = 13 then [92, 114]
      else if c = 9 then [92, 116]
      else if c = 12 then [92, 102]
      else if c = 8 then [92, 98]
      else if 32 \<le> c \<and> c \<le> 126 then [c]
      else if c < 65536 then unicode_escape c
      else unicode_escape (55296 + (c - 65536) div 1024)
             @ unicode_escape (56320 + (c - 65536) mod 1024))"

definition json_string :: "pystr \<Rightarrow> pystr" where
  "json_string s = 34 # concat (map json_char s) @ [34]"

fun dumps_stable :: "json \<Rightarrow> pystr" where
  "dumps_stable JNull = u ''null''"
| "dumps_stable (JBool b) = (if b then u ''true'' else u ''false'')"
| "dumps_stable (JInt i) = int_to_text i"
| "dumps_stable (JFloat t) = t"
| "dumps_stable (JStr s) = json_string s"
| "dumps_stable (JArr vs) = 91 # py_join [44] (map dumps_stable vs) @ [93]"
| "dumps_stable (JObj kvs) =
     123 # py_join [44]
       (map (\<lambda>(k, v). json_string k @ 58 # v)
          (sort_key fst (map (\<lambda>(k, v). (k, dumps_stable v)) kvs))) @ [125]"

section \<open>UUIDs\<close>

definition uuid_text :: "uuid \<Rightarrow> pystr" where
  "uuid_text i =
     (let h = hex_pad 32 i in
      py_join [45] [take 8 h, take 4 (drop 8 h), take 4 (drop 12 h), take 4 (drop 16 h), drop 20 h])"

lemma length_hex_pad [simp]: "length (hex_pad k n) = k"
  by (induction k arbitrary: n) auto

lemma hex_digit_inj: "a < 16 \<Longrightarrow> b < 16 \<Longrightarrow> hex_digit a = hex_digit b \<Longrightarrow> a = b"
  by (auto simp: hex_digit_def split: if_splits)

lemma hex_pad_inj: "m < 16 ^ k \<Longrightarrow> n < 16 ^ k \<Longrightarrow> hex_pad k m = hex_pad k n \<Longrightarrow> m = n"
proof (induction k arbitrary: m n)
  case 0
  then show ?case by simp
next
  case (Suc k)
  have "m div 16 < 16 ^ k" "n div 16 < 16 ^ k"
    using Suc.prems(1,2) by (simp_all add: less_mult_imp_div_less mult.commute)
  moreover have "hex_pad k (m div 16) = hex_pad k (n div 16)"
    and d: "hex_digit (m mod 16) = hex_digit (n mod 16)"
    using Suc.prems(3) by auto
  ultimately have "m div 16 = n div 16" using Suc.IH by blast
  moreover have "m mod 16 = n mod 16" using d by (auto intro: hex_digit_inj)
  ultimately show ?case by (metis div_mult_mod_eq)
qed

lemma uuid_text_inj:
  assumes "i < 2 ^ 128" and "j < 2 ^ 128" and "uuid_text i = uuid_text j"
  shows "i = j"
proof -
  let ?a = "hex_pad 32 i" and ?b = "hex_pad 32 j"
  have l: "length ?a = 32" "length ?b = 32" by simp_all
  have cut: "drop n h = take m (drop n h) @ drop (m + n) h" for m n :: nat and h :: pystr
    by (metis append_take_drop_id drop_drop)
  have split5: "h = take 8 h @ take 4 (drop 8 h) @ take 4 (drop 12 h) @ take 4 (drop 16 h) @ drop 20 h"
    for h :: pystr
    using cut [of 0 h 8] cut [of 8 h 4] cut [of 12 h 4] cut [of 16 h 4] by simp
  from assms(3) l have "take 8 ?a = take 8 ?b" "take 4 (drop 8 ?a) = take 4 (drop 8 ?b)"
    "take 4 (drop 12 ?a) = take 4 (drop 12 ?b)" "take 4 (drop 16 ?a) = take 4 (drop 16 ?b)"
    "drop 20 ?a = drop 20 ?b"
    by (auto simp: uuid_text_def Let_def append_eq_append_conv simp del: hex_pad.simps)
  then have "?a = ?b" using split5 [of ?a] split5 [of ?b] by metis
  moreover have "(16::nat) ^ 32 = 2 ^ 128" by simp
  ultimately show ?thesis using assms(1,2) hex_pad_inj [of i 32 j] by simp
qed

section \<open>Reading a dict\<close>

fun is_jstr :: "json \<Rightarrow> bool" where
  "is_jstr (JStr _) = True"
| "is_jstr _ = False"

lemma is_jstr_iff: "is_jstr v \<longleftrightarrow> (\<exists>s. v = JStr s)"
  by (cases v) auto

fun strs_of :: "json list \<Rightarrow> pystr list" where
  "strs_of [] = []"
| "strs_of (JStr s # vs) = s # strs_of vs"
| "strs_of (_ # vs) = strs_of vs"

lemma set_strs_of: "s \<in> set (strs_of vs) \<longleftrightarrow> JStr s \<in> set vs"
  by (induction vs rule: strs_of.induct) auto

end
