(* ===== verification/Lifecycle.thy ===== *)
theory Lifecycle
  imports PyJson "HOL-Library.Transitive_Closure_Table"
begin

text \<open>
  The scan state machine (\<open>domain/scans/lifecycle.py\<close>, codes from \<open>config/constants.py\<close>) and the
  derivation of a finding's cross-scan status (\<open>domain/scans/lifecycle_finding.py\<close>).
\<close>

section \<open>Scan statuses\<close>

datatype scan_status =
    PENDING_ATTESTATION | QUEUED | RUNNING | PARTIALLY_COMPLETE | SCAN_COMPLETE | AI_ANALYSIS
  | REPORT_READY | REPORT_READY_DEGRADED | REJECTED | CANCELLED_STATUS

fun status_text :: "scan_status \<Rightarrow> pystr" where
  "status_text PENDING_ATTESTATION = u ''PENDING_ATTESTATION''"
| "status_text QUEUED = u ''QUEUED''"
| "status_text RUNNING = u ''RUNNING''"
| "status_text PARTIALLY_COMPLETE = u ''PARTIALLY_COMPLETE''"
| "status_text SCAN_COMPLETE = u ''SCAN_COMPLETE''"
| "status_text AI_ANALYSIS = u ''AI_ANALYSIS''"
| "status_text REPORT_READY = u ''REPORT_READY''"
| "status_text REPORT_READY_DEGRADED = u ''REPORT_READY_DEGRADED''"
| "status_text REJECTED = u ''REJECTED''"
| "status_text CANCELLED_STATUS = u ''CANCELLED''"

lemma status_text_inj [simp]: "status_text s = status_text t \<longleftrightarrow> s = t"
  by (cases s; cases t) simp_all

definition allowed_transitions :: "(scan_status \<times> scan_status list) list" where
  "allowed_transitions =
     [(PENDING_ATTESTATION, [QUEUED, REJECTED, CANCELLED_STATUS]),
      (QUEUED, [RUNNING, REJECTED, CANCELLED_STATUS]),
      (RUNNING, [SCAN_COMPLETE, PARTIALLY_COMPLETE, REJECTED]),
      (AI_ANALYSIS, [REPORT_READY, REPORT_READY_DEGRADED]),
      (SCAN_COMPLETE, [AI_ANALYSIS]),
      (PARTIALLY_COMPLETE, [AI_ANALYSIS])]"

definition terminal_states :: "scan_status list" where
  "terminal_states = [REPORT_READY, REPORT_READY_DEGRADED, REJECTED, CANCELLED_STATUS]"

definition can_transition :: "scan_status \<Rightarrow> scan_status \<Rightarrow> bool" where
  "can_transition current target =
     (case map_of allowed_transitions current of
        None \<Rightarrow> False
      | Some allowed \<Rightarrow> target \<in> set allowed)"

definition assert_transition :: "scan_status \<Rightarrow> scan_status \<Rightarrow> unit result" where
  "assert_transition current target =
     (if can_transition current target then Inr () else raise InvalidScanStateError)"

definition is_terminal :: "scan_status \<Rightarrow> bool" where
  "is_terminal s \<longleftrightarrow> s \<in> set terminal_states"

lemma is_terminal_simps [simp]:
  "is_terminal REPORT_READY" "is_terminal REPORT_READY_DEGRADED" "is_terminal REJECTED"
  "is_terminal CANCELLED_STATUS" "\<not> is_terminal PENDING_ATTESTATION" "\<not> is_terminal QUEUED"
  "\<not> is_terminal RUNNING" "\<not> is_terminal PARTIALLY_COMPLETE" "\<not> is_terminal SCAN_COMPLETE"
  "\<not> is_terminal AI_ANALYSIS"
  by (simp_all add: is_terminal_def terminal_states_def)

lemma can_transition_simps [simp]:
  "can_transition PENDING_ATTESTATION t \<longleftrightarrow> t \<in> {QUEUED, REJECTED, CANCELLED_STATUS}"
  "can_transition QUEUED t \<longleftrightarrow> t \<in> {RUNNING, REJECTED, CANCELLED_STATUS}"
  "can_transition RUNNING t \<longleftrightarrow> t \<in> {SCAN_COMPLETE, PARTIALLY_COMPLETE, REJECTED}"
  "can_transition SCAN_COMPLETE t \<longleftrightarrow> t = AI_ANALYSIS"
  "can_transition PARTIALLY_COMPLETE t \<longleftrightarrow> t = AI_ANALYSIS"
  "can_transition AI_ANALYSIS t \<longleftrightarrow> t \<in> {REPORT_READY, REPORT_READY_DEGRADED}"
  "can_transition REPORT_READY t \<longleftrightarrow> False"
  "can_transition REPORT_READY_DEGRADED t \<longleftrightarrow> False"
  "can_transition REJECTED t \<longleftrightarrow> False"
  "can_transition CANCELLED_STATUS t \<longleftrightarrow> False"
  by (auto simp: can_transition_def allowed_transitions_def)

text \<open>The state machine as a step relation, its rank and its runs.\<close>

inductive scan_step :: "scan_status \<Rightarrow> scan_status \<Rightarrow> bool" where
  edge: "can_transition s t \<Longrightarrow> scan_step s t"

inductive_simps scan_step_iff: "scan_step s t"

fun scan_rank :: "scan_status \<Rightarrow> nat" where
  "scan_rank PENDING_ATTESTATION = 5"
| "scan_rank QUEUED = 4"
| "scan_rank RUNNING = 3"
| "scan_rank SCAN_COMPLETE = 2"
| "scan_rank PARTIALLY_COMPLETE = 2"
| "scan_rank AI_ANALYSIS = 1"
| "scan_rank _ = 0"

lemma scan_step_rank: "scan_step s t \<Longrightarrow> scan_rank t < scan_rank s"
  by (cases s) (auto simp: scan_step_iff)

lemma scan_stuck_iff_terminal: "(\<nexists>t. scan_step s t) \<longleftrightarrow> is_terminal s"
  by (cases s) (auto simp: scan_step_iff)

fun scan_run :: "scan_status \<Rightarrow> scan_status list \<Rightarrow> bool" where
  "scan_run s [] \<longleftrightarrow> True"
| "scan_run s (t # ts) \<longleftrightarrow> can_transition s t \<and> scan_run t ts"

lemma scan_run_bounded: "scan_run s ts \<Longrightarrow> length ts \<le> scan_rank s"
proof (induction ts arbitrary: s)
  case Nil
  then show ?case by simp
next
  case (Cons t ts)
  then have "length ts \<le> scan_rank t" and "scan_rank t < scan_rank s"
    by (auto intro: scan_step_rank edge)
  then show ?case by simp
qed

lemma terminal_run: "is_terminal s \<Longrightarrow> scan_run s ts \<longleftrightarrow> ts = []"
  by (cases ts; cases s) auto

lemma rtranclp_terminal:
  assumes "scan_step\<^sup>*\<^sup>* s t" and "is_terminal s"
  shows "t = s"
  using assms by (induction rule: converse_rtranclp_induct) (use scan_stuck_iff_terminal in blast)+

section \<open>Finding lifecycle\<close>

definition derive_lifecycle_status :: "pystr \<Rightarrow> bool \<Rightarrow> bool \<Rightarrow> pystr option \<Rightarrow> pystr option" where
  "derive_lifecycle_status fingerprint in_current in_previous last_known_status =
     (if in_current \<and> \<not> in_previous then
        (if last_known_status = Some (u ''RESOLVED'') then Some (u ''REGRESSED'') else Some (u ''NEW''))
      else if in_current \<and> in_previous then Some (u ''PERSISTENT'')
      else if \<not> in_current \<and> in_previous then Some (u ''RESOLVED'')
      else None)"

lemma derive_lifecycle_cases:
  "derive_lifecycle_status fp True False lk
     = Some (if lk = Some (u ''RESOLVED'') then u ''REGRESSED'' else u ''NEW'')"
  "derive_lifecycle_status fp True True lk = Some (u ''PERSISTENT'')"
  "derive_lifecycle_status fp False True lk = Some (u ''RESOLVED'')"
  "derive_lifecycle_status fp False False lk = None"
  by (simp_all add: derive_lifecycle_status_def)

lemma derive_lifecycle_None_iff:
  "derive_lifecycle_status fp c p lk = None \<longleftrightarrow> \<not> c \<and> \<not> p"
  by (auto simp: derive_lifecycle_status_def)

end
