(* ===== verification/Store.thy ===== *)
theory Store
  imports Lifecycle
begin

text \<open>
  The database as the services see it: one record per table row
  (\<open>infrastructure/database/models\<close>), one field of \<open>db\<close> per table, rows in insertion order.
  \<open>uuid4()\<close> draws the next unused identifier; scan statuses are the seeded codes themselves, the
  other lookup tables are kept as rows.  \<open>run_request\<close> is the request-scoped session of
  \<open>connection.py\<close>: commit on success, roll back on an exception.
\<close>

section \<open>Rows\<close>

record user_row =
  us_id :: uuid
  us_email :: pystr
  us_password_hash :: pystr
  us_is_active :: bool
  us_created_at :: timestamp
  us_updated_at :: timestamp

record organization_row =
  og_id :: uuid
  og_name :: pystr
  og_created_at :: timestamp

record membership_row =
  mb_id :: uuid
  mb_organization_id :: uuid
  mb_user_id :: uuid
  mb_role :: pystr
  mb_created_at :: timestamp

record target_row =
  tg_id :: uuid
  tg_owner_organization_id :: "uuid option"
  tg_owner_user_id :: "uuid option"
  tg_hostname :: pystr
  tg_normalized_url :: pystr
  tg_is_archived :: bool
  tg_created_at :: timestamp

datatype attestation_status = PENDING_REVIEW | CONFIRMED | REVOKED

record attestation_row =
  at_id :: uuid
  at_target_id :: uuid
  at_method_id :: nat
  at_status :: attestation_status
  at_evidence_file_ref :: "pystr option"
  at_expires_at :: "timestamp option"
  at_created_by_user_id :: "uuid option"
  at_revoked_at :: "timestamp option"
  at_revoked_reason :: "pystr option"
  at_created_at :: timestamp

record scan_row =
  sc_id :: uuid
  sc_target_id :: uuid
  sc_scan_profile_id :: nat
  sc_initiated_by_user_id :: uuid
  sc_authorization_attestation_id :: uuid
  sc_status :: scan_status
  sc_parent_scan_id :: "uuid option"
  sc_queued_at :: "timestamp option"
  sc_started_at :: "timestamp option"
  sc_completed_at :: "timestamp option"
  sc_created_at :: timestamp

datatype execution_status = PENDING | EXEC_RUNNING | SUCCEEDED | FAILED | TIMED_OUT

record execution_row =
  ex_id :: uuid
  ex_scan_id :: uuid
  ex_scan_engine_id :: nat
  ex_tool_version_snapshot :: pystr
  ex_status :: execution_status
  ex_started_at :: "timestamp option"
  ex_completed_at :: "timestamp option"
  ex_error_message :: "pystr option"

record finding_row =
  fi_id :: uuid
  fi_execution_id :: uuid
  fi_category_id :: nat
  fi_severity_id :: nat
  fi_title :: pystr
  fi_description :: pystr
  fi_evidence :: pystr
  fi_location :: pystr
  fi_recommendation :: pystr
  fi_fingerprint :: "pystr option"
  fi_target_id :: "uuid option"
  fi_scan_id :: "uuid option"
  fi_source_engine_code :: "pystr option"
  fi_affected_asset :: "pystr option"
  fi_created_at :: timestamp

datatype evidence_type = RAW_HEADER | TOOL_OUTPUT_SNIPPET | RESPONSE_BODY_SNIPPET | REQUEST_METADATA

record evidence_row =
  ev_id :: uuid
  ev_finding_id :: uuid
  ev_evidence_type :: evidence_type
  ev_content :: pystr
  ev_created_at :: timestamp

record history_row =
  hi_id :: uuid
  hi_fingerprint :: pystr
  hi_target_id :: uuid
  hi_status_id :: nat
  hi_observed_in_scan_id :: uuid
  hi_effective_at :: timestamp

record assessment_row =
  as_id :: uuid
  as_execution_id :: uuid
  as_provider :: pystr
  as_model :: pystr
  as_prompt_schema_version :: pystr
  as_output_schema_version :: pystr
  as_is_available :: bool
  as_failure_kind :: "pystr option"
  as_unsupported_claim_count :: int
  as_payload :: json
  as_created_at :: timestamp

datatype session_status = ACTIVE | ROTATED | SESSION_REVOKED

record refresh_row =
  rs_id :: uuid
  rs_user_id :: uuid
  rs_family_id :: uuid
  rs_token_hash :: pystr
  rs_status :: session_status
  rs_expires_at :: timestamp
  rs_created_at :: timestamp

record audit_row =
  al_id :: uuid
  al_actor_user_id :: "uuid option"
  al_action_code :: pystr
  al_entity_type :: pystr
  al_entity_id :: uuid
  al_metadata_json :: "json pydict"
  al_occurred_at :: timestamp

section \<open>The database\<close>

record db =
  users :: "user_row list"
  organizations :: "organization_row list"
  memberships :: "membership_row list"
  targets :: "target_row list"
  attestations :: "attestation_row list"
  scans :: "scan_row list"
  executions :: "execution_row list"
  scan_findings :: "finding_row list"
  finding_evidence :: "evidence_row list"
  status_history :: "history_row list"
  assessments :: "assessment_row list"
  refresh_sessions :: "refresh_row list"
  audit_log :: "audit_row list"
  scan_engines :: "(nat \<times> pystr) list"
  scan_profiles :: "(nat \<times> pystr) list"
  severity_levels :: "(nat \<times> pystr) list"
  finding_categories :: "(nat \<times> pystr) list"
  lifecycle_statuses :: "(nat \<times> pystr) list"
  attestation_methods :: "(nat \<times> pystr) list"
  next_id :: uuid

text \<open>A database after the migrations: no rows but the lookup tables.\<close>

definition seeded_db :: db where
  "seeded_db =
     \<lparr>users = [], organizations = [], memberships = [], targets = [], attestations = [], scans = [],
      executions = [], scan_findings = [], finding_evidence = [], status_history = [], assessments = [],
      refresh_sessions = [], audit_log = [],
      scan_engines =
        [(1, u ''katana''), (2, u ''nuclei''), (3, u ''nikto''), (4, u ''headers-analyzer''),
         (5, u ''ssl-inspector''), (6, u ''dns-lookup''), (7, u ''whois-lookup'')],
      scan_profiles = [(1, u ''quick-check''), (2, u ''standard''), (3, u ''full-assessment'')],
      severity_levels = [(0, u ''INFO''), (1, u ''LOW''), (2, u ''MEDIUM''), (3, u ''HIGH''), (4, u ''CRITICAL'')],
      finding_categories =
        [(1, u ''MISSING_SECURITY_HEADER''), (2, u ''OUTDATED_TLS''), (3, u ''KNOWN_CVE''),
         (4, u ''EXPOSED_ADMIN_PANEL''), (5, u ''DNS_MISCONFIGURATION''), (6, u ''WEAK_CIPHER'')],
      lifecycle_statuses = [(1, u ''NEW''), (2, u ''PERSISTENT''), (3, u ''RESOLVED''), (4, u ''REGRESSED'')],
      attestation_methods =
        [(1, u ''SELF_ATTESTATION''), (2, u ''DNS_TXT_CHALLENGE''), (3, u ''FILE_UPLOAD_VERIFICATION'')],
      next_id = 1\<rparr>"

definition uuid4 :: "db \<Rightarrow> uuid \<times> db" where
  "uuid4 d = (next_id d, d\<lparr>next_id := Suc (next_id d)\<rparr>)"

lemma uuid4_simps [simp]:
  "fst (uuid4 d) = next_id d" "snd (uuid4 d) = d\<lparr>next_id := Suc (next_id d)\<rparr>"
  by (simp_all add: uuid4_def)

text \<open>Result rows: \<open>scalar_one_or_none()\<close> raises on two rows, \<open>session.get\<close> reads by primary key.\<close>

definition scalar_one_or_none :: "'r list \<Rightarrow> 'r option result" where
  "scalar_one_or_none rs =
     (case rs of [] \<Rightarrow> Inr None | [r] \<Rightarrow> Inr (Some r)
      | _ \<Rightarrow> Inl (OtherException (u ''MultipleResultsFound'')))"

definition session_get :: "('r \<Rightarrow> 'k) \<Rightarrow> 'r list \<Rightarrow> 'k \<Rightarrow> 'r option" where
  "session_get key rs i = List.find (\<lambda>r. key r = i) rs"

lemma scalar_one_or_none_in: "scalar_one_or_none rs = Inr (Some r) \<Longrightarrow> r \<in> set rs"
  by (auto simp: scalar_one_or_none_def split: list.splits)

lemma scalar_one_or_none_None: "scalar_one_or_none rs = Inr None \<longleftrightarrow> rs = []"
  by (auto simp: scalar_one_or_none_def split: list.splits)

lemma scalar_one_or_none_filter:
  "scalar_one_or_none (filter p rs) = Inr (Some r) \<Longrightarrow> r \<in> set rs \<and> p r"
  using scalar_one_or_none_in by fastforce

lemma scalar_one_or_none_key:
  assumes "distinct (map key rs)"
  shows "scalar_one_or_none (filter (\<lambda>x. key x = k) rs) = Inr (List.find (\<lambda>x. key x = k) rs)"
proof (cases "\<exists>r \<in> set rs. key r = k")
  case True
  then obtain r where r: "r \<in> set rs" "key r = k" by blast
  have f: "filter (\<lambda>x. key x = k) rs = [r]"
    using filter_key_unique [OF assms r(1)] r(2) by simp
  have "List.find (\<lambda>x. key x = k) rs = Some r"
  proof -
    have "List.find (\<lambda>x. key x = k) rs \<noteq> None"
      unfolding find_None_iff using r by blast
    then obtain r' where r': "List.find (\<lambda>x. key x = k) rs = Some r'" by blast
    then have "r' \<in> set (filter (\<lambda>x. key x = k) rs)" using find_Some_in [OF r'] by simp
    with f r' show ?thesis by simp
  qed
  with f show ?thesis by (simp add: scalar_one_or_none_def)
next
  case False
  then have "filter (\<lambda>x. key x = k) rs = []" "List.find (\<lambda>x. key x = k) rs = None"
    by (auto simp: filter_empty_conv find_None_iff)
  then show ?thesis by (simp add: scalar_one_or_none_def)
qed

lemma session_get_Some:
  "session_get key rs i = Some r \<Longrightarrow> r \<in> set rs \<and> key r = i"
  by (auto simp: session_get_def dest: find_Some_in)

lemma session_get_None: "session_get key rs i = None \<longleftrightarrow> (\<forall>r \<in> set rs. key r \<noteq> i)"
  by (auto simp: session_get_def find_None_iff)

lemma session_get_append:
  "session_get key (rs @ ss) i = (case session_get key rs i of Some r \<Rightarrow> Some r | None \<Rightarrow> session_get key ss i)"
  by (induction rs) (auto simp: session_get_def)

lemma session_get_unique:
  "distinct (map key rs) \<Longrightarrow> r \<in> set rs \<Longrightarrow> session_get key rs (key r) = Some r"
  using scalar_one_or_none_key [of key rs "key r"] filter_key_unique [of key rs r]
  by (simp add: session_get_def scalar_one_or_none_def)

text \<open>A request: the outcome for the client and the committed database.\<close>

definition run_request :: "(db \<Rightarrow> ('a \<times> db) result) \<Rightarrow> db \<Rightarrow> 'a result \<times> db" where
  "run_request f d = (case f d of Inl e \<Rightarrow> (Inl e, d) | Inr (x, d') \<Rightarrow> (Inr x, d'))"

lemma run_request_rollback: "run_request f d = (Inl e, d') \<Longrightarrow> d' = d"
  by (auto simp: run_request_def split: sum.splits)

lemma run_request_commit: "run_request f d = (Inr x, d') \<longleftrightarrow> f d = Inr (x, d')"
  by (auto simp: run_request_def split: sum.splits)

section \<open>Looking codes up\<close>

definition id_of_code :: "(nat \<times> pystr) list \<Rightarrow> pystr \<Rightarrow> nat option" where
  "id_of_code rows code = map_option fst (List.find (\<lambda>(i, c). c = code) rows)"

definition code_of_id :: "(nat \<times> pystr) list \<Rightarrow> nat \<Rightarrow> pystr option" where
  "code_of_id rows i = map_option snd (List.find (\<lambda>(j, c). j = i) rows)"

text \<open>\<open>{code: id}\<close> and \<open>{id: code}\<close> built by a loop over the rows: the last row of a code wins.\<close>

definition ids_by_code :: "(nat \<times> pystr) list \<Rightarrow> (pystr \<times> nat) list" where
  "ids_by_code rows = dict_of (map (\<lambda>(i, c). (c, i)) rows)"

definition codes_by_id :: "(nat \<times> pystr) list \<Rightarrow> (nat \<times> pystr) list" where
  "codes_by_id rows = dict_of rows"

lemma ids_by_code_in: "map_of (ids_by_code rows) c = Some i \<Longrightarrow> (i, c) \<in> set rows"
  by (auto simp: ids_by_code_def dict_of_map rev_map dest!: map_of_SomeD)

lemma ids_by_code_None: "map_of (ids_by_code rows) c = None \<longleftrightarrow> c \<notin> snd ` set rows"
  by (auto simp: ids_by_code_def dict_of_map map_of_eq_None_iff image_iff split_beta)

end
