(* ===== verification/Users.thy ===== *)
theory Users
  imports Store
begin

text \<open>
  Accounts: \<open>user_repository.py\<close>, \<open>user_service.py\<close>, \<open>token_service.py\<close> and the authentication
  dependency \<open>api/dependencies.py\<close>.  Argon2 and PyJWT are third-party code: \<open>hash_password\<close>,
  \<open>verify_password\<close>, \<open>jwt_encode\<close> and \<open>jwt_decode\<close> are arguments of the definitions that call them.
\<close>

record account =
  ac_id :: uuid
  ac_email :: pystr
  ac_created_at :: timestamp

definition account_of :: "user_row \<Rightarrow> account" where
  "account_of r = \<lparr>ac_id = us_id r, ac_email = us_email r, ac_created_at = us_created_at r\<rparr>"

section \<open>Repository\<close>

definition user_by_email :: "db \<Rightarrow> pystr \<Rightarrow> user_row option result" where
  "user_by_email d email = scalar_one_or_none (select_where (\<lambda>r. us_email r = email) (users d))"

definition user_by_id :: "db \<Rightarrow> uuid \<Rightarrow> user_row option result" where
  "user_by_id d i = scalar_one_or_none (select_where (\<lambda>r. us_id r = i) (users d))"

section \<open>Service\<close>

definition register_user ::
  "(pystr \<Rightarrow> pystr) \<Rightarrow> timestamp \<Rightarrow> pystr \<Rightarrow> pystr \<Rightarrow> db \<Rightarrow> (account \<times> db) result" where
  "register_user hash_password now email password d =
     bindE (user_by_email d email) (\<lambda>existing.
       case existing of
         Some _ \<Rightarrow> raise EmailAlreadyRegisteredError
       | None \<Rightarrow>
           (let (i, d1) = uuid4 d;
                row = \<lparr>us_id = i, us_email = email, us_password_hash = hash_password password,
                       us_is_active = True, us_created_at = now, us_updated_at = now\<rparr>
            in Inr (account_of row, d1\<lparr>users := users d1 @ [row]\<rparr>)))"

definition authenticate ::
  "(pystr \<Rightarrow> pystr \<Rightarrow> bool) \<Rightarrow> pystr \<Rightarrow> pystr \<Rightarrow> db \<Rightarrow> account result" where
  "authenticate verify_password email password d =
     bindE (user_by_email d email) (\<lambda>user.
       case user of
         None \<Rightarrow> raise InvalidCredentialsError
       | Some r \<Rightarrow>
           if \<not> verify_password (us_password_hash r) password \<or> \<not> us_is_active r
           then raise InvalidCredentialsError
           else Inr (account_of r))"

definition get_account :: "db \<Rightarrow> uuid \<Rightarrow> account option result" where
  "get_account d i = bindE (user_by_id d i) (\<lambda>user. Inr (map_option account_of user))"

section \<open>Access tokens\<close>

text \<open>
  The payload of an access token; \<open>jwt_decode\<close> returns the claims of a token it accepts (signature,
  expiry, presence of \<open>sub\<close> and \<open>exp\<close>), \<open>None\<close> for a \<open>PyJWTError\<close>.  \<open>parse_uuid\<close> is \<open>uuid.UUID\<close>.
\<close>

record claims =
  cl_sub :: pystr
  cl_iat :: timestamp
  cl_exp :: timestamp

definition minutes :: "int \<Rightarrow> timestamp" where
  "minutes n = n * 60000000"

definition days :: "int \<Rightarrow> timestamp" where
  "days n = n * 86400000000"

definition create_access_token ::
  "(claims \<Rightarrow> pystr) \<Rightarrow> timestamp \<Rightarrow> uuid \<Rightarrow> int \<Rightarrow> pystr" where
  "create_access_token jwt_encode now user_id expires_in_minutes =
     jwt_encode \<lparr>cl_sub = uuid_text user_id, cl_iat = now, cl_exp = now + minutes expires_in_minutes\<rparr>"

definition decode_access_token ::
  "(pystr \<Rightarrow> claims option) \<Rightarrow> (pystr \<Rightarrow> uuid option) \<Rightarrow> pystr \<Rightarrow> uuid result" where
  "decode_access_token jwt_decode parse_uuid token =
     (case jwt_decode token of
        None \<Rightarrow> raise NotAuthenticatedError
      | Some c \<Rightarrow> some_or (Domain NotAuthenticatedError) (parse_uuid (cl_sub c)))"

definition get_current_user ::
  "(pystr \<Rightarrow> claims option) \<Rightarrow> (pystr \<Rightarrow> uuid option) \<Rightarrow> pystr option \<Rightarrow> db \<Rightarrow> account result" where
  "get_current_user jwt_decode parse_uuid cookie d =
     (case cookie of
        None \<Rightarrow> raise NotAuthenticatedError
      | Some token \<Rightarrow>
          if token = [] then raise NotAuthenticatedError
          else bindE (decode_access_token jwt_decode parse_uuid token) (\<lambda>i.
                 bindE (user_by_id d i) (\<lambda>user.
                   case user of
                     None \<Rightarrow> raise NotAuthenticatedError
                   | Some r \<Rightarrow>
                       if us_is_active r then Inr (account_of r) else raise NotAuthenticatedError)))"

section \<open>Invariant\<close>

definition users_inv :: "db \<Rightarrow> bool" where
  "users_inv d \<longleftrightarrow> distinct (map us_id (users d)) \<and> distinct (map us_email (users d))
     \<and> (\<forall>r \<in> set (users d). us_id r < next_id d)"

lemma users_inv_lookup:
  assumes "users_inv d"
  shows "user_by_id d i = Inr (List.find (\<lambda>r. us_id r = i) (users d))"
    and "user_by_email d e = Inr (List.find (\<lambda>r. us_email r = e) (users d))"
  using assms by (simp_all add: user_by_id_def user_by_email_def users_inv_def scalar_one_or_none_key)

lemma register_user_inv:
  assumes "users_inv d" and "register_user hp now email pw d = Inr (a, d')"
  shows "users_inv d'"
proof -
  from assms have f: "List.find (\<lambda>r. us_email r = email) (users d) = None"
    by (auto simp: register_user_def users_inv_lookup split: option.splits)
  then have "email \<notin> us_email ` set (users d)"
    by (auto simp: find_None_iff)
  with assms f show ?thesis
    by (auto simp: register_user_def users_inv_lookup users_inv_def uuid4_def Let_def less_Suc_eq image_iff)
      (metis less_irrefl)
qed

lemma authenticate_uniform_failure:
  assumes "users_inv d" and "authenticate vp email pw d = Inl e"
  shows "e = Domain InvalidCredentialsError"
  using assms by (auto simp: authenticate_def users_inv_lookup split: option.splits if_splits)

lemma authenticate_iff:
  assumes "users_inv d"
  shows "authenticate vp email pw d = Inr a \<longleftrightarrow>
    (\<exists>r \<in> set (users d). us_email r = email \<and> us_is_active r \<and> vp (us_password_hash r) pw \<and> a = account_of r)"
    (is "?l \<longleftrightarrow> ?r")
proof
  assume ?l
  with assms show ?r
    by (auto simp: authenticate_def users_inv_lookup split: option.splits if_splits dest!: find_Some_in)
next
  assume ?r
  then obtain r where r: "r \<in> set (users d)" "us_email r = email" "us_is_active r"
    "vp (us_password_hash r) pw" "a = account_of r" by blast
  with assms have "List.find (\<lambda>x. us_email x = email) (users d) = Some r"
    using session_get_unique [of us_email "users d" r] by (simp add: users_inv_def session_get_def)
  with assms r show ?l
    by (simp add: authenticate_def users_inv_lookup)
qed

end
