(* ===== verification/Sha256.thy ===== *)
theory Sha256
  imports PyJson
begin

text \<open>
  \<open>str.encode("utf-8")\<close> and \<open>hashlib.sha256(...).hexdigest()\<close>: the standard-library functions behind
  the stored token hashes, the finding identifiers and the fingerprints.  The hash is the algorithm
  of FIPS 180-4 on 32-bit words and evaluates; the proofs use only that it is a function with a
  64-character lower-case hexadecimal result.
\<close>

unbundle bit_operations_syntax

section \<open>UTF-8\<close>

text \<open>A lone surrogate raises \<open>UnicodeEncodeError\<close>, a subclass of \<open>ValueError\<close>.\<close>

definition utf8_char :: "nat \<Rightarrow> nat list" where
  "utf8_char c =
     (if c < 128 then [c]
      else if c < 2048 then [192 + c div 64, 128 + c mod 64]
      else if c < 65536 then [224 + c div 4096, 128 + c div 64 mod 64, 128 + c mod 64]
      else [240 + c div 262144, 128 + c div 4096 mod 64, 128 + c div 64 mod 64, 128 + c mod 64])"

definition is_surrogate :: "nat \<Rightarrow> bool" where
  "is_surrogate c \<longleftrightarrow> 55296 \<le> c \<and> c \<le> 57343"

definition utf8_encode :: "pystr \<Rightarrow> nat list result" where
  "utf8_encode s = (if list_ex is_surrogate s then Inl ValueError else Inr (concat (map utf8_char s)))"

section \<open>SHA-256\<close>

type_synonym u32 = "32 word"

definition rotr :: "nat \<Rightarrow> u32 \<Rightarrow> u32" where
  "rotr n x = drop_bit n x OR push_bit (32 - n) x"

definition sha_K :: "u32 list" where
  "sha_K =
     [1116352408, 1899447441, 3049323471, 3921009573, 961987163, 1508970993, 2453635748,
      2870763221, 3624381080, 310598401, 607225278, 1426881987, 1925078388, 2162078206,
      2614888103, 3248222580, 3835390401, 4022224774, 264347078, 604807628, 770255983,
      1249150122, 1555081692, 1996064986, 2554220882, 2821834349, 2952996808, 3210313671,
      3336571891, 3584528711, 113926993, 338241895, 666307205, 773529912, 1294757372,
      1396182291, 1695183700, 1986661051, 2177026350, 2456956037, 2730485921, 2820302411,
      3259730800, 3345764771, 3516065817, 3600352804, 4094571909, 275423344, 430227734,
      506948616, 659060556, 883997877, 958139571, 1322822218, 1537002063, 1747873779,
      1955562222, 2024104815, 2227730452, 2361852424, 2428436474, 2756734187, 3204031479,
      3329325298]"

definition sha_H0 :: "u32 list" where
  "sha_H0 =
     [1779033703, 3144134277, 1013904242, 2773480762, 1359893119, 2600822924, 528734635,
      1541459225]"

definition small_sigma0 :: "u32 \<Rightarrow> u32" where
  "small_sigma0 x = rotr 7 x XOR rotr 18 x XOR drop_bit 3 x"

definition small_sigma1 :: "u32 \<Rightarrow> u32" where
  "small_sigma1 x = rotr 17 x XOR rotr 19 x XOR drop_bit 10 x"

definition big_sigma0 :: "u32 \<Rightarrow> u32" where
  "big_sigma0 x = rotr 2 x XOR rotr 13 x XOR rotr 22 x"

definition big_sigma1 :: "u32 \<Rightarrow> u32" where
  "big_sigma1 x = rotr 6 x XOR rotr 11 x XOR rotr 25 x"

definition sha_ch :: "u32 \<Rightarrow> u32 \<Rightarrow> u32 \<Rightarrow> u32" where
  "sha_ch x y z = (x AND y) XOR (NOT x AND z)"

definition sha_maj :: "u32 \<Rightarrow> u32 \<Rightarrow> u32 \<Rightarrow> u32" where
  "sha_maj x y z = (x AND y) XOR (x AND z) XOR (y AND z)"

text \<open>The schedule is kept newest first, so that the words it refers to are near the head.\<close>

fun extend_schedule :: "nat \<Rightarrow> u32 list \<Rightarrow> u32 list" where
  "extend_schedule 0 ws = ws"
| "extend_schedule (Suc n) ws =
     extend_schedule n
       ((small_sigma1 (ws ! 1) + ws ! 6 + small_sigma0 (ws ! 14) + ws ! 15) # ws)"

fun word_of_bytes :: "nat list \<Rightarrow> u32" where
  "word_of_bytes bs = of_nat (fold (\<lambda>b n. 256 * n + b) bs 0)"

function chunks_of :: "nat \<Rightarrow> 'a list \<Rightarrow> 'a list list" where
  "chunks_of n xs = (if xs = [] \<or> n = 0 then [] else take n xs # chunks_of n (drop n xs))"
  by pat_completeness auto
termination
  by (relation "measure (\<lambda>(n, xs). length xs)") auto

declare chunks_of.simps [simp del]

definition sha_round :: "u32 \<times> u32 \<Rightarrow> u32 list \<Rightarrow> u32 list" where
  "sha_round kw st =
     (case st of
        [a, b, c, d, e, f, g, h] \<Rightarrow>
          (let t1 = h + big_sigma1 e + sha_ch e f g + fst kw + snd kw;
               t2 = big_sigma0 a + sha_maj a b c
           in [t1 + t2, a, b, c, d + t1, e, f, g])
      | _ \<Rightarrow> st)"

definition sha_block :: "nat list \<Rightarrow> u32 list \<Rightarrow> u32 list" where
  "sha_block blk st =
     (let ws = rev (extend_schedule 48 (rev (map word_of_bytes (chunks_of 4 blk))))
      in map2 (+) st (fold sha_round (zip sha_K ws) st))"

definition sha_pad :: "nat list \<Rightarrow> nat list" where
  "sha_pad bs =
     (let l = 8 * length bs in
      bs @ [128] @ replicate ((119 - length bs mod 64) mod 64) 0
         @ map (\<lambda>i. l div 256 ^ (7 - i) mod 256) [0..<8])"

definition sha256 :: "nat list \<Rightarrow> u32 list" where
  "sha256 bs = fold sha_block (chunks_of 64 (sha_pad bs)) sha_H0"

definition sha256_hexdigest :: "nat list \<Rightarrow> pystr" where
  "sha256_hexdigest bs = concat (map (\<lambda>w. hex_pad 8 (unat w)) (sha256 bs))"

lemma length_sha_round: "length (sha_round kw st) = length st"
  by (auto simp: sha_round_def Let_def split: list.splits)

lemma length_fold_sha_round: "length (fold sha_round kws st) = length st"
  by (induction kws arbitrary: st) (auto simp: length_sha_round)

lemma length_sha_block: "length (sha_block blk st) = length st"
  by (simp add: sha_block_def Let_def length_fold_sha_round)

lemma length_fold_sha_block: "length (fold sha_block bs st) = length st"
  by (induction bs arbitrary: st) (auto simp: length_sha_block)

lemma length_sha256: "length (sha256 bs) = 8"
  by (simp add: sha256_def length_fold_sha_block sha_H0_def)

lemma length_hexdigest [simp]: "length (sha256_hexdigest bs) = 64"
proof -
  have "length (concat (map (\<lambda>w. hex_pad 8 (unat w)) ws)) = 8 * length ws" for ws :: "u32 list"
    by (induction ws) auto
  then show ?thesis by (simp add: sha256_hexdigest_def length_sha256)
qed

lemma hexdigest_nonempty [simp]: "sha256_hexdigest bs \<noteq> []"
  using length_hexdigest [of bs] by (metis length_0_conv zero_neq_numeral)

text \<open>\<open>hashlib.sha256(s.encode()).hexdigest()\<close>\<close>

definition sha256_text :: "pystr \<Rightarrow> pystr result" where
  "sha256_text s = bindE (utf8_encode s) (\<lambda>bs. Inr (sha256_hexdigest bs))"

lemma sha256_text_length: "sha256_text s = Inr h \<Longrightarrow> length h = 64"
  by (auto simp: sha256_text_def result_simps)

lemma sha256_text_nonempty: "sha256_text s = Inr h \<Longrightarrow> h \<noteq> []"
  by (auto simp: sha256_text_def result_simps)

lemma sha256_text_ascii: "list_all (\<lambda>c. c < 128) s \<Longrightarrow> sha256_text s = Inr (sha256_hexdigest s)"
proof -
  assume a: "list_all (\<lambda>c. c < 128) s"
  then have "concat (map utf8_char s) = s"
    by (induction s) (auto simp: utf8_char_def)
  moreover have "\<not> list_ex is_surrogate s"
    using a by (auto simp: list_all_iff list_ex_iff is_surrogate_def)
  ultimately show ?thesis by (simp add: sha256_text_def utf8_encode_def)
qed

text \<open>Texts without lone surrogates are the ones \<open>str.encode()\<close> accepts.\<close>

definition encodable :: "pystr \<Rightarrow> bool" where
  "encodable s \<longleftrightarrow> \<not> list_ex is_surrogate s"

lemma encodable_simps [simp]:
  "encodable []" "encodable (u t)" "encodable (c # s) \<longleftrightarrow> \<not> is_surrogate c \<and> encodable s"
  "encodable (a @ b) \<longleftrightarrow> encodable a \<and> encodable b"
proof -
  have "\<not> is_surrogate (of_char c)" for c
  proof -
    have "(of_char c :: nat) < 256" by (rule nat_of_char_less_256)
    then show ?thesis unfolding is_surrogate_def by linarith
  qed
  then show "encodable (u t)" by (simp add: encodable_def u_def list_ex_iff)
qed (auto simp: encodable_def)

lemma encodable_nat [simp]: "encodable (nat_to_text n)"
  by (auto simp: encodable_def list_ex_iff is_surrogate_def ascii_digit_def dest!: nat_to_text_digits)

lemma sha256_text_encodable: "encodable s \<Longrightarrow> \<exists>h. sha256_text s = Inr h"
  by (simp add: encodable_def sha256_text_def utf8_encode_def)

end
