(* ===== verification/Sessions.thy ===== *)
theory Sessions
  imports Users Sha256
begin

text \<open>
  Refresh-token sessions: \<open>refresh_session_repository.py\<close>, \<open>refresh_service.py\<close> and the
  \<open>/auth/login\<close>, \<open>/auth/refresh\<close> and \<open>/auth/logout\<close> routes.  The CSPRNG secret is the argument \<open>raw\<close>.
  A refresh is its read phase and its write phase, so that two requests can interleave.
\<close>

section \<open>Repository\<close>

definition get_by_token_hash :: "db \<Rightarrow> pystr \<Rightarrow> refresh_row option result" where
  "get_by_token_hash d h = scalar_one_or_none (select_where (\<lambda>r. rs_token_hash r = h) (refresh_sessions d))"

definition try_mark_rotated :: "uuid \<Rightarrow> db \<Rightarrow> bool \<times> db" where
  "try_mark_rotated i d =
     (let p = (\<lambda>r. rs_id r = i \<and> rs_status r = ACTIVE)
      in (rowcount p (refresh_sessions d) = 1,
          d\<lparr>refresh_sessions := update_where p (\<lambda>r. r\<lparr>rs_status := ROTATED\<rparr>) (refresh_sessions d)\<rparr>))"

definition revoke_family :: "uuid \<Rightarrow> db \<Rightarrow> db" where
  "revoke_family f d =
     d\<lparr>refresh_sessions :=
         update_where (\<lambda>r. rs_family_id r = f) (\<lambda>r. r\<lparr>rs_status := SESSION_REVOKED\<rparr>) (refresh_sessions d)\<rparr>"

definition revoke_session :: "uuid \<Rightarrow> db \<Rightarrow> db" where
  "revoke_session i d =
     d\<lparr>refresh_sessions :=
         update_where (\<lambda>r. rs_id r = i) (\<lambda>r. r\<lparr>rs_status := SESSION_REVOKED\<rparr>) (refresh_sessions d)\<rparr>"

text \<open>The flush of the new row meets the unique constraint on the token hash.\<close>

definition add_session ::
  "uuid \<Rightarrow> uuid \<Rightarrow> pystr \<Rightarrow> timestamp \<Rightarrow> timestamp \<Rightarrow> db \<Rightarrow> db result" where
  "add_session user_id family_id token_hash expires_at now d =
     (if token_hash \<in> rs_token_hash ` set (refresh_sessions d) then Inl IntegrityError
      else
        (let (i, d1) = uuid4 d;
             row = \<lparr>rs_id = i, rs_user_id = user_id, rs_family_id = family_id, rs_token_hash = token_hash,
                    rs_status = ACTIVE, rs_expires_at = expires_at, rs_created_at = now\<rparr>
         in Inr (d1\<lparr>refresh_sessions := refresh_sessions d1 @ [row]\<rparr>)))"

section \<open>Service\<close>

datatype refresh_rejection = UNKNOWN | EXPIRED | INACTIVE_USER | REUSED

record rotated_session =
  ro_user_id :: uuid
  ro_family_id :: uuid
  ro_raw_token :: pystr
  ro_expires_at :: timestamp

datatype refresh_outcome = Rotated rotated_session | Rejected refresh_rejection

definition hash_refresh_token :: "pystr \<Rightarrow> pystr result" where
  "hash_refresh_token raw = sha256_text raw"

definition is_expired :: "timestamp \<Rightarrow> timestamp \<Rightarrow> bool" where
  "is_expired now expires_at \<longleftrightarrow> expires_at \<le> now"

definition issue_family ::
  "timestamp \<Rightarrow> int \<Rightarrow> pystr \<Rightarrow> uuid \<Rightarrow> db \<Rightarrow> ((pystr \<times> timestamp) \<times> db) result" where
  "issue_family now ttl_days raw user_id d =
     (let expires_at = now + days ttl_days;
          (family_id, d1) = uuid4 d
      in bindE (hash_refresh_token raw) (\<lambda>h.
         bindE (add_session user_id family_id h expires_at now d1) (\<lambda>d2.
           Inr ((raw, expires_at), d2))))"

text \<open>The write phase, from \<open>try_mark_rotated\<close> on, for the row the read phase found.\<close>

definition refresh_write ::
  "timestamp \<Rightarrow> int \<Rightarrow> pystr \<Rightarrow> refresh_row \<Rightarrow> db \<Rightarrow> (refresh_outcome \<times> db) result" where
  "refresh_write now ttl_days raw stored d =
     (let (moved, d1) = try_mark_rotated (rs_id stored) d
      in if \<not> moved then Inr (Rejected REUSED, revoke_family (rs_family_id stored) d1)
         else
           (let expires_at = now + days ttl_days
            in bindE (hash_refresh_token raw) (\<lambda>h.
               bindE (add_session (rs_user_id stored) (rs_family_id stored) h expires_at now d1) (\<lambda>d2.
                 Inr (Rotated \<lparr>ro_user_id = rs_user_id stored, ro_family_id = rs_family_id stored,
                              ro_raw_token = raw, ro_expires_at = expires_at\<rparr>, d2)))))"

definition refresh ::
  "timestamp \<Rightarrow> int \<Rightarrow> pystr \<Rightarrow> pystr option \<Rightarrow> db \<Rightarrow> (refresh_outcome \<times> db) result" where
  "refresh now ttl_days raw token d =
     (case token of
        None \<Rightarrow> Inr (Rejected UNKNOWN, d)
      | Some t \<Rightarrow>
          if t = [] then Inr (Rejected UNKNOWN, d)
          else bindE (hash_refresh_token t) (\<lambda>h. bindE (get_by_token_hash d h) (\<lambda>found.
            case found of
              None \<Rightarrow> Inr (Rejected UNKNOWN, d)
            | Some stored \<Rightarrow>
                if rs_status stored = SESSION_REVOKED then Inr (Rejected UNKNOWN, d)
                else if rs_status stored = ROTATED
                then Inr (Rejected REUSED, revoke_family (rs_family_id stored) d)
                else if is_expired now (rs_expires_at stored)
                then Inr (Rejected EXPIRED, revoke_session (rs_id stored) d)
                else bindE (user_by_id d (rs_user_id stored)) (\<lambda>user.
                  if (case user of None \<Rightarrow> True | Some r \<Rightarrow> \<not> us_is_active r)
                  then Inr (Rejected INACTIVE_USER, revoke_session (rs_id stored) d)
                  else refresh_write now ttl_days raw stored d))))"

definition logout :: "pystr option \<Rightarrow> db \<Rightarrow> db result" where
  "logout token d =
     (case token of
        None \<Rightarrow> Inr d
      | Some t \<Rightarrow>
          if t = [] then Inr d
          else bindE (hash_refresh_token t) (\<lambda>h. bindE (get_by_token_hash d h) (\<lambda>found.
            case found of
              None \<Rightarrow> Inr d
            | Some stored \<Rightarrow>
                if rs_status stored = ACTIVE then Inr (revoke_session (rs_id stored) d) else Inr d)))"

section \<open>Routes\<close>

text \<open>
  A rejected refresh commits and then raises, so its revocations survive; every other exception
  rolls back.  The two cookies of a success are the access token and the raw credential.
\<close>

definition refresh_route ::
  "(claims \<Rightarrow> pystr) \<Rightarrow> timestamp \<Rightarrow> int \<Rightarrow> int \<Rightarrow> pystr \<Rightarrow> pystr option \<Rightarrow> pystr option \<Rightarrow> db
     \<Rightarrow> (account \<times> pystr \<times> pystr) result \<times> db" where
  "refresh_route jwt_encode now access_minutes ttl_days raw csrf cookie d =
     (if csrf \<noteq> Some (u ''1'') then (raise RefreshCsrfHeaderMissingError, d)
      else case refresh now ttl_days raw cookie d of
        Inl e \<Rightarrow> (Inl e, d)
      | Inr (Rejected _, d1) \<Rightarrow> (raise NotAuthenticatedError, d1)
      | Inr (Rotated r, d1) \<Rightarrow>
          (case get_account d1 (ro_user_id r) of
             Inl e \<Rightarrow> (Inl e, d)
           | Inr None \<Rightarrow> (raise NotAuthenticatedError, d1)
           | Inr (Some a) \<Rightarrow>
               (Inr (a, create_access_token jwt_encode now (ro_user_id r) access_minutes, ro_raw_token r), d1)))"

definition logout_route :: "pystr option \<Rightarrow> pystr option \<Rightarrow> db \<Rightarrow> unit result \<times> db" where
  "logout_route csrf cookie d =
     (if csrf \<noteq> Some (u ''1'') then (raise RefreshCsrfHeaderMissingError, d)
      else case logout cookie d of Inl e \<Rightarrow> (Inl e, d) | Inr d1 \<Rightarrow> (Inr (), d1))"

definition login_route ::
  "(pystr \<Rightarrow> pystr \<Rightarrow> bool) \<Rightarrow> (claims \<Rightarrow> pystr) \<Rightarrow> timestamp \<Rightarrow> int \<Rightarrow> int \<Rightarrow> pystr \<Rightarrow> pystr \<Rightarrow> pystr \<Rightarrow> db
     \<Rightarrow> (account \<times> pystr \<times> pystr) result \<times> db" where
  "login_route verify_password jwt_encode now access_minutes ttl_days raw email password d =
     run_request (\<lambda>d0.
       bindE (authenticate verify_password email password d0) (\<lambda>a.
       bindE (issue_family now ttl_days raw (ac_id a) d0) (\<lambda>(tok, d1).
         Inr ((a, create_access_token jwt_encode now (ac_id a) access_minutes, fst tok), d1)))) d"

section \<open>Invariant of the table\<close>

definition family_rows :: "db \<Rightarrow> uuid \<Rightarrow> refresh_row set" where
  "family_rows d f = {r \<in> set (refresh_sessions d). rs_family_id r = f}"

definition live_rows :: "db \<Rightarrow> uuid \<Rightarrow> refresh_row set" where
  "live_rows d f = {r \<in> family_rows d f. rs_status r = ACTIVE}"

definition sessions_inv :: "db \<Rightarrow> bool" where
  "sessions_inv d \<longleftrightarrow>
     distinct (map rs_id (refresh_sessions d)) \<and> distinct (map rs_token_hash (refresh_sessions d))
     \<and> (\<forall>r \<in> set (refresh_sessions d). rs_id r < next_id d \<and> rs_family_id r < next_id d)
     \<and> (\<forall>f. \<forall>r \<in> live_rows d f. \<forall>s \<in> live_rows d f. r = s)"

text \<open>A family without an \<open>ACTIVE\<close> credential.\<close>

definition dead_family :: "db \<Rightarrow> uuid \<Rightarrow> bool" where
  "dead_family d f \<longleftrightarrow> f < next_id d \<and> live_rows d f = {}"

definition set_status ::
  "(refresh_row \<Rightarrow> bool) \<Rightarrow> session_status \<Rightarrow> db \<Rightarrow> db" where
  "set_status p st d =
     d\<lparr>refresh_sessions := update_where p (\<lambda>r. r\<lparr>rs_status := st\<rparr>) (refresh_sessions d)\<rparr>"

lemma set_status_eqs:
  "revoke_family f d = set_status (\<lambda>r. rs_family_id r = f) SESSION_REVOKED d"
  "revoke_session i d = set_status (\<lambda>r. rs_id r = i) SESSION_REVOKED d"
  "snd (try_mark_rotated i d) = set_status (\<lambda>r. rs_id r = i \<and> rs_status r = ACTIVE) ROTATED d"
  by (simp_all add: revoke_family_def revoke_session_def try_mark_rotated_def set_status_def Let_def)

lemma set_status_frame [simp]:
  "users (set_status p st d) = users d" "next_id (set_status p st d) = next_id d"
  by (simp_all add: set_status_def)

lemma live_rows_set_status:
  "st \<noteq> ACTIVE \<Longrightarrow> live_rows (set_status p st d) f = {r \<in> live_rows d f. \<not> p r}"
  by (auto simp: live_rows_def family_rows_def set_status_def set_update_where)

lemma live_revoke_family [simp]: "live_rows (revoke_family f d) f = {}"
proof -
  have "live_rows (revoke_family f d) f = {r \<in> live_rows d f. rs_family_id r \<noteq> f}"
    by (simp add: set_status_eqs live_rows_set_status)
  then show ?thesis by (auto simp: live_rows_def family_rows_def)
qed

lemma next_id_revoke_family [simp]: "next_id (revoke_family f d) = next_id d"
  by (simp add: set_status_eqs)

lemma set_status_inv:
  assumes "sessions_inv d" and "st \<noteq> ACTIVE"
  shows "sessions_inv (set_status p st d)"
proof -
  have "map rs_id (refresh_sessions (set_status p st d)) = map rs_id (refresh_sessions d)"
    and "map rs_token_hash (refresh_sessions (set_status p st d)) = map rs_token_hash (refresh_sessions d)"
    by (simp_all add: set_status_def map_update_where)
  moreover have "\<forall>r \<in> set (refresh_sessions (set_status p st d)). rs_id r < next_id d \<and> rs_family_id r < next_id d"
    using assms(1) by (auto simp: set_status_def set_update_where sessions_inv_def)
  ultimately show ?thesis
    using assms by (auto simp: sessions_inv_def live_rows_set_status)
qed

lemma add_session_result:
  assumes "add_session usr f h e now d = Inr d'"
  obtains row where "refresh_sessions d' = refresh_sessions d @ [row]" "rs_id row = next_id d"
    "rs_family_id row = f" "rs_token_hash row = h" "rs_status row = ACTIVE" "rs_user_id row = usr"
    "rs_expires_at row = e" "next_id d' = Suc (next_id d)" "users d' = users d"
    "h \<notin> rs_token_hash ` set (refresh_sessions d)"
  using assms by (auto simp: add_session_def uuid4_def Let_def split: if_splits)

lemma add_session_inv:
  assumes "sessions_inv d" and "add_session usr f h e now d = Inr d'"
    and "live_rows d f = {}" and "f < next_id d"
  shows "sessions_inv d'"
proof -
  from assms(2) obtain row where row: "refresh_sessions d' = refresh_sessions d @ [row]"
    "rs_id row = next_id d" "rs_family_id row = f" "rs_token_hash row = h"
    "next_id d' = Suc (next_id d)" "h \<notin> rs_token_hash ` set (refresh_sessions d)"
    by (rule add_session_result)
  have ids: "rs_id row \<notin> rs_id ` set (refresh_sessions d)"
    using assms(1) row by (auto simp: sessions_inv_def)
  have live: "live_rows d' g \<subseteq> live_rows d g \<union> (if g = f then {row} else {})" for g
    using row by (auto simp: live_rows_def family_rows_def)
  have "\<forall>r \<in> live_rows d' g. \<forall>s \<in> live_rows d' g. r = s" for g
  proof (cases "g = f")
    case True
    then show ?thesis using live [of g] assms(3) by auto
  next
    case False
    then have "live_rows d' g \<subseteq> live_rows d g" using live [of g] by simp
    then show ?thesis using assms(1) unfolding sessions_inv_def by blast
  qed
  then show ?thesis
    using assms(1,4) row ids by (auto simp: sessions_inv_def less_Suc_eq)
qed

lemma issue_family_inv:
  assumes "sessions_inv d" and "issue_family now ttl raw usr d = Inr (x, d')"
  shows "sessions_inv d'"
proof -
  let ?d1 = "d\<lparr>next_id := Suc (next_id d)\<rparr>"
  have "sessions_inv ?d1"
    using assms(1) by (auto simp: sessions_inv_def live_rows_def family_rows_def less_Suc_eq)
  moreover have "live_rows ?d1 (next_id d) = {}"
    using assms(1) by (auto simp: sessions_inv_def live_rows_def family_rows_def)
  moreover obtain h where "add_session usr (next_id d) h (now + days ttl) now ?d1 = Inr d'"
    using assms(2) by (auto simp: issue_family_def uuid4_def Let_def result_simps)
  ultimately show ?thesis by (auto intro: add_session_inv)
qed

lemma try_mark_rotated_True:
  assumes "sessions_inv d"
  shows "fst (try_mark_rotated i d) \<longleftrightarrow> (\<exists>r \<in> set (refresh_sessions d). rs_id r = i \<and> rs_status r = ACTIVE)"
proof -
  have "distinct (map rs_id (refresh_sessions d))" using assms by (simp add: sessions_inv_def)
  then show ?thesis
    by (simp add: try_mark_rotated_def Let_def rowcount_distinct_key)
qed

text \<open>The write phase on a row that is (or was) in the table.\<close>

definition row_known :: "db \<Rightarrow> refresh_row \<Rightarrow> bool" where
  "row_known d r \<longleftrightarrow>
     (\<exists>s \<in> set (refresh_sessions d). rs_id s = rs_id r \<and> rs_family_id s = rs_family_id r
        \<and> rs_user_id s = rs_user_id r \<and> rs_token_hash s = rs_token_hash r)"

lemma row_known_self: "r \<in> set (refresh_sessions d) \<Longrightarrow> row_known d r"
  by (auto simp: row_known_def)

lemma rotated_family_empty:
  assumes "sessions_inv d" and "row_known d r" and "fst (try_mark_rotated (rs_id r) d)"
  shows "live_rows (snd (try_mark_rotated (rs_id r) d)) (rs_family_id r) = {}"
proof -
  from assms(1,3) obtain s where s: "s \<in> set (refresh_sessions d)" "rs_id s = rs_id r" "rs_status s = ACTIVE"
    by (auto simp: try_mark_rotated_True)
  from assms(2) obtain t where t: "t \<in> set (refresh_sessions d)" "rs_id t = rs_id r"
    "rs_family_id t = rs_family_id r" by (auto simp: row_known_def)
  have "s = t"
    using assms(1) s t by (metis distinct_map inj_onD sessions_inv_def)
  with s t have live: "s \<in> live_rows d (rs_family_id r)"
    by (simp add: live_rows_def family_rows_def)
  have "x = s" if "x \<in> live_rows d (rs_family_id r)" for x
    using assms(1) live that by (auto simp: sessions_inv_def)
  then show ?thesis
    using s by (auto simp: set_status_eqs live_rows_set_status)
qed

lemma refresh_write_inv:
  assumes "sessions_inv d" and "row_known d r" and "refresh_write now ttl raw r d = Inr (out, d')"
  shows "sessions_inv d'"
proof -
  let ?d1 = "snd (try_mark_rotated (rs_id r) d)"
  have inv1: "sessions_inv ?d1"
    using assms(1) by (simp add: set_status_eqs set_status_inv)
  have fam: "rs_family_id r < next_id ?d1"
    using assms(1,2) by (auto simp: row_known_def sessions_inv_def set_status_eqs)
  show ?thesis
  proof (cases "fst (try_mark_rotated (rs_id r) d)")
    case True
    with assms(3) obtain h where
      "add_session (rs_user_id r) (rs_family_id r) h (now + days ttl) now ?d1 = Inr d'"
      by (auto simp: refresh_write_def Let_def split_beta result_simps)
    with inv1 show ?thesis
      by (rule add_session_inv) (use rotated_family_empty assms(1,2) True fam in auto)
  next
    case False
    with assms(3) have "d' = revoke_family (rs_family_id r) ?d1"
      by (auto simp: refresh_write_def Let_def split_beta)
    with inv1 show ?thesis by (simp add: set_status_eqs set_status_inv)
  qed
qed

section \<open>Refresh, logout and login keep the invariant\<close>

text \<open>Every way a refresh can end, with the database it leaves.\<close>

lemma refresh_cases:
  assumes "refresh now ttl raw tok d = Inr (out, d')"
  obtains
    (unchanged) "out = Rejected UNKNOWN" "d' = d"
  | (reused) t h r where "tok = Some t" "hash_refresh_token t = Inr h" "r \<in> set (refresh_sessions d)"
      "rs_token_hash r = h" "rs_status r = ROTATED" "out = Rejected REUSED" "d' = revoke_family (rs_family_id r) d"
  | (expired) r where "r \<in> set (refresh_sessions d)" "rs_status r = ACTIVE" "is_expired now (rs_expires_at r)"
      "out = Rejected EXPIRED" "d' = revoke_session (rs_id r) d"
  | (inactive) r where "r \<in> set (refresh_sessions d)" "rs_status r = ACTIVE"
      "out = Rejected INACTIVE_USER" "d' = revoke_session (rs_id r) d"
  | (rotating) t h r a where "tok = Some t" "hash_refresh_token t = Inr h" "r \<in> set (refresh_sessions d)"
      "rs_token_hash r = h" "rs_status r = ACTIVE" "\<not> is_expired now (rs_expires_at r)"
      "user_by_id d (rs_user_id r) = Inr (Some a)" "us_is_active a"
      "refresh_write now ttl raw r d = Inr (out, d')"
proof (cases tok)
  case None
  with assms unchanged show ?thesis by (auto simp: refresh_def)
next
  case (Some t)
  show ?thesis
  proof (cases "t = []")
    case True
    with Some assms unchanged show ?thesis by (auto simp: refresh_def)
  next
    case False
    with Some assms obtain h fnd where h: "hash_refresh_token t = Inr h" "get_by_token_hash d h = Inr fnd"
      by (auto simp: refresh_def result_simps)
    show ?thesis
    proof (cases fnd)
      case None
      with Some False h assms unchanged show ?thesis by (auto simp: refresh_def)
    next
      case (Some r)
      with h have r: "r \<in> set (refresh_sessions d)" "rs_token_hash r = h"
        by (auto simp: get_by_token_hash_def dest: scalar_one_or_none_filter)
      show ?thesis
      proof (cases "rs_status r")
        case ROTATED
        with Some False h assms r \<open>tok = Some t\<close> reused show ?thesis by (auto simp: refresh_def)
      next
        case SESSION_REVOKED
        with Some False h assms \<open>tok = Some t\<close> unchanged show ?thesis by (auto simp: refresh_def)
      next
        case ACTIVE
        show ?thesis
        proof (cases "is_expired now (rs_expires_at r)")
          case True
          with ACTIVE Some False h assms r \<open>tok = Some t\<close> expired show ?thesis by (auto simp: refresh_def)
        next
          case False
          from ACTIVE Some False \<open>t \<noteq> []\<close> h assms \<open>tok = Some t\<close>
          obtain usr where usr: "user_by_id d (rs_user_id r) = Inr usr"
            "(if (case usr of None \<Rightarrow> True | Some a \<Rightarrow> \<not> us_is_active a)
              then Inr (Rejected INACTIVE_USER, revoke_session (rs_id r) d)
              else refresh_write now ttl raw r d) = Inr (out, d')"
            by (auto simp: refresh_def result_simps)
          show ?thesis
          proof (cases "case usr of None \<Rightarrow> True | Some a \<Rightarrow> \<not> us_is_active a")
            case True
            with usr ACTIVE r inactive show ?thesis by auto
          next
            case False
            then obtain a where "usr = Some a" "us_is_active a" by (auto split: option.splits)
            with usr ACTIVE \<open>\<not> is_expired now (rs_expires_at r)\<close> r h \<open>tok = Some t\<close> rotating show ?thesis
              by auto
          qed
        qed
      qed
    qed
  qed
qed

lemma refresh_inv:
  assumes "sessions_inv d" and "refresh now ttl raw tok d = Inr (out, d')"
  shows "sessions_inv d'"
  using assms(2)
proof (cases rule: refresh_cases)
  case (rotating t h r a)
  with assms(1) show ?thesis by (auto intro: refresh_write_inv row_known_self)
qed (use assms(1) in \<open>auto simp: set_status_eqs set_status_inv\<close>)

lemma logout_result:
  "logout tok d = Inr d' \<Longrightarrow> d' = d \<or> (\<exists>i. d' = revoke_session i d)"
  by (auto simp: logout_def result_simps split: option.splits if_splits)

lemma logout_inv: "sessions_inv d \<Longrightarrow> logout tok d = Inr d' \<Longrightarrow> sessions_inv d'"
  by (auto dest!: logout_result simp: set_status_eqs set_status_inv)

lemma dead_set_status: "dead_family d f \<Longrightarrow> st \<noteq> ACTIVE \<Longrightarrow> dead_family (set_status p st d) f"
  by (auto simp: dead_family_def live_rows_set_status)

lemma dead_add_session:
  assumes "dead_family d f" and "add_session usr g h e now d = Inr d'" and "g \<noteq> f"
  shows "dead_family d' f"
  using assms by (auto elim!: add_session_result simp: dead_family_def live_rows_def family_rows_def)

lemma dead_refresh_write:
  assumes "dead_family d f" and "sessions_inv d" and "row_known d r"
    and "refresh_write now ttl raw r d = Inr (out, d')"
  shows "dead_family d' f"
proof -
  let ?d1 = "snd (try_mark_rotated (rs_id r) d)"
  have dead1: "dead_family ?d1 f" using assms(1) by (simp add: set_status_eqs dead_set_status)
  show ?thesis
  proof (cases "fst (try_mark_rotated (rs_id r) d)")
    case True
    with assms(2) obtain s where s: "s \<in> set (refresh_sessions d)" "rs_id s = rs_id r" "rs_status s = ACTIVE"
      by (auto simp: try_mark_rotated_True)
    from assms(3) obtain t where "t \<in> set (refresh_sessions d)" "rs_id t = rs_id r"
      "rs_family_id t = rs_family_id r" by (auto simp: row_known_def)
    with s assms(2) have "rs_family_id s = rs_family_id r"
      by (metis distinct_map inj_onD sessions_inv_def)
    with s assms(1) have "rs_family_id r \<noteq> f"
      by (auto simp: dead_family_def live_rows_def family_rows_def)
    with True assms(4) dead1 show ?thesis
      by (auto simp: refresh_write_def Let_def split_beta result_simps dest: dead_add_session)
  next
    case False
    with assms(4) have "d' = revoke_family (rs_family_id r) ?d1"
      by (auto simp: refresh_write_def Let_def split_beta)
    with dead1 show ?thesis by (simp add: set_status_eqs dead_set_status)
  qed
qed

lemma dead_refresh:
  assumes "dead_family d f" and "sessions_inv d" and "refresh now ttl raw tok d = Inr (out, d')"
  shows "dead_family d' f"
  using assms(3)
proof (cases rule: refresh_cases)
  case (rotating t h r a)
  with assms(1,2) show ?thesis by (auto intro: dead_refresh_write row_known_self)
qed (use assms(1) in \<open>auto simp: set_status_eqs dead_set_status\<close>)

lemma dead_issue_family:
  assumes "dead_family d f" and "issue_family now ttl raw usr d = Inr (x, d')"
  shows "dead_family d' f"
proof -
  let ?d1 = "d\<lparr>next_id := Suc (next_id d)\<rparr>"
  have "dead_family ?d1 f" and "next_id d \<noteq> f"
    using assms(1) by (auto simp: dead_family_def live_rows_def family_rows_def)
  moreover obtain h where "add_session usr (next_id d) h (now + days ttl) now ?d1 = Inr d'"
    using assms(2) by (auto simp: issue_family_def uuid4_def Let_def result_simps)
  ultimately show ?thesis by (auto intro: dead_add_session)
qed

section \<open>Histories of requests\<close>

text \<open>
  The committed effect of a login, a refresh and a logout request; the arguments are the client's
  cookie, the clock and the secret that the server draws.
\<close>

datatype session_request =
    LoginFor uuid timestamp pystr
  | RefreshWith "pystr option" timestamp pystr
  | LogoutWith "pystr option"

fun serve :: "int \<Rightarrow> session_request \<Rightarrow> db \<Rightarrow> db" where
  "serve ttl (LoginFor usr now raw) d = (case issue_family now ttl raw usr d of Inl _ \<Rightarrow> d | Inr (_, d') \<Rightarrow> d')"
| "serve ttl (RefreshWith tok now raw) d = (case refresh now ttl raw tok d of Inl _ \<Rightarrow> d | Inr (_, d') \<Rightarrow> d')"
| "serve ttl (LogoutWith tok) d = (case logout tok d of Inl _ \<Rightarrow> d | Inr d' \<Rightarrow> d')"

definition serve_all :: "int \<Rightarrow> session_request list \<Rightarrow> db \<Rightarrow> db" where
  "serve_all ttl rs d = fold (serve ttl) rs d"

lemma serve_inv: "sessions_inv d \<Longrightarrow> sessions_inv (serve ttl r d)"
  by (cases r) (auto split: sum.splits intro: issue_family_inv refresh_inv logout_inv)

lemma serve_dead: "sessions_inv d \<Longrightarrow> dead_family d f \<Longrightarrow> dead_family (serve ttl r d) f"
  by (cases r)
    (auto split: sum.splits intro: dead_issue_family dead_refresh dest!: logout_result
      simp: set_status_eqs dead_set_status)

lemma serve_all_inv: "sessions_inv d \<Longrightarrow> sessions_inv (serve_all ttl rs d)"
  by (induction rs arbitrary: d) (auto simp: serve_all_def serve_inv)

lemma serve_all_dead: "sessions_inv d \<Longrightarrow> dead_family d f \<Longrightarrow> dead_family (serve_all ttl rs d) f"
  by (induction rs arbitrary: d) (auto simp: serve_all_def serve_inv serve_dead)

section \<open>Properties\<close>

text \<open>C3 [reuse_kills_family]: presenting a rotated-out credential to \<open>/auth/refresh\<close> answers 401 and
  commits the revocation of its whole family, and no later history of logins, refreshes and logouts
  brings an active credential of that family back.\<close>

theorem reuse_kills_family:
  assumes inv: "sessions_inv d"
    and row: "r \<in> set (refresh_sessions d)" "rs_status r = ROTATED"
    and hash: "hash_refresh_token t = Inr (rs_token_hash r)" "t \<noteq> []"
  shows "refresh_route enc now am ttl raw (Some (u ''1'')) (Some t) d
           = (raise NotAuthenticatedError, revoke_family (rs_family_id r) d)
       \<and> live_rows (serve_all ttl' rs (revoke_family (rs_family_id r) d)) (rs_family_id r) = {}"
proof -
  have "distinct (map rs_token_hash (refresh_sessions d))" using inv by (simp add: sessions_inv_def)
  from session_get_unique [OF this row(1)] scalar_one_or_none_key [OF this, of "rs_token_hash r"]
  have "get_by_token_hash d (rs_token_hash r) = Inr (Some r)"
    by (simp add: get_by_token_hash_def session_get_def)
  with row hash have route: "refresh now ttl raw (Some t) d = Inr (Rejected REUSED, revoke_family (rs_family_id r) d)"
    by (simp add: refresh_def)
  have "dead_family (revoke_family (rs_family_id r) d) (rs_family_id r)"
    using inv row(1) by (simp add: dead_family_def sessions_inv_def)
  moreover have "sessions_inv (revoke_family (rs_family_id r) d)"
    using inv by (simp add: set_status_eqs set_status_inv)
  ultimately show ?thesis
    using route serve_all_dead by (auto simp: refresh_route_def dead_family_def)
qed

definition example_row :: "uuid \<Rightarrow> pystr \<Rightarrow> session_status \<Rightarrow> refresh_row" where
  "example_row i h st =
     \<lparr>rs_id = i, rs_user_id = 1, rs_family_id = 2, rs_token_hash = h, rs_status = st,
      rs_expires_at = 100, rs_created_at = 0\<rparr>"

definition example_sessions :: db where
  "example_sessions = seeded_db
     \<lparr>users := [\<lparr>us_id = 1, us_email = u ''a@b.c'', us_password_hash = u ''x'', us_is_active = True,
                 us_created_at = 0, us_updated_at = 0\<rparr>],
      refresh_sessions := [example_row 3 (sha256_hexdigest (u ''old'')) ROTATED, example_row 4 (u ''h'') ACTIVE],
      next_id := 5\<rparr>"

lemma example_sessions_inv: "sessions_inv example_sessions"
proof -
  have "sha256_hexdigest (u ''old'') \<noteq> u ''h''"
    by (metis length_hexdigest length_u list.size(3,4) numeral_eq_one_iff One_nat_def add_0 semiring_norm(83))
  then show ?thesis
    by (auto simp: sessions_inv_def example_sessions_def example_row_def live_rows_def family_rows_def)
qed

lemma hash_old: "hash_refresh_token (u ''old'') = Inr (sha256_hexdigest (u ''old''))"
  by (simp add: hash_refresh_token_def sha256_text_ascii text_defs)

theorem reuse_kills_family_witness:
  "live_rows (serve_all 7 [LogoutWith None] (revoke_family 2 example_sessions)) 2 = {}"
proof -
  let ?r = "example_row 3 (sha256_hexdigest (u ''old'')) ROTATED"
  have "?r \<in> set (refresh_sessions example_sessions)" "rs_status ?r = ROTATED"
    "hash_refresh_token (u ''old'') = Inr (rs_token_hash ?r)" "rs_family_id ?r = 2"
    by (simp_all add: example_sessions_def example_row_def hash_old)
  then show ?thesis
    using reuse_kills_family [OF example_sessions_inv, of ?r "u ''old''"] by auto
qed

text \<open>C14 [one_active_per_family]: in every history of logins, refreshes and logouts that starts with an
  empty session table, a rotation family never holds two active credentials and token hashes stay
  unique.\<close>

theorem one_active_per_family:
  assumes "refresh_sessions d = []"
  shows "card (live_rows (serve_all ttl rs d) f) \<le> 1
       \<and> distinct (map rs_token_hash (refresh_sessions (serve_all ttl rs d)))"
proof -
  let ?e = "serve_all ttl rs d"
  have "sessions_inv d"
    using assms by (auto simp: sessions_inv_def live_rows_def family_rows_def)
  then have inv: "sessions_inv ?e" by (rule serve_all_inv)
  then have "\<And>r s. r \<in> live_rows ?e f \<Longrightarrow> s \<in> live_rows ?e f \<Longrightarrow> r = s"
    unfolding sessions_inv_def by blast
  then have "card (live_rows ?e f) \<le> 1"
    by (metis card_le_Suc0_iff_eq One_nat_def card.infinite le_SucI le0)
  with inv show ?thesis by (simp add: sessions_inv_def)
qed

theorem one_active_per_family_witness:
  "card (live_rows (serve_all 7 [LoginFor 1 0 (u ''a''), RefreshWith (Some (u ''a'')) 1 (u ''b'')] seeded_db) 1) \<le> 1"
  using one_active_per_family [of seeded_db 7 "[LoginFor 1 0 (u ''a''), RefreshWith (Some (u ''a'')) 1 (u ''b'')]" 1]
  by (simp add: seeded_db_def)

text \<open>Two refresh requests that both read the same active credential
  before either writes cannot both rotate it: the first write wins, the second is answered as reuse, and
  after it no credential of the family is active.\<close>

theorem refresh_race_single_winner:
  assumes inv: "sessions_inv d" and row: "r \<in> set (refresh_sessions d)" "rs_status r = ACTIVE"
    and first: "refresh_write now1 ttl raw1 r d = Inr (out1, d1)"
    and second: "refresh_write now2 ttl raw2 r d1 = Inr (out2, d2)"
  shows "(\<exists>s. out1 = Rotated s) \<and> out2 = Rejected REUSED \<and> live_rows d2 (rs_family_id r) = {}"
proof -
  let ?m = "snd (try_mark_rotated (rs_id r) d)"
  have win: "fst (try_mark_rotated (rs_id r) d)"
    using inv row by (auto simp: try_mark_rotated_True)
  with first obtain h where add: "add_session (rs_user_id r) (rs_family_id r) h (now1 + days ttl) now1 ?m = Inr d1"
    and out1: "\<exists>s. out1 = Rotated s"
    by (auto simp: refresh_write_def Let_def split_beta result_simps)
  from add obtain child where child: "refresh_sessions d1 = refresh_sessions ?m @ [child]"
    "rs_id child = next_id d" "rs_family_id child = rs_family_id r"
    by (auto elim!: add_session_result simp: set_status_eqs)
  have "rs_id child \<noteq> rs_id r" using child inv row by (auto simp: sessions_inv_def)
  with child have none: "\<not> (\<exists>x \<in> set (refresh_sessions d1). rs_id x = rs_id r \<and> rs_status x = ACTIVE)"
    by (auto simp: set_status_eqs set_status_def set_update_where)
  have inv1: "sessions_inv d1" using refresh_write_inv [OF inv row_known_self first] row by simp
  have lose: "\<not> fst (try_mark_rotated (rs_id r) d1)" using none inv1 by (simp add: try_mark_rotated_True)
  with second have "out2 = Rejected REUSED"
    "d2 = revoke_family (rs_family_id r) (snd (try_mark_rotated (rs_id r) d1))"
    by (auto simp: refresh_write_def Let_def split_beta)
  with out1 show ?thesis by auto
qed

lemma hash_a: "hash_refresh_token (u ''a'') = Inr (sha256_hexdigest (u ''a''))"
  by (simp add: hash_refresh_token_def sha256_text_ascii text_defs)

definition race_db :: db where
  "race_db = seeded_db\<lparr>refresh_sessions := [example_row 3 (u ''h'') ACTIVE], next_id := 4\<rparr>"

theorem refresh_race_single_winner_witness:
  "\<exists>d1. refresh_write 5 7 (u ''a'') (example_row 3 (u ''h'') ACTIVE) race_db
          = Inr (Rotated \<lparr>ro_user_id = 1, ro_family_id = 2, ro_raw_token = u ''a'', ro_expires_at = 5 + days 7\<rparr>, d1)
     \<and> live_rows (snd (projr (refresh_write 6 7 (u ''a'') (example_row 3 (u ''h'') ACTIVE) d1))) 2 = {}"
proof -
  let ?r = "example_row 3 (u ''h'') ACTIVE"
  have inv: "sessions_inv race_db"
    by (auto simp: sessions_inv_def race_db_def example_row_def live_rows_def family_rows_def)
  have row: "?r \<in> set (refresh_sessions race_db)" "rs_status ?r = ACTIVE" "rs_family_id ?r = 2"
    by (simp_all add: race_db_def example_row_def)
  have ne: "sha256_hexdigest (u ''a'') \<noteq> u ''h''"
    using length_hexdigest [of "u ''a''"] length_u [of "''h''"] by (metis length_Cons list.size(3) One_nat_def numeral_eq_one_iff semiring_norm(83))
  obtain d1 where d1: "refresh_write 5 7 (u ''a'') ?r race_db
      = Inr (Rotated \<lparr>ro_user_id = 1, ro_family_id = 2, ro_raw_token = u ''a'', ro_expires_at = 5 + days 7\<rparr>, d1)"
    "refresh_sessions d1 = example_row 3 (u ''h'') ROTATED #
       [\<lparr>rs_id = 4, rs_user_id = 1, rs_family_id = 2, rs_token_hash = sha256_hexdigest (u ''a''),
         rs_status = ACTIVE, rs_expires_at = 5 + days 7, rs_created_at = 5\<rparr>]"
    using ne by (simp add: refresh_write_def try_mark_rotated_def rowcount_def race_db_def example_row_def
        hash_a add_session_def uuid4_def Let_def eq_commute)
  obtain out2 d2 where d2: "refresh_write 6 7 (u ''a'') ?r d1 = Inr (out2, d2)"
    using d1(2) by (simp add: refresh_write_def try_mark_rotated_def rowcount_def example_row_def Let_def)
  from refresh_race_single_winner [OF inv row(1,2) d1(1) d2] d1(1) d2 row(3) show ?thesis by auto
qed

end
