(* ===== verification/Addresses.thy ===== *)
theory Addresses
  imports PyJson
begin

text \<open>
  The part of Python's \<open>ipaddress\<close> (3.12) that the code relies on: parsing of IPv4 and IPv6 literals,
  printing, and the special-use classification; and the admission policy \<open>domain/scanning/ip_policy.py\<close>
  over it.
\<close>

section \<open>Addresses\<close>

datatype ip_address = V4 "32 word" | V6 "128 word" "pystr option"

fun ip_version :: "ip_address \<Rightarrow> nat" where
  "ip_version (V4 _) = 4"
| "ip_version (V6 _ _) = 6"

fun ip_int :: "ip_address \<Rightarrow> nat" where
  "ip_int (V4 a) = unat a"
| "ip_int (V6 a _) = unat a"

text \<open>Networks as base address and prefix length.\<close>

definition in_net4 :: "32 word \<Rightarrow> nat \<times> nat \<Rightarrow> bool" where
  "in_net4 a np \<longleftrightarrow> unat a div 2 ^ (32 - snd np) = fst np div 2 ^ (32 - snd np)"

definition in_net6 :: "128 word \<Rightarrow> nat \<times> nat \<Rightarrow> bool" where
  "in_net6 a np \<longleftrightarrow> unat a div 2 ^ (128 - snd np) = fst np div 2 ^ (128 - snd np)"

definition private4 :: "(nat \<times> nat) list" where
  "private4 =
     [(0, 8),
      (167772160, 8),
      (2130706432, 8),
      (2851995648, 16),
      (2886729728, 12),
      (3221225472, 24),
      (3221225642, 31),
      (3221225984, 24),
      (3232235520, 16),
      (3323068416, 15),
      (3325256704, 24),
      (3405803776, 24),
      (4026531840, 4),
      (4294967295, 32)]"

definition private4_exceptions :: "(nat \<times> nat) list" where
  "private4_exceptions =
     [(3221225481, 32),
      (3221225482, 32)]"

definition private6 :: "(nat \<times> nat) list" where
  "private6 =
     [(1, 128),
      (0, 128),
      (281470681743360, 96),
      (524413980668812575603097810486951936, 48),
      (1329227995784915872903807060280344576, 64),
      (42540488161975842760550356425300246528, 23),
      (42540766411282592856903984951653826560, 32),
      (42545680458834377588178886921629466624, 16),
      (85065399433376081038215121361612832768, 20),
      (334965454937798799971759379190646833152, 7),
      (338288524927261089654018896841347694592, 10)]"

definition private6_exceptions :: "(nat \<times> nat) list" where
  "private6_exceptions =
     [(42540488241204005274814694018844196865, 128),
      (42540488241204005274814694018844196866, 128),
      (42540488399660330303343369205932097536, 32),
      (42540488479219738492182115193345540096, 48),
      (42540490697277043217009159418706657280, 28),
      (42540491964927643445238560915409862656, 28)]"

definition reserved6 :: "(nat \<times> nat) list" where
  "reserved6 =
     [(0, 8),
      (1329227995784915872903807060280344576, 8),
      (2658455991569831745807614120560689152, 7),
      (5316911983139663491615228241121378304, 6),
      (10633823966279326983230456482242756608, 5),
      (21267647932558653966460912964485513216, 4),
      (85070591730234615865843651857942052864, 3),
      (127605887595351923798765477786913079296, 3),
      (170141183460469231731687303715884105728, 3),
      (212676479325586539664609129644855132160, 3),
      (255211775190703847597530955573826158592, 3),
      (297747071055821155530452781502797185024, 4),
      (319014718988379809496913694467282698240, 5),
      (329648542954659136480144150949525454848, 6),
      (337623910929368631717566993311207522304, 9)]"

definition cgnat4 :: "nat \<times> nat" where
  "cgnat4 = (1681915904, 10)"

definition is_private4 :: "32 word \<Rightarrow> bool" where
  "is_private4 a \<longleftrightarrow> list_ex (in_net4 a) private4 \<and> \<not> list_ex (in_net4 a) private4_exceptions"

definition ipv4_mapped :: "128 word \<Rightarrow> 32 word option" where
  "ipv4_mapped a = (if unat a div 2 ^ 32 = 65535 then Some (of_nat (unat a mod 2 ^ 32)) else None)"

fun is_private :: "ip_address \<Rightarrow> bool" where
  "is_private (V4 a) = is_private4 a"
| "is_private (V6 a _) =
     (case ipv4_mapped a of
        Some m \<Rightarrow> is_private4 m
      | None \<Rightarrow> list_ex (in_net6 a) private6 \<and> \<not> list_ex (in_net6 a) private6_exceptions)"

fun is_loopback :: "ip_address \<Rightarrow> bool" where
  "is_loopback (V4 a) = in_net4 a (2130706432, 8)"
| "is_loopback (V6 a _) = (unat a = 1)"

fun is_link_local :: "ip_address \<Rightarrow> bool" where
  "is_link_local (V4 a) = in_net4 a (2851995648, 16)"
| "is_link_local (V6 a _) = in_net6 a (338288524927261089654018896841347694592, 10)"

fun is_reserved :: "ip_address \<Rightarrow> bool" where
  "is_reserved (V4 a) = in_net4 a (4026531840, 4)"
| "is_reserved (V6 a _) = list_ex (in_net6 a) reserved6"

fun is_multicast :: "ip_address \<Rightarrow> bool" where
  "is_multicast (V4 a) = in_net4 a (3758096384, 4)"
| "is_multicast (V6 a _) = in_net6 a (338953138925153547590470800371487866880, 8)"

fun is_unspecified :: "ip_address \<Rightarrow> bool" where
  "is_unspecified (V4 a) = (unat a = 0)"
| "is_unspecified (V6 a _) = (unat a = 0)"

fun is_global :: "ip_address \<Rightarrow> bool" where
  "is_global (V4 a) = (\<not> in_net4 a cgnat4 \<and> \<not> is_private4 a)"
| "is_global (V6 a s) = (\<not> is_private (V6 a s))"

section \<open>Literals\<close>

definition parse_octet :: "pystr \<Rightarrow> nat option" where
  "parse_octet s =
     (if s = [] \<or> \<not> list_all ascii_digit s \<or> length s > 3 then None
      else if length s > 1 \<and> hd s = 48 then None
      else if digits_value s > 255 then None
      else Some (digits_value s))"

definition ipv4_from_string :: "pystr \<Rightarrow> 32 word option" where
  "ipv4_from_string s =
     (case map parse_octet (split_on 46 s) of
        [Some a, Some b, Some c, Some d] \<Rightarrow> Some (of_nat (((a * 256 + b) * 256 + c) * 256 + d))
      | _ \<Rightarrow> None)"

definition parse_hextet :: "pystr \<Rightarrow> nat option" where
  "parse_hextet s =
     (if s = [] \<or> \<not> list_all is_hex s \<or> length s > 4 then None else Some (hex_digits_value s))"

fun hex_text :: "nat \<Rightarrow> pystr" where
  "hex_text n = (if n < 16 then [hex_digit n] else hex_text (n div 16) @ [hex_digit (n mod 16)])"

declare hex_text.simps [simp del]

text \<open>An IPv4-style suffix stands for the two last hextets.\<close>

definition expand_suffix :: "pystr list \<Rightarrow> pystr list option" where
  "expand_suffix parts =
     (if 46 \<in> set (last parts) then
        (case ipv4_from_string (last parts) of
           None \<Rightarrow> None
         | Some a \<Rightarrow> Some (butlast parts @ [hex_text (unat a div 65536), hex_text (unat a mod 65536)]))
      else Some parts)"

definition hextets_value :: "pystr list \<Rightarrow> nat option" where
  "hextets_value hs =
     fold (\<lambda>h acc. case (acc, parse_hextet h) of (Some n, Some v) \<Rightarrow> Some (n * 65536 + v) | _ \<Rightarrow> None) hs (Some 0)"

definition ipv6_from_parts :: "pystr list \<Rightarrow> nat option" where
  "ipv6_from_parts parts =
     (let n = length parts;
          gaps = filter (\<lambda>i. parts ! i = []) [1..<n - 1]
      in if n > 9 then None
         else case gaps of
           [] \<Rightarrow>
             if n \<noteq> 8 \<or> hd parts = [] \<or> last parts = [] then None else hextets_value parts
         | [i] \<Rightarrow>
             (let hi0 = i; lo0 = n - i - 1;
                  hi = (if hd parts = [] then hi0 - 1 else hi0);
                  lo = (if last parts = [] then lo0 - 1 else lo0)
              in if (hd parts = [] \<and> hi \<noteq> 0) \<or> (last parts = [] \<and> lo \<noteq> 0) \<or> hi + lo > 7 then None
                 else case (hextets_value (take hi parts), hextets_value (drop (n - lo) parts)) of
                   (Some h, Some l) \<Rightarrow> Some (h * 65536 ^ (8 - hi) + l)
                 | _ \<Rightarrow> None)
         | _ \<Rightarrow> None)"

definition ipv6_from_string :: "pystr \<Rightarrow> (128 word \<times> pystr option) option" where
  "ipv6_from_string s =
     (let (addr, has_zone, zone) = py_partition 37 s;
          parts = split_on 58 addr
      in if 47 \<in> set s \<or> (has_zone \<and> (zone = [] \<or> 37 \<in> set zone)) \<or> length parts < 3 then None
         else case expand_suffix parts of
           None \<Rightarrow> None
         | Some ps \<Rightarrow>
             (case ipv6_from_parts ps of
                None \<Rightarrow> None
              | Some n \<Rightarrow> Some (of_nat n, if has_zone then Some zone else None)))"

text \<open>\<open>ipaddress.ip_address\<close> of a string and of an integer; \<open>None\<close> is \<open>ValueError\<close>.\<close>

definition ip_of_string :: "pystr \<Rightarrow> ip_address option" where
  "ip_of_string s =
     (case ipv4_from_string s of
        Some a \<Rightarrow> Some (V4 a)
      | None \<Rightarrow> map_option (\<lambda>(a, z). V6 a z) (ipv6_from_string s))"

definition ip_of_int :: "nat \<Rightarrow> ip_address option" where
  "ip_of_int n =
     (if n < 2 ^ 32 then Some (V4 (of_nat n)) else if n < 2 ^ 128 then Some (V6 (of_nat n) None) else None)"

section \<open>Printing\<close>

definition ipv4_text :: "32 word \<Rightarrow> pystr" where
  "ipv4_text a =
     py_join [46] (map (\<lambda>i. nat_to_text (unat a div 256 ^ (3 - i) mod 256)) [0..<4])"

definition hextets_of :: "128 word \<Rightarrow> nat list" where
  "hextets_of a = map (\<lambda>i. unat a div 65536 ^ (7 - i) mod 65536) [0..<8]"

definition zero_run :: "nat list \<Rightarrow> nat \<Rightarrow> nat" where
  "zero_run hs i = length (takeWhile (\<lambda>h. h = 0) (drop i hs))"

text \<open>The first of the longest runs of zero hextets, if it is longer than one.\<close>

definition best_run :: "nat list \<Rightarrow> (nat \<times> nat) option" where
  "best_run hs =
     (let b = Max (set (map (zero_run hs) [0..<length hs]))
      in if b \<le> 1 then None
         else map_option (\<lambda>i. (i, b)) (List.find (\<lambda>i. zero_run hs i = b) [0..<length hs]))"

definition ipv6_text :: "128 word \<Rightarrow> pystr" where
  "ipv6_text a =
     (let hs = hextets_of a; ts = map hex_text hs
      in case best_run hs of
           None \<Rightarrow> py_join [58] ts
         | Some (i, b) \<Rightarrow> py_join [58] (take i ts) @ [58, 58] @ py_join [58] (drop (i + b) ts))"

fun ip_text :: "ip_address \<Rightarrow> pystr" where
  "ip_text (V4 a) = ipv4_text a"
| "ip_text (V6 a None) = ipv6_text a"
| "ip_text (V6 a (Some z)) = ipv6_text a @ 37 # z"

section \<open>Admission policy\<close>

datatype ip_rejection_reason =
  UNSPECIFIED | LOOPBACK | PRIVATE | LINK_LOCAL | MULTICAST | RESERVED | METADATA | NOT_GLOBAL

record policy_verdict =
  pv_allowed :: bool
  pv_address :: ip_address
  pv_reason :: "ip_rejection_reason option"

definition cloud_metadata_v4 :: ip_address where
  "cloud_metadata_v4 = V4 2852039166"

definition evaluate_checks :: "ip_address \<Rightarrow> (bool \<times> ip_rejection_reason) list" where
  "evaluate_checks a =
     [(is_unspecified a, UNSPECIFIED), (is_loopback a, LOOPBACK), (is_link_local a, LINK_LOCAL),
      (is_multicast a, MULTICAST), (is_reserved a, RESERVED), (is_private a, PRIVATE),
      (\<not> is_global a, NOT_GLOBAL)]"

definition evaluate_ip :: "ip_address \<Rightarrow> policy_verdict" where
  "evaluate_ip a =
     (if a = cloud_metadata_v4 then \<lparr>pv_allowed = False, pv_address = a, pv_reason = Some METADATA\<rparr>
      else case List.find fst (evaluate_checks a) of
        Some (_, reason) \<Rightarrow> \<lparr>pv_allowed = False, pv_address = a, pv_reason = Some reason\<rparr>
      | None \<Rightarrow> \<lparr>pv_allowed = True, pv_address = a, pv_reason = None\<rparr>)"

fun evaluate_all :: "ip_address list \<Rightarrow> policy_verdict option" where
  "evaluate_all [] = None"
| "evaluate_all (a # as) = (let v = evaluate_ip a in if \<not> pv_allowed v then Some v else evaluate_all as)"

abbreviation allowed_ip :: "ip_address \<Rightarrow> bool" where
  "allowed_ip a \<equiv> pv_allowed (evaluate_ip a)"

lemma allowed_ip_iff:
  "allowed_ip a \<longleftrightarrow> a \<noteq> cloud_metadata_v4 \<and> \<not> is_unspecified a \<and> \<not> is_loopback a \<and> \<not> is_link_local a
     \<and> \<not> is_multicast a \<and> \<not> is_reserved a \<and> \<not> is_private a \<and> is_global a"
  by (simp add: evaluate_ip_def evaluate_checks_def)

lemma verdict_reason: "pv_allowed (evaluate_ip a) \<longleftrightarrow> pv_reason (evaluate_ip a) = None"
  by (auto simp: evaluate_ip_def split: option.splits)

lemma verdict_address [simp]: "pv_address (evaluate_ip a) = a"
  by (auto simp: evaluate_ip_def split: option.splits)

lemma evaluate_all_None: "evaluate_all as = None \<longleftrightarrow> (\<forall>a \<in> set as. allowed_ip a)"
  by (induction as) (auto simp: Let_def)

lemma evaluate_all_Some:
  "evaluate_all as = Some v \<Longrightarrow> \<exists>xs ys. as = xs @ pv_address v # ys \<and> (\<forall>x \<in> set xs. allowed_ip x)
     \<and> \<not> pv_allowed v \<and> v = evaluate_ip (pv_address v)"
proof (induction as)
  case Nil
  then show ?case by simp
next
  case (Cons a as)
  show ?case
  proof (cases "allowed_ip a")
    case True
    with Cons obtain xs ys where xs: "as = xs @ pv_address v # ys" "\<forall>x \<in> set xs. allowed_ip x"
      "\<not> pv_allowed v" "v = evaluate_ip (pv_address v)" by (auto simp: Let_def)
    show ?thesis
      by (rule exI [of _ "a # xs"], rule exI [of _ ys]) (use True xs in auto)
  next
    case False
    with Cons.prems have v: "v = evaluate_ip a" by (simp add: Let_def)
    show ?thesis
      by (rule exI [of _ "[]"], rule exI [of _ as]) (use False v in simp)
  qed
qed

end
