(* ===== verification/UrlSplit.thy ===== *)
theory UrlSplit
  imports Addresses
begin

text \<open>
  \<open>urllib.parse\<close> (Python 3.12) as far as the code uses it: \<open>urlsplit\<close>, the \<open>username\<close>, \<open>password\<close>,
  \<open>hostname\<close> and \<open>port\<close> accessors of its result, \<open>urlunsplit\<close> and \<open>urljoin\<close>.  \<open>None\<close> is
  \<open>ValueError\<close>.
\<close>

record split_result =
  sp_scheme :: pystr
  sp_netloc :: pystr
  sp_path :: pystr
  sp_query :: pystr
  sp_fragment :: pystr

definition scheme_char :: "nat \<Rightarrow> bool" where
  "scheme_char c \<longleftrightarrow> is_lower_alpha c \<or> is_upper_alpha c \<or> ascii_digit c \<or> c \<in> {43, 45, 46}"

text \<open>Leading C0 controls and spaces go, tabs and line breaks go everywhere.\<close>

definition url_clean :: "pystr \<Rightarrow> pystr" where
  "url_clean url = filter (\<lambda>c. c \<notin> {9, 10, 13}) (lstrip_by (\<lambda>c. c \<le> 32) url)"

definition split_scheme :: "pystr \<Rightarrow> pystr \<times> pystr" where
  "split_scheme url =
     (let (pre, found, post) = py_partition 58 url
      in if found \<and> pre \<noteq> [] \<and> (is_lower_alpha (hd pre) \<or> is_upper_alpha (hd pre))
            \<and> list_all scheme_char pre
         then (py_lower pre, post) else ([], url))"

definition netloc_delim :: "nat \<Rightarrow> bool" where
  "netloc_delim c \<longleftrightarrow> c \<in> {47, 63, 35}"

definition split_netloc :: "pystr \<Rightarrow> pystr \<times> pystr" where
  "split_netloc url = (takeWhile (\<lambda>c. \<not> netloc_delim c) url, dropWhile (\<lambda>c. \<not> netloc_delim c) url)"

definition bracketed_host_ok :: "pystr \<Rightarrow> bool" where
  "bracketed_host_ok h =
     (if py_startswith h [118] then
        (let d = takeWhile is_hex (tl h); r = dropWhile is_hex (tl h)
         in d \<noteq> [] \<and> length r > 1 \<and> hd r = 46)
      else case ip_of_string h of Some (V6 _ _) \<Rightarrow> True | _ \<Rightarrow> False)"

definition bracketed_netloc_ok :: "pystr \<Rightarrow> bool" where
  "bracketed_netloc_ok netloc =
     (let (_, _, hp) = py_rpartition 64 netloc;
          (pre, have_open, bracketed) = py_partition 91 hp
      in if have_open then
           (let (h, _, port) = py_partition 93 bracketed
            in pre = [] \<and> (port = [] \<or> hd port = 58) \<and> bracketed_host_ok h)
         else bracketed_host_ok (fst (py_partition 58 hp)))"

text \<open>Code points whose NFKC form contains one of the delimiters \<open>/?#@:\<close>.\<close>

definition nfkc_delimiter :: "nat \<Rightarrow> bool" where
  "nfkc_delimiter c \<longleftrightarrow> c \<in> {8263, 8264, 8265, 8448, 8449, 8453, 8454, 10868, 65043, 65046, 65109,
     65110, 65119, 65131, 65283, 65295, 65306, 65311, 65312}"

definition netloc_ok :: "pystr \<Rightarrow> bool" where
  "netloc_ok netloc \<longleftrightarrow>
     (91 \<in> set netloc \<longleftrightarrow> 93 \<in> set netloc)
     \<and> (91 \<in> set netloc \<longrightarrow> bracketed_netloc_ok netloc)
     \<and> \<not> list_ex nfkc_delimiter netloc"

definition urlsplit :: "pystr \<Rightarrow> split_result option" where
  "urlsplit url0 =
     (let (scheme, url) = split_scheme (url_clean url0);
          (netloc, rest) = (if py_startswith url [47, 47] then split_netloc (drop 2 url) else ([], url));
          (rest', _, fragment) = py_partition 35 rest;
          (path, _, query) = py_partition 63 rest'
      in if netloc_ok netloc
         then Some \<lparr>sp_scheme = scheme, sp_netloc = netloc, sp_path = path, sp_query = query,
                    sp_fragment = fragment\<rparr>
         else None)"

section \<open>Accessors\<close>

definition url_username :: "split_result \<Rightarrow> pystr option" where
  "url_username sp =
     (let (info, have, _) = py_rpartition 64 (sp_netloc sp)
      in if have then Some (fst (py_partition 58 info)) else None)"

definition url_password :: "split_result \<Rightarrow> pystr option" where
  "url_password sp =
     (let (info, have, _) = py_rpartition 64 (sp_netloc sp); (_, havep, pw) = py_partition 58 info
      in if have \<and> havep then Some pw else None)"

definition hostinfo :: "split_result \<Rightarrow> pystr \<times> pystr" where
  "hostinfo sp =
     (let (_, _, hi) = py_rpartition 64 (sp_netloc sp);
          (_, have_open, bracketed) = py_partition 91 hi
      in if have_open then
           (let (h, _, r) = py_partition 93 bracketed; (_, _, port) = py_partition 58 r in (h, port))
         else (let (h, _, port) = py_partition 58 hi in (h, port)))"

definition url_hostname :: "split_result \<Rightarrow> pystr option" where
  "url_hostname sp =
     (let h = fst (hostinfo sp); (name, pct, zone) = py_partition 37 h
      in if h = [] then None else Some (py_lower name @ (if pct then 37 # zone else [])))"

text \<open>\<open>Some None\<close>: no port; \<open>None\<close>: \<open>ValueError\<close>.\<close>

definition url_port :: "split_result \<Rightarrow> nat option option" where
  "url_port sp =
     (let p = snd (hostinfo sp)
      in if p = [] then Some None
         else if list_all ascii_digit p \<and> digits_value p \<le> 65535 then Some (Some (digits_value p))
         else None)"

section \<open>Reassembly\<close>

definition uses_netloc :: "pystr list" where
  "uses_netloc = map u ['''', ''ftp'', ''http'', ''gopher'', ''nntp'', ''telnet'', ''imap'', ''wais'', ''file'',
     ''mms'', ''https'', ''shttp'', ''snews'', ''prospero'', ''rtsp'', ''rtsps'', ''rtspu'', ''rsync'', ''svn'',
     ''svn+ssh'', ''sftp'', ''nfs'', ''git'', ''git+ssh'', ''ws'', ''wss'']"

definition urlunsplit :: "split_result \<Rightarrow> pystr" where
  "urlunsplit sp =
     (let url0 = sp_path sp;
          url1 = (if sp_netloc sp \<noteq> [] \<or> (sp_scheme sp \<noteq> [] \<and> sp_scheme sp \<in> set uses_netloc)
                     \<or> take 2 url0 = [47, 47]
                  then [47, 47] @ sp_netloc sp
                       @ (if url0 \<noteq> [] \<and> hd url0 \<noteq> 47 then 47 # url0 else url0)
                  else url0);
          url2 = (if sp_scheme sp \<noteq> [] then sp_scheme sp @ 58 # url1 else url1);
          url3 = (if sp_query sp \<noteq> [] then url2 @ 63 # sp_query sp else url2)
      in if sp_fragment sp \<noteq> [] then url3 @ 35 # sp_fragment sp else url3)"

definition split_params :: "pystr \<Rightarrow> pystr \<times> pystr" where
  "split_params url =
     (let (dir, slash, last_seg) = py_rpartition 47 url;
          (p, semi, params) = py_partition 59 last_seg
      in if semi then ((if slash then dir @ [47] else []) @ p, params) else (url, []))"

fun resolve_dots :: "pystr list \<Rightarrow> pystr list \<Rightarrow> pystr list" where
  "resolve_dots acc [] = acc"
| "resolve_dots acc (s # ss) =
     (if s = [46, 46] then resolve_dots (butlast acc) ss
      else if s = [46] then resolve_dots acc ss
      else resolve_dots (acc @ [s]) ss)"

definition join_segments :: "pystr \<Rightarrow> pystr \<Rightarrow> pystr list" where
  "join_segments bpath path =
     (let base0 = split_on 47 bpath;
          base = (if last base0 \<noteq> [] then butlast base0 else base0)
      in if take 1 path = [47] then split_on 47 path
         else (let segs = base @ split_on 47 path
               in if length segs \<le> 1 then segs
                  else hd segs # filter (\<lambda>s. s \<noteq> []) (butlast (tl segs)) @ [last segs]))"

text \<open>
  \<open>urljoin\<close> for the one form of use the code makes of it: a base without a scheme, and a reference
  with neither scheme nor network location (\<open>;\<close>-parameters ride with the path, as \<open>urlunparse\<close>
  puts them back).
\<close>

definition urljoin_relative :: "pystr \<Rightarrow> pystr \<Rightarrow> pystr option" where
  "urljoin_relative base url =
     (if base = [] then Some url else if url = [] then Some base
      else case (urlsplit base, urlsplit url) of
        (Some b, Some r) \<Rightarrow>
          (let (bpath, bparams) = split_params (sp_path b); (path, params) = split_params (sp_path r);
               unparse = (\<lambda>p prm q. urlunsplit \<lparr>sp_scheme = [], sp_netloc = sp_netloc b,
                            sp_path = (if prm \<noteq> [] then p @ 59 # prm else p),
                            sp_query = q, sp_fragment = sp_fragment r\<rparr>);
               segs = join_segments bpath path;
               resolved0 = resolve_dots [] segs;
               resolved = (if last segs \<in> {[46], [46, 46]} then resolved0 @ [[]] else resolved0);
               joined = py_join [47] resolved
           in if path = [] \<and> params = []
              then Some (unparse bpath bparams (if sp_query r = [] then sp_query b else sp_query r))
              else Some (unparse (if joined = [] then [47] else joined) params (sp_query r)))
      | _ \<Rightarrow> None)"

end
