(* ===== verification/TargetNorm.thy ===== *)
theory TargetNorm
  imports UrlSplit
begin

text \<open>
  \<open>domain/targets/target_normalization.py\<close>: the shared lexical gate for user-supplied targets.
  The API bounds a URL at 2000 characters, below Python's limit of 4300 digits for \<open>int(str)\<close>.
\<close>

definition max_hostname_length :: nat where "max_hostname_length = 255"
definition max_normalized_url_length :: nat where "max_normalized_url_length = 500"

definition allowed_schemes :: "pystr list" where
  "allowed_schemes = [u ''http'', u ''https'']"

definition metadata_name_blocklist :: "pystr list" where
  "metadata_name_blocklist = [u ''metadata.google.internal'', u ''metadata.goog'']"

definition private_name_suffixes :: "pystr list" where
  "private_name_suffixes =
     [u ''.internal'', u ''.local'', u ''.localhost'', u ''.localdomain'', u ''.home.arpa'', u ''.lan'']"

record normalized_target =
  nt_hostname :: pystr
  nt_normalized_url :: pystr

abbreviation reject_target :: "string \<Rightarrow> 'a result" where
  "reject_target m \<equiv> raise (InvalidTargetError (u m))"

section \<open>Classification of hosts\<close>

definition is_ascii_digits :: "pystr \<Rightarrow> bool" where
  "is_ascii_digits s \<longleftrightarrow> s \<noteq> [] \<and> list_all ascii_digit s"

text \<open>
  \<open>int(s, 16)\<close> for a text that starts with \<open>0x\<close>: trailing blanks are dropped, single underscores
  may stand before a digit.  Non-ASCII digits do not reach this point.
\<close>

definition int_space :: "nat \<Rightarrow> bool" where
  "int_space c \<longleftrightarrow> (9 \<le> c \<and> c \<le> 13) \<or> c = 32 \<or> (c > 127 \<and> py_isspace c)"

fun hex_groups_ok :: "pystr \<Rightarrow> bool" where
  "hex_groups_ok [] = True"
| "hex_groups_ok [c] = is_hex c"
| "hex_groups_ok (c # d # cs) =
     (if c = 95 then is_hex d \<and> hex_groups_ok (d # cs) else is_hex c \<and> hex_groups_ok (d # cs))"

definition int_base16 :: "pystr \<Rightarrow> nat option" where
  "int_base16 s =
     (let body = drop 2 (rstrip_by int_space s)
      in if body \<noteq> [] \<and> hex_groups_ok body then Some (hex_digits_value (filter (\<lambda>c. c \<noteq> 95) body)) else None)"

definition as_ip_literal :: "pystr \<Rightarrow> ip_address option" where
  "as_ip_literal host =
     (let candidate = py_strip_chars host [91, 93]
      in case ip_of_string candidate of
        Some a \<Rightarrow> Some a
      | None \<Rightarrow>
          if is_ascii_digits candidate then ip_of_int (digits_value candidate)
          else if py_startswith (py_lower candidate) (u ''0x'') \<and> length candidate > 2
          then Option.bind (int_base16 candidate) ip_of_int
          else None)"

definition is_disallowed_ip :: "ip_address \<Rightarrow> bool" where
  "is_disallowed_ip a \<longleftrightarrow> is_private a \<or> is_loopback a \<or> is_link_local a \<or> is_reserved a
     \<or> is_multicast a \<or> is_unspecified a"

definition strip_trailing_dot :: "pystr \<Rightarrow> pystr" where
  "strip_trailing_dot host = py_rstrip_chars host [46]"

definition is_hex_label :: "pystr \<Rightarrow> bool" where
  "is_hex_label l \<longleftrightarrow> length l > 2 \<and> take 2 l \<in> {u ''0x'', u ''0X''} \<and> list_all is_hex (drop 2 l)"

definition looks_like_numeric_host :: "pystr \<Rightarrow> bool" where
  "looks_like_numeric_host host = list_all (\<lambda>l. is_ascii_digits l \<or> is_hex_label l) (split_on 46 host)"

definition is_canonical_dotted_quad :: "pystr \<Rightarrow> bool" where
  "is_canonical_dotted_quad host =
     (let labels = split_on 46 host
      in length labels = 4
         \<and> list_all (\<lambda>l. is_ascii_digits l \<and> \<not> (length l > 1 \<and> hd l = 48) \<and> digits_value l \<le> 255) labels)"

definition contains_non_ascii_numeric :: "pystr \<Rightarrow> bool" where
  "contains_non_ascii_numeric host = list_ex (\<lambda>c. py_isdigit c \<and> c > 127) host"

definition validate_host :: "pystr \<Rightarrow> pystr result" where
  "validate_host host0 =
     (let host = strip_trailing_dot host0
      in if host = [] then reject_target ''URL has no hostname.''
         else if contains_non_ascii_numeric host
         then reject_target ''Non-ASCII numeric characters are not allowed in hostnames.''
         else if host = u ''localhost'' \<or> py_endswith host (u ''.localhost'')
         then reject_target ''localhost targets are not allowed.''
         else if host \<in> set metadata_name_blocklist \<or> list_ex (py_endswith host) private_name_suffixes
         then reject_target ''Private/internal network names are not allowed as targets.''
         else if looks_like_numeric_host host \<and> \<not> is_canonical_dotted_quad host
         then reject_target ''Non-canonical numeric hostname forms are not allowed; use a standard DNS name or dotted-decimal IPv4 literal.''
         else case as_ip_literal host of
           Some a \<Rightarrow>
             if is_disallowed_ip a
             then reject_target ''Targets resolving inside private, loopback, link-local, or reserved ranges are not allowed.''
             else Inr host
         | None \<Rightarrow> Inr host)"

section \<open>The gate\<close>

definition display_host :: "pystr \<Rightarrow> pystr" where
  "display_host host = (if 58 \<in> set host then 91 # host @ [93] else host)"

definition normalize_target :: "pystr \<Rightarrow> pystr \<Rightarrow> normalized_target result" where
  "normalize_target hostname0 url0 =
     (let hostname = py_strip hostname0; url = py_strip url0
      in if hostname = [] \<or> length hostname > max_hostname_length
         then reject_target ''hostname must be between 1 and 255 characters.''
         else if url = [] then reject_target ''url must not be empty.''
         else case urlsplit url of
           None \<Rightarrow> reject_target ''URL could not be parsed.''
         | Some parts \<Rightarrow>
             (let scheme = py_lower (sp_scheme parts)
              in if scheme \<notin> set allowed_schemes then reject_target ''Only http and https URLs are allowed.''
                 else if url_username parts \<noteq> None \<or> url_password parts \<noteq> None
                 then reject_target ''Credentials embedded in the URL are not allowed.''
                 else case url_port parts of
                   None \<Rightarrow> reject_target ''URL contains an invalid port.''
                 | Some port \<Rightarrow>
                     bindE (validate_host (case url_hostname parts of None \<Rightarrow> [] | Some h \<Rightarrow> h)) (\<lambda>host.
                       if length host > max_hostname_length
                       then reject_target ''Resolved hostname exceeds 255 characters.''
                       else if host \<noteq> strip_trailing_dot (py_strip_chars (py_lower (py_strip hostname)) [91, 93])
                       then reject_target ''hostname does not match the URL host.''
                       else
                         (let netloc = (case port of None \<Rightarrow> display_host host
                                        | Some p \<Rightarrow> display_host host @ 58 # nat_to_text p);
                              normalized = urlunsplit \<lparr>sp_scheme = scheme, sp_netloc = netloc,
                                sp_path = (if sp_path parts = [] then [47] else sp_path parts),
                                sp_query = sp_query parts, sp_fragment = []\<rparr>
                          in if length normalized > max_normalized_url_length
                             then reject_target ''Normalized URL exceeds 500 characters.''
                             else Inr \<lparr>nt_hostname = host, nt_normalized_url = normalized\<rparr>))))"

section \<open>What an accepted host is\<close>

definition safe_host :: "pystr \<Rightarrow> bool" where
  "safe_host h \<longleftrightarrow> h \<noteq> [] \<and> length h \<le> 255 \<and> last h \<noteq> 46 \<and> \<not> contains_non_ascii_numeric h
     \<and> h \<noteq> u ''localhost'' \<and> h \<notin> set metadata_name_blocklist
     \<and> \<not> list_ex (py_endswith h) private_name_suffixes
     \<and> (looks_like_numeric_host h \<longrightarrow> is_canonical_dotted_quad h)
     \<and> (case as_ip_literal h of None \<Rightarrow> True | Some a \<Rightarrow> \<not> is_disallowed_ip a)"

lemma validate_host_Inr:
  "validate_host h0 = Inr h \<Longrightarrow>
     h = strip_trailing_dot h0 \<and> (length h \<le> 255 \<longrightarrow> safe_host h)"
  by (auto simp: validate_host_def safe_host_def Let_def strip_trailing_dot_def rstrip_by_last
      split: if_splits option.splits dest: rstrip_by_last)

lemma validate_host_error: "validate_host h0 = Inl e \<Longrightarrow> \<exists>m. e = Domain (InvalidTargetError m)"
  by (auto simp: validate_host_def Let_def split: if_splits option.splits)

lemma normalize_target_error:
  "normalize_target h url = Inl e \<Longrightarrow> \<exists>m. e = Domain (InvalidTargetError m)"
  by (auto simp: normalize_target_def Let_def bindE_Inl_iff dest: validate_host_error
      split: if_splits option.splits)

lemma normalize_target_host:
  assumes "normalize_target h url = Inr t"
  shows "safe_host (nt_hostname t)" and "length (nt_normalized_url t) \<le> 500"
  using assms
  by (auto simp: normalize_target_def Let_def bindE_Inr_iff max_hostname_length_def
      max_normalized_url_length_def dest!: validate_host_Inr split: if_splits option.splits)

section \<open>Reparsing\<close>

definition plain_char :: "nat \<Rightarrow> bool" where
  "plain_char c \<longleftrightarrow> c \<notin> {9, 10, 13}"

definition plain_netloc :: "pystr \<Rightarrow> bool" where
  "plain_netloc n \<longleftrightarrow> (\<forall>c \<in> set n. plain_char c \<and> \<not> netloc_delim c \<and> \<not> nfkc_delimiter c)"

lemma lower_char_keeps:
  "plain_char c \<Longrightarrow> plain_char (lower_char c)"
  "\<not> netloc_delim c \<Longrightarrow> \<not> netloc_delim (lower_char c)"
  "\<not> nfkc_delimiter c \<Longrightarrow> \<not> nfkc_delimiter (lower_char c)"
  "c \<noteq> 64 \<Longrightarrow> lower_char c \<noteq> 64"
  by (auto simp: plain_char_def netloc_delim_def nfkc_delimiter_def lower_char_def is_upper_alpha_def
      split: if_splits)

lemma split_scheme_rest: "split_scheme url = (sch, r) \<Longrightarrow> set r \<subseteq> set url"
  by (auto simp: split_scheme_def Let_def split: prod.splits if_splits dest!: py_partition_facts)

lemma url_clean_plain: "c \<in> set (url_clean url) \<Longrightarrow> plain_char c"
  by (simp add: url_clean_def plain_char_def)

lemma urlsplit_parts:
  assumes "urlsplit url = Some sp"
  shows "sp_netloc sp \<noteq> [] \<Longrightarrow> sp_path sp = [] \<or> hd (sp_path sp) = 47"
    and "plain_netloc (sp_netloc sp)"
    and "\<forall>c \<in> set (sp_path sp). plain_char c \<and> c \<noteq> 35 \<and> c \<noteq> 63"
    and "\<forall>c \<in> set (sp_query sp). plain_char c \<and> c \<noteq> 35"
proof -
  obtain sch v where sv: "split_scheme (url_clean url) = (sch, v)" by fastforce
  define nr where "nr = (if py_startswith v [47, 47] then split_netloc (drop 2 v) else ([], v))"
  obtain n r where nr': "nr = (n, r)" by fastforce
  obtain r' b1 frag where r': "py_partition 35 r = (r', b1, frag)" by (metis prod_cases3)
  obtain pth b2 q where pq: "py_partition 63 r' = (pth, b2, q)" by (metis prod_cases3)
  have ok: "netloc_ok n" and sp: "sp = \<lparr>sp_scheme = sch, sp_netloc = n, sp_path = pth, sp_query = q, sp_fragment = frag\<rparr>"
    using assms sv nr' r' pq by (auto simp: urlsplit_def Let_def nr_def split: if_splits)
  have plain_v: "\<forall>c \<in> set v. plain_char c"
    using split_scheme_rest [OF sv] url_clean_plain by blast
  have n: "set n \<subseteq> set v" "\<forall>c \<in> set n. \<not> netloc_delim c" and r: "set r \<subseteq> set v"
    using nr' by (auto simp: nr_def split_netloc_def split: if_splits dest: set_takeWhileD set_dropWhileD in_set_dropD)
  have "\<not> list_ex nfkc_delimiter n" using ok unfolding netloc_ok_def by blast
  then show "plain_netloc (sp_netloc sp)"
    using n plain_v by (auto simp: sp plain_netloc_def list_ex_iff)
  note fr = py_partition_facts [OF r'] and fp = py_partition_facts [OF pq]
  have sub: "set pth \<subseteq> set v" "set q \<subseteq> set v" using fr fp r by blast+
  show "\<forall>c \<in> set (sp_path sp). plain_char c \<and> c \<noteq> 35 \<and> c \<noteq> 63"
    using sub(1) plain_v fr fp by (simp add: sp) blast
  show "\<forall>c \<in> set (sp_query sp). plain_char c \<and> c \<noteq> 35"
    using sub(2) plain_v fr fp by (simp add: sp) blast
  show "sp_path sp = [] \<or> hd (sp_path sp) = 47" if "sp_netloc sp \<noteq> []"
  proof -
    have "r = dropWhile (\<lambda>c. \<not> netloc_delim c) (drop 2 v)"
      using that nr' by (auto simp: sp nr_def split_netloc_def split: if_splits)
    then have hd: "r = [] \<or> netloc_delim (hd r)" using hd_dropWhile [of "\<lambda>c. \<not> netloc_delim c" "drop 2 v"] by auto
    show ?thesis
    proof (cases pth)
      case Nil then show ?thesis by (simp add: sp)
    next
      case (Cons c cs)
      then have "r' \<noteq> []" "hd r' = c" using fp by auto
      then have "r \<noteq> []" "hd r = c" using fr by auto
      with hd have "netloc_delim c" by auto
      moreover have "c \<noteq> 35" "c \<noteq> 63" using fr fp Cons \<open>hd r' = c\<close> \<open>r' \<noteq> []\<close> by auto
      ultimately show ?thesis using Cons by (auto simp: sp netloc_delim_def)
    qed
  qed
qed

lemma split_netloc_plain:
  "\<forall>c \<in> set n. \<not> netloc_delim c \<Longrightarrow> netloc_delim d \<Longrightarrow> split_netloc (n @ d # r) = (n, d # r)"
  by (auto simp: split_netloc_def takeWhile_append dropWhile_append)

lemma urlsplit_urlunsplit:
  assumes scheme: "scheme \<in> set allowed_schemes"
    and n: "n \<noteq> []" "plain_netloc n" "91 \<notin> set n" "93 \<notin> set n"
    and p: "\<forall>c \<in> set (47 # p). plain_char c \<and> c \<noteq> 35 \<and> c \<noteq> 63"
    and q: "\<forall>c \<in> set q. plain_char c \<and> c \<noteq> 35"
  shows "urlsplit (urlunsplit \<lparr>sp_scheme = scheme, sp_netloc = n, sp_path = 47 # p, sp_query = q, sp_fragment = []\<rparr>)
    = Some \<lparr>sp_scheme = scheme, sp_netloc = n, sp_path = 47 # p, sp_query = q, sp_fragment = []\<rparr>"
proof -
  define tl1 where "tl1 = n @ 47 # p @ (if q = [] then [] else 63 # q)"
  let ?sp = "\<lparr>sp_scheme = scheme, sp_netloc = n, sp_path = 47 # p, sp_query = q, sp_fragment = []\<rparr>"
  have s: "scheme \<noteq> []" "hd scheme = 104" "list_all scheme_char scheme" "58 \<notin> set scheme"
    "py_lower scheme = scheme" "\<forall>c \<in> set scheme. plain_char c"
    using scheme by (auto simp: allowed_schemes_def text_defs scheme_char_def is_lower_alpha_def
        py_lower_def lower_char_def is_upper_alpha_def plain_char_def)
  have us: "urlunsplit ?sp = scheme @ 58 # 47 # 47 # tl1"
    using n(1) s(1) by (simp add: urlunsplit_def tl1_def)
  have lits: "plain_char 58" "plain_char 47" "plain_char 63" by (simp_all add: plain_char_def)
  have "\<forall>c \<in> set tl1. plain_char c"
    using n(2) p q lits unfolding tl1_def plain_netloc_def by auto
  then have plain: "\<forall>c \<in> set (scheme @ 58 # 47 # 47 # tl1). plain_char c"
    using s(6) lits by auto
  have lstr: "lstrip_by (\<lambda>c. c \<le> 32) (scheme @ 58 # 47 # 47 # tl1) = scheme @ 58 # 47 # 47 # tl1"
    using s(1,2) by (cases scheme) (auto simp: lstrip_by_def)
  have clean: "url_clean (urlunsplit ?sp) = scheme @ 58 # 47 # 47 # tl1"
    unfolding us url_clean_def lstr using plain by (simp add: plain_char_def filter_id_conv)
  have sch: "split_scheme (scheme @ 58 # 47 # 47 # tl1) = (scheme, 47 # 47 # tl1)"
    using s by (simp add: split_scheme_def py_partition_append is_lower_alpha_def)
  have "split_netloc tl1 = (n, 47 # p @ (if q = [] then [] else 63 # q))"
    unfolding tl1_def by (rule split_netloc_plain) (use n(2) in \<open>auto simp: plain_netloc_def netloc_delim_def\<close>)
  moreover have "py_partition 35 (47 # p @ (if q = [] then [] else 63 # q)) = (47 # p @ (if q = [] then [] else 63 # q), False, [])"
    by (rule py_partition_absent) (use p q in auto)
  moreover have "\<exists>b. py_partition 63 (47 # p @ (if q = [] then [] else 63 # q)) = (47 # p, b, q)"
  proof (cases "q = []")
    case True
    then show ?thesis using py_partition_absent [of 63 "47 # p"] p by auto
  next
    case False
    then show ?thesis using py_partition_append [of 63 "47 # p" q] p by auto
  qed
  moreover have "netloc_ok n"
    using n by (auto simp: netloc_ok_def plain_netloc_def list_ex_iff)
  ultimately show ?thesis
    by (auto simp: urlsplit_def clean sch Let_def py_startswith_def)
qed

text \<open>The parts of the accepted URL behind an accepted target.\<close>

lemma normalize_target_parts:
  assumes "normalize_target h url = Inr t"
  obtains sp port where "urlsplit (py_strip url) = Some sp" "url_port sp = Some port"
    "py_lower (sp_scheme sp) \<in> set allowed_schemes" "url_username sp = None"
    "validate_host (case url_hostname sp of None \<Rightarrow> [] | Some x \<Rightarrow> x) = Inr (nt_hostname t)"
    "nt_normalized_url t = urlunsplit \<lparr>sp_scheme = py_lower (sp_scheme sp),
       sp_netloc = display_host (nt_hostname t) @ (case port of None \<Rightarrow> [] | Some p \<Rightarrow> 58 # nat_to_text p),
       sp_path = (if sp_path sp = [] then [47] else sp_path sp), sp_query = sp_query sp, sp_fragment = []\<rparr>"
  using assms
  by (auto simp: normalize_target_def Let_def bindE_Inr_iff split: if_splits option.splits)

lemma url_username_None: "url_username sp = None \<Longrightarrow> 64 \<notin> set (sp_netloc sp)"
  by (auto simp: url_username_def py_rpartition_def split: if_splits)

lemma url_hostname_plain:
  assumes "url_hostname sp = Some h" and "url_username sp = None" and "37 \<notin> set (rstrip_by p h)" and "\<not> p 37"
  shows "\<exists>n. h = py_lower n \<and> set n \<subseteq> set (sp_netloc sp)"
proof -
  have at: "py_rpartition 64 (sp_netloc sp) = ([], False, sp_netloc sp)"
    by (rule py_rpartition_absent) (rule url_username_None [OF assms(2)])
  obtain hn pt where hi: "hostinfo sp = (hn, pt)" by fastforce
  have "set hn \<subseteq> set (sp_netloc sp)"
    using hi at by (auto simp: hostinfo_def Let_def split: prod.splits if_splits dest!: py_partition_facts)
  moreover obtain n b z where n: "py_partition 37 hn = (n, b, z)" by (metis prod_cases3)
  ultimately have sub: "set n \<subseteq> set (sp_netloc sp)" using py_partition_facts [OF n] by blast
  have h: "h = py_lower n @ (if b then 37 # z else [])"
    using assms(1) hi n by (auto simp: url_hostname_def Let_def split: if_splits)
  have "\<not> b"
  proof
    assume b
    then have "h = py_lower n @ 37 # z" using h by simp
    then have "37 \<in> set (rstrip_by p h)" using assms(4)
      by (auto simp: rstrip_by_def dropWhile_append)
    with assms(3) show False by blast
  qed
  with h sub show ?thesis by auto
qed

lemma port_char_plain:
  assumes "c = 58 \<or> (48 \<le> c \<and> c \<le> 57)"
  shows "plain_char c \<and> \<not> netloc_delim c \<and> \<not> nfkc_delimiter c"
proof -
  have "c \<le> 58" "48 \<le> c" using assms by auto
  then show ?thesis by (simp add: plain_char_def netloc_delim_def nfkc_delimiter_def)
qed

lemma hostinfo_port:
  assumes "58 \<notin> set h" "64 \<notin> set h" "91 \<notin> set h" "sp_netloc sp = h @ (case port of None \<Rightarrow> [] | Some p \<Rightarrow> 58 # nat_to_text p)"
  shows "hostinfo sp = (h, case port of None \<Rightarrow> [] | Some p \<Rightarrow> nat_to_text p)" and "url_username sp = None"
proof -
  have d: "c \<in> set (nat_to_text p) \<Longrightarrow> c \<noteq> 64 \<and> c \<noteq> 91" for c p
    using nat_to_text_digits [of c p] by (auto simp: ascii_digit_def)
  have n: "64 \<notin> set (sp_netloc sp)" "91 \<notin> set (sp_netloc sp)"
    using assms d by (auto split: option.splits)
  note r = py_rpartition_absent [OF n(1)] and o = py_partition_absent [OF n(2)]
  show "url_username sp = None" by (simp add: url_username_def r)
  show "hostinfo sp = (h, case port of None \<Rightarrow> [] | Some p \<Rightarrow> nat_to_text p)"
  proof -
    have "hostinfo sp = (let (h, _, port) = py_partition 58 (sp_netloc sp) in (h, port))"
      by (simp add: hostinfo_def r o)
    with assms show ?thesis
      by (cases port) (simp_all add: py_partition_absent py_partition_append)
  qed
qed

lemma url_port_bound: "url_port sp = Some (Some p) \<Longrightarrow> p \<le> 65535"
  by (auto simp: url_port_def Let_def split: if_splits)

section \<open>Evaluation\<close>

text \<open>The definitions a simplifier run needs to compute the gate on a literal.\<close>

lemmas norm_eval = text_defs py_partition_def py_rpartition_def lstrip_by_def rstrip_by_def strip_by_def
  py_lower_def lower_char_def is_upper_alpha_def is_lower_alpha_def ascii_digit_def py_startswith_def py_endswith_def

lemmas urlsplit_eval = urlsplit_def url_clean_def split_scheme_def scheme_char_def split_netloc_def
  netloc_delim_def netloc_ok_def nfkc_delimiter_def url_username_def url_password_def url_port_def
  url_hostname_def hostinfo_def urlunsplit_def

lemmas host_eval = validate_host_def strip_trailing_dot_def contains_non_ascii_numeric_def py_isdigit_ascii
  metadata_name_blocklist_def private_name_suffixes_def looks_like_numeric_host_def is_ascii_digits_def
  is_hex_label_def as_ip_literal_def

lemmas ip_parse_eval = ip_of_string_def ipv4_from_string_def parse_octet_def ipv6_from_string_def
  expand_suffix_def ipv6_from_parts_def hextets_value_def parse_hextet_def is_hex_def hex_value_def
  hex_digits_value_def

lemma urlsplit_example:
  "urlsplit (u ''http://Example.com:8080?b#c'')
    = Some \<lparr>sp_scheme = u ''http'', sp_netloc = u ''Example.com:8080'', sp_path = [], sp_query = u ''b'',
            sp_fragment = u ''c''\<rparr>"
  by (simp add: norm_eval urlsplit_eval)

lemma validate_example: "validate_host (u ''example.com'') = Inr (u ''example.com'')"
  by (simp add: norm_eval host_eval ip_parse_eval)

text \<open>The loopback literal, with and without a zone.\<close>

lemma ip_loop:
  "ip_of_string (u ''::1%.'') = Some (V6 1 (Some (u ''.'')))"
  "ip_of_string (u ''::1%'') = None"
  "ip_of_string (u ''::1'') = Some (V6 1 None)"
  by (simp_all add: norm_eval ip_parse_eval digits_value_def)

definition sp_loop :: "pystr \<Rightarrow> split_result" where
  "sp_loop n = \<lparr>sp_scheme = u ''http'', sp_netloc = n, sp_path = [47], sp_query = [], sp_fragment = []\<rparr>"

lemma sp_loop_simps [simp]:
  "sp_scheme (sp_loop n) = u ''http''" "sp_path (sp_loop n) = [47]" "sp_query (sp_loop n) = []"
  by (simp_all add: sp_loop_def)

lemma bracketed_loop:
  "bracketed_host_ok (u ''::1%.'')" "bracketed_host_ok (u ''::1'')"
  by (simp_all add: bracketed_host_ok_def ip_loop) (simp_all add: py_startswith_def text_defs)

lemma urlsplit_loop:
  "urlsplit (u ''http://[::1%.]/'') = Some (sp_loop (u ''[::1%.]''))"
  "urlsplit (u ''http://[::1]/'') = Some (sp_loop (u ''[::1]''))"
  using bracketed_loop by (simp_all add: norm_eval urlsplit_eval bracketed_netloc_ok_def sp_loop_def)

lemma validate_loop:
  "validate_host (u ''::1%.'') = Inr (u ''::1%'')"
  "validate_host (u ''::1'') = reject_target ''Targets resolving inside private, loopback, link-local, or reserved ranges are not allowed.''"
  using ip_loop by (simp_all add: norm_eval host_eval is_disallowed_ip_def)

section \<open>Properties\<close>



text \<open>An IPv4-mapped IPv6 address is refused by both layers, whatever
  IPv4 address it embeds.\<close>

theorem ipv4_mapped_never_admitted:
  assumes "ipv4_mapped a = Some m"
  shows "\<not> allowed_ip (V6 a z) \<and> is_disallowed_ip (V6 a z)"
proof -
  have "unat a div 2 ^ 32 = 65535" using assms by (simp add: ipv4_mapped_def split: if_splits)
  then have "unat a div 2 ^ 32 div 2 ^ 88 = 0" by simp
  then have "unat a div 2 ^ 120 = 0" by (simp add: div_mult2_eq [symmetric])
  then have "is_reserved (V6 a z)" by (simp add: in_net6_def reserved6_def)
  then show ?thesis by (simp add: allowed_ip_iff is_disallowed_ip_def)
qed

theorem ipv4_mapped_never_admitted_witness:
  "\<not> allowed_ip (V6 0xFFFF08080808 None) \<and> is_disallowed_ip (V6 0xFFFF08080808 None)"
  by (rule ipv4_mapped_never_admitted [where m = "0x08080808"]) (simp add: ipv4_mapped_def)

lemma accepted_host_plain:
  assumes "normalize_target h url = Inr t" and "set (nt_hostname t) \<inter> {37, 58, 91, 93} = {}"
    and sp0: "urlsplit (py_strip url) = Some sp0" "url_username sp0 = None"
    and vh: "validate_host (case url_hostname sp0 of None \<Rightarrow> [] | Some x \<Rightarrow> x) = Inr (nt_hostname t)"
  shows "plain_netloc (nt_hostname t)" "64 \<notin> set (nt_hostname t)" "\<exists>hs. nt_hostname t \<noteq> [] \<and> nt_hostname t = py_lower hs"
    "sp_netloc sp0 \<noteq> []"
proof -
  let ?h = "nt_hostname t"
  have ne: "?h \<noteq> []" using normalize_target_host(1) [OF assms(1)] by (simp add: safe_host_def)
  with vh obtain h0 where h0: "url_hostname sp0 = Some h0" and h: "?h = rstrip_by (\<lambda>c. c \<in> set [46]) h0"
    by (auto simp: strip_trailing_dot_def dest!: validate_host_Inr split: option.splits)
  have "\<exists>n. h0 = py_lower n \<and> set n \<subseteq> set (sp_netloc sp0)"
    by (rule url_hostname_plain [OF h0 sp0(2), of "\<lambda>c. c \<in> set [46]"]) (use assms(2) h in auto)
  then obtain n where n: "h0 = py_lower n" "set n \<subseteq> set (sp_netloc sp0)" by blast
  obtain hs where hs: "?h = py_lower hs" "set hs \<subseteq> set n"
  proof -
    obtain x where x: "py_lower n = ?h @ x" using rstrip_by_prefix [of h0 "\<lambda>c. c \<in> set [46]"] n(1) h by metis
    then have "?h = py_lower (take (length ?h) n)" by (metis append_eq_conv_conj py_lower_def take_map)
    then show ?thesis by (rule that) (rule set_take_subset)
  qed
  note up = urlsplit_parts [OF sp0(1)]
  have nn: "sp_netloc sp0 \<noteq> []" using ne hs n by auto
  show "sp_netloc sp0 \<noteq> []" by (rule nn)
  show "\<exists>hs. ?h \<noteq> [] \<and> ?h = py_lower hs" using hs(1) ne by blast
  show "plain_netloc ?h" "64 \<notin> set ?h"
    using up(2) hs n(2) url_username_None [OF sp0(2)]
    by (auto simp: plain_netloc_def py_lower_def lower_char_keeps) (metis lower_char_keeps(4) subsetD)
qed

lemma port_text_plain:
  fixes port :: "nat option"
  defines "text \<equiv> case port of None \<Rightarrow> [] | Some p \<Rightarrow> 58 # nat_to_text p"
  shows "plain_netloc text" "91 \<notin> set text" "93 \<notin> set text"
proof -
  have dig: "c \<in> set (nat_to_text p) \<Longrightarrow> 48 \<le> c \<and> c \<le> 57" for c p
    using nat_to_text_digits [of c p] by (simp add: ascii_digit_def)
  have "\<forall>c \<in> set text. c = 58 \<or> (48 \<le> c \<and> c \<le> 57)" using dig by (auto simp: text_def split: option.splits)
  then show "plain_netloc text" "91 \<notin> set text" "93 \<notin> set text"
    unfolding plain_netloc_def using port_char_plain by (blast, fastforce, fastforce)
qed

text \<open>C35 [normalized_url_reparses]: for an accepted host that is a plain name or IPv4 literal, the stored URL
  is a fixed form: parsing it again gives the stored host, the accepted port, the path (\<open>/\<close> if it was
  empty) and the query of the supplied URL, no credentials and no fragment.\<close>

theorem normalized_url_reparses:
  assumes "normalize_target h url = Inr t" and "set (nt_hostname t) \<inter> {37, 58, 91, 93} = {}"
  shows "\<exists>sp0 sp. urlsplit (py_strip url) = Some sp0 \<and> urlsplit (nt_normalized_url t) = Some sp
    \<and> urlunsplit sp = nt_normalized_url t \<and> sp_scheme sp \<in> set allowed_schemes
    \<and> url_hostname sp = Some (nt_hostname t) \<and> url_username sp = None \<and> url_port sp = url_port sp0
    \<and> sp_path sp = (if sp_path sp0 = [] then [47] else sp_path sp0)
    \<and> sp_query sp = sp_query sp0 \<and> sp_fragment sp = []"
proof -
  let ?h = "nt_hostname t"
  from assms(1) obtain sp0 port where sp0: "urlsplit (py_strip url) = Some sp0" "url_port sp0 = Some port"
    "py_lower (sp_scheme sp0) \<in> set allowed_schemes" "url_username sp0 = None"
    and vh: "validate_host (case url_hostname sp0 of None \<Rightarrow> [] | Some x \<Rightarrow> x) = Inr ?h"
    and nu: "nt_normalized_url t = urlunsplit \<lparr>sp_scheme = py_lower (sp_scheme sp0),
       sp_netloc = display_host ?h @ (case port of None \<Rightarrow> [] | Some p \<Rightarrow> 58 # nat_to_text p),
       sp_path = (if sp_path sp0 = [] then [47] else sp_path sp0), sp_query = sp_query sp0, sp_fragment = []\<rparr>"
    by (rule normalize_target_parts)
  note host = accepted_host_plain [OF assms sp0(1,4) vh]
  note up = urlsplit_parts [OF sp0(1)]
  let ?port = "case port of None \<Rightarrow> [] | Some p \<Rightarrow> 58 # nat_to_text p"
  let ?n = "?h @ ?port"
  have dh: "display_host ?h = ?h" using assms(2) by (auto simp: display_host_def)
  define pth where "pth = (if sp_path sp0 = [] then [47] else sp_path sp0)"
  obtain p where p: "pth = 47 # p" using up(1) [OF host(4)] by (cases "sp_path sp0") (auto simp: pth_def)
  define sp where "sp = \<lparr>sp_scheme = py_lower (sp_scheme sp0), sp_netloc = ?n, sp_path = 47 # p,
    sp_query = sp_query sp0, sp_fragment = []\<rparr>"
  have us: "nt_normalized_url t = urlunsplit sp" using nu dh p by (simp add: sp_def pth_def)
  have pth_ok: "\<forall>c \<in> set (47 # p). plain_char c \<and> c \<noteq> 35 \<and> c \<noteq> 63"
    unfolding p [symmetric] pth_def using up(3) by (simp add: plain_char_def)
  have pl: "plain_netloc ?n" using host(1) port_text_plain(1) [of port] unfolding plain_netloc_def by auto
  have br: "91 \<notin> set ?n" "93 \<notin> set ?n" using assms(2) port_text_plain(2,3) [of port] by auto
  have "?n \<noteq> []" using host(3) by auto
  then have "urlsplit (urlunsplit sp) = Some sp"
    unfolding sp_def by (rule urlsplit_urlunsplit [OF sp0(3) _ pl br pth_ok up(4)])
  moreover have hi: "hostinfo sp = (?h, case port of None \<Rightarrow> [] | Some p \<Rightarrow> nat_to_text p)" "url_username sp = None"
    by (rule hostinfo_port [where port = port], use assms(2) host(1,2) in \<open>auto simp: sp_def\<close>)+
  moreover have "url_hostname sp = Some ?h"
  proof -
    have "py_partition 37 ?h = (?h, False, [])" by (rule py_partition_absent) (use assms(2) in auto)
    then show ?thesis using hi(1) host(3) by (auto simp: url_hostname_def)
  qed
  moreover have "url_port sp = url_port sp0"
  proof (cases port)
    case None
    then show ?thesis using hi(1) sp0(2) by (simp add: url_port_def)
  next
    case (Some q)
    then have "q \<le> 65535" using sp0(2) url_port_bound by blast
    moreover have "list_all ascii_digit (nat_to_text q)" using nat_to_text_digits by (auto simp: list_all_iff)
    ultimately show ?thesis using Some hi(1) sp0(2) by (simp add: url_port_def digits_value_nat_to_text)
  qed
  ultimately show ?thesis using sp0 us by (auto simp: sp_def pth_def [symmetric] p)
qed

lemma normalize_example:
  "normalize_target (u ''example.com'') (u ''http://Example.com:8080?b#c'')
     = Inr \<lparr>nt_hostname = u ''example.com'', nt_normalized_url = u ''http://example.com:8080/?b''\<rparr>"
proof -
  let ?url = "u ''http://Example.com:8080?b#c''"
  let ?sp = "\<lparr>sp_scheme = u ''http'', sp_netloc = u ''Example.com:8080'', sp_path = [], sp_query = u ''b'',
            sp_fragment = u ''c''\<rparr>"
  have "py_strip ?url = ?url" "py_strip (u ''example.com'') = u ''example.com''"
    by (simp_all add: norm_eval py_isspace_def)
  moreover have "url_hostname ?sp = Some (u ''example.com'')" "url_port ?sp = Some (Some 8080)"
    "url_username ?sp = None" "url_password ?sp = None" "py_lower (sp_scheme ?sp) = u ''http''"
    "nat_to_text 8080 = u ''8080''" "display_host (u ''example.com'') = u ''example.com''"
    "strip_trailing_dot (py_strip_chars (py_lower (u ''example.com'')) [91, 93]) = u ''example.com''"
    by (simp_all add: norm_eval urlsplit_eval digits_value_def nat_to_text.simps display_host_def strip_trailing_dot_def)
  ultimately show ?thesis
    by (simp add: normalize_target_def urlsplit_example validate_example max_hostname_length_def
        max_normalized_url_length_def allowed_schemes_def)
      (simp add: urlunsplit_def text_defs)
qed

theorem normalized_url_reparses_witness:
  "\<exists>sp0 sp. urlsplit (py_strip (u ''http://Example.com:8080?b#c'')) = Some sp0
    \<and> urlsplit (u ''http://example.com:8080/?b'') = Some sp \<and> urlunsplit sp = u ''http://example.com:8080/?b''
    \<and> url_hostname sp = Some (u ''example.com'') \<and> url_port sp = url_port sp0
    \<and> sp_path sp = (if sp_path sp0 = [] then [47] else sp_path sp0)"
proof -
  have "set (u ''example.com'') \<inter> {37, 58, 91, 93} = {}" by (simp add: text_defs)
  with normalized_url_reparses [OF normalize_example] show ?thesis by auto
qed

text \<open>The trailing-dot canonicalisation is applied to the zone of a scoped
  IPv6 literal, so the loopback address written \<open>[::1%.]\<close> is stored as \<open>::1%\<close>, which no longer parses
  as an address and escapes the range check that \<open>[::1]\<close> is refused by.\<close>

theorem zone_dot_bypasses_gate:
  "normalize_target (u ''::1%.'') (u ''http://[::1%.]/'')
     = Inr \<lparr>nt_hostname = u ''::1%'', nt_normalized_url = u ''http://[::1%]/''\<rparr>
   \<and> map_option is_disallowed_ip (ip_of_string (u ''::1%.'')) = Some True
   \<and> normalize_target (u ''::1'') (u ''http://[::1]/'')
     = reject_target ''Targets resolving inside private, loopback, link-local, or reserved ranges are not allowed.''"
proof (intro conjI)
  have strip: "py_strip (u ''::1%.'') = u ''::1%.''" "py_strip (u ''http://[::1%.]/'') = u ''http://[::1%.]/''"
    "py_strip (u ''::1'') = u ''::1''" "py_strip (u ''http://[::1]/'') = u ''http://[::1]/''"
    by (simp_all add: norm_eval py_isspace_def)
  have acc: "url_hostname (sp_loop (u ''[::1%.]'')) = Some (u ''::1%.'')" "url_port (sp_loop (u ''[::1%.]'')) = Some None"
    "url_hostname (sp_loop (u ''[::1]'')) = Some (u ''::1'')" "url_port (sp_loop (u ''[::1]'')) = Some None"
    "url_username (sp_loop (u ''[::1%.]'')) = None" "url_password (sp_loop (u ''[::1%.]'')) = None"
    "url_username (sp_loop (u ''[::1]'')) = None" "url_password (sp_loop (u ''[::1]'')) = None"
    "py_lower (u ''http'') = u ''http''"
    by (simp_all add: norm_eval urlsplit_eval sp_loop_def)
  have out: "strip_trailing_dot (py_strip_chars (py_lower (u ''::1%.'')) [91, 93]) = u ''::1%''"
    "display_host (u ''::1%'') = u ''[::1%]''"
    by (simp_all add: norm_eval strip_trailing_dot_def display_host_def)
  show "normalize_target (u ''::1%.'') (u ''http://[::1%.]/'')
     = Inr \<lparr>nt_hostname = u ''::1%'', nt_normalized_url = u ''http://[::1%]/''\<rparr>"
    using out
    by (simp add: normalize_target_def strip urlsplit_loop acc validate_loop max_hostname_length_def
        max_normalized_url_length_def allowed_schemes_def)
      (simp add: urlunsplit_def text_defs)
  show "map_option is_disallowed_ip (ip_of_string (u ''::1%.'')) = Some True"
    by (simp add: ip_loop is_disallowed_ip_def)
  show "normalize_target (u ''::1'') (u ''http://[::1]/'')
     = reject_target ''Targets resolving inside private, loopback, link-local, or reserved ranges are not allowed.''"
    by (simp add: normalize_target_def strip urlsplit_loop acc validate_loop max_hostname_length_def allowed_schemes_def)
qed

end
