(* ===== verification/ScanNet.thy ===== *)
theory ScanNet
  imports TargetNorm "HOL-Library.Product_Lexorder"
begin

text \<open>
  The scan-time network boundary: the resolver contract and its platform adapter
  (\<open>domain/scanning/resolver.py\<close>, \<open>infrastructure/network/dns_resolver.py\<close>), validated bindings
  (\<open>binding.py\<close>), egress authorization (\<open>egress.py\<close>), the resolution service (\<open>resolution.py\<close>) and
  redirect revalidation (\<open>redirects.py\<close>).  \<open>getaddrinfo\<close> and every resolver read a world \<open>'w\<close> that
  moves with each call, so two resolutions of one name may differ.
\<close>

section \<open>Resolution contract\<close>

datatype resolution_failure_kind = NAME_NOT_FOUND | NO_RECORDS | TRANSIENT_ERROR

datatype resolution_outcome =
    ResolutionSuccess pystr "ip_address list"
  | ResolutionFailure pystr resolution_failure_kind pystr

type_synonym 'w resolver = "pystr \<Rightarrow> 'w \<Rightarrow> resolution_outcome result \<times> 'w"

section \<open>Platform adapter\<close>

text \<open>A record is its family and the text of its address; an \<open>OSError\<close> carries errno and text.\<close>

datatype gai_result = GaiRecords "(int \<times> pystr) list" | GaiOSError "int option" pystr | GaiRaises exn

definition name_not_found_errnos :: "int list" where "name_not_found_errnos = [-2]"
definition no_records_errnos :: "int list" where "no_records_errnos = [-5]"
definition relevant_families :: "int list" where "relevant_families = [2, 10]"

definition classify_gaierror :: "int \<Rightarrow> resolution_failure_kind" where
  "classify_gaierror errno =
     (if errno \<in> set name_not_found_errnos then NAME_NOT_FOUND
      else if errno \<in> set no_records_errnos then NO_RECORDS
      else TRANSIENT_ERROR)"

definition ip_key :: "ip_address \<Rightarrow> nat \<times> nat" where
  "ip_key a = (ip_version a, ip_int a)"

definition platform_resolve_all ::
  "(pystr \<Rightarrow> 'w \<Rightarrow> gai_result \<times> 'w) \<Rightarrow> 'w resolver" where
  "platform_resolve_all getaddrinfo hostname w =
     (let name = py_strip hostname
      in if name = [] then (Inr (ResolutionFailure name NAME_NOT_FOUND (u ''empty hostname'')), w)
         else case getaddrinfo name w of
           (GaiOSError errno txt, w1) \<Rightarrow>
             (Inr (ResolutionFailure name
                     (case errno of None \<Rightarrow> TRANSIENT_ERROR | Some n \<Rightarrow> classify_gaierror n) txt), w1)
         | (GaiRaises e, w1) \<Rightarrow> (Inl e, w1)
         | (GaiRecords records, w1) \<Rightarrow>
             (bindE (mapE (\<lambda>(f, a). some_or ValueError (ip_of_string a))
                       (filter (\<lambda>(f, a). f \<in> set relevant_families) records)) (\<lambda>found.
                (let addresses = remdups found
                 in if addresses = [] then Inr (ResolutionFailure name NO_RECORDS [])
                    else Inr (ResolutionSuccess name (sort_key ip_key addresses)))), w1))"

section \<open>Bindings\<close>

record binding =
  vb_hostname :: pystr
  vb_addresses :: "ip_address list"
  vb_validated_at :: timestamp
  vb_target_id :: "uuid option"
  vb_pinned :: "ip_address option"

definition binding_create ::
  "(ip_address list \<Rightarrow> 'a option result) \<Rightarrow> pystr \<Rightarrow> ip_address list \<Rightarrow> timestamp \<Rightarrow> uuid option \<Rightarrow> binding result" where
  "binding_create validate hostname addresses now target_id =
     bindE (validate addresses) (\<lambda>outcome.
       if outcome \<noteq> None then raise TargetResolutionBlockedError
       else Inr \<lparr>vb_hostname = hostname, vb_addresses = addresses, vb_validated_at = now,
                vb_target_id = target_id, vb_pinned = None\<rparr>)"

definition with_pinned :: "binding \<Rightarrow> ip_address \<Rightarrow> binding result" where
  "with_pinned b a =
     (if a \<notin> set (vb_addresses b) then raise EgressDeniedError
      else Inr \<lparr>vb_hostname = vb_hostname b, vb_addresses = vb_addresses b,
               vb_validated_at = vb_validated_at b, vb_target_id = vb_target_id b, vb_pinned = Some a\<rparr>)"

section \<open>Egress authorization\<close>

record network_context =
  cx_binding :: binding
  cx_egress :: "ip_address set"

definition egress_authorize :: "ip_address set \<Rightarrow> ip_address \<Rightarrow> bool" where
  "egress_authorize allowed a \<longleftrightarrow> a \<in> allowed"

definition context_create :: "binding \<Rightarrow> network_context" where
  "context_create b = \<lparr>cx_binding = b, cx_egress = set (vb_addresses b)\<rparr>"

definition authorize_destination :: "network_context \<Rightarrow> ip_address \<Rightarrow> unit result" where
  "authorize_destination c a = (if egress_authorize (cx_egress c) a then Inr () else raise EgressDeniedError)"

definition require_destination :: "network_context \<Rightarrow> ip_address result" where
  "require_destination c =
     (case vb_pinned (cx_binding c) of
        None \<Rightarrow> raise EgressDeniedError
      | Some a \<Rightarrow> bindE (authorize_destination c a) (\<lambda>_. Inr a))"

section \<open>Resolution service\<close>

definition policy_validate :: "ip_address list \<Rightarrow> unit option result" where
  "policy_validate as = (if evaluate_all as \<noteq> None then raise TargetResolutionBlockedError else Inr None)"

definition resolve_quietly :: "'w resolver \<Rightarrow> 'w resolver" where
  "resolve_quietly resolve_all hostname w =
     (case resolve_all hostname w of
        (Inl _, w1) \<Rightarrow> (raise TargetUnresolvedError, w1)
      | (Inr out, w1) \<Rightarrow> (Inr out, w1))"

definition resolve ::
  "'w resolver \<Rightarrow> pystr \<Rightarrow> uuid option \<Rightarrow> timestamp \<Rightarrow> 'w \<Rightarrow> binding result \<times> 'w" where
  "resolve resolve_all hostname target_id now w =
     (let (out, w1) = resolve_quietly resolve_all hostname w
      in (bindE out (\<lambda>outcome.
            case outcome of
              ResolutionFailure _ _ _ \<Rightarrow> raise TargetUnresolvedError
            | ResolutionSuccess name addresses \<Rightarrow>
                if evaluate_all addresses \<noteq> None then raise TargetResolutionBlockedError
                else binding_create policy_validate name addresses now target_id), w1))"

definition ensure_still_valid :: "'w resolver \<Rightarrow> binding \<Rightarrow> 'w \<Rightarrow> unit result \<times> 'w" where
  "ensure_still_valid resolve_all b w =
     (let (out, w1) = resolve_quietly resolve_all (vb_hostname b) w
      in (bindE out (\<lambda>outcome.
            case outcome of
              ResolutionFailure _ _ _ \<Rightarrow> raise TargetUnresolvedError
            | ResolutionSuccess _ addresses \<Rightarrow>
                if set addresses \<noteq> set (vb_addresses b) then raise DnsRebindingDetectedError
                else if evaluate_all addresses \<noteq> None then raise DnsRebindingDetectedError
                else Inr ()), w1))"

section \<open>Redirects\<close>

definition allowed_redirect_schemes :: "pystr list" where
  "allowed_redirect_schemes = [u ''http'', u ''https'']"

definition is_prohibited_name :: "pystr \<Rightarrow> bool" where
  "is_prohibited_name host =
     (case normalize_target host (u ''https://'' @ host @ u ''/'') of Inl _ \<Rightarrow> True | Inr _ \<Rightarrow> False)"

definition redirect_evaluate ::
  "'w resolver \<Rightarrow> timestamp \<Rightarrow> network_context \<Rightarrow> pystr \<Rightarrow> 'w \<Rightarrow> network_context result \<times> 'w" where
  "redirect_evaluate resolve_all now current location w =
     (case urlsplit location of
        None \<Rightarrow> (Inl ValueError, w)
      | Some parts \<Rightarrow>
          if sp_scheme parts = [] \<and> sp_netloc parts = [] then (Inr current, w)
          else if py_lower (sp_scheme parts) \<notin> set allowed_redirect_schemes
          then (raise RedirectDestinationBlockedError, w)
          else
            (let host = py_rstrip_chars (case url_hostname parts of None \<Rightarrow> [] | Some h \<Rightarrow> h) [46]
             in if host = [] then (raise RedirectDestinationBlockedError, w)
                else if is_prohibited_name host then (raise RedirectDestinationBlockedError, w)
                else case resolve resolve_all host None now w of
                  (Inl e, w1) \<Rightarrow>
                    (Inl (if e \<in> {Domain TargetUnresolvedError, Domain TargetResolutionBlockedError}
                          then Domain RedirectDestinationBlockedError else e), w1)
                | (Inr b, w1) \<Rightarrow> (Inr (context_create b), w1)))"

section \<open>Sound bindings and contexts\<close>

text \<open>
  What the boundary guarantees: every address of a binding passed the admission policy, its pin (if
  any) is one of them, and a context's allow-list is its binding's address set.
\<close>

definition sound_binding :: "binding \<Rightarrow> bool" where
  "sound_binding b \<longleftrightarrow> (\<forall>a \<in> set (vb_addresses b). allowed_ip a)
     \<and> (case vb_pinned b of None \<Rightarrow> True | Some a \<Rightarrow> a \<in> set (vb_addresses b))"

definition sound_context :: "network_context \<Rightarrow> bool" where
  "sound_context c \<longleftrightarrow> sound_binding (cx_binding c) \<and> cx_egress c = set (vb_addresses (cx_binding c))"

lemma binding_create_sound:
  "binding_create policy_validate h as now t = Inr b \<Longrightarrow>
     sound_binding b \<and> vb_hostname b = h \<and> vb_addresses b = as \<and> vb_pinned b = None"
  by (auto simp: binding_create_def policy_validate_def sound_binding_def evaluate_all_None
      bindE_Inr_iff split: if_splits)

lemma with_pinned_sound:
  "sound_binding b \<Longrightarrow> with_pinned b a = Inr b' \<Longrightarrow>
     sound_binding b' \<and> vb_pinned b' = Some a \<and> vb_addresses b' = vb_addresses b \<and> vb_hostname b' = vb_hostname b"
  by (auto simp: with_pinned_def sound_binding_def split: if_splits)

lemma context_create_sound: "sound_binding b \<Longrightarrow> sound_context (context_create b)"
  by (simp add: sound_context_def context_create_def)

lemma resolve_InrD:
  assumes "resolve ra h t now w = (Inr b, w')"
  shows "\<exists>n as. ra h w = (Inr (ResolutionSuccess n as), w') \<and> (\<forall>a \<in> set as. allowed_ip a)
    \<and> b = \<lparr>vb_hostname = n, vb_addresses = as, vb_validated_at = now, vb_target_id = t, vb_pinned = None\<rparr>"
proof -
  obtain out w1 where ra: "ra h w = (out, w1)" by fastforce
  show ?thesis
  proof (cases out)
    case (Inl e)
    with assms ra show ?thesis by (simp add: resolve_def resolve_quietly_def)
  next
    case (Inr o')
    show ?thesis
    proof (cases o')
      case (ResolutionSuccess n as)
      with assms ra Inr have "evaluate_all as = None"
        by (simp add: resolve_def resolve_quietly_def split: if_splits)
      with assms ra Inr ResolutionSuccess show ?thesis
        by (simp add: resolve_def resolve_quietly_def binding_create_def policy_validate_def evaluate_all_None [symmetric])
    next
      case (ResolutionFailure n k d)
      with assms ra Inr show ?thesis by (simp add: resolve_def resolve_quietly_def)
    qed
  qed
qed

lemma resolve_sound:
  assumes "resolve ra h t now w = (Inr b, w')"
  shows "sound_binding b \<and> vb_pinned b = None \<and> vb_target_id b = t"
  using resolve_InrD [OF assms] by (auto simp: sound_binding_def)

lemma resolve_error:
  assumes "resolve ra h t now w = (Inl e, w')"
  shows "e \<in> {Domain TargetUnresolvedError, Domain TargetResolutionBlockedError}"
proof -
  obtain out w1 where ra: "ra h w = (out, w1)" by fastforce
  show ?thesis
  proof (cases out)
    case (Inl e)
    with assms ra show ?thesis by (simp add: resolve_def resolve_quietly_def)
  next
    case (Inr o')
    with assms ra show ?thesis
      by (cases o') (auto simp: resolve_def resolve_quietly_def binding_create_def policy_validate_def split: if_splits)
  qed
qed

lemma require_destination_sound:
  "sound_context c \<Longrightarrow> require_destination c = Inr a \<Longrightarrow> allowed_ip a"
  by (auto simp: require_destination_def authorize_destination_def egress_authorize_def sound_context_def
      sound_binding_def bindE_Inr_iff split: option.splits if_splits)

lemma redirect_evaluate_sound:
  assumes "redirect_evaluate ra now c loc w = (Inr c', w')" and "sound_context c"
  shows "sound_context c'"
  using assms
  by (auto simp: redirect_evaluate_def Let_def dest: resolve_sound context_create_sound
      split: option.splits if_splits prod.splits sum.splits)

lemma redirect_evaluate_error:
  assumes "redirect_evaluate ra now c loc w = (Inl e, w')"
  shows "e = Domain RedirectDestinationBlockedError \<or> (e = ValueError \<and> urlsplit loc = None \<and> w' = w)"
  using assms resolve_error
  by (fastforce simp: redirect_evaluate_def Let_def split: option.splits if_splits prod.splits sum.splits)

section \<open>The resolver contract as an interface\<close>

text \<open>
  What a client of a resolver may rely on: a success names at least one address, lists each once, and
  belongs to the (trimmed) name that was asked for.
\<close>

locale hostname_resolver =
  fixes resolve_all :: "'w resolver"
  assumes success_nonempty: "resolve_all h w = (Inr (ResolutionSuccess n as), w') \<Longrightarrow> as \<noteq> []"
    and success_distinct: "resolve_all h w = (Inr (ResolutionSuccess n as), w') \<Longrightarrow> distinct as"
    and success_name: "resolve_all h w = (Inr (ResolutionSuccess n as), w') \<Longrightarrow> n = py_strip h"
begin

lemma binding_nonempty:
  assumes "resolve resolve_all h t now w = (Inr b, w')"
  shows "vb_addresses b \<noteq> [] \<and> distinct (vb_addresses b) \<and> vb_hostname b = py_strip h \<and> sound_binding b"
proof -
  from resolve_InrD [OF assms] obtain n as where o: "resolve_all h w = (Inr (ResolutionSuccess n as), w')"
    and b: "vb_addresses b = as" "vb_hostname b = n" by auto
  with success_nonempty [OF o] success_distinct [OF o] success_name [OF o] resolve_sound [OF assms]
  show ?thesis by simp
qed

lemma pin_first:
  assumes "resolve resolve_all h t now w = (Inr b, w')"
  shows "\<exists>b'. with_pinned b (hd (vb_addresses b)) = Inr b' \<and> sound_context (context_create b')
    \<and> require_destination (context_create b') = Inr (hd (vb_addresses b))
    \<and> allowed_ip (hd (vb_addresses b))"
proof -
  note b = binding_nonempty [OF assms]
  then have in1: "hd (vb_addresses b) \<in> set (vb_addresses b)" by simp
  then obtain b' where b': "with_pinned b (hd (vb_addresses b)) = Inr b'" by (auto simp: with_pinned_def)
  from with_pinned_sound [OF _ b'] b in1 show ?thesis
    by (auto simp: b' context_create_sound require_destination_def authorize_destination_def
        egress_authorize_def context_create_def sound_context_def sound_binding_def)
qed

lemma redirect_fresh:
  assumes "redirect_evaluate resolve_all now c loc w = (Inr c', w')" and "urlsplit loc = Some parts"
    and "sp_netloc parts \<noteq> [] \<or> sp_scheme parts \<noteq> []"
  shows "vb_addresses (cx_binding c') \<noteq> [] \<and> sound_context c'"
proof -
  from assms obtain h b where "resolve resolve_all h None now w = (Inr b, w')" "c' = context_create b"
    by (auto simp: redirect_evaluate_def Let_def split: if_splits prod.splits sum.splits)
  then show ?thesis using binding_nonempty context_create_sound by (metis context_create_def network_context.select_convs(1))
qed

end

text \<open>The platform adapter keeps the contract, whatever \<open>getaddrinfo\<close> answers.\<close>

lemma platform_success:
  assumes "platform_resolve_all gai h w = (Inr (ResolutionSuccess n as), w')"
  shows "as \<noteq> [] \<and> distinct as \<and> n = py_strip h"
proof -
  from assms obtain found where f: "remdups found \<noteq> []" "as = sort_key ip_key (remdups found)" and n: "n = py_strip h"
    by (auto simp: platform_resolve_all_def Let_def bindE_Inr_iff split: if_splits prod.splits gai_result.splits)
  have "set as = set (remdups found)" unfolding f(2) by (rule set_sort)
  then have "as \<noteq> []" using f(1) by auto
  moreover have "distinct as" unfolding f(2) by simp
  ultimately show ?thesis using n by simp
qed

interpretation platform: hostname_resolver "platform_resolve_all gai" for gai :: "pystr \<Rightarrow> 'w \<Rightarrow> gai_result \<times> 'w"
  by unfold_locales (drule platform_success, simp)+

section \<open>Properties\<close>

text \<open>C19 [resolved_scan_pins_admitted_address]: whatever the operating system answers, a binding that the
  resolution service issues through the platform resolver names at least one address, all of them
  admitted by the IP policy; pinning its first address succeeds and the context built from it
  authorizes exactly that admitted destination.\<close>

theorem resolved_scan_pins_admitted_address:
  assumes "resolve (platform_resolve_all gai) h t now w = (Inr b, w')"
  shows "vb_addresses b \<noteq> [] \<and> distinct (vb_addresses b) \<and> set (vb_addresses b) \<subseteq> {a. allowed_ip a}
    \<and> vb_hostname b = py_strip h
    \<and> (\<exists>b'. with_pinned b (hd (vb_addresses b)) = Inr b'
         \<and> require_destination (context_create b') = Inr (hd (vb_addresses b)))"
  using platform.binding_nonempty [OF assms] platform.pin_first [OF assms]
  by (auto simp: sound_binding_def)

definition example_gai :: "pystr \<Rightarrow> 'w \<Rightarrow> gai_result \<times> 'w" where
  "example_gai name w = (GaiRecords [(2, u ''8.8.8.8''), (1, u ''x'')], w)"

lemma ip_8888: "ip_of_string (u ''8.8.8.8'') = Some (V4 0x08080808)"
  by (simp add: norm_eval ip_parse_eval digits_value_def)

lemma allowed_8888: "allowed_ip (V4 0x08080808)"
  by (simp add: allowed_ip_iff cloud_metadata_v4_def in_net4_def is_private4_def private4_def cgnat4_def)

lemma resolve_example:
  "resolve (platform_resolve_all example_gai) (u ''a'') None 0 w
     = (Inr \<lparr>vb_hostname = u ''a'', vb_addresses = [V4 0x08080808], vb_validated_at = 0,
            vb_target_id = None, vb_pinned = None\<rparr>, w)"
proof -
  have "py_strip (u ''a'') = u ''a''" by (simp add: norm_eval py_isspace_def)
  then have "platform_resolve_all example_gai (u ''a'') w = (Inr (ResolutionSuccess (u ''a'') [V4 0x08080808]), w)"
    by (simp add: platform_resolve_all_def example_gai_def relevant_families_def ip_8888)
  moreover have "evaluate_all [V4 0x08080808] = None" using allowed_8888 by (simp add: evaluate_all_None)
  ultimately show ?thesis
    by (simp add: resolve_def resolve_quietly_def binding_create_def policy_validate_def)
qed

theorem resolved_scan_pins_admitted_address_witness:
  "\<exists>b'. with_pinned \<lparr>vb_hostname = u ''a'', vb_addresses = [V4 0x08080808], vb_validated_at = 0,
            vb_target_id = None, vb_pinned = None\<rparr> (V4 0x08080808) = Inr b'
     \<and> require_destination (context_create b') = Inr (V4 0x08080808)"
  using resolved_scan_pins_admitted_address [OF resolve_example [of "()"]] by simp

text \<open>The anti-rebinding check passes exactly when a fresh resolution
  succeeds with the very address set of the binding and every address is still admitted; drift of any
  kind is the rebinding error and a failed lookup the unresolved error.\<close>

theorem rebinding_check_exact:
  "case ra (vb_hostname b) w of
     (Inr (ResolutionSuccess n as), w1) \<Rightarrow>
       ensure_still_valid ra b w
         = (if set as = set (vb_addresses b) \<and> set as \<subseteq> {a. allowed_ip a} then Inr ()
            else raise DnsRebindingDetectedError, w1)
   | (_, w1) \<Rightarrow> ensure_still_valid ra b w = (raise TargetUnresolvedError, w1)"
proof -
  obtain out w1 where ra: "ra (vb_hostname b) w = (out, w1)" by fastforce
  show ?thesis
  proof (cases out)
    case (Inl e)
    with ra show ?thesis by (simp add: ensure_still_valid_def resolve_quietly_def)
  next
    case (Inr o')
    show ?thesis
    proof (cases o')
      case (ResolutionSuccess n as)
      have "evaluate_all as = None \<longleftrightarrow> set as \<subseteq> {a. allowed_ip a}" by (simp only: evaluate_all_None) blast
      then show ?thesis
        using ra Inr ResolutionSuccess by (cases "evaluate_all as") (simp_all add: ensure_still_valid_def resolve_quietly_def)
    next
      case (ResolutionFailure n k d)
      with ra Inr show ?thesis by (simp add: ensure_still_valid_def resolve_quietly_def)
    qed
  qed
qed

text \<open>Following a redirect from a sound context ends in a sound context
  (every address admitted, allow-list equal to the binding) or in the redirect-blocked error; the one
  other exception is the \<open>ValueError\<close> of a location that does not parse, raised before any lookup.\<close>

theorem redirect_stays_in_policy:
  assumes "sound_context c"
  shows "case redirect_evaluate ra now c loc w of
     (Inr c', w') \<Rightarrow> sound_context c'
   | (Inl e, w') \<Rightarrow> e = Domain RedirectDestinationBlockedError \<or> (e = ValueError \<and> urlsplit loc = None \<and> w' = w)"
proof (cases "redirect_evaluate ra now c loc w")
  case (Pair r w')
  show ?thesis
  proof (cases r)
    case (Inl e)
    with redirect_evaluate_error [of ra now c loc w e w'] Pair show ?thesis by auto
  next
    case (Inr c')
    with redirect_evaluate_sound [of ra now c loc w c' w'] assms Pair show ?thesis by auto
  qed
qed

definition example_binding :: binding where
  "example_binding = \<lparr>vb_hostname = u ''a'', vb_addresses = [V4 0x08080808], vb_validated_at = 0,
     vb_target_id = None, vb_pinned = Some (V4 0x08080808)\<rparr>"

lemma example_binding_sound: "sound_context (context_create example_binding)"
  using allowed_8888 by (simp add: sound_context_def context_create_def sound_binding_def example_binding_def)

theorem redirect_stays_in_policy_witness:
  "case redirect_evaluate (platform_resolve_all example_gai) 0 (context_create example_binding) (u ''http://['') () of
     (Inr c', w') \<Rightarrow> sound_context c'
   | (Inl e, w') \<Rightarrow> e = Domain RedirectDestinationBlockedError \<or> (e = ValueError \<and> urlsplit (u ''http://['') = None \<and> w' = ())"
  by (rule redirect_stays_in_policy [OF example_binding_sound])

end
