(* ===== verification/JsonText.thy ===== *)
theory JsonText
  imports PyJson
begin

text \<open>
  \<open>json.loads\<close> of Python 3.12 with its error messages, \<open>json.dumps\<close> in insertion order, and
  \<open>base64\<close>.  A float literal is kept as its text.  An integer literal of more than 4300 digits is a
  plain \<open>ValueError\<close>.  Nesting is bounded by fuel that the length of the text always covers.
\<close>

section \<open>Scanning\<close>

datatype json_error = Stop | Decode string | TooManyDigits | OutOfFuel

definition json_ws :: "nat \<Rightarrow> bool" where
  "json_ws c \<longleftrightarrow> c \<in> {32, 9, 10, 13}"

definition skip_ws :: "pystr \<Rightarrow> pystr" where
  "skip_ws s = dropWhile json_ws s"

definition hex4 :: "pystr \<Rightarrow> nat option" where
  "hex4 s = (if length s = 4 \<and> list_all is_hex s then Some (hex_digits_value s) else None)"

definition escape_of :: "nat \<Rightarrow> nat option" where
  "escape_of c = map_of [(34, 34), (92, 92), (47, 47), (98, 8), (102, 12), (110, 10), (114, 13), (116, 9)] c"

definition cons_char :: "nat \<Rightarrow> json_error + (pystr \<times> pystr) \<Rightarrow> json_error + (pystr \<times> pystr)" where
  "cons_char c r = bindE r (\<lambda>(s, rest). Inr (c # s, rest))"

text \<open>The characters of a string literal after its opening quote.\<close>

function scan_string :: "pystr \<Rightarrow> json_error + (pystr \<times> pystr)" where
  "scan_string [] = Inl (Decode ''Unterminated string starting at'')"
| "scan_string (c # cs) =
     (if c = 34 then Inr ([], cs)
      else if c = 92 then
        (case cs of
           [] \<Rightarrow> Inl (Decode ''Unterminated string starting at'')
         | e # es \<Rightarrow>
             if e = 117 then
               (if length es \<le> 4 then Inl (Decode (''Invalid '' @ [CHR 0x5C] @ ''uXXXX escape''))
                else case hex4 (take 4 es) of
                  None \<Rightarrow> Inl (Decode (''Invalid '' @ [CHR 0x5C] @ ''uXXXX escape''))
                | Some v \<Rightarrow>
                    (let rest = drop 4 es
                     in if 55296 \<le> v \<and> v \<le> 56319 \<and> length rest \<ge> 7 \<and> take 2 rest = [92, 117] then
                          (case hex4 (take 4 (drop 2 rest)) of
                             None \<Rightarrow> Inl (Decode (''Invalid '' @ [CHR 0x5C] @ ''uXXXX escape''))
                           | Some v2 \<Rightarrow>
                               if 56320 \<le> v2 \<and> v2 \<le> 57343
                               then cons_char (65536 + (v - 55296) * 1024 + (v2 - 56320)) (scan_string (drop 6 rest))
                               else cons_char v (scan_string rest))
                        else cons_char v (scan_string rest)))
             else (case escape_of e of
                     None \<Rightarrow> Inl (Decode (''Invalid '' @ [CHR 0x5C] @ ''escape''))
                   | Some x \<Rightarrow> cons_char x (scan_string es)))
      else if c \<le> 31 then Inl (Decode ''Invalid control character at'')
      else cons_char c (scan_string cs))"
  by pat_completeness auto
termination by (relation "measure length") auto

text \<open>A number: the integer part, then a fraction and an exponent if they are complete.\<close>

definition scan_digits :: "pystr \<Rightarrow> pystr \<times> pystr" where
  "scan_digits s = (takeWhile ascii_digit s, dropWhile ascii_digit s)"

definition scan_frac :: "pystr \<Rightarrow> pystr \<times> pystr" where
  "scan_frac s =
     (case s of
        c # d # r \<Rightarrow> if c = 46 \<and> ascii_digit d
                     then (let (ds, r') = scan_digits (d # r) in (46 # ds, r')) else ([], s)
      | _ \<Rightarrow> ([], s))"

definition scan_exp :: "pystr \<Rightarrow> pystr \<times> pystr" where
  "scan_exp s =
     (case s of
        c # r \<Rightarrow>
          if c = 101 \<or> c = 69 then
            (let (sign, r1) = (case r of x # y \<Rightarrow> if x = 43 \<or> x = 45 then ([x], y) else ([], r) | [] \<Rightarrow> ([], r));
                 (ds, r2) = scan_digits r1
             in if ds = [] then ([], s) else (c # sign @ ds, r2))
          else ([], s)
      | [] \<Rightarrow> ([], s))"

definition scan_number :: "pystr \<Rightarrow> json_error + (json \<times> pystr)" where
  "scan_number s =
     (let (sign, s1) = (case s of c # r \<Rightarrow> if c = 45 then ([45], r) else ([], s) | [] \<Rightarrow> ([], s))
      in case s1 of
        [] \<Rightarrow> Inl Stop
      | c # r \<Rightarrow>
          if \<not> ascii_digit c then Inl Stop
          else
            (let (ip, s2) = (if c = 48 then ([48], r) else scan_digits s1);
                 (fr, s3) = scan_frac s2;
                 (ex, s4) = scan_exp s3
             in if fr = [] \<and> ex = [] then
                  (if length ip > 4300 then Inl TooManyDigits
                   else Inr (JInt (if sign = [] then int (digits_value ip) else - int (digits_value ip)), s2))
                else Inr (JFloat (sign @ ip @ fr @ ex), s4)))"

definition scan_word :: "string \<Rightarrow> json \<Rightarrow> pystr \<Rightarrow> (json \<times> pystr) option" where
  "scan_word wd v s = (if py_startswith s (u wd) then Some (v, drop (length wd) s) else None)"

definition scan_atom :: "pystr \<Rightarrow> json_error + (json \<times> pystr)" where
  "scan_atom s =
     (case List.find (\<lambda>(wd, v). py_startswith s (u wd))
        [(''null'', JNull), (''true'', JBool True), (''false'', JBool False), (''NaN'', JFloat (u ''NaN'')),
         (''Infinity'', JFloat (u ''Infinity'')), (''-Infinity'', JFloat (u ''-Infinity''))] of
        Some (wd, v) \<Rightarrow> Inr (v, drop (length wd) s)
      | None \<Rightarrow> scan_number s)"

text \<open>\<open>Stop\<close> is the scanner's \<open>StopIteration\<close>, which every caller turns into "Expecting value".\<close>

fun expecting :: "json_error + 'a \<Rightarrow> json_error + 'a" where
  "expecting (Inl Stop) = Inl (Decode ''Expecting value'')"
| "expecting r = r"

fun scan_value :: "nat \<Rightarrow> pystr \<Rightarrow> json_error + (json \<times> pystr)"
and scan_elements :: "nat \<Rightarrow> pystr \<Rightarrow> json_error + (json list \<times> pystr)"
and scan_members :: "nat \<Rightarrow> pystr \<Rightarrow> json_error + ((pystr \<times> json) list \<times> pystr)" where
  "scan_value 0 s = Inl OutOfFuel"
| "scan_value (Suc n) s =
     (case s of
        [] \<Rightarrow> Inl Stop
      | c # r \<Rightarrow>
          if c = 34 then bindE (scan_string r) (\<lambda>(t, r'). Inr (JStr t, r'))
          else if c = 123 then
            (case skip_ws r of
               d # r' \<Rightarrow> if d = 125 then Inr (JObj [], r')
                         else bindE (scan_members n (d # r')) (\<lambda>(kvs, r2). Inr (JObj (dict_of kvs), r2))
             | [] \<Rightarrow> bindE (scan_members n []) (\<lambda>(kvs, r2). Inr (JObj (dict_of kvs), r2)))
          else if c = 91 then
            (case skip_ws r of
               d # r' \<Rightarrow> if d = 93 then Inr (JArr [], r')
                         else bindE (scan_elements n (d # r')) (\<lambda>(vs, r2). Inr (JArr vs, r2))
             | [] \<Rightarrow> bindE (scan_elements n []) (\<lambda>(vs, r2). Inr (JArr vs, r2)))
          else scan_atom s)"
| "scan_elements 0 s = Inl OutOfFuel"
| "scan_elements (Suc n) s =
     bindE (expecting (scan_value n s)) (\<lambda>(v, r).
       case skip_ws r of
         [] \<Rightarrow> Inl (Decode (''Expecting '' @ [CHR 0x27, CHR 0x2C, CHR 0x27] @ '' delimiter''))
       | d # r' \<Rightarrow>
           if d = 93 then Inr ([v], r')
           else if d \<noteq> 44 then Inl (Decode (''Expecting '' @ [CHR 0x27, CHR 0x2C, CHR 0x27] @ '' delimiter''))
           else bindE (scan_elements n (skip_ws r')) (\<lambda>(vs, r2). Inr (v # vs, r2)))"
| "scan_members 0 s = Inl OutOfFuel"
| "scan_members (Suc n) s =
     (case s of
        [] \<Rightarrow> Inl (Decode ''Expecting property name enclosed in double quotes'')
      | q # r0 \<Rightarrow>
          if q \<noteq> 34 then Inl (Decode ''Expecting property name enclosed in double quotes'')
          else bindE (scan_string r0) (\<lambda>(k, r1).
            case skip_ws r1 of
              [] \<Rightarrow> Inl (Decode (''Expecting '' @ [CHR 0x27, CHR 0x3A, CHR 0x27] @ '' delimiter''))
            | d # r2 \<Rightarrow>
                if d \<noteq> 58 then Inl (Decode (''Expecting '' @ [CHR 0x27, CHR 0x3A, CHR 0x27] @ '' delimiter''))
                else bindE (expecting (scan_value n (skip_ws r2))) (\<lambda>(v, r3).
                  case skip_ws r3 of
                    [] \<Rightarrow> Inl (Decode (''Expecting '' @ [CHR 0x27, CHR 0x2C, CHR 0x27] @ '' delimiter''))
                  | e # r4 \<Rightarrow>
                      if e = 125 then Inr ([(k, v)], r4)
                      else if e \<noteq> 44 then Inl (Decode (''Expecting '' @ [CHR 0x27, CHR 0x2C, CHR 0x27] @ '' delimiter''))
                      else bindE (scan_members n (skip_ws r4)) (\<lambda>(kvs, r5). Inr ((k, v) # kvs, r5)))))"

definition json_loads :: "pystr \<Rightarrow> json_error + json" where
  "json_loads s =
     (if py_startswith s [65279] then Inl (Decode ''Unexpected UTF-8 BOM (decode using utf-8-sig)'')
      else bindE (expecting (scan_value (2 * length s + 2) (skip_ws s))) (\<lambda>(v, r).
        if skip_ws r = [] then Inr v else Inl (Decode ''Extra data'')))"

section \<open>Writing in insertion order\<close>

fun dumps_plain :: "pystr \<Rightarrow> pystr \<Rightarrow> json \<Rightarrow> pystr" where
  "dumps_plain isep ksep JNull = u ''null''"
| "dumps_plain isep ksep (JBool b) = (if b then u ''true'' else u ''false'')"
| "dumps_plain isep ksep (JInt i) = int_to_text i"
| "dumps_plain isep ksep (JFloat t) = t"
| "dumps_plain isep ksep (JStr s) = json_string s"
| "dumps_plain isep ksep (JArr vs) = 91 # py_join isep (map (dumps_plain isep ksep) vs) @ [93]"
| "dumps_plain isep ksep (JObj kvs) =
     123 # py_join isep (map (\<lambda>(k, v). json_string k @ ksep @ dumps_plain isep ksep v) kvs) @ [125]"

abbreviation dumps_compact :: "json \<Rightarrow> pystr" where
  "dumps_compact \<equiv> dumps_plain [44] [58]"

abbreviation dumps_default :: "json \<Rightarrow> pystr" where
  "dumps_default \<equiv> dumps_plain [44, 32] [58, 32]"

section \<open>Base64\<close>

definition b64_char :: "nat \<Rightarrow> nat" where
  "b64_char n =
     (if n < 26 then 65 + n else if n < 52 then 71 + n else if n < 62 then n - 4 else if n = 62 then 43 else 47)"

fun b64encode :: "nat list \<Rightarrow> pystr" where
  "b64encode [] = []"
| "b64encode [a] = [b64_char (a div 4), b64_char (a mod 4 * 16), 61, 61]"
| "b64encode [a, b] =
     [b64_char (a div 4), b64_char (a mod 4 * 16 + b div 16), b64_char (b mod 16 * 4), 61]"
| "b64encode (a # b # c # r) =
     [b64_char (a div 4), b64_char (a mod 4 * 16 + b div 16), b64_char (b mod 16 * 4 + c div 64),
      b64_char (c mod 64)] @ b64encode r"

definition b64_value :: "nat \<Rightarrow> nat option" where
  "b64_value c =
     (if 65 \<le> c \<and> c \<le> 90 then Some (c - 65)
      else if 97 \<le> c \<and> c \<le> 122 then Some (c - 71)
      else if 48 \<le> c \<and> c \<le> 57 then Some (c + 4)
      else if c = 43 then Some 62 else if c = 47 then Some 63 else None)"

text \<open>
  \<open>base64.b64decode\<close> (not strict): characters outside the alphabet are skipped, a quantum ends at its
  padding, and an incomplete last quantum is an error (\<open>None\<close>).  The accumulator is the state of
  \<open>binascii.a2b_base64\<close>: position in the quantum, left bits, pad count.
\<close>

fun a2b :: "pystr \<Rightarrow> nat \<Rightarrow> nat \<Rightarrow> nat \<Rightarrow> nat list option" where
  "a2b [] quad left pads = (if quad = 0 then Some [] else None)"
| "a2b (c # cs) quad left pads =
     (if c = 61 then
        (if quad \<ge> 2 \<and> quad + pads + 1 \<ge> 4 then Some []
         else a2b cs quad left (if quad \<ge> 2 then Suc pads else pads))
      else case b64_value c of
        None \<Rightarrow> a2b cs quad left pads
      | Some v \<Rightarrow>
          if quad = 0 then a2b cs 1 v 0
          else if quad = 1 then map_option ((#) ((left * 4 + v div 16) mod 256)) (a2b cs 2 (v mod 16) 0)
          else if quad = 2 then map_option ((#) ((left * 16 + v div 4) mod 256)) (a2b cs 3 (v mod 4) 0)
          else map_option ((#) ((left * 64 + v) mod 256)) (a2b cs 0 0 0))"

definition b64decode :: "pystr \<Rightarrow> nat list option" where
  "b64decode s = a2b s 0 0 0"

section \<open>Evaluation and lengths\<close>

text \<open>Unfolding steps that fire only on a text known to start with a character.\<close>

declare scan_value.simps [simp del] scan_elements.simps [simp del] scan_members.simps [simp del]

lemmas scan_value_eval = scan_value.simps(2) [of "pred_numeral k" "c # r" for k c r, folded numeral_eq_Suc, simplified list.case]
lemmas scan_elements_eval = scan_elements.simps(2) [of "pred_numeral k" "c # r" for k c r, folded numeral_eq_Suc]
lemmas scan_members_eval = scan_members.simps(2) [of "pred_numeral k" "c # r" for k c r, folded numeral_eq_Suc, simplified list.case]

lemmas json_eval = text_defs json_loads_def scan_value_eval scan_elements_eval scan_members_eval skip_ws_def
  json_ws_def scan_atom_def scan_number_def scan_digits_def scan_frac_def scan_exp_def cons_char_def escape_of_def
  ascii_digit_def py_startswith_def digits_value_def dict_of_def

lemma length_b64encode: "length (b64encode bs) = 4 * ((length bs + 2) div 3)"
proof (induction bs rule: b64encode.induct)
  case (4 a b c r)
  have "(n + 5) div 3 = Suc ((n + 2) div 3)" for n :: nat by presburger
  with 4 show ?case by (simp add: add.commute)
qed simp_all

end
