(* ===== verification/HttpTransport.thy ===== *)
theory HttpTransport
  imports ScanNet Printable
begin

text \<open>
  The HTTP contract (\<open>domain/scanning/http_contract.py\<close>) and the sandbox transport that fulfils it
  (\<open>scanning/sandbox/http_transport.py\<close>).  The state \<open>'s\<close> is the sandbox together with everything
  outside the process; \<open>run\<close> executes a command in the sandbox, \<open>cancelled\<close> reads the cancellation
  flag.  Timeouts are whole milliseconds.  The wall-clock \<open>elapsed_ms\<close> is kept as the number's text.
\<close>

section \<open>Limits and targets\<close>

definition allowed_http_schemes :: "pystr list" where
  "allowed_http_schemes = [u ''http'', u ''https'']"

definition default_ports :: "(pystr \<times> nat) list" where
  "default_ports = [(u ''http'', 80), (u ''https'', 443)]"

definition transport_owned_headers :: "pystr list" where
  "transport_owned_headers = [u ''host'', u ''content-length'', u ''connection'', u ''transfer-encoding'']"

record http_limits =
  hl_connect_timeout_ms :: int
  hl_read_timeout_ms :: int
  hl_max_response_bytes :: int
  hl_max_redirects :: int
  hl_max_requests :: int

definition default_limits :: http_limits where
  "default_limits = \<lparr>hl_connect_timeout_ms = 5000, hl_read_timeout_ms = 15000,
     hl_max_response_bytes = 2000000, hl_max_redirects = 10, hl_max_requests = 4\<rparr>"

definition limits_ok :: "http_limits \<Rightarrow> bool" where
  "limits_ok l \<longleftrightarrow> hl_connect_timeout_ms l > 0 \<and> hl_read_timeout_ms l > 0 \<and> hl_max_response_bytes l > 0
     \<and> hl_max_redirects l > 0 \<and> hl_max_requests l > 0"

definition make_limits :: "http_limits \<Rightarrow> http_limits result" where
  "make_limits l = (if limits_ok l then Inr l else Inl ValueError)"

record connection_target =
  ct_address :: ip_address
  ct_port :: nat
  ct_scheme :: pystr
  ct_hostname :: pystr

definition target_for_context ::
  "network_context \<Rightarrow> pystr \<Rightarrow> nat option \<Rightarrow> connection_target result" where
  "target_for_context c scheme port =
     (let s = py_lower scheme
      in if s \<notin> set allowed_http_schemes then Inl ValueError
         else case vb_pinned (cx_binding c) of
           None \<Rightarrow> raise EgressDeniedError
         | Some pinned \<Rightarrow>
             bindE (authorize_destination c pinned) (\<lambda>_.
             bindE (case port of Some p \<Rightarrow> Inr p | None \<Rightarrow> some_or KeyError (map_of default_ports s)) (\<lambda>p.
               Inr \<lparr>ct_address = pinned, ct_port = p, ct_scheme = s, ct_hostname = vb_hostname (cx_binding c)\<rparr>)))"

record request_spec =
  rq_method :: pystr
  rq_path :: pystr
  rq_headers :: "(pystr \<times> pystr) list"
  rq_body :: "nat list option"

definition make_spec ::
  "pystr \<Rightarrow> pystr \<Rightarrow> (pystr \<times> pystr) list \<Rightarrow> nat list option \<Rightarrow> request_spec result" where
  "make_spec method path headers body =
     (if py_upper method \<notin> {u ''GET'', u ''HEAD'', u ''POST'', u ''OPTIONS''} then Inl ValueError
      else if \<not> py_startswith path [47] then Inl ValueError
      else if set (map (\<lambda>(k, v). py_lower k) headers) \<inter> set transport_owned_headers \<noteq> {} then Inl ValueError
      else Inr \<lparr>rq_method = method, rq_path = path, rq_headers = headers, rq_body = body\<rparr>)"

record scan_request =
  hr_context :: network_context
  hr_spec :: request_spec
  hr_target :: connection_target

definition request_authorize ::
  "network_context \<Rightarrow> request_spec \<Rightarrow> pystr \<Rightarrow> nat option \<Rightarrow> scan_request result" where
  "request_authorize c spec scheme port =
     bindE (target_for_context c scheme port) (\<lambda>t.
       Inr \<lparr>hr_context = c, hr_spec = spec, hr_target = t\<rparr>)"

record response_data =
  rp_status :: int
  rp_headers :: "(pystr \<times> pystr) list"
  rp_body :: "nat list"
  rp_elapsed_ms :: pystr
  rp_final_target :: connection_target
  rp_via_redirects :: "pystr list"
  rp_truncated :: bool

text \<open>The revalidating walker of the contract module: its state is the hops left and the locations seen.\<close>

definition chain_follow ::
  "(network_context \<Rightarrow> pystr \<Rightarrow> 's \<Rightarrow> network_context result \<times> 's)
     \<Rightarrow> int \<times> pystr set \<Rightarrow> network_context \<Rightarrow> pystr \<Rightarrow> 's \<Rightarrow> (network_context result \<times> (int \<times> pystr set)) \<times> 's" where
  "chain_follow evaluate chain current location s =
     (let (remaining, seen) = chain
      in if location \<in> seen then ((raise RedirectDestinationBlockedError, chain), s)
         else if remaining \<le> 0
         then ((raise RedirectDestinationBlockedError, (remaining, insert location seen)), s)
         else (let (r, s1) = evaluate current location s
               in ((r, (remaining - 1, insert location seen)), s1)))"

section \<open>Reading a result payload\<close>

text \<open>Lines of a text: the line boundaries of \<open>str.splitlines\<close>.\<close>

definition line_break :: "nat \<Rightarrow> bool" where
  "line_break c \<longleftrightarrow> c \<in> {10, 11, 12, 13, 28, 29, 30, 133, 8232, 8233}"

fun splitlines_from :: "pystr \<Rightarrow> pystr \<Rightarrow> pystr list" where
  "splitlines_from acc [] = (if acc = [] then [] else [rev acc])"
| "splitlines_from acc (c # cs) =
     (if c = 13 then
        (case cs of d # ds \<Rightarrow> if d = 10 then rev acc # splitlines_from [] ds else rev acc # splitlines_from [] cs
         | [] \<Rightarrow> [rev acc])
      else if line_break c then rev acc # splitlines_from [] cs
      else splitlines_from (c # acc) cs)"

definition py_splitlines :: "pystr \<Rightarrow> pystr list" where
  "py_splitlines s = splitlines_from [] s"

abbreviation type_error :: exn where "type_error \<equiv> OtherException (u ''TypeError'')"

definition json_item :: "json \<Rightarrow> pystr \<Rightarrow> json result" where
  "json_item v k = (case v of JObj kvs \<Rightarrow> some_or KeyError (dict_get kvs k) | _ \<Rightarrow> Inl type_error)"

definition json_get :: "json \<Rightarrow> pystr \<Rightarrow> json \<Rightarrow> json result" where
  "json_get v k d =
     (case v of JObj kvs \<Rightarrow> Inr (dict_default kvs k d) | _ \<Rightarrow> Inl (OtherException (u ''AttributeError'')))"

fun py_truthy :: "json \<Rightarrow> bool" where
  "py_truthy JNull = False"
| "py_truthy (JBool b) = b"
| "py_truthy (JInt i) = (i \<noteq> 0)"
| "py_truthy (JFloat t) = list_ex (\<lambda>c. (49 \<le> c \<and> c \<le> 57) \<or> c = 78 \<or> c = 73) (takeWhile (\<lambda>c. c \<noteq> 101 \<and> c \<noteq> 69) t)"
| "py_truthy (JStr s) = (s \<noteq> [])"
| "py_truthy (JArr vs) = (vs \<noteq> [])"
| "py_truthy (JObj kvs) = (kvs \<noteq> [])"

fun py_iter :: "json \<Rightarrow> json list result" where
  "py_iter (JArr vs) = Inr vs"
| "py_iter (JStr s) = Inr (map (\<lambda>c. JStr [c]) s)"
| "py_iter (JObj kvs) = Inr (map (\<lambda>(k, v). JStr k) kvs)"
| "py_iter _ = Inl type_error"

definition unpack_pair :: "json \<Rightarrow> (json \<times> json) result" where
  "unpack_pair v =
     bindE (py_iter v) (\<lambda>vs. case vs of [a, b] \<Rightarrow> Inr (a, b) | _ \<Rightarrow> Inl ValueError)"

text \<open>\<open>int()\<close>; a float is truncated towards zero on its decimal text (no exponent).\<close>

definition int_of_text :: "pystr \<Rightarrow> int result" where
  "int_of_text s =
     (let t = strip_by int_space s;
          (sg, d) = (case t of c # r \<Rightarrow> if c = 45 then (- 1, r) else if c = 43 then (1, r) else (1, t) | [] \<Rightarrow> (1, t))
      in if is_ascii_digits d then Inr (sg * int (digits_value d)) else Inl ValueError)"

fun py_int :: "json \<Rightarrow> int result" where
  "py_int (JInt i) = Inr i"
| "py_int (JBool b) = Inr (if b then 1 else 0)"
| "py_int (JStr s) = int_of_text s"
| "py_int (JFloat t) = int_of_text (takeWhile (\<lambda>c. c \<noteq> 46) t)"
| "py_int _ = Inl type_error"

fun py_float :: "json \<Rightarrow> pystr result" where
  "py_float (JInt i) = Inr (int_to_text i @ u ''.0'')"
| "py_float (JFloat t) = Inr t"
| "py_float (JBool b) = Inr (if b then u ''1.0'' else u ''0.0'')"
| "py_float (JStr s) = (case scan_number (strip_by int_space s) of Inr (JFloat t, []) \<Rightarrow> Inr t
     | Inr (JInt i, []) \<Rightarrow> Inr (int_to_text i @ u ''.0'') | _ \<Rightarrow> Inl ValueError)"
| "py_float _ = Inl type_error"

fun py_b64decode :: "json \<Rightarrow> nat list result" where
  "py_b64decode (JStr s) = (if list_ex (\<lambda>c. c > 127) s then Inl ValueError else some_or ValueError (b64decode s))"
| "py_b64decode _ = Inl type_error"

definition loads_or_raise :: "pystr \<Rightarrow> json result" where
  "loads_or_raise s = (case json_loads s of Inl _ \<Rightarrow> Inl ValueError | Inr v \<Rightarrow> Inr v)"

record exec_result =
  xr_argv :: "pystr list"
  xr_exit_code :: int
  xr_stdout :: pystr
  xr_stderr :: pystr

definition success_prefix :: pystr where "success_prefix = u ''SGPT/1 ''"
definition error_prefix :: pystr where "error_prefix = u ''SGPTERR/1 ''"

definition kind_map :: "(pystr \<times> transport_failure_kind) list" where
  "kind_map = map (\<lambda>k. (kind_value k, k))
     [CONNECT_TIMEOUT, READ_TIMEOUT, TLS_ERROR, PROTOCOL_ERROR, RESPONSE_TOO_LARGE, CANCELLED]"

definition parse_success :: "connection_target \<Rightarrow> pystr \<Rightarrow> response_data result" where
  "parse_success final_target txt =
     bindE (loads_or_raise txt) (\<lambda>payload.
     bindE (bindE (json_item payload (u ''status'')) py_int) (\<lambda>status.
     bindE (bindE (json_item payload (u ''headers'')) py_iter) (\<lambda>hs.
     bindE (mapE unpack_pair hs) (\<lambda>pairs.
     bindE (bindE (json_item payload (u ''body_b64'')) py_b64decode) (\<lambda>body.
     bindE (bindE (json_item payload (u ''elapsed_ms'')) py_float) (\<lambda>elapsed.
     bindE (json_get payload (u ''truncated'') (JBool False)) (\<lambda>truncated.
       Inr \<lparr>rp_status = status, rp_headers = map (\<lambda>(k, v). (str_value k, str_value v)) pairs, rp_body = body,
            rp_elapsed_ms = elapsed, rp_final_target = final_target, rp_via_redirects = [],
            rp_truncated = py_truthy truncated\<rparr>)))))))"

definition parse_failure :: "pystr \<Rightarrow> response_data result" where
  "parse_failure txt =
     bindE (loads_or_raise txt) (\<lambda>payload.
     bindE (json_get payload (u ''kind'') JNull) (\<lambda>kind.
     bindE (json_get payload (u ''detail'') (JStr [])) (\<lambda>detail.
       Inl (ControlledTransportError (dict_default kind_map (str_value kind) PROTOCOL_ERROR) (str_value detail)))))"

definition replace_char :: "nat \<Rightarrow> nat \<Rightarrow> pystr \<Rightarrow> pystr" where
  "replace_char a b s = map (\<lambda>c. if c = a then b else c) s"

fun parse_lines :: "exec_result \<Rightarrow> connection_target \<Rightarrow> pystr list \<Rightarrow> response_data result" where
  "parse_lines r t [] =
     (let detail = take 200 (py_strip (if xr_stderr r \<noteq> [] then xr_stderr r else u ''exit='' @ int_to_text (xr_exit_code r)))
      in Inl (ControlledTransportError PROTOCOL_ERROR (replace_char 10 32 detail)))"
| "parse_lines r t (l # ls) =
     (if py_startswith l success_prefix then parse_success t (drop (length success_prefix) l)
      else if py_startswith l error_prefix then parse_failure (drop (length error_prefix) l)
      else parse_lines r t ls)"

definition parse_exec_result :: "exec_result \<Rightarrow> connection_target \<Rightarrow> response_data result" where
  "parse_exec_result r t = parse_lines r t (py_splitlines (xr_stdout r))"

section \<open>One exchange\<close>

definition redirect_statuses :: "int list" where "redirect_statuses = [301, 302, 303, 307, 308]"
definition max_spec_argv_bytes :: nat where "max_spec_argv_bytes = 65536"

definition hop_by_hop_headers :: "pystr list" where
  "hop_by_hop_headers =
     [u ''connection'', u ''keep-alive'', u ''transfer-encoding'', u ''upgrade'', u ''proxy-authorization'']"

definition get_header :: "(pystr \<times> pystr) list \<Rightarrow> pystr \<Rightarrow> pystr option" where
  "get_header headers name =
     map_option snd (List.find (\<lambda>(k, v). py_lower k = py_lower name) headers)"

definition strip_hop_headers :: "(pystr \<times> pystr) list \<Rightarrow> (pystr \<times> pystr) list" where
  "strip_hop_headers headers = filter (\<lambda>(k, v). py_lower k \<notin> set hop_by_hop_headers) headers"

definition pinned_url :: "connection_target \<Rightarrow> pystr \<Rightarrow> pystr result" where
  "pinned_url t path =
     (let host = (if ip_version (ct_address t) = 6 then 91 # ip_text (ct_address t) @ [93] else ip_text (ct_address t));
          suffix = (if py_startswith path [47] then path else 47 # path)
      in bindE (some_or KeyError (map_of default_ports (ct_scheme t))) (\<lambda>dp.
           Inr (ct_scheme t @ u ''://'' @ host
                @ (if ct_port t = dp then [] else 58 # nat_to_text (ct_port t)) @ suffix)))"

text \<open>The text of a float that is a whole number of milliseconds, in seconds.\<close>

definition ms_text :: "int \<Rightarrow> pystr" where
  "ms_text ms =
     (let n = nat ms; frac = n mod 1000;
          digits = [48 + frac div 100, 48 + frac div 10 mod 10, 48 + frac mod 10];
          shown = rstrip_by (\<lambda>c. c = 48) digits
      in nat_to_text (n div 1000) @ 46 # (if shown = [] then [48] else shown))"

definition spec_json :: "pystr option \<Rightarrow> http_limits \<Rightarrow> scan_request \<Rightarrow> json result" where
  "spec_json ca_b64 limits r =
     (let t = hr_target r; spec = hr_spec r
      in bindE (pinned_url t (rq_path spec)) (\<lambda>url.
         Inr (JObj
           [(u ''url'', JStr url),
            (u ''method'', JStr (py_upper (rq_method spec))),
            (u ''headers'', JArr (map (\<lambda>(k, v). JArr [JStr k, JStr v]) (rq_headers spec)
               @ [JArr [JStr (u ''Host''), JStr (ct_hostname t)]])),
            (u ''body_b64'', (case rq_body spec of None \<Rightarrow> JNull | Some b \<Rightarrow> JStr (b64encode b))),
            (u ''connect_timeout_s'', JFloat (ms_text (min (hl_connect_timeout_ms limits) 30000))),
            (u ''read_timeout_s'', JFloat (ms_text (min (hl_read_timeout_ms limits) 30000))),
            (u ''max_response_bytes'', JInt (hl_max_response_bytes limits)),
            (u ''sni_hostname'', JStr (ct_hostname t)),
            (u ''ca_b64'', (case ca_b64 of None \<Rightarrow> JNull | Some b \<Rightarrow> JStr b))])))"

text \<open>The command of an exchange; \<open>code\<close> is the loader text the workload program is passed as.\<close>

definition workload_argv :: "pystr \<Rightarrow> pystr \<Rightarrow> pystr list" where
  "workload_argv code spec_b64 = [u ''python'', u ''-I'', u ''-c'', code, u ''--spec-b64'', spec_b64]"

definition exchange ::
  "(pystr list \<Rightarrow> 's \<Rightarrow> exec_result result \<times> 's) \<Rightarrow> pystr \<Rightarrow> pystr option \<Rightarrow> http_limits \<Rightarrow> scan_request
     \<Rightarrow> 's \<Rightarrow> response_data result \<times> 's" where
  "exchange run code ca_b64 limits r s =
     (case spec_json ca_b64 limits r of
        Inl e \<Rightarrow> (Inl e, s)
      | Inr spec \<Rightarrow>
          (let spec_b64 = b64encode (dumps_compact spec)
           in if length spec_b64 > max_spec_argv_bytes then (Inl ValueError, s)
              else (let (out, s1) = run (workload_argv code spec_b64) s
                    in (bindE out (\<lambda>res. parse_exec_result res (hr_target r)), s1))))"

section \<open>Hops\<close>

definition pin_context :: "network_context \<Rightarrow> network_context result" where
  "pin_context c =
     (case vb_addresses (cx_binding c) of
        [] \<Rightarrow> raise EgressDeniedError
      | a # _ \<Rightarrow> bindE (with_pinned (cx_binding c) a) (\<lambda>b. Inr (context_create b)))"

definition authorize_or_refuse ::
  "network_context \<Rightarrow> request_spec \<Rightarrow> connection_target \<Rightarrow> scan_request result" where
  "authorize_or_refuse c spec t =
     (if vb_pinned (cx_binding c) = None then raise EgressDeniedError
      else if \<not> egress_authorize (cx_egress c) (ct_address t) then raise EgressDeniedError
      else Inr \<lparr>hr_context = c, hr_spec = spec, hr_target = t\<rparr>)"

definition relative_hop :: "scan_request \<Rightarrow> pystr \<Rightarrow> scan_request result" where
  "relative_hop current location =
     bindE (some_or ValueError (urljoin_relative (rq_path (hr_spec current)) location)) (\<lambda>merged.
     bindE (make_spec (rq_method (hr_spec current)) merged (strip_hop_headers (rq_headers (hr_spec current))) None) (\<lambda>spec.
       authorize_or_refuse (hr_context current) spec (hr_target current)))"

definition absolute_hop ::
  "scan_request \<Rightarrow> split_result \<Rightarrow> nat option \<Rightarrow> network_context \<Rightarrow> scan_request result" where
  "absolute_hop current parts port next_context =
     bindE (pin_context next_context) (\<lambda>pinned.
     bindE (target_for_context pinned (py_lower (sp_scheme parts)) port) (\<lambda>t.
     bindE (make_spec (rq_method (hr_spec current)) (if sp_path parts = [] then [47] else sp_path parts)
              (strip_hop_headers (rq_headers (hr_spec current))) None) (\<lambda>spec.
       authorize_or_refuse pinned spec t)))"

definition next_hop ::
  "'s resolver \<Rightarrow> timestamp \<Rightarrow> scan_request \<Rightarrow> pystr \<Rightarrow> 's \<Rightarrow> scan_request result \<times> 's" where
  "next_hop resolve_all now current location s =
     (case urlsplit location of
        None \<Rightarrow> (Inl ValueError, s)
      | Some parts \<Rightarrow>
          if sp_scheme parts = [] \<and> sp_netloc parts = [] then (relative_hop current location, s)
          else
            (let scheme = py_lower (sp_scheme parts)
             in if scheme \<notin> set (map fst default_ports) then (raise RedirectDestinationBlockedError, s)
                else if ct_scheme (hr_target current) = u ''https'' \<and> scheme = u ''http''
                then (raise RedirectDestinationBlockedError, s)
                else case url_port parts of
                  None \<Rightarrow> (raise RedirectDestinationBlockedError, s)
                | Some port \<Rightarrow>
                    (let (r, s1) = redirect_evaluate resolve_all now (hr_context current) location s
                     in (bindE r (absolute_hop current parts port), s1))))"

text \<open>The request loop; every redirect uses up one of the \<open>hops\<close> left.\<close>

fun execute_loop ::
  "('s \<Rightarrow> bool) \<Rightarrow> (pystr list \<Rightarrow> 's \<Rightarrow> exec_result result \<times> 's) \<Rightarrow> 's resolver \<Rightarrow> pystr \<Rightarrow> pystr option
     \<Rightarrow> http_limits \<Rightarrow> timestamp \<Rightarrow> nat \<Rightarrow> scan_request \<Rightarrow> pystr list \<Rightarrow> 's \<Rightarrow> response_data result \<times> 's" where
  "execute_loop cancelled run resolve_all code ca limits now hops current via s =
     (if cancelled s then (Inl ScanCancelledError, s)
      else case exchange run code ca limits current s of
        (Inl e, s1) \<Rightarrow> (Inl e, s1)
      | (Inr response, s1) \<Rightarrow>
          (case get_header (rp_headers response) (u ''location'') of
             None \<Rightarrow> (Inr (response\<lparr>rp_final_target := hr_target current, rp_via_redirects := via\<rparr>), s1)
           | Some raw \<Rightarrow>
               if rp_status response \<notin> set redirect_statuses
               then (Inr (response\<lparr>rp_final_target := hr_target current, rp_via_redirects := via\<rparr>), s1)
               else if rp_truncated response
               then (Inl (ControlledTransportError RESPONSE_TOO_LARGE (u ''redirect response exceeded size cap'')), s1)
               else
                 (let location = py_strip raw
                  in if location \<in> set via then (raise RedirectDestinationBlockedError, s1)
                     else case hops of
                       0 \<Rightarrow> (raise RedirectDestinationBlockedError, s1)
                     | Suc hops' \<Rightarrow>
                         (case next_hop resolve_all now current location s1 of
                            (Inl e, s2) \<Rightarrow> (Inl e, s2)
                          | (Inr next, s2) \<Rightarrow>
                              execute_loop cancelled run resolve_all code ca limits now hops' next (via @ [location]) s2))))"

definition transport_execute ::
  "('s \<Rightarrow> bool) \<Rightarrow> ('s \<Rightarrow> bool) \<Rightarrow> (pystr list \<Rightarrow> 's \<Rightarrow> exec_result result \<times> 's) \<Rightarrow> 's resolver \<Rightarrow> pystr
     \<Rightarrow> pystr option \<Rightarrow> http_limits \<Rightarrow> timestamp \<Rightarrow> scan_request \<Rightarrow> 's \<Rightarrow> response_data result \<times> 's" where
  "transport_execute established cancelled run resolve_all code ca limits now request s =
     (if \<not> established s then (raise SandboxNotEstablishedError, s)
      else case authorize_or_refuse (hr_context request) (hr_spec request) (hr_target request) of
        Inl e \<Rightarrow> (Inl e, s)
      | Inr current \<Rightarrow>
          execute_loop cancelled run resolve_all code ca limits now (nat (hl_max_redirects limits)) current [] s)"

declare execute_loop.simps [simp del]

section \<open>Lemmas\<close>

text \<open>A request the transport may execute: sound context, destination on its allow-list.\<close>

definition good_request :: "scan_request \<Rightarrow> bool" where
  "good_request r \<longleftrightarrow> sound_context (hr_context r) \<and> ct_address (hr_target r) \<in> cx_egress (hr_context r)"

lemma good_request_admitted: "good_request r \<Longrightarrow> allowed_ip (ct_address (hr_target r))"
  by (auto simp: good_request_def sound_context_def sound_binding_def)

lemma authorize_or_refuse_Inr:
  "authorize_or_refuse c spec t = Inr r \<longleftrightarrow>
     vb_pinned (cx_binding c) \<noteq> None \<and> ct_address t \<in> cx_egress c \<and> r = \<lparr>hr_context = c, hr_spec = spec, hr_target = t\<rparr>"
  by (auto simp: authorize_or_refuse_def egress_authorize_def)

lemma authorize_good:
  "sound_context c \<Longrightarrow> authorize_or_refuse c spec t = Inr r \<Longrightarrow> good_request r \<and> hr_target r = t"
  by (auto simp: authorize_or_refuse_Inr good_request_def)

lemma target_for_context_sound:
  assumes "target_for_context c scheme port = Inr t" and "sound_context c"
  shows "allowed_ip (ct_address t) \<and> vb_pinned (cx_binding c) = Some (ct_address t)
    \<and> ct_scheme t = py_lower scheme \<and> ct_hostname t = vb_hostname (cx_binding c)"
  using assms
  by (auto simp: target_for_context_def Let_def bindE_Inr_iff sound_context_def sound_binding_def
      split: option.splits if_splits)

lemma pin_context_sound: "pin_context c = Inr c' \<Longrightarrow> sound_context c \<Longrightarrow> sound_context c'"
  by (auto simp: pin_context_def bindE_Inr_iff sound_context_def context_create_def
      dest: with_pinned_sound split: list.splits)

lemma relative_hop_good:
  assumes "relative_hop cur loc = Inr r" and "good_request cur"
  shows "good_request r \<and> hr_target r = hr_target cur"
  using assms by (auto simp: relative_hop_def bindE_Inr_iff good_request_def dest!: authorize_good)

lemma absolute_hop_good:
  assumes "absolute_hop cur parts port c = Inr r" and "sound_context c"
  shows "good_request r \<and> ct_scheme (hr_target r) = py_lower (sp_scheme parts)"
proof -
  from assms(1) obtain pc t spec where pc: "pin_context c = Inr pc"
    and t: "target_for_context pc (py_lower (sp_scheme parts)) port = Inr t"
    and r: "authorize_or_refuse pc spec t = Inr r"
    by (auto simp: absolute_hop_def bindE_Inr_iff)
  have "sound_context pc" using pc assms(2) by (rule pin_context_sound)
  with authorize_good [OF this r] target_for_context_sound [OF t this] show ?thesis by simp
qed

lemma next_hop_cases:
  assumes "next_hop ra now cur loc s = (Inr r, s')"
  obtains (relative) "relative_hop cur loc = Inr r" "s' = s"
  | (absolute) parts port c where "urlsplit loc = Some parts" "redirect_evaluate ra now (hr_context cur) loc s = (Inr c, s')"
      "absolute_hop cur parts port c = Inr r"
      "\<not> (ct_scheme (hr_target cur) = u ''https'' \<and> py_lower (sp_scheme parts) = u ''http'')"
      "py_lower (sp_scheme parts) \<in> set (map fst default_ports)"
  using assms by (auto simp: next_hop_def Let_def bindE_Inr_iff split: option.splits if_splits prod.splits)

lemma next_hop_good:
  assumes "next_hop ra now cur loc s = (Inr r, s')" and "good_request cur"
  shows "good_request r"
  using assms(1)
proof (cases rule: next_hop_cases)
  case relative
  with relative_hop_good assms(2) show ?thesis by blast
next
  case (absolute parts port c)
  have "sound_context (hr_context cur)" using assms(2) by (simp add: good_request_def)
  with absolute(2) have "sound_context c" by (rule redirect_evaluate_sound)
  with absolute(3) absolute_hop_good show ?thesis by blast
qed

lemma next_hop_https:
  assumes "next_hop ra now cur loc s = (Inr r, s')" and "good_request cur"
    and "ct_scheme (hr_target cur) = u ''https''"
  shows "ct_scheme (hr_target r) = u ''https''"
  using assms(1)
proof (cases rule: next_hop_cases)
  case relative
  with relative_hop_good assms(2,3) show ?thesis by metis
next
  case (absolute parts port c)
  have "sound_context (hr_context cur)" using assms(2) by (simp add: good_request_def)
  with absolute(2) have "sound_context c" by (rule redirect_evaluate_sound)
  with absolute(3) have "ct_scheme (hr_target r) = py_lower (sp_scheme parts)" using absolute_hop_good by blast
  with absolute(4,5) assms(3) show ?thesis by (auto simp: default_ports_def)
qed

text \<open>A sandbox that records the commands it is given, over any other.\<close>

definition log_run ::
  "(pystr list \<Rightarrow> 's \<Rightarrow> exec_result result \<times> 's) \<Rightarrow> pystr list \<Rightarrow> pystr list list \<times> 's
     \<Rightarrow> exec_result result \<times> (pystr list list \<times> 's)" where
  "log_run run argv ls = (let (out, s1) = run argv (snd ls) in (out, (fst ls @ [argv], s1)))"

definition log_resolver :: "'s resolver \<Rightarrow> (pystr list list \<times> 's) resolver" where
  "log_resolver ra h ls = (let (out, s1) = ra h (snd ls) in (out, (fst ls, s1)))"

definition admitted_commands :: "pystr \<Rightarrow> pystr option \<Rightarrow> http_limits \<Rightarrow> pystr list set" where
  "admitted_commands code ca limits =
     {argv. \<exists>r spec. good_request r \<and> allowed_ip (ct_address (hr_target r)) \<and> spec_json ca limits r = Inr spec
        \<and> argv = workload_argv code (b64encode (dumps_compact spec))}"

lemma exchange_log:
  assumes "exchange (log_run run) code ca limits cur ls = (r, ls1)" and "good_request cur"
  shows "length (fst ls1) \<le> Suc (length (fst ls)) \<and> set (fst ls1) \<subseteq> set (fst ls) \<union> admitted_commands code ca limits"
proof (cases "spec_json ca limits cur")
  case (Inl e)
  with assms show ?thesis by (simp add: exchange_def)
next
  case (Inr spec)
  then have "workload_argv code (b64encode (dumps_compact spec)) \<in> admitted_commands code ca limits"
    using assms(2) good_request_admitted by (auto simp: admitted_commands_def)
  with assms(1) Inr show ?thesis
    by (auto simp: exchange_def Let_def log_run_def split: if_splits prod.splits)
qed

lemma resolve_log: "fst (snd (resolve (log_resolver ra) h t now ls)) = fst ls"
  by (simp add: resolve_def resolve_quietly_def log_resolver_def Let_def split: prod.splits sum.splits)

lemma redirect_evaluate_log: "fst (snd (redirect_evaluate (log_resolver ra) now c loc ls)) = fst ls"
proof (cases "urlsplit loc")
  case None
  then show ?thesis by (simp add: redirect_evaluate_def)
next
  case (Some parts)
  define h where "h = py_rstrip_chars (case url_hostname parts of None \<Rightarrow> [] | Some h \<Rightarrow> h) [46]"
  obtain r ls1 where r: "resolve (log_resolver ra) h None now ls = (r, ls1)" by (rule prod.exhaust)
  with resolve_log [of ra h None now ls] have "fst ls1 = fst ls" by simp
  with Some r show ?thesis
    by (cases r) (simp_all add: redirect_evaluate_def Let_def h_def [symmetric] del: list.set)
qed

lemma next_hop_log: "fst (snd (next_hop (log_resolver ra) now cur loc ls)) = fst ls"
proof (cases "urlsplit loc")
  case None
  then show ?thesis by (simp add: next_hop_def)
next
  case (Some parts)
  then show ?thesis
    using redirect_evaluate_log [of ra now "hr_context cur" loc ls]
    by (cases "url_port parts") (auto simp: next_hop_def Let_def split: prod.splits)
qed

lemma execute_loop_log:
  assumes "execute_loop canc (log_run run) (log_resolver ra) code ca limits now hops cur via ls = (r, ls')"
    and "good_request cur"
  shows "length (fst ls') \<le> length (fst ls) + Suc hops
    \<and> set (fst ls') \<subseteq> set (fst ls) \<union> admitted_commands code ca limits"
  using assms
proof (induction hops arbitrary: cur via ls r ls')
  case 0
  obtain x ls1 where x: "exchange (log_run run) code ca limits cur ls = (x, ls1)" by (rule prod.exhaust)
  from 0 x have "ls' = ls \<or> ls' = ls1"
    by (auto simp: execute_loop.simps [of _ _ _ _ _ _ _ 0] Let_def split: if_splits sum.splits option.splits)
  with exchange_log [OF x 0(2)] show ?case by auto
next
  case (Suc n)
  obtain x ls1 where x: "exchange (log_run run) code ca limits cur ls = (x, ls1)" by (rule prod.exhaust)
  note ex = exchange_log [OF x Suc.prems(2)]
  from Suc.prems(1) x consider "ls' = ls \<or> ls' = ls1"
    | loc where "next_hop (log_resolver ra) now cur loc ls1 = (Inl (projl r), ls')"
    | loc nxt ls2 where "next_hop (log_resolver ra) now cur loc ls1 = (Inr nxt, ls2)"
        "execute_loop canc (log_run run) (log_resolver ra) code ca limits now n nxt (via @ [loc]) ls2 = (r, ls')"
    by (auto simp: execute_loop.simps [of _ _ _ _ _ _ _ "Suc n"] Let_def split: if_splits sum.splits option.splits prod.splits)
  then show ?case
  proof cases
    case 1
    with ex show ?thesis by auto
  next
    case (2 loc)
    with next_hop_log [of ra now cur loc ls1] ex show ?thesis by auto
  next
    case (3 loc nxt ls2)
    have "good_request nxt" using 3(1) Suc.prems(2) by (rule next_hop_good)
    with Suc.IH [OF 3(2)] next_hop_log [of ra now cur loc ls1] 3(1) ex show ?thesis by auto
  qed
qed

lemma execute_loop_result:
  assumes "execute_loop canc run ra code ca limits now hops cur via s = (Inr resp, s')" and "good_request cur"
    and "distinct via"
  shows "allowed_ip (ct_address (rp_final_target resp)) \<and> distinct (rp_via_redirects resp)
    \<and> length (rp_via_redirects resp) \<le> length via + hops
    \<and> (ct_scheme (hr_target cur) = u ''https'' \<longrightarrow> ct_scheme (rp_final_target resp) = u ''https'')"
  using assms
proof (induction hops arbitrary: cur via s)
  case 0
  then have "rp_final_target resp = hr_target cur \<and> rp_via_redirects resp = via"
    by (auto simp: execute_loop.simps [of _ _ _ _ _ _ _ 0] Let_def split: if_splits sum.splits option.splits prod.splits)
  with 0 good_request_admitted show ?case by auto
next
  case (Suc n)
  from Suc.prems(1) consider "rp_final_target resp = hr_target cur \<and> rp_via_redirects resp = via"
    | loc s1 nxt s2 where "next_hop ra now cur loc s1 = (Inr nxt, s2)" "loc \<notin> set via"
        "execute_loop canc run ra code ca limits now n nxt (via @ [loc]) s2 = (Inr resp, s')"
    by (auto simp: execute_loop.simps [of _ _ _ _ _ _ _ "Suc n"] Let_def split: if_splits sum.splits option.splits prod.splits)
  then show ?case
  proof cases
    case 1
    with Suc.prems good_request_admitted show ?thesis by auto
  next
    case (2 loc s1 nxt s2)
    have "good_request nxt" using 2(1) Suc.prems(2) by (rule next_hop_good)
    with Suc.IH [OF 2(3)] 2(1,2) Suc.prems(2,3) next_hop_https show ?thesis by fastforce
  qed
qed

lemma transport_log:
  assumes "sound_context (hr_context req)"
    and "transport_execute est canc (log_run run) (log_resolver ra) code ca limits now req ([], s) = (r, (log, s'))"
  shows "length log \<le> Suc (nat (hl_max_redirects limits)) \<and> set log \<subseteq> admitted_commands code ca limits"
proof (cases "log = []")
  case True
  then show ?thesis by simp
next
  case False
  with assms(2) obtain cur where cur: "authorize_or_refuse (hr_context req) (hr_spec req) (hr_target req) = Inr cur"
    and loop: "execute_loop canc (log_run run) (log_resolver ra) code ca limits now (nat (hl_max_redirects limits)) cur [] ([], s)
      = (r, (log, s'))"
    by (auto simp: transport_execute_def split: if_splits sum.splits)
  from execute_loop_log [OF loop] authorize_good [OF assms(1) cur] show ?thesis by simp
qed

section \<open>Properties\<close>

text \<open>However the target redirects and whatever DNS answers on the
  way, every command one request runs in the sandbox is the workload command for a request whose
  connection address passed the IP policy and lies on its context's allow-list, and no more than
  \<open>max_redirects + 1\<close> commands are run.\<close>

theorem transport_exchanges_admitted_only:
  assumes "sound_context (hr_context req)"
    and "transport_execute est canc (log_run run) (log_resolver ra) code ca limits now req ([], s) = (r, (log, s'))"
  shows "length log \<le> Suc (nat (hl_max_redirects limits)) \<and> set log \<subseteq> admitted_commands code ca limits"
  using assms by (rule transport_log)


text \<open>Without an established sandbox, or with a destination off the
  egress allow-list or an unpinned binding, nothing is executed at all: the state is untouched and the
  answer is the matching domain error.\<close>

theorem transport_requires_sandbox:
  assumes "\<not> est s \<or> vb_pinned (cx_binding (hr_context req)) = None
      \<or> ct_address (hr_target req) \<notin> cx_egress (hr_context req)"
  shows "transport_execute est canc run ra code ca limits now req s
    = (raise (if est s then EgressDeniedError else SandboxNotEstablishedError), s)"
  using assms by (auto simp: transport_execute_def authorize_or_refuse_def egress_authorize_def)

text \<open>An example: one exchange that answers 200.\<close>

definition example_request :: scan_request where
  "example_request = \<lparr>hr_context = context_create example_binding,
     hr_spec = \<lparr>rq_method = u ''GET'', rq_path = [47], rq_headers = [], rq_body = None\<rparr>,
     hr_target = \<lparr>ct_address = V4 0x08080808, ct_port = 443, ct_scheme = u ''https'', ct_hostname = u ''a''\<rparr>\<rparr>"

definition example_run :: "pystr list \<Rightarrow> 's \<Rightarrow> exec_result result \<times> 's" where
  "example_run argv s = (Inl (OtherException (u ''OSError'')), s)"

theorem transport_requires_sandbox_witness:
  "transport_execute (\<lambda>s. False) (\<lambda>s. False) example_run (platform_resolve_all example_gai) [] None default_limits 0
     example_request () = (raise SandboxNotEstablishedError, ())"
  using transport_requires_sandbox [of "\<lambda>s. False" "()" example_request "\<lambda>s. False" example_run
      "platform_resolve_all example_gai" "[]" None default_limits 0] by simp

lemma example_request_sound: "sound_context (hr_context example_request)"
  using example_binding_sound by (simp add: example_request_def)

theorem transport_exchanges_admitted_only_witness:
  "\<exists>r log. transport_execute (\<lambda>s. True) (\<lambda>s. False) (log_run example_run) (log_resolver (platform_resolve_all example_gai))
       [] None default_limits 0 example_request ([], ()) = (r, (log, ()))
     \<and> length log \<le> 11 \<and> set log \<subseteq> admitted_commands [] None default_limits"
proof -
  obtain r log s' where t: "transport_execute (\<lambda>s. True) (\<lambda>s. False) (log_run example_run)
      (log_resolver (platform_resolve_all example_gai)) [] None default_limits 0 example_request ([], ()) = (r, (log, s'))"
    by (metis surj_pair)
  from transport_exchanges_admitted_only [OF example_request_sound t] t show ?thesis
    by (simp add: default_limits_def)
qed

definition ok_line :: pystr where
  "ok_line = [123] @ json_string (u ''status'') @ u '':200,'' @ json_string (u ''headers'') @ u '':[],''
       @ json_string (u ''body_b64'') @ [58] @ json_string [] @ [44] @ json_string (u ''elapsed_ms'') @ u '':1}''"

definition ok_run :: "pystr list \<Rightarrow> 's \<Rightarrow> exec_result result \<times> 's" where
  "ok_run argv s = (Inr \<lparr>xr_argv = argv, xr_exit_code = 0, xr_stdout = success_prefix @ ok_line, xr_stderr = []\<rparr>, s)"

lemma ok_stdout:
  "json_loads ok_line
   = Inr (JObj [(u ''status'', JInt 200), (u ''headers'', JArr []), (u ''body_b64'', JStr []), (u ''elapsed_ms'', JInt 1)])"
  unfolding ok_line_def by (simp add: json_eval json_string_def json_char_def)

definition example_response :: response_data where
  "example_response = \<lparr>rp_status = 200, rp_headers = [], rp_body = [], rp_elapsed_ms = u ''1.0'',
     rp_final_target = hr_target example_request, rp_via_redirects = [], rp_truncated = False\<rparr>"

lemma example_spec:
  "\<exists>spec. spec_json None default_limits example_request = Inr spec \<and> length (dumps_compact spec) \<le> 400"
proof -
  have "pinned_url (hr_target example_request) [47] = Inr (u ''https://8.8.8.8/'')"
    by (simp add: pinned_url_def example_request_def ipv4_text_def default_ports_def py_startswith_def
        nat_to_text.simps upt_rec text_defs)
  then have "spec_json None default_limits example_request = Inr (JObj
       [(u ''url'', JStr (u ''https://8.8.8.8/'')), (u ''method'', JStr (u ''GET'')),
        (u ''headers'', JArr [JArr [JStr (u ''Host''), JStr (u ''a'')]]), (u ''body_b64'', JNull),
        (u ''connect_timeout_s'', JFloat (ms_text 5000)), (u ''read_timeout_s'', JFloat (ms_text 15000)),
        (u ''max_response_bytes'', JInt 2000000), (u ''sni_hostname'', JStr (u ''a'')), (u ''ca_b64'', JNull)])"
    by (simp add: spec_json_def example_request_def default_limits_def py_upper_def upper_char_def
        is_lower_alpha_def text_defs)
  moreover have "length (dumps_compact (JObj
       [(u ''url'', JStr (u ''https://8.8.8.8/'')), (u ''method'', JStr (u ''GET'')),
        (u ''headers'', JArr [JArr [JStr (u ''Host''), JStr (u ''a'')]]), (u ''body_b64'', JNull),
        (u ''connect_timeout_s'', JFloat (ms_text 5000)), (u ''read_timeout_s'', JFloat (ms_text 15000)),
        (u ''max_response_bytes'', JInt 2000000), (u ''sni_hostname'', JStr (u ''a'')), (u ''ca_b64'', JNull)])) \<le> 400"
    by (simp add: json_string_def json_char_def ms_text_def nat_to_text.simps int_to_text_def rstrip_by_def text_defs)
  ultimately show ?thesis by blast
qed

lemma ok_exchange: "exchange ok_run [] None default_limits example_request s = (Inr example_response, s)"
proof -
  obtain spec where spec: "spec_json None default_limits example_request = Inr spec" "length (dumps_compact spec) \<le> 400"
    using example_spec by blast
  have small: "length (b64encode (dumps_compact spec)) \<le> max_spec_argv_bytes"
    using spec(2) by (simp add: length_b64encode max_spec_argv_bytes_def)
  have one: "py_splitlines (success_prefix @ ok_line) = [success_prefix @ ok_line]"
    by (simp add: py_splitlines_def success_prefix_def ok_line_def json_string_def json_char_def line_break_def text_defs)
  have pre: "py_startswith (success_prefix @ ok_line) success_prefix" by (simp add: py_startswith_def)
  have "parse_success (hr_target example_request) ok_line = Inr example_response"
    unfolding parse_success_def loads_or_raise_def ok_stdout example_response_def
    by (simp add: json_item_def json_get_def dict_default_def b64decode_def int_to_text_def nat_to_text.simps)
      (simp add: text_defs)
  then have "parse_exec_result \<lparr>xr_argv = argv, xr_exit_code = 0, xr_stdout = success_prefix @ ok_line, xr_stderr = []\<rparr>
      (hr_target example_request) = Inr example_response" for argv
    using pre by (simp add: parse_exec_result_def one)
  then show ?thesis
    using spec small by (simp add: exchange_def ok_run_def)
qed


end
