(* ===== verification/Sandbox.thy ===== *)
theory Sandbox
  imports HttpTransport
begin

text \<open>
  The egress sandbox: its policy (\<open>scanning/sandbox/policy.py\<close>), the lifecycle contract
  (\<open>base.py\<close>) and the Docker implementation (\<open>docker_sandbox.py\<close>).  The Docker CLI is the
  argument \<open>runner\<close> over a world \<open>'w\<close>; the random suffixes of resource names, the number of polls the
  clock allows and the answer of \<open>shutil.which\<close> are arguments.  \<open>ExecResult.duration_s\<close> and
  the immutability hooks of the policy class have no counterpart.
\<close>

section \<open>Policy\<close>

record sandbox_policy =
  po_hostname :: pystr
  po_addresses :: "ip_address list"

definition policy_for_binding :: "binding \<Rightarrow> sandbox_policy result" where
  "policy_for_binding b =
     (if vb_addresses b = [] then raise EgressDeniedError
      else Inr \<lparr>po_hostname = vb_hostname b, po_addresses = vb_addresses b\<rparr>)"

definition allowed_v4 :: "sandbox_policy \<Rightarrow> ip_address list" where
  "allowed_v4 p = filter (\<lambda>a. ip_version a = 4) (po_addresses p)"

definition allowed_v6 :: "sandbox_policy \<Rightarrow> ip_address list" where
  "allowed_v6 p = filter (\<lambda>a. ip_version a = 6) (po_addresses p)"

definition requires_ipv6_rules :: "sandbox_policy \<Rightarrow> bool" where
  "requires_ipv6_rules p \<longleftrightarrow> allowed_v6 p \<noteq> []"

definition policy_authorize :: "sandbox_policy \<Rightarrow> ip_address \<Rightarrow> bool" where
  "policy_authorize p a \<longleftrightarrow> a \<in> set (po_addresses p)"

definition policy_require_authorized :: "sandbox_policy \<Rightarrow> ip_address \<Rightarrow> ip_address result" where
  "policy_require_authorized p a = (if policy_authorize p a then Inr a else raise EgressDeniedError)"

section \<open>State\<close>

record verification =
  vf_rule_dump :: "pystr list"
  vf_default_drop :: bool
  vf_allowed_addresses :: "ip_address set"
  vf_workload_uid :: "nat option"

record docker_config =
  dk_image :: pystr
  dk_bin :: pystr
  dk_prefix :: pystr
  dk_exec_timeout_ms :: int
  dk_create_timeout_ms :: int
  dk_workload_uid :: "nat option"
  dk_extra_networks :: "pystr list"
  dk_check_binary :: bool

definition default_config :: docker_config where
  "default_config = \<lparr>dk_image = u ''sentinelgpt/scanner-sandbox:latest'', dk_bin = u ''docker'',
     dk_prefix = u ''sgpt-sbx'', dk_exec_timeout_ms = 30000, dk_create_timeout_ms = 120000,
     dk_workload_uid = Some 65534, dk_extra_networks = [], dk_check_binary = True\<rparr>"

text \<open>\<open>subprocess.run\<close> returns, times out, or cannot start the program.\<close>

datatype cmd_outcome = Completed int pystr pystr | CmdTimeout pystr | CmdOSError pystr

type_synonym 'w docker_runner = "pystr list \<Rightarrow> int \<Rightarrow> 'w \<Rightarrow> cmd_outcome \<times> 'w"

record 'w sandbox =
  sb_policy :: sandbox_policy
  sb_network :: "pystr option"
  sb_container :: "pystr option"
  sb_pending :: "pystr option"
  sb_established :: bool
  sb_verification :: "verification option"
  sb_world :: 'w

definition new_sandbox :: "sandbox_policy \<Rightarrow> 'w \<Rightarrow> 'w sandbox" where
  "new_sandbox p w = \<lparr>sb_policy = p, sb_network = None, sb_container = None, sb_pending = None,
     sb_established = False, sb_verification = None, sb_world = w\<rparr>"

text \<open>Actions keep the changes they made to the object when they raise.\<close>

type_synonym ('s, 'a) act = "'s \<Rightarrow> 'a result \<times> 's"

definition thenA :: "('s, 'a) act \<Rightarrow> ('a \<Rightarrow> ('s, 'b) act) \<Rightarrow> ('s, 'b) act" where
  "thenA m f s = (case m s of (Inl e, s1) \<Rightarrow> (Inl e, s1) | (Inr x, s1) \<Rightarrow> f x s1)"

definition failA :: "exn \<Rightarrow> ('s, 'a) act" where
  "failA e s = (Inl e, s)"

definition retA :: "'a \<Rightarrow> ('s, 'a) act" where
  "retA x s = (Inr x, s)"

lemma thenA_Inr: "thenA m f s = (Inr y, s') \<longleftrightarrow> (\<exists>x s1. m s = (Inr x, s1) \<and> f x s1 = (Inr y, s'))"
  by (auto simp: thenA_def split: prod.splits sum.splits)

lemma thenA_Inl: "thenA m f s = (Inl e, s') \<longleftrightarrow> m s = (Inl e, s') \<or> (\<exists>x s1. m s = (Inr x, s1) \<and> f x s1 = (Inl e, s'))"
  by (auto simp: thenA_def split: prod.splits sum.splits)

text \<open>\<open>except Exception: cleanup; raise\<close>.\<close>

definition on_error :: "('s, 'a) act \<Rightarrow> ('s \<Rightarrow> 's) \<Rightarrow> ('s, 'a) act" where
  "on_error m cleanup s = (case m s of (Inl e, s1) \<Rightarrow> (Inl e, cleanup s1) | (Inr x, s1) \<Rightarrow> (Inr x, s1))"

lemma on_error_Inr: "on_error m h s = (Inr x, s') \<longleftrightarrow> m s = (Inr x, s')"
  by (auto simp: on_error_def split: prod.splits sum.splits)

lemma on_error_Inl: "on_error m h s = (Inl e, s') \<longleftrightarrow> (\<exists>s1. m s = (Inl e, s1) \<and> s' = h s1)"
  by (auto simp: on_error_def split: prod.splits sum.splits)

section \<open>Docker plumbing\<close>

definition docker_call :: "'w docker_runner \<Rightarrow> docker_config \<Rightarrow> int \<Rightarrow> pystr list \<Rightarrow> 'w sandbox \<Rightarrow> cmd_outcome \<times> 'w sandbox" where
  "docker_call runner c timeout args s =
     (let (r, w) = runner (dk_bin c # args) timeout (sb_world s) in (r, s\<lparr>sb_world := w\<rparr>))"

type_synonym completed = "int \<times> pystr \<times> pystr"

definition docker_or :: "(pystr \<Rightarrow> domain_error) \<Rightarrow> 'w docker_runner \<Rightarrow> docker_config \<Rightarrow> int \<Rightarrow> pystr list \<Rightarrow> ('w sandbox, completed) act" where
  "docker_or err runner c timeout args s =
     (case docker_call runner c timeout args s of
        (Completed rc out er, s1) \<Rightarrow> (Inr (rc, out, er), s1)
      | (CmdTimeout t, s1) \<Rightarrow> (raise (err (u ''cannot invoke docker: '' @ t)), s1)
      | (CmdOSError t, s1) \<Rightarrow> (raise (err (u ''cannot invoke docker: '' @ t)), s1))"

definition docker_with_timeout :: "'w docker_runner \<Rightarrow> docker_config \<Rightarrow> pystr list \<Rightarrow> ('w sandbox, completed) act" where
  "docker_with_timeout runner c args = docker_or SandboxSetupFailedError runner c (dk_create_timeout_ms c) args"

definition docker_or_unavailable :: "'w docker_runner \<Rightarrow> docker_config \<Rightarrow> pystr list \<Rightarrow> ('w sandbox, completed) act" where
  "docker_or_unavailable runner c args = docker_or SandboxUnavailableError runner c (dk_exec_timeout_ms c) args"

definition docker_or_setup_failed :: "'w docker_runner \<Rightarrow> docker_config \<Rightarrow> pystr list \<Rightarrow> ('w sandbox, completed) act" where
  "docker_or_setup_failed runner c args = docker_or SandboxSetupFailedError runner c (dk_exec_timeout_ms c) args"

definition best_effort :: "'w docker_runner \<Rightarrow> docker_config \<Rightarrow> pystr list \<Rightarrow> 'w sandbox \<Rightarrow> 'w sandbox" where
  "best_effort runner c args s = snd (docker_call runner c (dk_exec_timeout_ms c) args s)"

section \<open>Teardown\<close>

definition reap :: "'w docker_runner \<Rightarrow> docker_config \<Rightarrow> pystr list \<Rightarrow> pystr option \<Rightarrow> 'w sandbox \<Rightarrow> 'w sandbox" where
  "reap runner c cmd name s = (case name of None \<Rightarrow> s | Some n \<Rightarrow> best_effort runner c (cmd @ [n]) s)"

definition destroy :: "'w docker_runner \<Rightarrow> docker_config \<Rightarrow> 'w sandbox \<Rightarrow> 'w sandbox" where
  "destroy runner c s =
     (let s0 = s\<lparr>sb_established := False\<rparr>;
          s1 = (reap runner c [u ''rm'', u ''-f''] (sb_pending s0) s0)\<lparr>sb_pending := None\<rparr>;
          s2 = (reap runner c [u ''rm'', u ''-f''] (sb_container s1) s1)\<lparr>sb_container := None\<rparr>
      in (reap runner c [u ''network'', u ''rm''] (sb_network s2) s2)\<lparr>sb_network := None\<rparr>)"

text \<open>Destroy and raise.\<close>

definition abort :: "'w docker_runner \<Rightarrow> docker_config \<Rightarrow> domain_error \<Rightarrow> ('w sandbox, 'a) act" where
  "abort runner c e s = (raise e, destroy runner c s)"

section \<open>Creation\<close>

definition preflight :: "'w docker_runner \<Rightarrow> docker_config \<Rightarrow> bool \<Rightarrow> ('w sandbox, unit) act" where
  "preflight runner c found s =
     (if dk_check_binary c \<and> \<not> found
      then (raise (SandboxUnavailableError (repr_str (dk_bin c) @ u '' binary not found'')), s)
      else thenA (docker_or_unavailable runner c [u ''image'', u ''inspect'', dk_image c]) (\<lambda>(rc, out, er).
             if rc \<noteq> 0 then failA (Domain (SandboxUnavailableError (u ''sandbox image missing: '' @ dk_image c)))
             else retA ()) s)"

definition create_network :: "'w docker_runner \<Rightarrow> docker_config \<Rightarrow> pystr \<Rightarrow> ('w sandbox, unit) act" where
  "create_network runner c suffix s =
     (let name = dk_prefix c @ 45 # suffix
      in thenA (docker_with_timeout runner c [u ''network'', u ''create'', u ''--driver'', u ''bridge'', name]) (\<lambda>(rc, out, er) s1.
           if rc \<noteq> 0 then abort runner c (SandboxSetupFailedError (u ''network create failed: '' @ py_strip er)) s1
           else (Inr (), s1\<lparr>sb_network := Some name\<rparr>)) s)"

fun await_running :: "'w docker_runner \<Rightarrow> docker_config \<Rightarrow> nat \<Rightarrow> pystr \<Rightarrow> ('w sandbox, unit) act" where
  "await_running runner c 0 name s =
     (raise (SandboxSetupFailedError (u ''sandbox container did not start in time'')), s)"
| "await_running runner c (Suc polls) name s =
     thenA (docker_or_setup_failed runner c [u ''inspect'', u ''-f'', u ''{{.State.Running}}'', name]) (\<lambda>(rc, out, er).
       if rc = 0 \<and> py_strip out = u ''true'' then retA () else await_running runner c polls name) s"

fun join_networks :: "'w docker_runner \<Rightarrow> docker_config \<Rightarrow> pystr \<Rightarrow> pystr list \<Rightarrow> ('w sandbox, unit) act" where
  "join_networks runner c name [] s = (Inr (), s)"
| "join_networks runner c name (n # ns) s =
     thenA (docker_with_timeout runner c [u ''network'', u ''connect'', n, name]) (\<lambda>(rc, out, er).
       if rc \<noteq> 0
       then failA (Domain (SandboxSetupFailedError (u ''joining network '' @ n @ u '' failed: '' @ py_strip er)))
       else join_networks runner c name ns) s"

definition create_container :: "'w docker_runner \<Rightarrow> docker_config \<Rightarrow> nat \<Rightarrow> pystr \<Rightarrow> ('w sandbox, unit) act" where
  "create_container runner c polls suffix s =
     (case sb_network s of
        None \<Rightarrow> (Inl (OtherException (u ''AssertionError'')), s)
      | Some network \<Rightarrow>
          (let name = dk_prefix c @ 45 # suffix
           in thenA (docker_with_timeout runner c
                [u ''run'', u ''-d'', u ''--name'', name, u ''--network'', network, u ''--cap-add'', u ''NET_ADMIN'',
                 dk_image c, u ''sleep'', u ''infinity'']) (\<lambda>(rc, out, er) s1.
                if rc \<noteq> 0 then abort runner c (SandboxSetupFailedError (u ''container start failed: '' @ py_strip er)) s1
                else thenA (join_networks runner c name (dk_extra_networks c)) (\<lambda>_.
                       await_running runner c polls name)
                     (s1\<lparr>sb_pending := None, sb_container := Some name\<rparr>)) (s\<lparr>sb_pending := Some name\<rparr>)))"

section \<open>Rules\<close>

definition iptables_script :: "pystr \<Rightarrow> pystr list \<Rightarrow> pystr" where
  "iptables_script tool accepts =
     py_join (u '' && '')
       ([tool @ u '' -P OUTPUT DROP'', tool @ u '' -A OUTPUT -m state --state ESTABLISHED,RELATED -j ACCEPT'']
        @ map (\<lambda>d. tool @ u '' -A OUTPUT -d '' @ d @ u '' -j ACCEPT'') accepts)"

definition cidrs :: "pystr \<Rightarrow> ip_address list \<Rightarrow> pystr list" where
  "cidrs suffix as = map (\<lambda>a. ip_text a @ suffix) as"

definition install_egress_rules :: "'w docker_runner \<Rightarrow> docker_config \<Rightarrow> ('w sandbox, unit) act" where
  "install_egress_rules runner c s =
     (case sb_container s of
        None \<Rightarrow> (Inl (OtherException (u ''AssertionError'')), s)
      | Some ctr \<Rightarrow>
          thenA (docker_or_setup_failed runner c [u ''exec'', ctr, u ''sh'', u ''-c'',
                   iptables_script (u ''iptables'') (cidrs (u ''/32'') (allowed_v4 (sb_policy s)))]) (\<lambda>(rc, out, er).
            if rc \<noteq> 0
            then failA (Domain (SandboxSetupFailedError (u ''ipv4 egress install failed: '' @ py_strip er)))
            else thenA (docker_or_setup_failed runner c [u ''exec'', ctr, u ''sh'', u ''-c'',
                   iptables_script (u ''ip6tables'') (cidrs (u ''/128'') (allowed_v6 (sb_policy s)))]) (\<lambda>(rc6, out6, er6).
                   if rc6 \<noteq> 0
                   then failA (Domain (SandboxSetupFailedError (u ''ipv6 egress install failed: '' @ py_strip er6)))
                   else retA ())) s)"

section \<open>Verification\<close>

definition read_rule_dump :: "'w docker_runner \<Rightarrow> docker_config \<Rightarrow> pystr \<Rightarrow> bool \<Rightarrow> ('w sandbox, pystr list) act" where
  "read_rule_dump runner c ctr v6 s =
     (let tool = (if v6 then u ''ip6tables'' else u ''iptables'')
      in thenA (docker_or_setup_failed runner c [u ''exec'', ctr, tool, u ''-S'', u ''OUTPUT'']) (\<lambda>(rc, out, er).
           if rc \<noteq> 0
           then failA (Domain (SandboxVerificationFailedError (tool @ u '' dump failed: '' @ py_strip er)))
           else retA (filter (\<lambda>l. py_strip l \<noteq> []) (py_splitlines out))) s)"

text \<open>
  The destination of an accept rule: the search for \<open>-A OUTPUT .*-d (\S+) -j ACCEPT\<close>, which takes the
  first \<open>-A OUTPUT\<close> and the last \<open>-d\<close> behind it that fits.
\<close>

definition dest_at :: "pystr \<Rightarrow> pystr option" where
  "dest_at s =
     (let t = drop 3 s; d = takeWhile (\<lambda>c. \<not> py_isspace c) t; r = dropWhile (\<lambda>c. \<not> py_isspace c) t
      in if py_startswith s (u ''-d '') \<and> d \<noteq> [] \<and> py_startswith r (u '' -j ACCEPT'') then Some d else None)"

fun last_dest :: "pystr \<Rightarrow> pystr option" where
  "last_dest [] = None"
| "last_dest (c # cs) = (case last_dest cs of Some d \<Rightarrow> Some d | None \<Rightarrow> dest_at (c # cs))"

fun accept_dest :: "pystr \<Rightarrow> pystr option" where
  "accept_dest [] = None"
| "accept_dest (c # cs) =
     (if py_startswith (c # cs) (u ''-A OUTPUT '') then last_dest (drop 10 (c # cs)) else accept_dest cs)"

definition accepted_dests :: "pystr list \<Rightarrow> pystr list" where
  "accepted_dests dump = List.map_filter accept_dest dump"

definition sorted_text :: "pystr list \<Rightarrow> pystr" where
  "sorted_text xs = repr_value (JArr (map JStr (sorted_set xs)))"

definition compare_family :: "pystr \<Rightarrow> pystr list \<Rightarrow> pystr list \<Rightarrow> pystr list" where
  "compare_family tool dump expected =
     (let accepted = accepted_dests dump;
          unexpected = filter (\<lambda>d. d \<notin> set expected) accepted;
          missing = filter (\<lambda>d. d \<notin> set accepted) expected
      in (if list_ex (\<lambda>l. py_startswith l (u ''-P OUTPUT DROP'')) dump then []
          else [tool @ u '': OUTPUT policy is not DROP''])
         @ (if unexpected \<noteq> [] then [tool @ u '': unexpected accepts '' @ sorted_text unexpected] else [])
         @ (if missing \<noteq> [] then [tool @ u '': missing accepts '' @ sorted_text missing] else []))"

definition compare_against_policy :: "sandbox_policy \<Rightarrow> pystr list \<Rightarrow> pystr list \<Rightarrow> pystr list" where
  "compare_against_policy p d4 d6 =
     compare_family (u ''iptables'') d4 (cidrs (u ''/32'') (allowed_v4 p))
     @ compare_family (u ''ip6tables'') d6 (cidrs (u ''/128'') (allowed_v6 p))"

definition verify :: "'w docker_runner \<Rightarrow> docker_config \<Rightarrow> ('w sandbox, verification) act" where
  "verify runner c s =
     (case sb_container s of
        None \<Rightarrow> (raise (SandboxVerificationFailedError (u ''no container to verify'')), s)
      | Some ctr \<Rightarrow>
          thenA (read_rule_dump runner c ctr False) (\<lambda>d4.
          thenA (read_rule_dump runner c ctr True) (\<lambda>d6 s2.
            let problems = compare_against_policy (sb_policy s2) d4 d6
            in if problems \<noteq> []
               then abort runner c (SandboxVerificationFailedError (py_join (u ''; '') problems)) s2
               else (Inr \<lparr>vf_rule_dump = d4 @ d6, vf_default_drop = True,
                        vf_allowed_addresses = set (po_addresses (sb_policy s2)),
                        vf_workload_uid = dk_workload_uid c\<rparr>, s2))) s)"

section \<open>Execution\<close>

definition exec_argv :: "docker_config \<Rightarrow> pystr \<Rightarrow> pystr list \<Rightarrow> pystr list" where
  "exec_argv c ctr argv =
     u ''exec'' # (case dk_workload_uid c of None \<Rightarrow> [] | Some n \<Rightarrow> [u ''-u'', nat_to_text n]) @ [ctr] @ argv"

definition exec_in :: "'w docker_runner \<Rightarrow> docker_config \<Rightarrow> pystr \<Rightarrow> pystr list \<Rightarrow> ('w sandbox, exec_result) act" where
  "exec_in runner c ctr argv s =
     (case docker_call runner c (dk_exec_timeout_ms c) (exec_argv c ctr argv) s of
        (Completed rc out er, s1) \<Rightarrow>
          (Inr \<lparr>xr_argv = argv, xr_exit_code = rc, xr_stdout = out, xr_stderr = er\<rparr>, s1)
      | (CmdTimeout _, s1) \<Rightarrow>
          (Inr \<lparr>xr_argv = argv, xr_exit_code = 124, xr_stdout = [],
               xr_stderr = u ''exec exceeded '' @ ms_text (dk_exec_timeout_ms c) @ u ''s''\<rparr>, s1)
      | (CmdOSError _, s1) \<Rightarrow> (Inl (OtherException (u ''OSError'')), s1))"

definition exec_result_succeeded :: "exec_result \<Rightarrow> bool" where
  "exec_result_succeeded r \<longleftrightarrow> xr_exit_code r = 0"

definition verify_privilege_drop :: "'w docker_runner \<Rightarrow> docker_config \<Rightarrow> ('w sandbox, unit) act" where
  "verify_privilege_drop runner c s =
     (case dk_workload_uid c of
        None \<Rightarrow> (Inr (), s)
      | Some uid \<Rightarrow>
          (case sb_container s of
             None \<Rightarrow> (Inl (OtherException (u ''AssertionError'')), s)
           | Some ctr \<Rightarrow>
               thenA (exec_in runner c ctr [u ''id'', u ''-u'']) (\<lambda>identity.
                 if \<not> exec_result_succeeded identity \<or> py_strip (xr_stdout identity) \<noteq> nat_to_text uid
                 then abort runner c (SandboxVerificationFailedError
                   (u ''workload did not drop to uid '' @ nat_to_text uid @ u '': got ''
                    @ repr_str (py_strip (xr_stdout identity)) @ u '' (exit '' @ int_to_text (xr_exit_code identity) @ u '')''))
                 else thenA (exec_in runner c ctr [u ''iptables'', u ''-w'', u ''-S'', u ''OUTPUT'']) (\<lambda>probe.
                   if exec_result_succeeded probe
                   then abort runner c (SandboxVerificationFailedError
                     (u ''unprivileged workload could read netfilter; capability drop is not effective on this runtime''))
                   else retA ())) s))"

definition sandbox_run :: "'w docker_runner \<Rightarrow> docker_config \<Rightarrow> pystr list \<Rightarrow> ('w sandbox, exec_result) act" where
  "sandbox_run runner c argv s =
     (if \<not> sb_established s then (raise (SandboxUnavailableError (u ''sandbox is not established'')), s)
      else case sb_container s of
        None \<Rightarrow> (raise (SandboxUnavailableError (u ''sandbox is not established'')), s)
      | Some ctr \<Rightarrow> exec_in runner c ctr argv s)"

section \<open>Establishment\<close>

definition establish_steps :: "'w docker_runner \<Rightarrow> docker_config \<Rightarrow> nat \<Rightarrow> pystr \<Rightarrow> pystr \<Rightarrow> ('w sandbox, verification) act" where
  "establish_steps runner c polls net_suffix ctr_suffix =
     thenA (create_network runner c net_suffix) (\<lambda>_.
     thenA (create_container runner c polls ctr_suffix) (\<lambda>_.
     thenA (install_egress_rules runner c) (\<lambda>_.
     thenA (verify runner c) (\<lambda>v.
     thenA (verify_privilege_drop runner c) (\<lambda>_. retA v)))))"

definition establish :: "'w docker_runner \<Rightarrow> docker_config \<Rightarrow> bool \<Rightarrow> nat \<Rightarrow> pystr \<Rightarrow> pystr \<Rightarrow> ('w sandbox, verification) act" where
  "establish runner c found polls net_suffix ctr_suffix s =
     (if sb_established s then (raise (SandboxSetupFailedError (u ''sandbox already established'')), s)
      else thenA (preflight runner c found) (\<lambda>_.
           thenA (on_error (establish_steps runner c polls net_suffix ctr_suffix)
                    (\<lambda>s2. destroy runner c (s2\<lparr>sb_established := False\<rparr>))) (\<lambda>v s3.
             (Inr v, s3\<lparr>sb_verification := Some v, sb_established := True\<rparr>))) s)"

definition require_established :: "('s \<Rightarrow> bool) \<Rightarrow> ('s, unit) act" where
  "require_established established s = (if established s then (Inr (), s) else (raise SandboxNotEstablishedError, s))"

section \<open>Lemmas\<close>

text \<open>\<open>keeps g m\<close>: the action never changes the part \<open>g\<close> of the state.\<close>

definition keeps :: "('s \<Rightarrow> 'k) \<Rightarrow> ('s, 'a) act \<Rightarrow> bool" where
  "keeps g m \<longleftrightarrow> (\<forall>s. g (snd (m s)) = g s)"

named_theorems keeps_intros

lemma keeps_thenA [keeps_intros]: "keeps g m \<Longrightarrow> (\<And>x. keeps g (f x)) \<Longrightarrow> keeps g (thenA m f)"
  by (auto simp: keeps_def thenA_def split: prod.splits sum.splits) (metis snd_conv)+

lemma keeps_simple [keeps_intros]: "keeps g (retA x)" "keeps g (failA e)"
  by (simp_all add: keeps_def retA_def failA_def)

lemma keepsD: "keeps g m \<Longrightarrow> m s = (r, s') \<Longrightarrow> g s' = g s"
  by (metis keeps_def snd_conv)

lemma docker_call_state: "docker_call runner c t args s = (r, s') \<Longrightarrow> \<exists>w. s' = s\<lparr>sb_world := w\<rparr>"
  by (auto simp: docker_call_def Let_def split: prod.splits)

abbreviation handles :: "'w sandbox \<Rightarrow> sandbox_policy \<times> pystr option \<times> pystr option \<times> pystr option \<times> bool" where
  "handles s \<equiv> (sb_policy s, sb_network s, sb_container s, sb_pending s, sb_established s)"

lemma keeps_docker_or [keeps_intros]: "keeps handles (docker_or err runner c t args)"
  unfolding keeps_def
proof
  fix s
  obtain r s' where d: "docker_call runner c t args s = (r, s')" by (rule prod.exhaust)
  with docker_call_state [OF d] show "handles (snd (docker_or err runner c t args s)) = handles s"
    by (cases r) (auto simp: docker_or_def)
qed

lemma keeps_docker [keeps_intros]:
  "keeps handles (docker_with_timeout runner c args)"
  "keeps handles (docker_or_unavailable runner c args)"
  "keeps handles (docker_or_setup_failed runner c args)"
  by (simp_all add: docker_with_timeout_def [abs_def] docker_or_unavailable_def [abs_def]
      docker_or_setup_failed_def [abs_def] keeps_docker_or)

lemma keeps_exec_in [keeps_intros]: "keeps handles (exec_in runner c ctr argv)"
  unfolding keeps_def
proof
  fix s
  obtain r s' where d: "docker_call runner c (dk_exec_timeout_ms c) (exec_argv c ctr argv) s = (r, s')"
    by (rule prod.exhaust)
  with docker_call_state [OF d] show "handles (snd (exec_in runner c ctr argv s)) = handles s"
    by (cases r) (auto simp: exec_in_def)
qed

lemma keeps_read_rule_dump [keeps_intros]: "keeps handles (read_rule_dump runner c ctr v6)"
proof -
  have "read_rule_dump runner c ctr v6 = thenA (docker_or_setup_failed runner c
      [u ''exec'', ctr, if v6 then u ''ip6tables'' else u ''iptables'', u ''-S'', u ''OUTPUT'']) (\<lambda>(rc, out, er).
      if rc \<noteq> 0
      then failA (Domain (SandboxVerificationFailedError ((if v6 then u ''ip6tables'' else u ''iptables'') @ u '' dump failed: '' @ py_strip er)))
      else retA (filter (\<lambda>l. py_strip l \<noteq> []) (py_splitlines out)))"
    by (rule ext) (simp add: read_rule_dump_def Let_def)
  then show ?thesis by (auto intro!: keeps_intros split: prod.splits)
qed

definition clean :: "'w sandbox \<Rightarrow> bool" where
  "clean s \<longleftrightarrow> \<not> sb_established s \<and> sb_network s = None \<and> sb_container s = None \<and> sb_pending s = None"

lemma best_effort_state: "\<exists>w. best_effort runner c args s = s\<lparr>sb_world := w\<rparr>"
  unfolding best_effort_def by (metis docker_call_state surjective_pairing)

lemma reap_state: "\<exists>w. reap runner c cmd n s = s\<lparr>sb_world := w\<rparr>"
proof (cases n)
  case None
  then have "reap runner c cmd n s = s\<lparr>sb_world := sb_world s\<rparr>" by (simp add: reap_def)
  then show ?thesis by blast
next
  case (Some x)
  then show ?thesis using best_effort_state by (simp add: reap_def)
qed

lemma destroy_state:
  "\<exists>w. destroy runner c s = s\<lparr>sb_established := False, sb_pending := None, sb_container := None, sb_network := None, sb_world := w\<rparr>"
proof -
  let ?s0 = "s\<lparr>sb_established := False\<rparr>"
  obtain w1 where w1: "reap runner c [u ''rm'', u ''-f''] (sb_pending ?s0) ?s0 = ?s0\<lparr>sb_world := w1\<rparr>"
    using reap_state [of runner c "[u ''rm'', u ''-f'']" "sb_pending ?s0" ?s0] by blast
  let ?s1 = "?s0\<lparr>sb_world := w1, sb_pending := None\<rparr>"
  obtain w2 where w2: "reap runner c [u ''rm'', u ''-f''] (sb_container ?s1) ?s1 = ?s1\<lparr>sb_world := w2\<rparr>"
    using reap_state [of runner c "[u ''rm'', u ''-f'']" "sb_container ?s1" ?s1] by blast
  let ?s2 = "?s1\<lparr>sb_world := w2, sb_container := None\<rparr>"
  obtain w3 where w3: "reap runner c [u ''network'', u ''rm''] (sb_network ?s2) ?s2 = ?s2\<lparr>sb_world := w3\<rparr>"
    using reap_state [of runner c "[u ''network'', u ''rm'']" "sb_network ?s2" ?s2] by blast
  show ?thesis
    by (rule exI [of _ w3]) (use w1 w2 w3 in \<open>simp add: destroy_def Let_def\<close>)
qed

lemma destroy_clean [simp]: "clean (destroy runner c s)"
  using destroy_state [of runner c s] by (auto simp: clean_def)

lemma destroy_policy [simp]: "sb_policy (destroy runner c s) = sb_policy s"
  using destroy_state [of runner c s] by auto

lemma destroy_of_clean: "clean s \<Longrightarrow> destroy runner c s = s"
  by (simp add: clean_def destroy_def reap_def)

text \<open>The policy never changes.\<close>

lemma keeps_weaken: "keeps handles m \<Longrightarrow> keeps sb_policy m"
  by (simp add: keeps_def)

lemma keeps_policy [keeps_intros]:
  "keeps sb_policy (docker_with_timeout runner c args)"
  "keeps sb_policy (docker_or_unavailable runner c args)"
  "keeps sb_policy (docker_or_setup_failed runner c args)"
  "keeps sb_policy (exec_in runner c ctr argv)"
  "keeps sb_policy (read_rule_dump runner c ctr v6)"
  by (auto intro!: keeps_weaken keeps_intros)

lemma keeps_policy_await [keeps_intros]: "keeps sb_policy (await_running runner c polls name)"
proof (induction polls)
  case 0
  then show ?case by (simp add: keeps_def)
next
  case (Suc n)
  have "await_running runner c (Suc n) name = thenA (docker_or_setup_failed runner c
      [u ''inspect'', u ''-f'', u ''{{.State.Running}}'', name]) (\<lambda>(rc, out, er).
       if rc = 0 \<and> py_strip out = u ''true'' then retA () else await_running runner c n name)"
    by (rule ext) simp
  with Suc show ?case by (auto intro!: keeps_intros split: prod.splits)
qed

lemma keeps_policy_join [keeps_intros]: "keeps sb_policy (join_networks runner c name ns)"
proof (induction ns)
  case Nil
  then show ?case by (simp add: keeps_def)
next
  case (Cons n ns)
  have "join_networks runner c name (n # ns) = thenA (docker_with_timeout runner c [u ''network'', u ''connect'', n, name]) (\<lambda>(rc, out, er).
       if rc \<noteq> 0
       then failA (Domain (SandboxSetupFailedError (u ''joining network '' @ n @ u '' failed: '' @ py_strip er)))
       else join_networks runner c name ns)"
    by (rule ext) simp
  with Cons show ?case by (auto intro!: keeps_intros split: prod.splits)
qed

lemma create_network_policy: "create_network runner c suffix s = (r, s') \<Longrightarrow> sb_policy s' = sb_policy s"
  by (auto simp: create_network_def Let_def thenA_def abort_def dest!: keepsD [OF keeps_policy(1)]
      split: prod.splits sum.splits if_splits)

lemma create_container_policy: "create_container runner c polls suffix s = (r, s') \<Longrightarrow> sb_policy s' = sb_policy s"
  by (auto simp: create_container_def Let_def thenA_def abort_def
      dest!: keepsD [OF keeps_policy(1)] keepsD [OF keeps_policy_join] keepsD [OF keeps_policy_await]
      split: prod.splits sum.splits if_splits option.splits)

lemma install_policy: "install_egress_rules runner c s = (r, s') \<Longrightarrow> sb_policy s' = sb_policy s"
  by (auto simp: install_egress_rules_def thenA_def failA_def retA_def dest!: keepsD [OF keeps_policy(3)]
      split: prod.splits sum.splits if_splits option.splits)

lemma compare_family_ok:
  "compare_family tool dump expected = [] \<longleftrightarrow>
     (\<exists>l \<in> set dump. py_startswith l (u ''-P OUTPUT DROP'')) \<and> set (accepted_dests dump) = set expected"
  by (auto simp: compare_family_def Let_def list_ex_iff filter_empty_conv split: if_splits)

lemma verify_Inr:
  assumes "verify runner c s = (Inr v, s')"
  shows "\<exists>ctr d4 d6. sb_container s = Some ctr \<and> compare_against_policy (sb_policy s) d4 d6 = []
    \<and> vf_rule_dump v = d4 @ d6 \<and> vf_allowed_addresses v = set (po_addresses (sb_policy s)) \<and> vf_default_drop v
    \<and> vf_workload_uid v = dk_workload_uid c \<and> handles s' = handles s"
proof -
  from assms obtain ctr d4 s1 d6 s2 where st: "sb_container s = Some ctr"
    "read_rule_dump runner c ctr False s = (Inr d4, s1)" "read_rule_dump runner c ctr True s1 = (Inr d6, s2)"
    "compare_against_policy (sb_policy s2) d4 d6 = []"
    "v = \<lparr>vf_rule_dump = d4 @ d6, vf_default_drop = True,
          vf_allowed_addresses = set (po_addresses (sb_policy s2)), vf_workload_uid = dk_workload_uid c\<rparr>" "s' = s2"
    by (auto simp: verify_def thenA_Inr abort_def Let_def split: option.splits if_splits)
  have "handles s2 = handles s"
    using keepsD [OF keeps_read_rule_dump st(2)] keepsD [OF keeps_read_rule_dump st(3)] by simp
  with st show ?thesis by auto
qed

lemma privilege_drop_Inr:
  assumes "verify_privilege_drop runner c s = (Inr (), s')"
  shows "handles s' = handles s"
  using assms
  by (auto simp: verify_privilege_drop_def thenA_Inr abort_def retA_def
      dest!: keepsD [OF keeps_exec_in] split: option.splits if_splits)

lemma establish_Inr:
  assumes "establish runner c found polls ns cs s = (Inr v, s')"
  shows "sb_established s' \<and> \<not> sb_established s \<and> sb_container s' \<noteq> None \<and> sb_policy s' = sb_policy s
    \<and> sb_verification s' = Some v
    \<and> vf_allowed_addresses v = set (po_addresses (sb_policy s))
    \<and> (\<exists>d4 d6. vf_rule_dump v = d4 @ d6 \<and> compare_against_policy (sb_policy s) d4 d6 = [])"
proof -
  from assms obtain s1 s2 where ne: "\<not> sb_established s" and pf: "preflight runner c found s = (Inr (), s1)"
    and st: "establish_steps runner c polls ns cs s1 = (Inr v, s2)"
    and s': "s' = s2\<lparr>sb_verification := Some v, sb_established := True\<rparr>"
    by (auto simp: establish_def thenA_Inr on_error_Inr split: if_splits)
  from pf have p1: "sb_policy s1 = sb_policy s"
    by (auto simp: preflight_def thenA_Inr retA_def failA_def dest!: keepsD [OF keeps_policy(2)] split: if_splits)
  from st obtain a b d e where
    1: "create_network runner c ns s1 = (Inr (), a)" and 2: "create_container runner c polls cs a = (Inr (), b)"
    and 3: "install_egress_rules runner c b = (Inr (), d)" and 4: "verify runner c d = (Inr v, e)"
    and 5: "verify_privilege_drop runner c e = (Inr (), s2)"
    by (auto simp: establish_steps_def thenA_Inr retA_def)
  have pd: "sb_policy d = sb_policy s"
    using p1 create_network_policy [OF 1] create_container_policy [OF 2] install_policy [OF 3] by simp
  from verify_Inr [OF 4] privilege_drop_Inr [OF 5] pd s' ne show ?thesis by auto
qed

lemma establish_Inl:
  assumes "establish runner c found polls ns cs s = (Inl e, s')" and "clean s"
  shows "clean s'"
proof -
  have ne: "\<not> sb_established s" using assms(2) by (simp add: clean_def)
  from assms(1) ne consider "preflight runner c found s = (Inl e, s')"
    | s2 where "s' = destroy runner c s2"
    by (auto simp: establish_def thenA_Inl on_error_Inl split: if_splits)
  then show ?thesis
  proof cases
    case 1
    then have "handles s' = handles s"
      by (auto simp: preflight_def thenA_Inl retA_def failA_def dest!: keepsD [OF keeps_docker(2)] split: if_splits)
    with assms(2) show ?thesis by (simp add: clean_def)
  qed simp
qed

section \<open>The sandbox contract as an interface\<close>

text \<open>
  The lifecycle contract of \<open>EgressSandbox\<close> as its clients use it: establishing proves the sandbox up or
  leaves it down, nothing runs while it is down, running does not bring it up or down, destroying
  takes it down.
\<close>

text \<open>A sequence of commands through one \<open>run\<close>.\<close>

fun exec_all :: "(pystr list \<Rightarrow> ('s, exec_result) act) \<Rightarrow> pystr list list \<Rightarrow> 's \<Rightarrow> exec_result result list \<times> 's" where
  "exec_all exec [] s = ([], s)"
| "exec_all exec (a # as) s =
     (let (r, s1) = exec a s; (rs, s2) = exec_all exec as s1 in (r # rs, s2))"

locale egress_sandbox =
  fixes up :: "'s \<Rightarrow> bool"
    and start :: "('s, 'v) act"
    and exec :: "pystr list \<Rightarrow> ('s, exec_result) act"
    and stop :: "'s \<Rightarrow> 's"
  assumes start_up: "start s = (Inr v, s') \<Longrightarrow> up s'"
    and start_fail: "\<not> up s \<Longrightarrow> start s = (Inl e, s') \<Longrightarrow> \<not> up s'"
    and exec_gated: "\<not> up s \<Longrightarrow> \<exists>e. exec argv s = (Inl e, s)"
    and exec_keeps: "up (snd (exec argv s)) = up s"
    and stop_down: "\<not> up (stop s)"
begin

lemma exec_all_down: "\<not> up s \<Longrightarrow> snd (exec_all exec as s) = s \<and> list_all isl (fst (exec_all exec as s))"
proof (induction as)
  case Nil
  then show ?case by simp
next
  case (Cons a as)
  obtain e where "exec a s = (Inl e, s)" using exec_gated [OF Cons.prems] by blast
  with Cons show ?case by (auto simp: Let_def split: prod.splits)
qed

lemma exec_all_keeps: "up (snd (exec_all exec as s)) = up s"
proof (induction as arbitrary: s)
  case Nil
  then show ?case by simp
next
  case (Cons a as)
  obtain r s1 where r: "exec a s = (r, s1)" by (rule prod.exhaust)
  obtain rs s2 where rs: "exec_all exec as s1 = (rs, s2)" by (rule prod.exhaust)
  from exec_keeps [of a s] Cons.IH [of s1] show ?case by (simp add: r rs)
qed

lemma after_stop: "exec_all exec as (stop s) = (fst (exec_all exec as (stop s)), stop s) \<and> list_all isl (fst (exec_all exec as (stop s)))"
  using exec_all_down [OF stop_down [of s], of as] by (simp add: prod_eq_iff)

lemma down_client: "\<not> up s \<Longrightarrow> transport_execute up canc exec ra code ca limits now req s = (raise SandboxNotEstablishedError, s)"
  by (simp add: transport_execute_def)

lemma start_then_require:
  "thenA start (\<lambda>_. require_established up) s = (Inr x, s') \<longleftrightarrow> (\<exists>v. start s = (Inr v, s'))"
proof
  assume "\<exists>v. start s = (Inr v, s')"
  then obtain v where v: "start s = (Inr v, s')" by blast
  with start_up [OF v] show "thenA start (\<lambda>_. require_established up) s = (Inr x, s')"
    by (simp add: thenA_def require_established_def)
qed (auto simp: thenA_Inr require_established_def split: if_splits)

lemma start_then_require_fail:
  "thenA start (\<lambda>_. require_established up) s = (Inl e, s') \<longleftrightarrow> start s = (Inl e, s')"
  by (auto simp: thenA_Inl require_established_def start_up split: if_splits)

lemma require_after_start: "start s = (Inr v, s') \<Longrightarrow> require_established up s' = (Inr (), s')"
  by (simp add: require_established_def start_up)

end

lemma sandbox_run_down:
  "\<not> sb_established s \<Longrightarrow> sandbox_run runner c argv s = (raise (SandboxUnavailableError (u ''sandbox is not established'')), s)"
  by (simp add: sandbox_run_def)

lemma sandbox_run_keeps: "handles (snd (sandbox_run runner c argv s)) = handles s"
proof (cases "sb_established s")
  case True
  have "handles (snd (exec_in runner c ctr argv s)) = handles s" for ctr
    using keeps_exec_in [of runner c ctr argv] unfolding keeps_def by blast
  with True show ?thesis by (cases "sb_container s") (simp_all add: sandbox_run_def)
next
  case False
  then show ?thesis by (simp add: sandbox_run_def)
qed

lemma establish_fail_down:
  assumes "\<not> sb_established s" and "establish runner c found polls ns cs s = (Inl e, s')"
  shows "\<not> sb_established s'"
proof -
  from assms consider "preflight runner c found s = (Inl e, s')" | s2 where "s' = destroy runner c s2"
    by (auto simp: establish_def thenA_Inl on_error_Inl split: if_splits)
  then show ?thesis
  proof cases
    case 1
    then have "handles s' = handles s"
      by (auto simp: preflight_def thenA_Inl retA_def failA_def dest!: keepsD [OF keeps_docker(2)] split: if_splits)
    with assms(1) show ?thesis by simp
  next
    case 2
    then show ?thesis using destroy_clean by (auto simp: clean_def)
  qed
qed

interpretation docker: egress_sandbox sb_established "establish runner c found polls ns cs" "sandbox_run runner c" "destroy runner c"
  for runner :: "'w docker_runner" and c found polls ns cs
proof unfold_locales
  show "sb_established s'" if "establish runner c found polls ns cs s = (Inr v, s')" for s v s'
    using establish_Inr [OF that] by blast
  show "\<not> sb_established s'" if "\<not> sb_established s" "establish runner c found polls ns cs s = (Inl e, s')" for s e s'
    using that by (rule establish_fail_down)
  show "\<exists>e. sandbox_run runner c argv s = (Inl e, s)" if "\<not> sb_established s" for s argv
    using sandbox_run_down [OF that] by blast
  show "sb_established (snd (sandbox_run runner c argv s)) = sb_established s" for argv s
    using sandbox_run_keeps [of runner c argv s] by simp
  show "\<not> sb_established (destroy runner c s)" for s
    using destroy_clean [of runner c s] by (simp add: clean_def)
qed

section \<open>Properties\<close>


text \<open>C18 [failed_establishment_leaves_nothing]: when establishing a fresh sandbox fails at any step, the
  object ends not established and without a network, container or pending name, and it refuses
  every command.\<close>

theorem failed_establishment_leaves_nothing:
  assumes "establish runner c found polls ns cs (new_sandbox p w) = (Inl e, s')"
  shows "clean s' \<and> sandbox_run runner c argv s' = (raise (SandboxUnavailableError (u ''sandbox is not established'')), s')
    \<and> destroy runner c s' = s'"
proof -
  have "clean (new_sandbox p w)" by (simp add: clean_def new_sandbox_def)
  with assms have "clean s'" by (rule establish_Inl)
  moreover from this have "\<not> sb_established s'" by (simp add: clean_def)
  ultimately show ?thesis using sandbox_run_down destroy_of_clean by blast
qed

theorem failed_establishment_leaves_nothing_witness:
  "clean (new_sandbox \<lparr>po_hostname = [], po_addresses = []\<rparr> ())
   \<and> sandbox_run (\<lambda>_ _ w. (CmdOSError [], w)) default_config []  (new_sandbox \<lparr>po_hostname = [], po_addresses = []\<rparr> ())
      = (raise (SandboxUnavailableError (u ''sandbox is not established'')), new_sandbox \<lparr>po_hostname = [], po_addresses = []\<rparr> ())"
proof -
  let ?s = "new_sandbox \<lparr>po_hostname = [], po_addresses = []\<rparr> ()"
  have "establish (\<lambda>_ _ w. (CmdOSError [], w)) default_config False 0 [] [] ?s
      = (raise (SandboxUnavailableError (repr_str (u ''docker'') @ u '' binary not found'')), ?s)"
    by (simp add: establish_def new_sandbox_def thenA_def preflight_def default_config_def)
  from failed_establishment_leaves_nothing [OF this] show ?thesis by simp
qed

text \<open>Once destroyed, a sandbox executes no command of any later
  sequence: every one is refused and neither the object nor the world changes.\<close>

theorem stopped_sandbox_runs_nothing:
  "exec_all (sandbox_run runner c) as (destroy runner c s)
     = (fst (exec_all (sandbox_run runner c) as (destroy runner c s)), destroy runner c s)
   \<and> list_all isl (fst (exec_all (sandbox_run runner c) as (destroy runner c s)))"
  by (rule docker.after_stop)

text \<open>Appending a rule that accepts everything to either rule dump
  leaves the verification's verdict unchanged: rules without a destination are not compared.\<close>

theorem drift_check_misses_open_accept:
  "compare_against_policy p (d4 @ [u ''-A OUTPUT -j ACCEPT'']) d6 = compare_against_policy p d4 d6
   \<and> compare_against_policy p d4 (d6 @ [u ''-A OUTPUT -j ACCEPT'']) = compare_against_policy p d4 d6"
proof -
  have "accept_dest (u ''-A OUTPUT -j ACCEPT'') = None"
    by (simp add: text_defs py_startswith_def dest_at_def)
  then have acc: "accepted_dests (d @ [u ''-A OUTPUT -j ACCEPT'']) = accepted_dests d" for d
    by (simp add: accepted_dests_def List.map_filter_def)
  have "\<not> py_startswith (u ''-A OUTPUT -j ACCEPT'') (u ''-P OUTPUT DROP'')"
    by (simp add: text_defs py_startswith_def)
  then have "compare_family t (d @ [u ''-A OUTPUT -j ACCEPT'']) e = compare_family t d e" for t d e
    by (simp add: compare_family_def acc)
  then show ?thesis by (simp add: compare_against_policy_def)
qed

text \<open>A Docker that answers as it should, for the one address 8.8.8.8.\<close>

definition example_docker :: "'w docker_runner" where
  "example_docker argv timeout w =
     (if argv ! 1 = u ''inspect'' then Completed 0 (u ''true'') []
      else if argv ! 1 = u ''exec'' \<and> argv ! 2 = u ''-u'' then
        (if argv ! 5 = u ''id'' then Completed 0 (u ''65534'') [] else Completed 1 [] [])
      else if argv ! 1 = u ''exec'' \<and> argv ! 3 = u ''iptables''
      then Completed 0 (u ''-P OUTPUT DROP'' @ 10 # u ''-A OUTPUT -d 8.8.8.8/32 -j ACCEPT'') []
      else if argv ! 1 = u ''exec'' \<and> argv ! 3 = u ''ip6tables'' then Completed 0 (u ''-P OUTPUT DROP'') []
      else Completed 0 [] [], w)"

definition example_policy :: sandbox_policy where
  "example_policy = \<lparr>po_hostname = u ''a'', po_addresses = [V4 0x08080808]\<rparr>"

lemma example_policy_text:
  "cidrs (u ''/32'') (allowed_v4 example_policy) = [u ''8.8.8.8/32'']" "allowed_v6 example_policy = []"
  by (simp_all add: cidrs_def allowed_v4_def allowed_v6_def example_policy_def ipv4_text_def nat_to_text.simps upt_rec text_defs)

lemma example_dump:
  "filter (\<lambda>l. py_strip l \<noteq> []) (py_splitlines (u ''-P OUTPUT DROP'' @ 10 # u ''-A OUTPUT -d 8.8.8.8/32 -j ACCEPT''))
     = [u ''-P OUTPUT DROP'', u ''-A OUTPUT -d 8.8.8.8/32 -j ACCEPT'']"
  "filter (\<lambda>l. py_strip l \<noteq> []) (py_splitlines (u ''-P OUTPUT DROP'')) = [u ''-P OUTPUT DROP'']"
  by (simp_all add: py_splitlines_def line_break_def norm_eval py_isspace_def)

lemma example_compare:
  "compare_against_policy example_policy [u ''-P OUTPUT DROP'', u ''-A OUTPUT -d 8.8.8.8/32 -j ACCEPT''] [u ''-P OUTPUT DROP''] = []"
proof -
  have "accept_dest (u ''-A OUTPUT -d 8.8.8.8/32 -j ACCEPT'') = Some (u ''8.8.8.8/32'')"
    "accept_dest (u ''-P OUTPUT DROP'') = None" "py_startswith (u ''-P OUTPUT DROP'') (u ''-P OUTPUT DROP'')"
    by (simp_all add: text_defs py_startswith_def dest_at_def py_isspace_def)
  then show ?thesis
    by (simp add: compare_against_policy_def compare_family_ok example_policy_text cidrs_def [of _ "[]"]
        accepted_dests_def List.map_filter_def)
qed

lemma example_establish:
  "\<exists>v s'. establish example_docker default_config True 1 (u ''n'') (u ''c'') (new_sandbox example_policy w) = (Inr v, s')"
proof -
  have strip: "py_strip (u ''true'') = u ''true''" "py_strip (u ''65534'') = u ''65534''" "nat_to_text 65534 = u ''65534''"
    by (simp_all add: norm_eval py_isspace_def nat_to_text.simps)
  have nm: "u ''sgpt-sbx'' @ 45 # u ''c'' \<noteq> u ''-u''" by (simp add: text_defs)
  show ?thesis
    by (simp add: establish_def new_sandbox_def thenA_def preflight_def default_config_def docker_or_unavailable_def
        docker_or_def docker_call_def example_docker_def retA_def establish_steps_def on_error_def create_network_def
        docker_with_timeout_def create_container_def docker_or_setup_failed_def strip install_egress_rules_def verify_def
        read_rule_dump_def example_dump example_compare verify_privilege_drop_def exec_in_def exec_argv_def
        exec_result_succeeded_def nm)
qed


end
