(* ===== verification/Executor.thy ===== *)
theory Executor
  imports Sandbox
begin

text \<open>
  The gated execution chain (\<open>scanning/runner.py\<close>), the engine gate (\<open>scanning/engines/base.py\<close>) and the
  services an engine receives (\<open>scanning/engines/services.py\<close>).  \<open>'w\<close> is the world outside the process,
  \<open>'s\<close> the state of one sandbox object (it contains the world); an engine is a function of the context
  and its services that acts on \<open>'s\<close>.
\<close>

section \<open>Engine services\<close>

record origin_spec =
  os_scheme :: pystr
  os_port :: "int option"
  os_path :: pystr

definition default_origin :: origin_spec where
  "default_origin = \<lparr>os_scheme = u ''https'', os_port = None, os_path = [47]\<rparr>"

definition default_port :: "pystr \<Rightarrow> int result" where
  "default_port scheme = bindE (some_or KeyError (map_of default_ports scheme)) (\<lambda>p. Inr (int p))"

text \<open>\<open>port or DEFAULT_PORTS[scheme]\<close>: a port 0 counts as absent in this check.\<close>

definition make_origin :: "pystr \<Rightarrow> int option \<Rightarrow> pystr \<Rightarrow> origin_spec result" where
  "make_origin scheme port path =
     (if py_lower scheme \<notin> set allowed_http_schemes then Inl ValueError
      else if \<not> py_startswith path [47] then Inl ValueError
      else bindE (case port of None \<Rightarrow> default_port (py_lower scheme)
                  | Some p \<Rightarrow> if p \<noteq> 0 then Inr p else default_port (py_lower scheme)) (\<lambda>effective.
             if \<not> (1 \<le> effective \<and> effective \<le> 65535) then Inl ValueError
             else Inr \<lparr>os_scheme = scheme, os_port = port, os_path = path\<rparr>))"

text \<open>The HTTP client is the only capability: it answers a request within limits, given a cancellation flag.\<close>

type_synonym 's http_client = "scan_request \<Rightarrow> http_limits \<Rightarrow> ('s \<Rightarrow> bool) \<Rightarrow> ('s, response_data) act"

record 's engine_services =
  sv_http_client :: "'s http_client"
  sv_cancelled :: "'s \<Rightarrow> bool"
  sv_limits :: http_limits
  sv_origin :: origin_spec
  sv_context :: network_context

type_synonym ('s, 'r) engine = "network_context \<Rightarrow> 's engine_services \<Rightarrow> ('s, 'r) act"

section \<open>The engine gate\<close>

definition require_scan_context :: "network_context option \<Rightarrow> network_context result" where
  "require_scan_context context = (case context of None \<Rightarrow> raise ScannerExecutionBlockedError | Some c \<Rightarrow> Inr c)"

definition blocked_engine :: "network_context option \<Rightarrow> ('s, 'r) act" where
  "blocked_engine context = failA (Domain ScannerExecutionBlockedError)"

section \<open>The executor\<close>

text \<open>
  What the executor is composed with: the sandbox factory and the methods of the sandbox it makes, the
  world seen through a sandbox state, the resolver behind the resolution service, the loader text and
  CA bundle of the client, the moment a redirect is resolved at, and the production gate.
\<close>

record ('w, 's) executor =
  ex_factory :: "sandbox_policy \<Rightarrow> 'w \<Rightarrow> 's"
  ex_up :: "'s \<Rightarrow> bool"
  ex_start :: "('s, verification) act"
  ex_exec :: "pystr list \<Rightarrow> ('s, exec_result) act"
  ex_stop :: "'s \<Rightarrow> 's"
  ex_world :: "'s \<Rightarrow> 'w"
  ex_set_world :: "'w \<Rightarrow> 's \<Rightarrow> 's"
  ex_resolver :: "'w resolver"
  ex_code :: pystr
  ex_ca :: "pystr option"
  ex_redirect_now :: timestamp
  ex_enable_execution :: bool

text \<open>The resolution service as the client inside a sandbox calls it.\<close>

definition lift_resolver :: "('s \<Rightarrow> 'w) \<Rightarrow> ('w \<Rightarrow> 's \<Rightarrow> 's) \<Rightarrow> 'w resolver \<Rightarrow> 's resolver" where
  "lift_resolver world set_world ra hostname s =
     (let (out, w1) = ra hostname (world s) in (out, set_world w1 s))"

text \<open>
  \<open>prepare\<close>.  A failure leaves the world (\<open>Inl\<close>) or, once the factory has been called, a sandbox (\<open>Inr\<close>).
\<close>

definition prepare ::
  "('w, 's) executor \<Rightarrow> pystr \<Rightarrow> uuid option \<Rightarrow> timestamp \<Rightarrow> 'w \<Rightarrow> (exn \<times> ('w + 's)) + (binding \<times> 's)" where
  "prepare x hostname target_id now w =
     (let (rb, w1) = resolve (ex_resolver x) hostname target_id now w
      in case rb of
           Inl e \<Rightarrow> Inl (e, Inl w1)
         | Inr b \<Rightarrow>
             (case policy_for_binding b of
                Inl e \<Rightarrow> Inl (e, Inl w1)
              | Inr policy \<Rightarrow>
                  (let (r, s) = thenA (ex_start x) (\<lambda>_. require_established (ex_up x)) (ex_factory x policy w1)
                   in case r of Inl e \<Rightarrow> Inl (e, Inr s) | Inr _ \<Rightarrow> Inr (b, s))))"

definition build_services ::
  "('w, 's) executor \<Rightarrow> network_context \<Rightarrow> http_limits option \<Rightarrow> origin_spec option \<Rightarrow> 's engine_services" where
  "build_services x context limits origin =
     \<lparr>sv_http_client = (\<lambda>request lims cancelled.
         transport_execute (ex_up x) cancelled (ex_exec x)
           (lift_resolver (ex_world x) (ex_set_world x) (ex_resolver x))
           (ex_code x) (ex_ca x) lims (ex_redirect_now x) request),
      sv_cancelled = (\<lambda>_. False),
      sv_limits = (case limits of None \<Rightarrow> default_limits | Some l \<Rightarrow> l),
      sv_origin = (case origin of None \<Rightarrow> default_origin | Some g \<Rightarrow> g),
      sv_context = context\<rparr>"

text \<open>The body of the \<open>try\<close>, and the whole attempt: \<open>sandbox.destroy()\<close> is the \<open>finally\<close>.\<close>

definition attempt ::
  "('w, 's) executor \<Rightarrow> binding \<Rightarrow> ('s, 'r) engine option \<Rightarrow> http_limits option \<Rightarrow> origin_spec option \<Rightarrow> ('s, 'r) act" where
  "attempt x b eng limits origin s =
     (case bindE (case vb_addresses b of [] \<Rightarrow> raise EgressDeniedError | a # _ \<Rightarrow> with_pinned b a) (\<lambda>pinned.
             require_scan_context (Some (context_create pinned))) of
        Inl e \<Rightarrow> (Inl e, s)
      | Inr context \<Rightarrow>
          (case eng of
             None \<Rightarrow> (raise ScannerExecutionBlockedError, s)
           | Some execute \<Rightarrow>
               if \<not> ex_enable_execution x then (raise ScannerExecutionBlockedError, s)
               else execute context (build_services x context limits origin) s))"

definition with_finally :: "('s \<Rightarrow> 's) \<Rightarrow> ('s, 'a) act \<Rightarrow> ('s, 'a) act" where
  "with_finally cleanup m s = (let (r, s1) = m s in (r, cleanup s1))"

definition execute_scan ::
  "('w, 's) executor \<Rightarrow> pystr \<Rightarrow> ('s, 'r) engine option \<Rightarrow> uuid option \<Rightarrow> timestamp \<Rightarrow> http_limits option
     \<Rightarrow> origin_spec option \<Rightarrow> 'w \<Rightarrow> 'r result \<times> ('w + 's)" where
  "execute_scan x hostname eng target_id now limits origin w =
     (case prepare x hostname target_id now w of
        Inl (e, st) \<Rightarrow> (Inl e, st)
      | Inr (b, s) \<Rightarrow>
          (let (r, s1) = with_finally (ex_stop x) (attempt x b eng limits origin) s in (r, Inr s1)))"

text \<open>The production composition: the Docker sandbox, which wraps the same world.\<close>

definition docker_executor ::
  "'w docker_runner \<Rightarrow> docker_config \<Rightarrow> bool \<Rightarrow> nat \<Rightarrow> pystr \<Rightarrow> pystr \<Rightarrow> 'w resolver \<Rightarrow> pystr \<Rightarrow> pystr option
     \<Rightarrow> timestamp \<Rightarrow> bool \<Rightarrow> ('w, 'w sandbox) executor" where
  "docker_executor runner c found polls ns cs ra code ca rnow enabled =
     \<lparr>ex_factory = new_sandbox, ex_up = sb_established, ex_start = establish runner c found polls ns cs,
      ex_exec = sandbox_run runner c, ex_stop = destroy runner c, ex_world = sb_world,
      ex_set_world = (\<lambda>w s. s\<lparr>sb_world := w\<rparr>), ex_resolver = ra, ex_code = code, ex_ca = ca,
      ex_redirect_now = rnow, ex_enable_execution = enabled\<rparr>"

section \<open>Lemmas\<close>

lemma make_origin_Inr:
  "make_origin scheme port path = Inr g \<Longrightarrow>
     g = \<lparr>os_scheme = scheme, os_port = port, os_path = path\<rparr> \<and> py_lower scheme \<in> set allowed_http_schemes
     \<and> py_startswith path [47] \<and> (case port of None \<Rightarrow> True | Some p \<Rightarrow> 0 \<le> p \<and> p \<le> 65535)"
  by (auto simp: make_origin_def bindE_Inr_iff split: if_splits option.splits)

lemma attempt_Inr:
  assumes "attempt x b eng limits origin s = (Inr r, s')"
  shows "\<exists>execute a p. eng = Some execute \<and> ex_enable_execution x \<and> vb_addresses b \<noteq> [] \<and> a = hd (vb_addresses b)
    \<and> with_pinned b a = Inr p
    \<and> execute (context_create p) (build_services x (context_create p) limits origin) s = (Inr r, s')"
  using assms
  by (auto simp: attempt_def require_scan_context_def bindE_Inr_iff split: sum.splits list.splits option.splits if_splits)

lemma attempt_closed:
  "\<not> ex_enable_execution x \<or> eng = None \<Longrightarrow>
     \<exists>e. attempt x b eng limits origin s = (Inl e, s) \<and> (vb_addresses b \<noteq> [] \<longrightarrow> e = Domain ScannerExecutionBlockedError)"
  by (auto simp: attempt_def require_scan_context_def with_pinned_def split: sum.splits list.splits option.splits)

lemma prepare_Inr:
  assumes "prepare x h t now w = Inr (b, s)"
  shows "\<exists>w1 p. resolve (ex_resolver x) h t now w = (Inr b, w1) \<and> policy_for_binding b = Inr p
    \<and> thenA (ex_start x) (\<lambda>_. require_established (ex_up x)) (ex_factory x p w1) = (Inr (), s)"
  using assms
  by (auto simp: prepare_def Let_def split: prod.splits sum.splits)

lemma prepare_Inl:
  assumes "prepare x h t now w = Inl (e, Inr s)"
  shows "\<exists>w1 p. thenA (ex_start x) (\<lambda>_. require_established (ex_up x)) (ex_factory x p w1) = (Inl e, s)"
  using assms
  by (auto simp: prepare_def Let_def split: prod.splits sum.splits)

lemma policy_for_binding_Inr:
  "policy_for_binding b = Inr p \<Longrightarrow> vb_addresses b \<noteq> [] \<and> p = \<lparr>po_hostname = vb_hostname b, po_addresses = vb_addresses b\<rparr>"
  by (auto simp: policy_for_binding_def split: if_splits)

lemmas docker_fields = docker_executor_def executor.select_convs

lemma docker_prepare_Inr:
  assumes "prepare (docker_executor runner c found polls ns cs ra code ca rnow enabled) h t now w = Inr (b, s)"
  shows "\<exists>w1. resolve ra h t now w = (Inr b, w1) \<and> sound_binding b \<and> vb_addresses b \<noteq> []
    \<and> sb_established s \<and> po_addresses (sb_policy s) = vb_addresses b"
proof -
  from prepare_Inr [OF assms] obtain w1 p where r: "resolve ra h t now w = (Inr b, w1)"
    and p: "policy_for_binding b = Inr p"
    and st: "thenA (establish runner c found polls ns cs) (\<lambda>_. require_established sb_established) (new_sandbox p w1) = (Inr (), s)"
    by (auto simp: docker_fields)
  from st obtain v where "establish runner c found polls ns cs (new_sandbox p w1) = (Inr v, s)"
    by (auto simp: docker.start_then_require)
  from establish_Inr [OF this] policy_for_binding_Inr [OF p] resolve_sound [OF r] r
  show ?thesis by (auto simp: new_sandbox_def)
qed

lemma docker_prepare_Inl:
  assumes "prepare (docker_executor runner c found polls ns cs ra code ca rnow enabled) h t now w = Inl (e, Inr s)"
  shows "clean s"
proof -
  from prepare_Inl [OF assms] obtain w1 p where
    "thenA (establish runner c found polls ns cs) (\<lambda>_. require_established sb_established) (new_sandbox p w1) = (Inl e, s)"
    by (auto simp: docker_fields)
  then have "establish runner c found polls ns cs (new_sandbox p w1) = (Inl e, s)"
    by (simp add: docker.start_then_require_fail)
  moreover have "clean (new_sandbox p w1)" by (simp add: clean_def new_sandbox_def)
  ultimately show ?thesis by (rule establish_Inl)
qed

lemma execute_scan_left:
  assumes "execute_scan (docker_executor runner c found polls ns cs ra code ca rnow enabled) h eng t now limits origin w = (r, Inr s)"
  shows "clean s"
  using assms docker_prepare_Inl
  by (fastforce simp: execute_scan_def with_finally_def Let_def docker_fields split: sum.splits prod.splits)

section \<open>Properties\<close>


definition example_executor :: "bool \<Rightarrow> (unit, unit sandbox) executor" where
  "example_executor enabled = docker_executor example_docker default_config True 1 (u ''n'') (u ''c'')
     (platform_resolve_all example_gai) [] None 0 enabled"

lemma example_prepare:
  "\<exists>s. prepare (example_executor enabled) (u ''a'') None 0 () = Inr (example_binding\<lparr>vb_pinned := None\<rparr>, s)"
proof -
  have b: "resolve (platform_resolve_all example_gai) (u ''a'') None 0 () = (Inr (example_binding\<lparr>vb_pinned := None\<rparr>), ())"
    by (simp add: resolve_example example_binding_def)
  have p: "policy_for_binding (example_binding\<lparr>vb_pinned := None\<rparr>) = Inr example_policy"
    by (simp add: policy_for_binding_def example_binding_def example_policy_def)
  obtain v s where "establish example_docker default_config True 1 (u ''n'') (u ''c'') (new_sandbox example_policy ()) = (Inr v, s)"
    using example_establish [of "()"] by blast
  then have "thenA (establish example_docker default_config True 1 (u ''n'') (u ''c'')) (\<lambda>_. require_established sb_established)
      (new_sandbox example_policy ()) = (Inr (), s)"
    by (auto simp: docker.start_then_require)
  with b p show ?thesis by (simp add: prepare_def example_executor_def docker_fields)
qed

definition example_engine :: "('w sandbox, bool) engine" where
  "example_engine ctx services s = (Inr (sb_established s), s)"

lemma example_scan:
  "\<exists>r s. execute_scan (example_executor enabled) (u ''a'') (Some example_engine) None 0 None None () = (r, Inr s)
     \<and> (enabled \<longrightarrow> \<not> isl r)"
proof -
  obtain s where "prepare (example_executor enabled) (u ''a'') None 0 () = Inr (example_binding\<lparr>vb_pinned := None\<rparr>, s)"
    using example_prepare by blast
  then show ?thesis
    by (auto simp: execute_scan_def with_finally_def attempt_def require_scan_context_def with_pinned_def
        example_binding_def example_engine_def example_executor_def docker_fields)
qed


text \<open>C7 [engine_runs_only_confined]: an attempt yields a result only when the gate is open, and then it is the
  result of the engine run inside an established sandbox whose policy is the address set of a freshly
  validated binding, on a context with the same allow-list and an admitted pinned address.\<close>

theorem engine_runs_only_confined:
  assumes "execute_scan (docker_executor runner c found polls ns cs ra code ca rnow enabled) h eng t now limits origin w = (Inr r, st)"
  shows "enabled \<and> (\<exists>execute ctx a s s1. eng = Some execute \<and> st = Inr (destroy runner c s1)
     \<and> execute ctx (build_services (docker_executor runner c found polls ns cs ra code ca rnow enabled) ctx limits origin) s = (Inr r, s1)
     \<and> sb_established s \<and> sound_context ctx \<and> cx_egress ctx = set (po_addresses (sb_policy s))
     \<and> vb_pinned (cx_binding ctx) = Some a \<and> allowed_ip a)"
proof -
  from assms obtain b s s1 where pr: "prepare (docker_executor runner c found polls ns cs ra code ca rnow enabled) h t now w = Inr (b, s)"
    and at: "attempt (docker_executor runner c found polls ns cs ra code ca rnow enabled) b eng limits origin s = (Inr r, s1)"
    and st: "st = Inr (destroy runner c s1)"
    by (auto simp: execute_scan_def with_finally_def Let_def docker_fields split: sum.splits prod.splits)
  from attempt_Inr [OF at] obtain execute p where e: "eng = Some execute" "enabled" "vb_addresses b \<noteq> []"
    and p: "with_pinned b (hd (vb_addresses b)) = Inr p"
    and run: "execute (context_create p) (build_services (docker_executor runner c found polls ns cs ra code ca rnow enabled)
      (context_create p) limits origin) s = (Inr r, s1)"
    by (auto simp: docker_fields)
  from docker_prepare_Inr [OF pr] have b: "sound_binding b" "sb_established s" "po_addresses (sb_policy s) = vb_addresses b"
    by auto
  from with_pinned_sound [OF b(1) p] have ps: "sound_binding p" "vb_pinned p = Some (hd (vb_addresses b))"
    "vb_addresses p = vb_addresses b" by auto
  have "allowed_ip (hd (vb_addresses b))" using b(1) e(3) by (simp add: sound_binding_def)
  moreover have "cx_egress (context_create p) = set (po_addresses (sb_policy s))"
    "vb_pinned (cx_binding (context_create p)) = Some (hd (vb_addresses b))"
    using ps b by (simp_all add: context_create_def)
  ultimately show ?thesis
    using e run st b(2) context_create_sound [OF ps(1)] by blast
qed

theorem engine_runs_only_confined_witness:
  "\<exists>r st. execute_scan (example_executor True) (u ''a'') (Some example_engine) None 0 None None () = (Inr r, st)
     \<and> (\<exists>s. st = Inr s)"
proof -
  obtain r st where run: "execute_scan (example_executor True) (u ''a'') (Some example_engine) None 0 None None () = (Inr r, st)"
    using example_scan [of True] by (metis (full_types) isl_def sum.exhaust)
  from engine_runs_only_confined [OF run [unfolded example_executor_def]] run show ?thesis by blast
qed

text \<open>With the production gate closed, any engine is as good as none: the whole
  attempt, errors and effects included, is the one without an engine, and it never returns a result.\<close>

theorem closed_gate_never_scans:
  "ex_enable_execution x = False \<Longrightarrow>
     execute_scan x h eng t now limits origin w = execute_scan x h None t now limits origin w
     \<and> isl (fst (execute_scan x h eng t now limits origin w))"
proof -
  assume closed: "ex_enable_execution x = False"
  have same: "attempt x b eng limits origin s = attempt x b None limits origin s" for b s
    using closed by (simp add: attempt_def split: sum.splits option.splits)
  have err: "isl (fst (attempt x b eng limits origin s))" for b s
    using attempt_closed [of x eng b limits origin s] closed by auto
  show ?thesis
  proof (cases "prepare x h t now w")
    case (Inl est)
    then show ?thesis by (cases est) (simp add: execute_scan_def)
  next
    case (Inr bs)
    obtain b s where bs: "bs = (b, s)" by (rule prod.exhaust)
    obtain r s1 where at: "attempt x b eng limits origin s = (r, s1)" by (rule prod.exhaust)
    with err [of b s] Inr bs same show ?thesis by (simp add: execute_scan_def with_finally_def)
  qed
qed

theorem closed_gate_never_scans_witness:
  "isl (fst (execute_scan (example_executor False) (u ''a'') (Some example_engine) None 0 None None ()))"
proof -
  have "ex_enable_execution (example_executor False) = False"
    by (simp add: example_executor_def docker_fields)
  then show ?thesis by (rule closed_gate_never_scans [THEN conjunct2])
qed

end
