(* ===== verification/Findings.thy ===== *)
theory Findings
  imports Printable Sha256
begin

text \<open>
  The observation and finding model (\<open>domain/scanning/findings.py\<close>): bounded and redacted evidence,
  identifiers that are hashes of the identity fields, and the dictionaries that are serialized.
\<close>

section \<open>Severity and confidence\<close>

datatype severity = INFO | LOW | MEDIUM | HIGH | CRITICAL

datatype confidence = CONF_LOW | CONF_MEDIUM | CONF_HIGH

fun severity_value :: "severity \<Rightarrow> pystr" where
  "severity_value INFO = u ''info''"
| "severity_value LOW = u ''low''"
| "severity_value MEDIUM = u ''medium''"
| "severity_value HIGH = u ''high''"
| "severity_value CRITICAL = u ''critical''"

fun confidence_value :: "confidence \<Rightarrow> pystr" where
  "confidence_value CONF_LOW = u ''low''"
| "confidence_value CONF_MEDIUM = u ''medium''"
| "confidence_value CONF_HIGH = u ''high''"

lemma severity_value_inj [simp]: "severity_value a = severity_value b \<longleftrightarrow> a = b"
  by (cases a; cases b) simp_all

fun severity_rank :: "severity \<Rightarrow> nat" where
  "severity_rank INFO = 0"
| "severity_rank LOW = 1"
| "severity_rank MEDIUM = 2"
| "severity_rank HIGH = 3"
| "severity_rank CRITICAL = 4"

lemma severity_rank_inj [simp]: "severity_rank a = severity_rank b \<longleftrightarrow> a = b"
  by (cases a; cases b) simp_all

text \<open>Severities are ordered as the enumeration lists them.\<close>

instantiation severity :: linorder
begin

definition less_eq_severity :: "severity \<Rightarrow> severity \<Rightarrow> bool" where
  "a \<le> b \<longleftrightarrow> severity_rank a \<le> severity_rank b"

definition less_severity :: "severity \<Rightarrow> severity \<Rightarrow> bool" where
  "a < b \<longleftrightarrow> severity_rank a < severity_rank b"

instance
  by standard (auto simp: less_eq_severity_def less_severity_def)

end

section \<open>Evidence\<close>

definition max_evidence_chars :: nat where "max_evidence_chars = 512"
definition max_cookie_names :: nat where "max_cookie_names = 10"

definition bound_evidence_to :: "nat \<Rightarrow> pystr \<Rightarrow> pystr" where
  "bound_evidence_to limit txt =
     (let cleaned = map (\<lambda>c. if py_isprintable c \<or> c = 9 then c else 32) txt
      in if length cleaned \<le> limit then cleaned else take (limit - 1) cleaned @ [8230])"

definition bound_evidence :: "pystr \<Rightarrow> pystr" where
  "bound_evidence txt = bound_evidence_to max_evidence_chars txt"

text \<open>The \<open>SameSite\<close> flag: the last \<open>samesite=\<close> token decides.\<close>

definition samesite_of :: "pystr \<Rightarrow> pystr" where
  "samesite_of lowered =
     fold (\<lambda>token acc.
        let t = py_strip token in
        if py_startswith t (u ''samesite='')
        then (let raw = py_strip (drop 9 t)
              in if raw \<in> {u ''strict'', u ''lax'', u ''none''} then raw else u ''invalid'')
        else acc) (split_on 59 lowered) (u ''unspecified'')"

definition cookie_name :: "pystr \<Rightarrow> pystr" where
  "cookie_name name_part = (if 61 \<in> set name_part then py_strip (fst (py_partition 61 name_part)) else name_part)"

definition redact_cookie_value :: "pystr \<Rightarrow> pystr" where
  "redact_cookie_value header =
     (let (first, _, attributes) = py_partition 59 header;
          name = cookie_name (py_strip first);
          lowered = py_lower attributes;
          flags = (if py_contains lowered (u ''secure'') then [u ''Secure''] else [])
                  @ (if py_contains lowered (u ''httponly'') then [u ''HttpOnly''] else [])
                  @ [u ''SameSite='' @ samesite_of lowered]
      in name @ u '' [<value-redacted>] ('' @ py_join (u '', '') flags @ u '')'')"

section \<open>Observations and findings\<close>

record observation =
  ob_id :: pystr
  ob_category :: pystr
  ob_title :: pystr
  ob_detail :: pystr
  ob_evidence :: pystr
  ob_location :: pystr

record finding =
  fd_id :: pystr
  fd_category :: pystr
  fd_title :: pystr
  fd_description :: pystr
  fd_severity :: severity
  fd_confidence :: confidence
  fd_evidence :: pystr
  fd_location :: pystr
  fd_recommendation :: pystr
  fd_observation_ids :: "pystr list"

definition sha16 :: "pystr \<Rightarrow> pystr result" where
  "sha16 identity = bindE (sha256_text identity) (\<lambda>h. Inr (take 16 h))"

definition observation_id :: "pystr \<Rightarrow> pystr \<Rightarrow> pystr \<Rightarrow> pystr result" where
  "observation_id category title location = sha16 (category @ 124 # title @ 124 # location)"

definition finding_id :: "pystr \<Rightarrow> pystr \<Rightarrow> pystr \<Rightarrow> pystr result" where
  "finding_id category title location = sha16 (u ''finding|'' @ category @ 124 # title @ 124 # location)"

definition observation_create ::
  "pystr \<Rightarrow> pystr \<Rightarrow> pystr \<Rightarrow> pystr \<Rightarrow> pystr \<Rightarrow> observation result" where
  "observation_create category title detail evidence location =
     bindE (observation_id category title location) (\<lambda>i.
       Inr \<lparr>ob_id = i, ob_category = category, ob_title = title, ob_detail = detail,
            ob_evidence = bound_evidence evidence, ob_location = location\<rparr>)"

definition finding_create ::
  "pystr \<Rightarrow> pystr \<Rightarrow> pystr \<Rightarrow> severity \<Rightarrow> confidence \<Rightarrow> pystr \<Rightarrow> pystr \<Rightarrow> pystr \<Rightarrow> pystr list \<Rightarrow> finding result" where
  "finding_create category title description sev conf evidence location recommendation obs_ids =
     bindE (finding_id category title location) (\<lambda>i.
       Inr \<lparr>fd_id = i, fd_category = category, fd_title = title, fd_description = description,
            fd_severity = sev, fd_confidence = conf, fd_evidence = bound_evidence evidence,
            fd_location = location, fd_recommendation = recommendation, fd_observation_ids = obs_ids\<rparr>)"

definition observation_json :: "observation \<Rightarrow> json" where
  "observation_json ob = JObj
     [(u ''id'', JStr (ob_id ob)), (u ''category'', JStr (ob_category ob)), (u ''title'', JStr (ob_title ob)),
      (u ''detail'', JStr (ob_detail ob)), (u ''evidence'', JStr (ob_evidence ob)),
      (u ''location'', JStr (ob_location ob))]"

definition finding_json :: "finding \<Rightarrow> json" where
  "finding_json f = JObj
     [(u ''id'', JStr (fd_id f)), (u ''category'', JStr (fd_category f)), (u ''title'', JStr (fd_title f)),
      (u ''description'', JStr (fd_description f)), (u ''severity'', JStr (severity_value (fd_severity f))),
      (u ''confidence'', JStr (confidence_value (fd_confidence f))), (u ''evidence'', JStr (fd_evidence f)),
      (u ''location'', JStr (fd_location f)), (u ''recommendation'', JStr (fd_recommendation f)),
      (u ''observation_ids'', JArr (map JStr (fd_observation_ids f)))]"

section \<open>Lemmas\<close>

lemma length_bound_evidence_to: "0 < n \<Longrightarrow> length (bound_evidence_to n t) \<le> n"
  by (simp add: bound_evidence_to_def Let_def)

lemma length_bound_evidence: "length (bound_evidence t) \<le> 512"
  using length_bound_evidence_to [of 512 t] by (simp add: bound_evidence_def max_evidence_chars_def)

lemma py_isprintable_ellipsis: "py_isprintable 8230"
  by (simp add: py_isprintable_def printable_ranges_def)

lemma bound_evidence_to_printable:
  "c \<in> set (bound_evidence_to n t) \<Longrightarrow> py_isprintable c \<or> c = 9"
proof -
  have m: "c \<in> set (map (\<lambda>c. if py_isprintable c \<or> c = 9 then c else 32) t) \<Longrightarrow> py_isprintable c \<or> c = 9" for c
    by (auto simp: py_isprintable_ascii split: if_splits)
  assume "c \<in> set (bound_evidence_to n t)"
  then have "c \<in> set (map (\<lambda>c. if py_isprintable c \<or> c = 9 then c else 32) t) \<or> c = 8230"
    by (auto simp: bound_evidence_to_def Let_def split: if_splits dest: in_set_takeD)
  with m py_isprintable_ellipsis show ?thesis by blast
qed

lemma bound_evidence_to_idem: "0 < n \<Longrightarrow> bound_evidence_to n (bound_evidence_to n t) = bound_evidence_to n t"
proof -
  assume n: "0 < n"
  let ?b = "bound_evidence_to n t"
  have "map (\<lambda>c. if py_isprintable c \<or> c = 9 then c else 32) ?b = ?b"
    by (rule map_idI) (use bound_evidence_to_printable [of _ n t] in auto)
  then show ?thesis
    using length_bound_evidence_to [OF n, of t] by (simp add: bound_evidence_to_def [of n ?b] Let_def)
qed

lemma finding_create_fields:
  assumes "finding_create cat tt d sev conf e l r ids = Inr f"
  shows "fd_severity f = sev \<and> fd_confidence f = conf \<and> fd_observation_ids f = ids \<and> fd_category f = cat
    \<and> fd_title f = tt \<and> fd_location f = l \<and> length (fd_evidence f) \<le> 512
    \<and> finding_id cat tt l = Inr (fd_id f)"
  using assms length_bound_evidence by (auto simp: finding_create_def bindE_Inr_iff)

lemma observation_create_fields:
  assumes "observation_create cat tt d e l = Inr f"
  shows "ob_category f = cat \<and> ob_title f = tt \<and> length (ob_evidence f) \<le> 512
    \<and> observation_id cat tt l = Inr (ob_id f)"
  using assms length_bound_evidence by (auto simp: observation_create_def bindE_Inr_iff)

lemma dropWhile_stop: "\<not> p c \<Longrightarrow> dropWhile p (a @ c # b) = dropWhile p a @ c # b"
  by (induction a) auto

lemma strip_by_stop:
  assumes "\<not> p c"
  shows "strip_by p (a @ c # b) = lstrip_by p a @ c # rstrip_by p b"
proof -
  have "rstrip_by p (x @ c # b) = x @ c # rstrip_by p b" for x
    using dropWhile_stop [of p c "rev b" "rev x", OF assms] by (simp add: rstrip_by_def)
  then show ?thesis by (simp add: strip_by_def lstrip_by_def dropWhile_stop [of p c, OF assms])
qed

lemma cookie_name_eq:
  assumes "61 \<notin> set n"
  shows "cookie_name (py_strip (n @ 61 # v)) = py_strip (lstrip_by py_isspace n)"
proof -
  have "\<not> py_isspace 61" by (simp add: py_isspace_def)
  then have st: "py_strip (n @ 61 # v) = lstrip_by py_isspace n @ 61 # rstrip_by py_isspace v"
    by (rule strip_by_stop)
  have "61 \<notin> set (lstrip_by py_isspace n)" using assms set_lstrip_by by fastforce
  then show ?thesis by (simp add: cookie_name_def st py_partition_append)
qed

lemma cookie_partition:
  assumes "59 \<notin> set n" and "59 \<notin> set w"
  shows "py_partition 59 (n @ 61 # w @ 59 # attrs) = (n @ 61 # w, True, attrs)"
    "py_partition 59 (n @ 61 # w) = (n @ 61 # w, False, [])"
  using assms py_partition_append [of 59 "n @ 61 # w" attrs] py_partition_absent [of 59 "n @ 61 # w"] by simp_all

text \<open>The redacted form is a function of the name and the attributes.\<close>

definition redacted_parts :: "pystr \<Rightarrow> pystr \<Rightarrow> pystr" where
  "redacted_parts n attrs =
     (let lowered = py_lower attrs
      in py_strip (lstrip_by py_isspace n) @ u '' [<value-redacted>] ('' @
         py_join (u '', '') ((if py_contains lowered (u ''secure'') then [u ''Secure''] else [])
                  @ (if py_contains lowered (u ''httponly'') then [u ''HttpOnly''] else [])
                  @ [u ''SameSite='' @ samesite_of lowered]) @ u '')'')"

lemma redact_cookie_eq:
  assumes "61 \<notin> set n" and "59 \<notin> set n" and "59 \<notin> set v"
  shows "redact_cookie_value (n @ 61 # v @ 59 # attrs) = redacted_parts n attrs"
    "redact_cookie_value (n @ 61 # v) = redacted_parts n []"
  using cookie_partition [OF assms(2,3)] cookie_name_eq [OF assms(1)]
  by (simp_all add: redact_cookie_value_def redacted_parts_def Let_def)

section \<open>Properties\<close>

text \<open>C34 [cookie_value_not_disclosed]: the redacted form of a \<open>Set-Cookie\<close> header of the form
  \<open>name=value; attributes\<close> does not depend on the value at all.\<close>

theorem cookie_value_not_disclosed:
  assumes "61 \<notin> set n" and "59 \<notin> set n" and "59 \<notin> set v" and "59 \<notin> set v'"
  shows "redact_cookie_value (n @ 61 # v @ 59 # attrs) = redact_cookie_value (n @ 61 # v' @ 59 # attrs)
    \<and> redact_cookie_value (n @ 61 # v) = redact_cookie_value (n @ 61 # v')"
  using redact_cookie_eq [OF assms(1,2)] assms(3,4) by simp

theorem cookie_value_not_disclosed_witness:
  "redact_cookie_value (u ''sid'' @ 61 # u ''secret'' @ 59 # u '' Secure'') = redact_cookie_value (u ''sid'' @ 61 # u ''x'' @ 59 # u '' Secure'')"
  using cookie_value_not_disclosed [of "u ''sid''" "u ''secret''" "u ''x''" "u '' Secure''"] by (simp add: text_defs)

text \<open>A cookie without \<open>=\<close>, which browsers treat as a nameless value, is
  kept whole: its text appears as the name in the redacted form.\<close>

theorem bare_cookie_disclosed:
  "redact_cookie_value (u ''s3cr3t'') = u ''s3cr3t [<value-redacted>] (SameSite=unspecified)''"
  by (simp add: redact_cookie_value_def py_partition_def cookie_name_def strip_by_def lstrip_by_def rstrip_by_def
      py_isspace_def samesite_of_def py_startswith_def py_lower_def text_defs)

text \<open>Stored evidence has at most 512 characters, all of them printable or
  tabs, and bounding it a second time changes nothing.\<close>

theorem evidence_bounded_printable:
  "length (bound_evidence t) \<le> 512 \<and> set (bound_evidence t) \<subseteq> {c. py_isprintable c \<or> c = 9}
   \<and> bound_evidence (bound_evidence t) = bound_evidence t"
  using length_bound_evidence [of t] bound_evidence_to_printable [of _ 512 t] bound_evidence_to_idem [of 512 t]
  by (auto simp: bound_evidence_def max_evidence_chars_def)

end
