(* ===== verification/HttpAnalysis.thy ===== *)
theory HttpAnalysis
  imports Executor Findings
begin

text \<open>
  The passive HTTP security-analysis engine (\<open>scanning/engines/http_analysis.py\<close>): one request to the
  validated origin, then observations and findings derived from the response alone.  The two output
  lists that the assessments append to are a pair; creating an entry can fail (an identity that
  cannot be encoded as UTF-8), which ends the run with that exception.
\<close>

section \<open>Output lists\<close>

type_synonym note_lists = "observation list \<times> finding list"

definition plus_notes :: "note_lists \<Rightarrow> note_lists \<Rightarrow> note_lists" where
  "plus_notes a b = (fst a @ fst b, snd a @ snd b)"

definition then_notes :: "note_lists result \<Rightarrow> note_lists result \<Rightarrow> note_lists result" where
  "then_notes a b = bindE a (\<lambda>x. bindE b (\<lambda>y. Inr (plus_notes x y)))"

definition no_notes :: "note_lists result" where "no_notes = Inr ([], [])"

fun all_notes :: "note_lists result list \<Rightarrow> note_lists result" where
  "all_notes [] = no_notes"
| "all_notes (n # ns) = then_notes n (all_notes ns)"

text \<open>An observation alone, and an observation with the finding that refers to it.\<close>

definition observe :: "observation result \<Rightarrow> note_lists result" where
  "observe ob = bindE ob (\<lambda>x. Inr ([x], []))"

definition observe_and_find :: "observation result \<Rightarrow> (pystr \<Rightarrow> finding result) \<Rightarrow> note_lists result" where
  "observe_and_find ob f = bindE ob (\<lambda>x. bindE (f (ob_id x)) (\<lambda>y. Inr ([x], [y])))"

section \<open>Constants and the result\<close>

definition category_headers :: pystr where "category_headers = u ''http.security-headers''"
definition category_cookies :: pystr where "category_cookies = u ''http.cookies''"
definition category_transport :: pystr where "category_transport = u ''http.transport''"
definition category_server :: pystr where "category_server = u ''http.server-info''"

definition security_headers :: "(pystr \<times> pystr \<times> pystr) list" where
  "security_headers =
     [(u ''content-security-policy'', u ''Content-Security-Policy'', u ''limits script/style sources''),
      (u ''strict-transport-security'', u ''Strict-Transport-Security'', u ''forces HTTPS for future visits''),
      (u ''x-content-type-options'', u ''X-Content-Type-Options'', u ''disables MIME sniffing when 'nosniff'' @ [39]),
      (u ''x-frame-options'', u ''X-Frame-Options'', u ''controls framing/clickjacking posture''),
      (u ''referrer-policy'', u ''Referrer-Policy'', u ''restricts referrer leakage''),
      (u ''permissions-policy'', u ''Permissions-Policy'', u ''restricts powerful browser features'')]"

record analysis_result =
  an_engine_name :: pystr
  an_target_hostname :: pystr
  an_request_scheme :: pystr
  an_request_port :: int
  an_request_path :: pystr
  an_status :: "int option"
  an_redirect_count :: nat
  an_truncated :: bool
  an_content_type :: pystr
  an_response_bytes :: "nat option"
  an_observations :: "observation list"
  an_findings :: "finding list"
  an_error_kind :: "pystr option"
  an_error_detail :: pystr
  an_engine_version :: pystr

definition engine_name :: pystr where "engine_name = u ''http-security-analysis''"
definition engine_version :: pystr where "engine_version = u ''1''"

text \<open>\<open>to_dict\<close>: the severity counts are a dict filled in order of the findings, then sorted by key.\<close>

definition severity_counts :: "finding list \<Rightarrow> (pystr \<times> nat) list" where
  "severity_counts fs =
     sort_key fst (fold (\<lambda>f d. let k = severity_value (fd_severity f) in dict_set k (dict_default d k 0 + 1) d) fs [])"

definition analysis_json :: "analysis_result \<Rightarrow> json" where
  "analysis_json r =
     JObj
      [(u ''engine'', JStr (an_engine_name r)),
       (u ''target'', JStr (an_target_hostname r)),
       (u ''request'', JObj
          [(u ''scheme'', JStr (an_request_scheme r)),
           (u ''port'', JInt (an_request_port r)),
           (u ''path'', JStr (an_request_path r)),
           (u ''status'', (case an_status r of None \<Rightarrow> JNull | Some i \<Rightarrow> JInt i)),
           (u ''redirect_count'', JInt (int (an_redirect_count r))),
           (u ''truncated'', JBool (an_truncated r)),
           (u ''content_type'', JStr (an_content_type r)),
           (u ''response_bytes'', (case an_response_bytes r of None \<Rightarrow> JNull | Some n \<Rightarrow> JInt (int n)))]),
       (u ''observations'', JArr (map observation_json (an_observations r))),
       (u ''findings'', JArr (map finding_json (an_findings r))),
       (u ''summary'', JObj
          [(u ''observation_count'', JInt (int (length (an_observations r)))),
           (u ''finding_count'', JInt (int (length (an_findings r)))),
           (u ''severity_counts'', JObj (map (\<lambda>(k, n). (k, JInt (int n))) (severity_counts (an_findings r))))]),
       (u ''error'',
          (case an_error_kind r of
             Some k \<Rightarrow> if k \<noteq> [] then JObj [(u ''kind'', JStr k), (u ''detail'', JStr (an_error_detail r))] else JNull
           | None \<Rightarrow> JNull))]"

definition analysis_serialize :: "analysis_result \<Rightarrow> pystr" where
  "analysis_serialize r = dumps_stable (analysis_json r)"

section \<open>Request\<close>

definition build_request :: "network_context \<Rightarrow> 's engine_services \<Rightarrow> scan_request result" where
  "build_request context services =
     (let origin = sv_origin services
      in bindE (make_spec (u ''GET'') (os_path origin) [] None) (\<lambda>spec.
         bindE (target_for_context context (os_scheme origin) (map_option nat (os_port origin))) (\<lambda>target.
           if \<not> egress_authorize (cx_egress context) (ct_address target) then raise EgressDeniedError
           else Inr \<lparr>hr_context = context, hr_spec = spec, hr_target = target\<rparr>)))"

definition single_request :: "'s engine_services \<Rightarrow> scan_request \<Rightarrow> ('s, response_data) act" where
  "single_request services request s =
     (if sv_cancelled services s then (Inl ScanCancelledError, s)
      else sv_http_client services request (sv_limits services) (sv_cancelled services) s)"

definition origin_location :: "pystr \<Rightarrow> network_context \<Rightarrow> pystr \<Rightarrow> pystr" where
  "origin_location scheme context path = scheme @ u ''://'' @ vb_hostname (cx_binding context) @ path"

definition unreachable_result ::
  "network_context \<Rightarrow> origin_spec \<Rightarrow> transport_failure_kind \<Rightarrow> pystr \<Rightarrow> analysis_result result" where
  "unreachable_result context origin kind detail =
     (let location = origin_location (os_scheme origin) context (os_path origin)
      in bindE (observe_and_find
           (observation_create category_transport (u ''Target unreachable through validated transport'')
              (u ''The attempt ended in a controlled transport failure ('' @ kind_value kind
                 @ u ''); no security analysis was possible.'')
              (kind_value kind) location)
           (\<lambda>i. finding_create category_transport (u ''No HTTP response obtained'')
              (u ''The validated transport could not complete the exchange; the destination may be down, filtered, or misconfigured.'')
              INFO CONF_HIGH (kind_value kind) location
              (u ''Verify availability out-of-band; retry later.'') [i])) (\<lambda>(obs, fs).
         Inr \<lparr>an_engine_name = engine_name, an_target_hostname = vb_hostname (cx_binding context),
              an_request_scheme = py_lower (os_scheme origin),
              an_request_port = (case os_port origin of None \<Rightarrow> 0 | Some p \<Rightarrow> p),
              an_request_path = os_path origin, an_status = None, an_redirect_count = 0, an_truncated = False,
              an_content_type = [], an_response_bytes = None, an_observations = obs, an_findings = fs,
              an_error_kind = Some (kind_value kind), an_error_detail = bound_evidence_to 256 detail,
              an_engine_version = engine_version\<rparr>))"

section \<open>Passive assessments\<close>

definition assess_transport :: "network_context \<Rightarrow> origin_spec \<Rightarrow> response_data \<Rightarrow> note_lists result" where
  "assess_transport context origin response =
     (let scheme = py_lower (os_scheme origin)
      in observe (observation_create category_transport (u ''Transport posture'')
           (u ''Exchange completed over '' @ py_upper scheme @ u '' with certificate verification ''
              @ (if scheme = u ''https'' then u ''enforced'' else u ''not applicable'') @ u ''; ''
              @ nat_to_text (length (rp_via_redirects response)) @ u '' validated redirect hop(s); body ''
              @ nat_to_text (length (rp_body response)) @ u '' bytes''
              @ (if rp_truncated response then u '' (clamped)'' else []) @ u ''.'')
           (dumps_compact (JObj
              [(u ''scheme'', JStr scheme), (u ''status'', JInt (rp_status response)),
               (u ''redirects'', JArr (map JStr (take 10 (rp_via_redirects response)))),
               (u ''truncated'', JBool (rp_truncated response)),
               (u ''bytes'', JInt (int (length (rp_body response))))]))
           (origin_location scheme context (os_path origin))))"

definition header_map :: "(pystr \<times> pystr) list \<Rightarrow> (pystr \<times> pystr) list" where
  "header_map headers = dict_of (map (\<lambda>(k, v). (py_lower k, v)) headers)"

definition header_severity :: "pystr \<Rightarrow> severity" where
  "header_severity lowered =
     (if lowered \<in> {u ''content-security-policy'', u ''strict-transport-security'',
                    u ''x-content-type-options'', u ''x-frame-options''}
      then LOW else INFO)"

definition missing_header_title :: "pystr \<Rightarrow> pystr" where
  "missing_header_title display = u ''Missing '' @ display @ u '' security header''"

definition assess_header ::
  "(pystr \<times> pystr) list \<Rightarrow> pystr \<Rightarrow> pystr \<times> pystr \<times> pystr \<Rightarrow> note_lists result" where
  "assess_header hmap location h =
     (let (lowered, display, purpose) = h
      in case dict_get hmap lowered of
        Some value \<Rightarrow>
          if lowered = u ''x-content-type-options'' then
            (if py_lower (py_strip value) \<noteq> u ''nosniff'' then
               observe_and_find
                 (observation_create category_headers (display @ u '' has a nonstandard value'')
                    (display @ u '' should be exactly 'nosniff' to '' @ purpose @ u ''; got an unrecognized value.'')
                    (display @ u '': '' @ value) location)
                 (\<lambda>i. finding_create category_headers (u ''Nonstandard '' @ display @ u '' value'')
                    (u ''The header is present but does not disable MIME sniffing as intended ('' @ purpose @ u '').'')
                    LOW CONF_HIGH (display @ u '': '' @ value) location
                    (u ''Set '' @ display @ u '': nosniff.'') [i])
             else
               observe (observation_create category_headers (display @ u '' present'')
                 (display @ u '' is set to 'nosniff'.'') (display @ u '': '' @ value) location))
          else
            observe (observation_create category_headers (display @ u '' present'')
              (display @ u '' is set.'') (display @ u '': '' @ value) location)
      | None \<Rightarrow>
          observe_and_find
            (observation_create category_headers (display @ u '' absent'')
               (u ''The response does not send '' @ display @ u '', which '' @ purpose @ u ''.'') [] location)
            (\<lambda>i. finding_create category_headers (missing_header_title display)
               (u ''The response does not explicitly '' @ purpose @ u '' because the header is absent.'')
               (header_severity lowered) CONF_HIGH [] location
               (u ''Consider sending '' @ display @ u ''.'') [i]))"

definition scheme_is_http :: "response_data \<Rightarrow> bool" where
  "scheme_is_http response \<longleftrightarrow> ct_scheme (rp_final_target response) = u ''http''"

definition assess_headers :: "response_data \<Rightarrow> pystr \<Rightarrow> note_lists result" where
  "assess_headers response location =
     (let hmap = header_map (rp_headers response)
      in then_notes (all_notes (map (assess_header hmap location) security_headers))
           (if scheme_is_http response then
              (case dict_get hmap (u ''strict-transport-security'') of
                 None \<Rightarrow> no_notes
               | Some hsts \<Rightarrow>
                   observe (observation_create category_headers (u ''HSTS sent over plain HTTP'')
                     (u ''Strict-Transport-Security has no effect on an http:// response.'')
                     (u ''Strict-Transport-Security: '' @ hsts) location))
            else no_notes))"

section \<open>Cookies\<close>

text \<open>The attribute tokens of a \<open>Set-Cookie\<close> header, trimmed and lowered.\<close>

definition cookie_flags :: "pystr \<Rightarrow> pystr list" where
  "cookie_flags original =
     (let (_, _, attr_part) = py_partition 59 original
      in map (\<lambda>t. py_lower (py_strip t)) (filter (\<lambda>t. py_strip t \<noteq> []) (split_on 59 attr_part)))"

definition shown_name :: "pystr \<Rightarrow> pystr" where
  "shown_name reduced = fst (py_partition 32 reduced)"

definition lacks_flag :: "pystr \<Rightarrow> pystr \<times> pystr \<Rightarrow> pystr option" where
  "lacks_flag flag cookie =
     (let (original, reduced) = cookie
      in if flag \<in> set (cookie_flags original) then None else Some (shown_name reduced))"

definition samesite_issue :: "pystr \<times> pystr \<Rightarrow> pystr option" where
  "samesite_issue cookie =
     (let (original, reduced) = cookie;
          values = map (drop 9) (filter (\<lambda>f. py_startswith f (u ''samesite='')) (cookie_flags original))
      in case values of
           [] \<Rightarrow> Some (shown_name reduced @ u '': unspecified'')
         | v # _ \<Rightarrow>
             if v \<in> {u ''strict'', u ''lax'', u ''none''} then None
             else Some (shown_name reduced @ u '': invalid '' @ 39 # v @ [39]))"

definition listed_names :: "pystr list \<Rightarrow> pystr" where
  "listed_names names =
     py_join (u '', '') (take max_cookie_names names)
       @ (if length names \<le> max_cookie_names then [] else [32, 8230])"

definition cookie_observation :: "pystr \<Rightarrow> pystr list \<Rightarrow> pystr \<Rightarrow> observation result" where
  "cookie_observation attribute names location =
     observation_create category_cookies (u ''Cookies missing '' @ attribute)
       (nat_to_text (length names) @ u '' cookie(s) lack the '' @ attribute @ u '' attribute.'')
       (bound_evidence (listed_names names)) location"

definition cookie_finding ::
  "pystr \<Rightarrow> pystr \<Rightarrow> severity \<Rightarrow> pystr \<Rightarrow> pystr list \<Rightarrow> pystr \<Rightarrow> pystr \<Rightarrow> finding result" where
  "cookie_finding title description sev recommendation names location ob =
     finding_create category_cookies title description sev CONF_HIGH (bound_evidence (listed_names names))
       location recommendation [ob]"

definition note_missing_flag ::
  "pystr \<Rightarrow> pystr \<Rightarrow> pystr \<Rightarrow> pystr \<Rightarrow> pystr list \<Rightarrow> pystr \<Rightarrow> note_lists result" where
  "note_missing_flag attribute title description recommendation names location =
     (if names = [] then no_notes
      else observe_and_find (cookie_observation attribute names location)
             (cookie_finding title description LOW recommendation names location))"

definition assess_cookies :: "response_data \<Rightarrow> pystr \<Rightarrow> note_lists result" where
  "assess_cookies response location =
     (let cookies = map snd (filter (\<lambda>(k, v). py_lower k = u ''set-cookie'') (rp_headers response));
          redacted = map redact_cookie_value cookies;
          pairs = zip cookies redacted;
          missing_secure = List.map_filter (lacks_flag (u ''secure'')) pairs;
          missing_httponly = List.map_filter (lacks_flag (u ''httponly'')) pairs;
          samesite_issues = List.map_filter samesite_issue pairs;
          evidence = py_join (u ''; '') (take max_cookie_names samesite_issues)
      in if cookies = [] then no_notes
         else all_notes
          [observe (observation_create category_cookies
             (nat_to_text (length cookies) @ u '' Set-Cookie header(s) observed'')
             (u ''Cookie values are redacted; only names and attribute flags kept.'')
             (py_join [10] (take max_cookie_names redacted)) location),
           note_missing_flag (u ''Secure'') (u ''Cookies without the Secure attribute'')
             (u ''These cookies can be transmitted over plaintext connections.'')
             (u ''Add the Secure attribute to every cookie.'') missing_secure location,
           note_missing_flag (u ''HttpOnly'') (u ''Cookies without the HttpOnly attribute'')
             (u ''Script running on the origin can read these cookies.'')
             (u ''Add HttpOnly to session-bearing cookies.'') missing_httponly location,
           (if samesite_issues = [] then no_notes
            else observe_and_find
              (observation_create category_cookies (u ''SameSite attribute gaps'')
                 (u ''Some cookies lack a valid SameSite attribute.'') evidence location)
              (\<lambda>i. finding_create category_cookies (u ''SameSite attribute missing or invalid'')
                 (u ''CSRF protection benefits from explicit SameSite settings.'') INFO CONF_MEDIUM evidence
                 location (u ''Set SameSite=Lax or Strict where appropriate.'') [i]))])"

definition interesting_headers :: "pystr list" where
  "interesting_headers = [u ''server'', u ''x-powered-by'', u ''x-generator'', u ''x-framework'']"

definition assess_server_info :: "response_data \<Rightarrow> note_lists result" where
  "assess_server_info response =
     (let hmap = header_map (rp_headers response)
      in all_notes (map (\<lambda>key.
           case dict_get hmap key of
             None \<Rightarrow> no_notes
           | Some value \<Rightarrow>
               if value = [] then no_notes
               else observe (observation_create category_server
                 (u ''Server information exposed: '' @ key)
                 (u ''Ordinary response header reveals implementation detail.'')
                 (key @ u '': '' @ value) (u ''response-headers''))) interesting_headers))"

section \<open>Execution\<close>

text \<open>What is derived from one response.\<close>

definition analyze_response :: "network_context \<Rightarrow> origin_spec \<Rightarrow> response_data \<Rightarrow> analysis_result result" where
  "analyze_response context origin response =
     (let location = origin_location (os_scheme origin) context (os_path origin)
      in bindE (all_notes
           [assess_transport context origin response,
            assess_headers response location,
            assess_cookies response location,
            assess_server_info response]) (\<lambda>(obs, fs).
         Inr \<lparr>an_engine_name = engine_name, an_target_hostname = vb_hostname (cx_binding context),
              an_request_scheme = py_lower (os_scheme origin),
              an_request_port = int (ct_port (rp_final_target response)), an_request_path = os_path origin,
              an_status = Some (rp_status response), an_redirect_count = length (rp_via_redirects response),
              an_truncated = rp_truncated response,
              an_content_type = bound_evidence_to 128
                (case get_header (rp_headers response) (u ''content-type'') of None \<Rightarrow> [] | Some v \<Rightarrow> v),
              an_response_bytes = Some (length (rp_body response)), an_observations = obs, an_findings = fs,
              an_error_kind = None, an_error_detail = [], an_engine_version = engine_version\<rparr>))"

definition analysis_execute :: "('s, analysis_result) engine" where
  "analysis_execute context services s =
     (if hl_max_requests (sv_limits services) < 1 then (Inl RequestBudgetExceededError, s)
      else case build_request context services of
        Inl e \<Rightarrow> (Inl e, s)
      | Inr request \<Rightarrow>
          (case single_request services request s of
             (Inl (ControlledTransportError kind detail), s1) \<Rightarrow>
               (unreachable_result context (sv_origin services) kind detail, s1)
           | (Inl e, s1) \<Rightarrow> (Inl e, s1)
           | (Inr response, s1) \<Rightarrow> (analyze_response context (sv_origin services) response, s1)))"

section \<open>Every finding is grounded\<close>

definition grounded :: "note_lists \<Rightarrow> bool" where
  "grounded n \<longleftrightarrow> (\<forall>f \<in> set (snd n). fd_severity f \<in> {INFO, LOW} \<and> length (fd_evidence f) \<le> 512
     \<and> (\<exists>ob \<in> set (fst n). fd_observation_ids f = [ob_id ob] \<and> fd_category f = ob_category ob \<and> fd_location f = ob_location ob))"

definition at_most :: "nat \<Rightarrow> nat \<Rightarrow> note_lists result \<Rightarrow> bool" where
  "at_most a b r \<longleftrightarrow> (\<forall>n. r = Inr n \<longrightarrow> grounded n \<and> length (fst n) \<le> a \<and> length (snd n) \<le> b)"

named_theorems note_intros

lemma at_most_none [note_intros]: "at_most 0 0 no_notes"
  by (simp add: at_most_def grounded_def no_notes_def)

lemma at_most_mono: "at_most a b r \<Longrightarrow> a \<le> a' \<Longrightarrow> b \<le> b' \<Longrightarrow> at_most a' b' r"
  by (auto simp: at_most_def)

lemma at_most_observe [note_intros]: "at_most (Suc 0) 0 (observe ob)"
  by (auto simp: at_most_def grounded_def observe_def bindE_Inr_iff)

lemma at_most_find [note_intros]:
  assumes "sev \<in> {INFO, LOW}"
  shows "at_most (Suc 0) (Suc 0) (observe_and_find (observation_create cat t d e l) (\<lambda>i. finding_create cat t' d' sev conf e' l rec [i]))"
  using assms length_bound_evidence
  by (fastforce simp: at_most_def grounded_def observe_and_find_def bindE_Inr_iff observation_create_def finding_create_def)

lemma at_most_then [note_intros]:
  assumes "at_most a b m" and "at_most c d n"
  shows "at_most (a + c) (b + d) (then_notes m n)"
  using assms by (fastforce simp: at_most_def grounded_def then_notes_def bindE_Inr_iff plus_notes_def)

lemma at_most_all:
  "(\<And>x. x \<in> set xs \<Longrightarrow> at_most a b (g x)) \<Longrightarrow> at_most (length xs * a) (length xs * b) (all_notes (map g xs))"
proof (induction xs)
  case Nil
  then show ?case by (simp add: at_most_none)
next
  case (Cons x xs)
  then have "at_most a b (g x)" "at_most (length xs * a) (length xs * b) (all_notes (map g xs))" by simp_all
  from at_most_then [OF this] show ?case by simp
qed

lemma header_severity_low: "header_severity h \<in> {INFO, LOW}"
  by (simp add: header_severity_def)

lemma assess_header_at_most: "at_most 1 1 (assess_header hmap location h)"
  by (cases h; cases "dict_get hmap (fst h)")
    (auto simp: assess_header_def intro!: at_most_find header_severity_low at_most_mono [OF at_most_observe])

lemma assess_headers_at_most: "at_most 7 6 (assess_headers response location)"
proof -
  have "length security_headers = 6" by (simp add: security_headers_def)
  then have hdrs: "at_most 6 6 (all_notes (map (assess_header hmap location) security_headers))" for hmap
    using at_most_all [of security_headers 1 1, OF assess_header_at_most] by simp
  have hsts: "at_most 1 0 (if b then (case v of None \<Rightarrow> no_notes | Some h \<Rightarrow> observe (f h)) else no_notes)"
    for b v and f :: "pystr \<Rightarrow> observation result"
    by (auto intro: at_most_observe at_most_mono [OF at_most_none] split: option.splits)
  have "at_most (6 + 1) (6 + 0) (assess_headers response location)"
    unfolding assess_headers_def Let_def by (rule at_most_then [OF hdrs hsts])
  then show ?thesis by simp
qed

lemma note_missing_flag_at_most: "at_most 1 1 (note_missing_flag a t d r names location)"
proof -
  have "cookie_finding t d LOW r names location
      = (\<lambda>i. finding_create category_cookies t d LOW CONF_HIGH (bound_evidence (listed_names names)) location r [i])"
    by (simp add: fun_eq_iff cookie_finding_def)
  then show ?thesis
    by (auto simp: note_missing_flag_def cookie_observation_def intro!: at_most_find at_most_mono [OF at_most_none])
qed

lemma assess_cookies_at_most: "at_most 4 3 (assess_cookies response location)"
proof -
  have "at_most 4 3 (then_notes (observe ob) (then_notes (note_missing_flag a t d r names location)
      (then_notes (note_missing_flag a' t' d' r' names' location) (then_notes (if b then no_notes else
        observe_and_find (observation_create category_cookies x y e location) (\<lambda>i. finding_create category_cookies x' y' INFO CONF_MEDIUM e location z [i])) no_notes))))"
    for ob a t d r names a' t' d' r' names' b x y e x' y' z
  proof -
    have "at_most 1 1 (if b then no_notes else
        observe_and_find (observation_create category_cookies x y e location) (\<lambda>i. finding_create category_cookies x' y' INFO CONF_MEDIUM e location z [i]))"
      by (auto intro!: at_most_find at_most_mono [OF at_most_none])
    from at_most_then [OF at_most_observe at_most_then [OF note_missing_flag_at_most at_most_then [OF note_missing_flag_at_most
        at_most_then [OF this at_most_none]]]]
    show ?thesis by (simp add: numeral_eq_Suc)
  qed
  then show ?thesis
    by (auto simp: assess_cookies_def Let_def intro: at_most_mono [OF at_most_none])
qed

lemma assess_server_info_at_most: "at_most 4 0 (assess_server_info response)"
proof -
  have one: "at_most 1 0 (case v of None \<Rightarrow> no_notes | Some w \<Rightarrow> if w = [] then no_notes else observe (f w))"
    for v and f :: "pystr \<Rightarrow> observation result"
    by (auto intro: at_most_observe at_most_mono [OF at_most_none] split: option.splits)
  have "at_most (length interesting_headers * 1) (length interesting_headers * 0) (assess_server_info response)"
    unfolding assess_server_info_def Let_def by (rule at_most_all) (rule one)
  moreover have "length interesting_headers = 4" by (simp add: interesting_headers_def)
  ultimately show ?thesis by simp
qed

lemma assessments_at_most:
  "at_most 16 9 (all_notes [assess_transport context origin response, assess_headers response location,
     assess_cookies response location, assess_server_info response])"
proof -
  have "at_most 1 0 (assess_transport context origin response)"
    unfolding assess_transport_def Let_def One_nat_def by (rule at_most_observe)
  from at_most_then [OF this at_most_then [OF assess_headers_at_most at_most_then [OF assess_cookies_at_most
      at_most_then [OF assess_server_info_at_most at_most_none]]]]
  show ?thesis by simp
qed

section \<open>Which findings are produced\<close>

definition finding_kinds :: "note_lists \<Rightarrow> (pystr \<times> severity) list" where
  "finding_kinds n = map (\<lambda>f. (fd_title f, fd_severity f)) (snd n)"

text \<open>\<open>kinds_are r ks\<close>: if \<open>r\<close> succeeds, its findings have these titles and severities, in this order.\<close>

definition kinds_are :: "note_lists result \<Rightarrow> (pystr \<times> severity) list \<Rightarrow> bool" where
  "kinds_are r ks \<longleftrightarrow> (\<forall>n. r = Inr n \<longrightarrow> finding_kinds n = ks)"

lemma kinds_are_basic:
  "kinds_are no_notes []" "kinds_are (observe ob) []"
  "kinds_are (observe_and_find ob (\<lambda>i. finding_create cat t d sev conf e l rec (ids i))) [(t, sev)]"
  "kinds_are m ks \<Longrightarrow> kinds_are n ks' \<Longrightarrow> kinds_are (then_notes m n) (ks @ ks')"
  by (auto simp: kinds_are_def finding_kinds_def no_notes_def observe_def observe_and_find_def bindE_Inr_iff
      then_notes_def plus_notes_def dest!: finding_create_fields)

lemma kinds_are_all: "(\<And>x. kinds_are (g x) (ks x)) \<Longrightarrow> kinds_are (all_notes (map g xs)) (concat (map ks xs))"
  by (induction xs) (simp_all add: kinds_are_basic)

definition header_kinds :: "(pystr \<times> pystr) list \<Rightarrow> pystr \<times> pystr \<times> pystr \<Rightarrow> (pystr \<times> severity) list" where
  "header_kinds hmap h =
     (case dict_get hmap (fst h) of
        None \<Rightarrow> [(missing_header_title (fst (snd h)), header_severity (fst h))]
      | Some v \<Rightarrow> if fst h = u ''x-content-type-options'' \<and> py_lower (py_strip v) \<noteq> u ''nosniff''
                  then [(u ''Nonstandard '' @ fst (snd h) @ u '' value'', LOW)] else [])"

lemma kinds_assess_header: "kinds_are (assess_header hmap location h) (header_kinds hmap h)"
  by (cases h; cases "dict_get hmap (fst h)") (simp_all add: assess_header_def header_kinds_def kinds_are_basic)

definition cookie_titles :: "pystr list" where
  "cookie_titles = [u ''Cookies without the Secure attribute'', u ''Cookies without the HttpOnly attribute'',
     u ''SameSite attribute missing or invalid'']"

lemma kinds_note_missing:
  "kinds_are (note_missing_flag a t d r names location) (if names = [] then [] else [(t, LOW)])"
proof -
  have "cookie_finding t d LOW r names location
      = (\<lambda>i. finding_create category_cookies t d LOW CONF_HIGH (bound_evidence (listed_names names)) location r [i])"
    by (simp add: fun_eq_iff cookie_finding_def)
  then show ?thesis by (simp add: note_missing_flag_def kinds_are_basic)
qed

lemma kinds_cookies: "\<exists>ks. kinds_are (assess_cookies response location) ks \<and> fst ` set ks \<subseteq> set cookie_titles"
proof -
  have "\<exists>ks. kinds_are (then_notes (observe ob) (then_notes (note_missing_flag a (u ''Cookies without the Secure attribute'') d r names location)
      (then_notes (note_missing_flag a' (u ''Cookies without the HttpOnly attribute'') d' r' names' location) (then_notes (if b then no_notes else
        observe_and_find ob' (\<lambda>i. finding_create category_cookies (u ''SameSite attribute missing or invalid'') y' INFO CONF_MEDIUM e location z [i])) no_notes)))) ks
      \<and> fst ` set ks \<subseteq> set cookie_titles"
    for ob a d r names a' d' r' names' b ob' y' z e
  proof -
    have sm: "kinds_are (if b then no_notes else
        observe_and_find ob' (\<lambda>i. finding_create category_cookies (u ''SameSite attribute missing or invalid'') y' INFO CONF_MEDIUM e location z [i]))
        (if b then [] else [(u ''SameSite attribute missing or invalid'', INFO)])"
      by (simp add: kinds_are_basic)
    show ?thesis
      by (rule exI, rule conjI, rule kinds_are_basic(4) [OF kinds_are_basic(2) kinds_are_basic(4) [OF kinds_note_missing
          kinds_are_basic(4) [OF kinds_note_missing kinds_are_basic(4) [OF sm kinds_are_basic(1)]]]])
        (simp add: cookie_titles_def)
  qed
  note all = this
  show ?thesis
  proof (cases "filter (\<lambda>(k, v). py_lower k = u ''set-cookie'') (rp_headers response)")
    case Nil
    have "kinds_are (assess_cookies response location) []"
      by (simp add: assess_cookies_def Let_def Nil kinds_are_basic)
    then show ?thesis by (intro exI [of _ "[]"]) simp
  next
    case (Cons c cs)
    show ?thesis
      unfolding assess_cookies_def Let_def all_notes.simps
      by (simp only: Cons list.map list.distinct if_False) (rule all)
  qed
qed

lemma kinds_headers:
  "kinds_are (assess_headers response location) (concat (map (header_kinds (header_map (rp_headers response))) security_headers))"
proof -
  have hsts: "kinds_are (if b then (case v of None \<Rightarrow> no_notes | Some h \<Rightarrow> observe (f h)) else no_notes) []"
    for b v and f :: "pystr \<Rightarrow> observation result"
    by (simp add: kinds_are_basic split: option.splits)
  have "kinds_are (assess_headers response location)
      (concat (map (header_kinds (header_map (rp_headers response))) security_headers) @ [])"
    unfolding assess_headers_def Let_def by (rule kinds_are_basic(4) [OF kinds_are_all [OF kinds_assess_header] hsts])
  then show ?thesis by simp
qed

lemma kinds_server: "kinds_are (assess_server_info response) []"
proof -
  have one: "kinds_are (case v of None \<Rightarrow> no_notes | Some w \<Rightarrow> if w = [] then no_notes else observe (f w)) []"
    for v and f :: "pystr \<Rightarrow> observation result"
    by (simp add: kinds_are_basic split: option.splits)
  have "kinds_are (assess_server_info response) (concat (map (\<lambda>_. []) interesting_headers))"
    unfolding assess_server_info_def Let_def by (rule kinds_are_all) (rule one)
  moreover have "concat (map (\<lambda>_. []) xs) = ([] :: (pystr \<times> severity) list)" for xs :: "pystr list" by (induction xs) simp_all
  ultimately show ?thesis by simp
qed

lemma analyze_kinds:
  assumes "analyze_response context origin response = Inr r"
  shows "\<exists>ks. finding_kinds ([], an_findings r)
      = concat (map (header_kinds (header_map (rp_headers response))) security_headers) @ ks
    \<and> fst ` set ks \<subseteq> set cookie_titles"
proof -
  let ?location = "origin_location (os_scheme origin) context (os_path origin)"
  from kinds_cookies [of response ?location] obtain ks where ks: "kinds_are (assess_cookies response ?location) ks"
    "fst ` set ks \<subseteq> set cookie_titles" by blast
  have tr: "kinds_are (assess_transport context origin response) []"
    unfolding assess_transport_def Let_def by (rule kinds_are_basic(2))
  from kinds_are_basic(4) [OF tr kinds_are_basic(4) [OF kinds_headers [of response ?location] kinds_are_basic(4) [OF ks(1)
      kinds_are_basic(4) [OF kinds_server [of response] kinds_are_basic(1)]]]] assms ks(2)
  show ?thesis
    by (auto simp: analyze_response_def Let_def bindE_Inr_iff kinds_are_def finding_kinds_def)
qed

lemma header_map_None: "dict_get (header_map headers) k = None \<longleftrightarrow> k \<notin> py_lower ` fst ` set headers"
  by (auto simp: header_map_def dict_of_map map_of_eq_None_iff image_iff rev_map split: prod.splits)

section \<open>Cookie values do not matter\<close>

text \<open>Two cookies that differ only in the value, and two header lists that differ only in cookie values.\<close>

definition value_variant :: "pystr \<Rightarrow> pystr \<Rightarrow> bool" where
  "value_variant v v' \<longleftrightarrow> v = v' \<or> (\<exists>n x x' a. 61 \<notin> set n \<and> 59 \<notin> set n \<and> 59 \<notin> set x \<and> 59 \<notin> set x'
     \<and> (v = n @ 61 # x @ 59 # a \<and> v' = n @ 61 # x' @ 59 # a \<or> v = n @ 61 # x \<and> v' = n @ 61 # x'))"

definition header_variant :: "pystr \<times> pystr \<Rightarrow> pystr \<times> pystr \<Rightarrow> bool" where
  "header_variant h h' \<longleftrightarrow> fst h = fst h'
     \<and> (if py_lower (fst h) = u ''set-cookie'' then value_variant (snd h) (snd h') else snd h = snd h')"

lemma value_variant_same:
  assumes "value_variant v v'"
  shows "redact_cookie_value v = redact_cookie_value v'" "cookie_flags v = cookie_flags v'"
  using assms by (auto simp: value_variant_def redact_cookie_eq cookie_flags_def cookie_partition)

lemma header_variant_lookup:
  assumes "list_all2 header_variant hs hs'" and "key \<noteq> u ''set-cookie''"
  shows "map_of (map (\<lambda>(k, v). (py_lower k, v)) hs) key = map_of (map (\<lambda>(k, v). (py_lower k, v)) hs') key"
  using assms by (induction rule: list_all2_induct) (auto simp: header_variant_def)

lemma header_variant_map:
  assumes "list_all2 header_variant hs hs'" and "key \<noteq> u ''set-cookie''"
  shows "dict_get (header_map hs) key = dict_get (header_map hs') key"
  using header_variant_lookup [of "rev hs" "rev hs'" key] assms
  by (simp add: header_map_def dict_of_map rev_map list_all2_rev)

lemma header_variant_get:
  assumes "list_all2 header_variant hs hs'" and "py_lower key \<noteq> u ''set-cookie''"
  shows "get_header hs key = get_header hs' key"
  using assms by (induction rule: list_all2_induct) (auto simp: header_variant_def get_header_def)

lemma header_variant_cookies:
  assumes "list_all2 header_variant hs hs'"
  shows "list_all2 value_variant (map snd (filter (\<lambda>(k, v). py_lower k = u ''set-cookie'') hs))
     (map snd (filter (\<lambda>(k, v). py_lower k = u ''set-cookie'') hs'))"
  using assms by (induction rule: list_all2_induct) (auto simp: header_variant_def)

lemma variant_maps:
  assumes "list_all2 value_variant cs cs'" and "\<And>v v'. value_variant v v' \<Longrightarrow> f v = (f v' :: pystr \<Rightarrow> pystr option)"
  shows "map redact_cookie_value cs = map redact_cookie_value cs'"
    "List.map_filter (\<lambda>(v, r). f v r) (zip cs (map redact_cookie_value cs))
      = List.map_filter (\<lambda>(v, r). f v r) (zip cs' (map redact_cookie_value cs'))"
    "cs = [] \<longleftrightarrow> cs' = []" "length cs = length cs'"
  using assms(1) by (induction rule: list_all2_induct)
    (auto simp: value_variant_same List.map_filter_simps assms(2) split: option.splits)

lemma assess_cookies_variant:
  assumes "list_all2 header_variant hs hs'"
  shows "assess_cookies (rsp\<lparr>rp_headers := hs\<rparr>) location = assess_cookies (rsp\<lparr>rp_headers := hs'\<rparr>) location"
proof -
  note cs = header_variant_cookies [OF assms]
  have flag: "value_variant v v' \<Longrightarrow> (\<lambda>r. lacks_flag fl (v, r)) = (\<lambda>r. lacks_flag fl (v', r))"
    and same: "value_variant v v' \<Longrightarrow> (\<lambda>r. samesite_issue (v, r)) = (\<lambda>r. samesite_issue (v', r))" for v v' fl
    using value_variant_same(2) [of v v'] by (simp_all add: lacks_flag_def samesite_issue_def fun_eq_iff)
  note same_lists = variant_maps(1,3,4) [OF cs, of "\<lambda>_ _. None"] variant_maps(2) [OF cs, of "\<lambda>v r. lacks_flag (u ''secure'') (v, r)", OF flag]
    variant_maps(2) [OF cs, of "\<lambda>v r. lacks_flag (u ''httponly'') (v, r)", OF flag]
    variant_maps(2) [OF cs, of "\<lambda>v r. samesite_issue (v, r)", OF same]
  show ?thesis
    using same_lists by (simp add: assess_cookies_def Let_def)
qed

lemma analyze_variant:
  assumes "list_all2 header_variant hs hs'"
  shows "analyze_response context origin (rsp\<lparr>rp_headers := hs\<rparr>) = analyze_response context origin (rsp\<lparr>rp_headers := hs'\<rparr>)"
proof -
  let ?m = "header_map hs" and ?m' = "header_map hs'"
  note get = header_variant_map [OF assms]
  have h: "assess_header ?m location x = assess_header ?m' location x" if "x \<in> set security_headers" for x location
  proof -
    have "fst x \<noteq> u ''set-cookie''" using that by (auto simp: security_headers_def)
    then show ?thesis using get by (cases x) (simp add: assess_header_def)
  qed
  have hd: "map (assess_header ?m location) security_headers = map (assess_header ?m' location) security_headers" for location
    using h by (rule map_cong [OF refl])
  have "assess_headers (rsp\<lparr>rp_headers := hs\<rparr>) location = assess_headers (rsp\<lparr>rp_headers := hs'\<rparr>) location" for location
    using get [of "u ''strict-transport-security''"] by (simp add: assess_headers_def Let_def scheme_is_http_def hd)
  moreover have "assess_server_info (rsp\<lparr>rp_headers := hs\<rparr>) = assess_server_info (rsp\<lparr>rp_headers := hs'\<rparr>)"
    by (simp add: assess_server_info_def interesting_headers_def Let_def get)
  moreover have "py_lower (u ''content-type'') \<noteq> u ''set-cookie''"
    by (simp add: py_lower_def lower_char_def is_upper_alpha_def text_defs)
  with header_variant_get [OF assms] have "get_header hs (u ''content-type'') = get_header hs' (u ''content-type'')" by blast
  ultimately show ?thesis
    using assess_cookies_variant [OF assms, of rsp]
    by (simp add: analyze_response_def assess_transport_def Let_def)
qed

section \<open>Traffic\<close>

text \<open>An executor whose sandbox records the commands the engine's client runs in it.\<close>

definition log_executor :: "('w, 's) executor \<Rightarrow> ('w, pystr list list \<times> 's) executor" where
  "log_executor x =
     \<lparr>ex_factory = (\<lambda>p w. ([], ex_factory x p w)), ex_up = (\<lambda>ls. ex_up x (snd ls)),
      ex_start = (\<lambda>ls. let (r, s1) = ex_start x (snd ls) in (r, (fst ls, s1))),
      ex_exec = log_run (ex_exec x), ex_stop = (\<lambda>ls. (fst ls, ex_stop x (snd ls))),
      ex_world = (\<lambda>ls. ex_world x (snd ls)), ex_set_world = (\<lambda>w ls. (fst ls, ex_set_world x w (snd ls))),
      ex_resolver = ex_resolver x, ex_code = ex_code x, ex_ca = ex_ca x,
      ex_redirect_now = ex_redirect_now x, ex_enable_execution = ex_enable_execution x\<rparr>"

lemma lift_log_resolver:
  "lift_resolver (\<lambda>ls. world (snd ls)) (\<lambda>w ls. (fst ls, set_world w (snd ls))) ra
     = log_resolver (lift_resolver world set_world ra)"
  by (simp add: fun_eq_iff lift_resolver_def log_resolver_def Let_def split: prod.splits)

lemma build_request_sound:
  assumes "build_request context services = Inr req" and "sound_context context"
  shows "sound_context (hr_context req)"
  using assms by (auto simp: build_request_def Let_def bindE_Inr_iff split: if_splits)

lemma analysis_execute_log:
  assumes "analysis_execute context (build_services (log_executor x) context limits origin) ([], s) = (r, (log, s'))"
    and "sound_context context"
  shows "length log \<le> Suc (nat (hl_max_redirects (case limits of None \<Rightarrow> default_limits | Some l \<Rightarrow> l)))
    \<and> set log \<subseteq> admitted_commands (ex_code x) (ex_ca x) (case limits of None \<Rightarrow> default_limits | Some l \<Rightarrow> l)"
proof (cases "log = []")
  case True
  then show ?thesis by simp
next
  case False
  let ?sv = "build_services (log_executor x) context limits origin"
  let ?lims = "case limits of None \<Rightarrow> default_limits | Some l \<Rightarrow> l"
  from assms(1) False obtain req where req: "build_request context ?sv = Inr req"
    by (auto simp: analysis_execute_def split: if_splits sum.splits)
  obtain y st where y: "single_request ?sv req ([], s) = (y, st)" by (rule prod.exhaust)
  with assms(1) req False have st: "st = (log, s')"
    by (auto simp: analysis_execute_def split: if_splits sum.splits exn.splits)
  with y have "transport_execute (\<lambda>ls. ex_up x (snd ls)) (\<lambda>_. False) (log_run (ex_exec x))
      (log_resolver (lift_resolver (ex_world x) (ex_set_world x) (ex_resolver x))) (ex_code x) (ex_ca x) ?lims
      (ex_redirect_now x) req ([], s) = (y, (log, s'))"
    by (simp add: single_request_def build_services_def log_executor_def lift_log_resolver)
  with build_request_sound [OF req assms(2)] show ?thesis by (rule transport_log)
qed

lemma log_prepare:
  assumes "prepare (log_executor x) h t now w = Inr (b, ls)"
  shows "fst ls = [] \<and> sound_binding b"
proof -
  from prepare_Inr [OF assms] obtain w1 p where "resolve (ex_resolver x) h t now w = (Inr b, w1)"
    and "thenA (ex_start (log_executor x)) (\<lambda>_. require_established (ex_up (log_executor x))) (ex_factory (log_executor x) p w1) = (Inr (), ls)"
    by (auto simp: log_executor_def)
  then show ?thesis using resolve_sound
    by (fastforce simp: thenA_Inr log_executor_def require_established_def Let_def split: if_splits prod.splits)
qed

lemma log_prepare_fail:
  assumes "prepare (log_executor x) h t now w = Inl (e, Inr ls)"
  shows "fst ls = []"
  using prepare_Inl [OF assms]
  by (fastforce simp: thenA_Inl log_executor_def require_established_def Let_def split: if_splits prod.splits)

lemma execute_scan_log:
  assumes "execute_scan (log_executor x) h (Some analysis_execute) t now limits origin w = (r, Inr (log, s))"
  shows "length log \<le> Suc (nat (hl_max_redirects (case limits of None \<Rightarrow> default_limits | Some l \<Rightarrow> l)))
    \<and> set log \<subseteq> admitted_commands (ex_code x) (ex_ca x) (case limits of None \<Rightarrow> default_limits | Some l \<Rightarrow> l)"
proof (cases "prepare (log_executor x) h t now w")
  case (Inl est)
  obtain e st where "est = (e, st)" by (rule prod.exhaust)
  with Inl assms log_prepare_fail have "log = []" by (auto simp: execute_scan_def)
  then show ?thesis by simp
next
  case (Inr bs)
  obtain b ls where bs: "bs = (b, ls)" by (rule prod.exhaust)
  from log_prepare [of x h t now w b ls] Inr bs obtain s0 where s0: "ls = ([], s0)" and b: "sound_binding b"
    by (cases ls) auto
  obtain r' log' s' where at: "attempt (log_executor x) b (Some analysis_execute) limits origin ([], s0) = (r', (log', s'))"
    by (metis prod.exhaust)
  with assms Inr bs s0 have log: "log' = log"
    by (auto simp: execute_scan_def with_finally_def log_executor_def)
  show ?thesis
  proof (cases "log' = []")
    case True
    with log show ?thesis by simp
  next
    case False
    with at obtain p where p: "with_pinned b (hd (vb_addresses b)) = Inr p"
      and run: "analysis_execute (context_create p) (build_services (log_executor x) (context_create p) limits origin) ([], s0) = (r', (log', s'))"
      by (auto simp: attempt_def require_scan_context_def bindE_Inr_iff split: sum.splits list.splits if_splits)
    from with_pinned_sound [OF b p] have "sound_context (context_create p)" using context_create_sound by blast
    from analysis_execute_log [OF run this] log show ?thesis by simp
  qed
qed

section \<open>The analysis always answers\<close>

lemma observation_total: "encodable cat \<Longrightarrow> encodable t \<Longrightarrow> encodable l \<Longrightarrow> \<exists>ob. observation_create cat t d e l = Inr ob"
  using sha256_text_encodable [of "cat @ 124 # t @ 124 # l"]
  by (auto simp: observation_create_def observation_id_def sha16_def is_surrogate_def)

lemma finding_total: "encodable cat \<Longrightarrow> encodable t \<Longrightarrow> encodable l \<Longrightarrow> \<exists>f. finding_create cat t d sev conf e l r ids = Inr f"
  using sha256_text_encodable [of "u ''finding|'' @ cat @ 124 # t @ 124 # l"]
  by (auto simp: finding_create_def finding_id_def sha16_def is_surrogate_def)

definition answers :: "note_lists result \<Rightarrow> bool" where
  "answers r \<longleftrightarrow> (\<exists>n. r = Inr n)"

lemma answers_basic:
  "answers no_notes"
  "encodable cat \<Longrightarrow> encodable t \<Longrightarrow> encodable l \<Longrightarrow> answers (observe (observation_create cat t d e l))"
  "encodable cat \<Longrightarrow> encodable t \<Longrightarrow> encodable l \<Longrightarrow> encodable cat' \<Longrightarrow> encodable t' \<Longrightarrow> encodable l' \<Longrightarrow>
     answers (observe_and_find (observation_create cat t d e l) (\<lambda>i. finding_create cat' t' d' sev conf e' l' r (ids i)))"
  "answers m \<Longrightarrow> answers n \<Longrightarrow> answers (then_notes m n)"
proof -
  show "answers (observe (observation_create cat t d e l))" if "encodable cat" "encodable t" "encodable l"
    using observation_total [OF that, of d e] by (auto simp: answers_def observe_def)
  show "answers (observe_and_find (observation_create cat t d e l) (\<lambda>i. finding_create cat' t' d' sev conf e' l' r (ids i)))"
    if enc: "encodable cat" "encodable t" "encodable l" "encodable cat'" "encodable t'" "encodable l'"
  proof -
    obtain ob where ob: "observation_create cat t d e l = Inr ob" using observation_total [OF enc(1,2,3)] by blast
    obtain f where "finding_create cat' t' d' sev conf e' l' r (ids (ob_id ob)) = Inr f"
      using finding_total [OF enc(4,5,6)] by blast
    with ob show ?thesis by (simp add: answers_def observe_and_find_def)
  qed
qed (auto simp: answers_def no_notes_def then_notes_def)

lemma answers_all: "(\<And>x. x \<in> set xs \<Longrightarrow> answers (g x)) \<Longrightarrow> answers (all_notes (map g xs))"
  by (induction xs) (simp_all add: answers_basic)

lemma encodable_categories [simp]:
  "encodable category_headers" "encodable category_cookies" "encodable category_transport" "encodable category_server"
  by (simp_all add: category_headers_def category_cookies_def category_transport_def category_server_def)

lemma security_headers_encodable: "h \<in> set security_headers \<Longrightarrow> encodable (fst (snd h))"
  by (auto simp: security_headers_def)

lemma answers_header:
  assumes "h \<in> set security_headers" and "encodable location"
  shows "answers (assess_header hmap location h)"
  using security_headers_encodable [OF assms(1)] assms(2)
  by (cases h; cases "dict_get hmap (fst h)")
    (simp_all add: assess_header_def missing_header_title_def answers_basic)

lemma answers_headers:
  assumes "encodable location"
  shows "answers (assess_headers response location)"
  unfolding assess_headers_def Let_def
  using assms by (intro answers_basic(4) answers_all answers_header) (auto simp: answers_basic split: option.splits)

lemma answers_missing_flag:
  assumes "encodable a" "encodable t" "encodable location"
  shows "answers (note_missing_flag a t d r names location)"
proof -
  have "cookie_finding t d LOW r names location
      = (\<lambda>i. finding_create category_cookies t d LOW CONF_HIGH (bound_evidence (listed_names names)) location r [i])"
    by (simp add: fun_eq_iff cookie_finding_def)
  then show ?thesis
    using assms by (simp add: note_missing_flag_def cookie_observation_def answers_basic)
qed

lemma answers_if: "(\<not> b \<Longrightarrow> answers n) \<Longrightarrow> answers (if b then no_notes else n)"
  by (simp add: answers_basic)

lemma answers_cookies:
  assumes "encodable location"
  shows "answers (assess_cookies response location)"
  unfolding assess_cookies_def Let_def all_notes.simps
  by (intro answers_if answers_basic answers_missing_flag) (simp_all add: assms)

lemma answers_server: "answers (assess_server_info response)"
  unfolding assess_server_info_def Let_def
  by (rule answers_all) (auto simp: interesting_headers_def answers_basic split: option.splits)

lemma encodable_schemes: "s \<in> set allowed_http_schemes \<Longrightarrow> encodable s"
  by (auto simp: allowed_http_schemes_def)

lemma origin_location_encodable:
  "encodable s \<Longrightarrow> encodable (vb_hostname (cx_binding context)) \<Longrightarrow> encodable p \<Longrightarrow> encodable (origin_location s context p)"
  by (simp add: origin_location_def)

text \<open>An origin and a hostname without lone surrogates: every location can be hashed.\<close>

definition plain_origin :: "network_context \<Rightarrow> origin_spec \<Rightarrow> bool" where
  "plain_origin context origin \<longleftrightarrow> encodable (os_scheme origin) \<and> encodable (os_path origin)
     \<and> encodable (vb_hostname (cx_binding context)) \<and> py_lower (os_scheme origin) \<in> set allowed_http_schemes"

lemma analyze_total:
  assumes "plain_origin context origin"
  shows "\<exists>r. analyze_response context origin response = Inr r \<and> an_status r = Some (rp_status response) \<and> an_error_kind r = None"
proof -
  note enc = assms [unfolded plain_origin_def]
  let ?l = "origin_location (os_scheme origin) context (os_path origin)"
  have l: "encodable ?l" "encodable (origin_location (py_lower (os_scheme origin)) context (os_path origin))"
    using enc encodable_schemes by (auto intro: origin_location_encodable)
  have "answers (assess_transport context origin response)"
    unfolding assess_transport_def Let_def using l by (simp add: answers_basic)
  then have "answers (all_notes [assess_transport context origin response, assess_headers response ?l,
      assess_cookies response ?l, assess_server_info response])"
    using l answers_headers answers_cookies answers_server by (simp add: answers_basic)
  then show ?thesis
    by (auto simp: analyze_response_def Let_def answers_def)
qed

lemma unreachable_total:
  assumes "plain_origin context origin"
  shows "\<exists>r. unreachable_result context origin kind detail = Inr r \<and> an_status r = None
    \<and> an_error_kind r = Some (kind_value kind) \<and> length (an_error_detail r) \<le> 256 \<and> map fd_severity (an_findings r) = [INFO]"
proof -
  note enc = assms [unfolded plain_origin_def]
  let ?l = "origin_location (os_scheme origin) context (os_path origin)"
  have l: "encodable ?l" using enc by (auto intro: origin_location_encodable)
  have "length (bound_evidence_to 256 detail) \<le> 256" by (rule length_bound_evidence_to) simp
  moreover obtain ob f where "observation_create category_transport (u ''Target unreachable through validated transport'')
       (u ''The attempt ended in a controlled transport failure ('' @ kind_value kind @ u ''); no security analysis was possible.'')
       (kind_value kind) ?l = Inr ob"
    "finding_create category_transport (u ''No HTTP response obtained'')
       (u ''The validated transport could not complete the exchange; the destination may be down, filtered, or misconfigured.'')
       INFO CONF_HIGH (kind_value kind) ?l (u ''Verify availability out-of-band; retry later.'') [ob_id ob] = Inr f"
    using l observation_total finding_total by (metis encodable_categories(3) encodable_simps(2))
  moreover from this(2) have "fd_severity f = INFO" by (rule finding_create_fields [THEN conjunct1])
  ultimately show ?thesis
    by (simp add: unreachable_result_def Let_def observe_and_find_def)
qed

section \<open>Properties\<close>

lemma analysis_result_cases:
  assumes "analysis_execute context services s = (Inr r, s')"
  shows "(\<exists>response. analyze_response context (sv_origin services) response = Inr r)
    \<or> (\<exists>kind detail. unreachable_result context (sv_origin services) kind detail = Inr r)"
  using assms by (auto simp: analysis_execute_def split: if_splits sum.splits prod.splits exn.splits)

lemma result_grounded:
  assumes "analysis_execute context services s = (Inr r, s')"
  shows "grounded (an_observations r, an_findings r) \<and> length (an_observations r) \<le> 16 \<and> length (an_findings r) \<le> 9"
  using analysis_result_cases [OF assms]
proof
  assume "\<exists>response. analyze_response context (sv_origin services) response = Inr r"
  then show ?thesis
    using assessments_at_most [of _ "sv_origin services"]
    by (fastforce simp: analyze_response_def Let_def bindE_Inr_iff at_most_def simp del: all_notes.simps)
next
  assume "\<exists>kind detail. unreachable_result context (sv_origin services) kind detail = Inr r"
  then show ?thesis
    using at_most_find [of INFO] by (fastforce simp: unreachable_result_def Let_def bindE_Inr_iff at_most_def)
qed

text \<open>C33 [analysis_findings_grounded]: whatever the target answers, every reported finding refers to one
  observation of the same result, of the same category and place, has severity low or informational
  and at most 512 characters of evidence; there are at most 16 observations and 9 findings.\<close>

theorem analysis_findings_grounded:
  assumes "analysis_execute context services s = (Inr r, s')"
  shows "length (an_observations r) \<le> 16 \<and> length (an_findings r) \<le> 9
    \<and> (\<forall>f \<in> set (an_findings r). fd_severity f \<le> LOW \<and> length (fd_evidence f) \<le> 512
        \<and> (\<exists>ob \<in> set (an_observations r). fd_observation_ids f = [ob_id ob]
             \<and> fd_category f = ob_category ob \<and> fd_location f = ob_location ob))"
  using result_grounded [OF assms] by (auto simp: grounded_def less_eq_severity_def)

text \<open>C32 [missing_header_findings_exact]: a missing-header finding for one of the six security headers is
  reported exactly when no response header has that name in any capitalization, and it has the
  severity the header is rated with.\<close>

theorem missing_header_findings_exact:
  assumes "analyze_response context origin response = Inr r" and "(lowered, display, purpose) \<in> set security_headers"
  shows "(missing_header_title display, header_severity lowered) \<in> set (finding_kinds ([], an_findings r))
      \<longleftrightarrow> lowered \<notin> py_lower ` fst ` set (rp_headers response)"
proof -
  let ?hm = "header_map (rp_headers response)" and ?m = "\<lambda>h. missing_header_title (fst (snd h))"
  from analyze_kinds [OF assms(1)] obtain ks where
    ks: "finding_kinds ([], an_findings r) = concat (map (header_kinds ?hm) security_headers) @ ks"
    and ck: "fst ` set ks \<subseteq> set cookie_titles" by blast
  have other: "?m h \<notin> set cookie_titles \<and> (\<forall>v. ?m h \<noteq> u ''Nonstandard '' @ v)" for h :: "pystr \<times> pystr \<times> pystr"
    by (simp add: missing_header_title_def cookie_titles_def text_defs)
  have inj: "?m h = ?m h' \<Longrightarrow> fst h = fst h'" if "h \<in> set security_headers" "h' \<in> set security_headers" for h h' :: "pystr \<times> pystr \<times> pystr"
    using that by (auto simp: security_headers_def missing_header_title_def)
  have kinds: "(?m h, sev) \<in> set (header_kinds ?hm h') \<longleftrightarrow> ?m h = ?m h' \<and> dict_get ?hm (fst h') = None \<and> sev = header_severity (fst h')"
    for h h' :: "pystr \<times> pystr \<times> pystr" and sev
    using other [of h] by (auto simp: header_kinds_def split: option.splits)
  have out: "(?m h, sev) \<notin> set ks" for h :: "pystr \<times> pystr \<times> pystr" and sev
    using ck other [of h] by force
  have "(?m h, header_severity (fst h)) \<in> (\<Union>h' \<in> set security_headers. set (header_kinds ?hm h')) \<longleftrightarrow> dict_get ?hm (fst h) = None"
    if h: "h \<in> set security_headers" for h
  proof
    assume "(?m h, header_severity (fst h)) \<in> (\<Union>h' \<in> set security_headers. set (header_kinds ?hm h'))"
    then obtain h' where h': "h' \<in> set security_headers" "(?m h, header_severity (fst h)) \<in> set (header_kinds ?hm h')" by blast
    from h'(2) have "?m h = ?m h'" "dict_get ?hm (fst h') = None" by (simp_all only: kinds)
    with inj [OF h h'(1)] show "dict_get ?hm (fst h) = None" by simp
  next
    assume "dict_get ?hm (fst h) = None"
    then have "(?m h, header_severity (fst h)) \<in> set (header_kinds ?hm h)" by (simp only: kinds)
    with h show "(?m h, header_severity (fst h)) \<in> (\<Union>h' \<in> set security_headers. set (header_kinds ?hm h'))" by blast
  qed
  from this [OF assms(2)] out [of "(lowered, display, purpose)"] show ?thesis by (simp add: ks header_map_None del: UN_iff)
qed

text \<open>Two responses that differ only in the values of their cookies
  give the very same result, identifiers and evidence included: no cookie value reaches a report.\<close>

theorem analysis_ignores_cookie_values:
  assumes "list_all2 header_variant hs hs'"
  shows "analyze_response ctx origin (rsp\<lparr>rp_headers := hs\<rparr>) = analyze_response ctx origin (rsp\<lparr>rp_headers := hs'\<rparr>)"
  using assms by (rule analyze_variant)

text \<open>For an origin that can be encoded, a response of any kind ends in a
  result with its status, a controlled transport failure ends in a result with no status, the failure
  kind, a bounded detail and one informational finding, and any other exception passes through
  unchanged.\<close>

theorem analysis_reports_every_outcome:
  assumes "plain_origin ctx (sv_origin services)" and "1 \<le> hl_max_requests (sv_limits services)"
    and "build_request ctx services = Inr req"
  shows "case single_request services req s of
     (Inr response, s1) \<Rightarrow> \<exists>r. analysis_execute ctx services s = (Inr r, s1)
        \<and> an_status r = Some (rp_status response) \<and> an_error_kind r = None
   | (Inl (ControlledTransportError kind detail), s1) \<Rightarrow> \<exists>r. analysis_execute ctx services s = (Inr r, s1)
        \<and> an_status r = None \<and> an_error_kind r = Some (kind_value kind) \<and> length (an_error_detail r) \<le> 256
        \<and> map fd_severity (an_findings r) = [INFO]
   | (Inl e, s1) \<Rightarrow> analysis_execute ctx services s = (Inl e, s1)"
proof -
  obtain y s1 where y: "single_request services req s = (y, s1)" by (rule prod.exhaust)
  show ?thesis
  proof (cases y)
    case (Inr response)
    with y assms analyze_total [OF assms(1), of response] show ?thesis by (auto simp: analysis_execute_def)
  next
    case (Inl e)
    with y assms unreachable_total [OF assms(1)] show ?thesis
      by (cases e) (auto simp: analysis_execute_def)
  qed
qed

text \<open>C6 [scan_traffic_admitted]: in a whole scan attempt with this engine, from the name to be resolved to the
  destroyed sandbox, every command run in the sandbox on the engine's behalf is the workload command
  for an address that the IP policy admits and that is on its context's allow-list, and there are at
  most \<open>max_redirects + 1\<close> of them, whatever DNS, the sandbox and the target answer.\<close>

theorem scan_traffic_admitted:
  assumes "execute_scan (log_executor x) h (Some analysis_execute) t now (Some limits) origin w = (r, Inr (log, s))"
  shows "length log \<le> Suc (nat (hl_max_redirects limits)) \<and> set log \<subseteq> admitted_commands (ex_code x) (ex_ca x) limits"
  using execute_scan_log [OF assms] by simp

section \<open>Examples\<close>

text \<open>An executor over a sandbox that always comes up and whose workload answers 200.\<close>

definition plain_executor :: "(unit, unit) executor" where
  "plain_executor =
     \<lparr>ex_factory = (\<lambda>p w. w), ex_up = (\<lambda>_. True),
      ex_start = (\<lambda>s. (Inr \<lparr>vf_rule_dump = [], vf_default_drop = True, vf_allowed_addresses = {}, vf_workload_uid = None\<rparr>, s)),
      ex_exec = ok_run, ex_stop = (\<lambda>s. s), ex_world = (\<lambda>s. s), ex_set_world = (\<lambda>w s. w),
      ex_resolver = platform_resolve_all example_gai, ex_code = [], ex_ca = None, ex_redirect_now = 0,
      ex_enable_execution = True\<rparr>"

definition example_services :: "unit engine_services" where
  "example_services = build_services plain_executor (context_create example_binding) None None"

lemma example_build_request: "build_request (context_create example_binding) example_services = Inr example_request"
  by (simp add: build_request_def example_services_def build_services_def default_origin_def make_spec_def
      target_for_context_def py_startswith_def context_create_def example_binding_def authorize_destination_def
      egress_authorize_def default_ports_def allowed_http_schemes_def transport_owned_headers_def py_lower_def
      lower_char_def is_upper_alpha_def py_upper_def upper_char_def is_lower_alpha_def example_request_def text_defs)

lemma example_single_request:
  "single_request example_services example_request () = (Inr (example_response\<lparr>rp_final_target := hr_target example_request, rp_via_redirects := []\<rparr>), ())"
proof -
  have auth: "authorize_or_refuse (hr_context example_request) (hr_spec example_request) (hr_target example_request) = Inr example_request"
    by (simp add: authorize_or_refuse_Inr example_request_def context_create_def example_binding_def)
  have "execute_loop (\<lambda>_. False) ok_run ra [] None default_limits 0 n example_request [] ()
      = (Inr (example_response\<lparr>rp_final_target := hr_target example_request, rp_via_redirects := []\<rparr>), ())" for n ra
    by (subst execute_loop.simps) (simp add: ok_exchange example_response_def get_header_def)
  with auth show ?thesis
    by (simp add: single_request_def example_services_def build_services_def plain_executor_def transport_execute_def)
qed

lemma example_plain: "plain_origin (context_create example_binding) (sv_origin example_services)"
  by (simp add: plain_origin_def example_services_def build_services_def default_origin_def context_create_def
      example_binding_def is_surrogate_def allowed_http_schemes_def)
    (simp add: py_lower_def lower_char_def is_upper_alpha_def text_defs)

lemma example_limits: "sv_limits example_services = default_limits"
  by (simp add: example_services_def build_services_def)

theorem analysis_reports_every_outcome_witness:
  "\<exists>r. analysis_execute (context_create example_binding) example_services () = (Inr r, ()) \<and> an_status r = Some 200"
proof -
  have "1 \<le> hl_max_requests (sv_limits example_services)" by (simp add: example_limits default_limits_def)
  from analysis_reports_every_outcome [OF example_plain this example_build_request, of "()"]
  show ?thesis by (auto simp: example_single_request example_response_def)
qed

lemma example_analysis: "\<exists>r. analysis_execute (context_create example_binding) example_services () = (Inr r, ())"
proof -
  obtain r where "analyze_response (context_create example_binding) (sv_origin example_services)
      (example_response\<lparr>rp_final_target := hr_target example_request, rp_via_redirects := []\<rparr>) = Inr r"
    using analyze_total [OF example_plain] by blast
  then show ?thesis
    by (simp add: analysis_execute_def example_build_request example_single_request example_limits default_limits_def)
qed

theorem analysis_findings_grounded_witness:
  "\<exists>r. analysis_execute (context_create example_binding) example_services () = (Inr r, ())
     \<and> length (an_observations r) \<le> 16 \<and> length (an_findings r) \<le> 9"
proof -
  obtain r where r: "analysis_execute (context_create example_binding) example_services () = (Inr r, ())"
    using example_analysis by blast
  from analysis_findings_grounded [OF r] r show ?thesis by auto
qed

theorem missing_header_findings_exact_witness:
  "\<exists>r. analyze_response (context_create example_binding) default_origin example_response = Inr r
     \<and> (missing_header_title (u ''Referrer-Policy''), INFO) \<in> set (finding_kinds ([], an_findings r))"
proof -
  have "plain_origin (context_create example_binding) default_origin"
    using example_plain by (simp add: example_services_def build_services_def)
  then obtain r where r: "analyze_response (context_create example_binding) default_origin example_response = Inr r"
    using analyze_total by blast
  have "(u ''referrer-policy'', u ''Referrer-Policy'', u ''restricts referrer leakage'') \<in> set security_headers"
    by (simp add: security_headers_def)
  from missing_header_findings_exact [OF r this] have
    "(missing_header_title (u ''Referrer-Policy''), header_severity (u ''referrer-policy'')) \<in> set (finding_kinds ([], an_findings r))"
    by (simp add: example_response_def)
  moreover have "header_severity (u ''referrer-policy'') = INFO" by (simp add: header_severity_def)
  ultimately show ?thesis using r by auto
qed

theorem analysis_ignores_cookie_values_witness:
  "analyze_response (context_create example_binding) default_origin
     (example_response\<lparr>rp_headers := [(u ''Set-Cookie'', u ''sid'' @ 61 # u ''secret'' @ 59 # u '' Secure'')]\<rparr>)
   = analyze_response (context_create example_binding) default_origin
     (example_response\<lparr>rp_headers := [(u ''Set-Cookie'', u ''sid'' @ 61 # u ''x'' @ 59 # u '' Secure'')]\<rparr>)"
proof -
  have "61 \<notin> set (u ''sid'')" "59 \<notin> set (u ''sid'')" "59 \<notin> set (u ''secret'')" "59 \<notin> set (u ''x'')"
    by (simp_all add: text_defs)
  then have "value_variant (u ''sid'' @ 61 # u ''secret'' @ 59 # u '' Secure'') (u ''sid'' @ 61 # u ''x'' @ 59 # u '' Secure'')"
    unfolding value_variant_def by blast
  then have "list_all2 header_variant [(u ''Set-Cookie'', u ''sid'' @ 61 # u ''secret'' @ 59 # u '' Secure'')]
      [(u ''Set-Cookie'', u ''sid'' @ 61 # u ''x'' @ 59 # u '' Secure'')]"
    by (simp add: header_variant_def py_lower_def lower_char_def is_upper_alpha_def text_defs)
  then show ?thesis by (rule analysis_ignores_cookie_values)
qed

theorem scan_traffic_admitted_witness:
  "\<exists>r log. execute_scan (log_executor plain_executor) (u ''a'') (Some analysis_execute) None 0 (Some default_limits) None ()
       = (r, Inr (log, ())) \<and> length log \<le> 11 \<and> set log \<subseteq> admitted_commands [] None default_limits"
proof -
  have "policy_for_binding (example_binding\<lparr>vb_pinned := None\<rparr>) = Inr example_policy"
    by (simp add: policy_for_binding_def example_binding_def example_policy_def)
  moreover have "resolve (platform_resolve_all example_gai) (u ''a'') None 0 () = (Inr (example_binding\<lparr>vb_pinned := None\<rparr>), ())"
    by (simp add: resolve_example example_binding_def)
  ultimately have "\<exists>s. prepare (log_executor plain_executor) (u ''a'') None 0 () = Inr (example_binding\<lparr>vb_pinned := None\<rparr>, s)"
    by (simp add: prepare_def log_executor_def plain_executor_def thenA_def require_established_def)
  then obtain s where p: "prepare (log_executor plain_executor) (u ''a'') None 0 () = Inr (example_binding\<lparr>vb_pinned := None\<rparr>, s)"
    by blast
  obtain r s1 where "with_finally (ex_stop (log_executor plain_executor)) (attempt (log_executor plain_executor)
      (example_binding\<lparr>vb_pinned := None\<rparr>) (Some analysis_execute) (Some default_limits) None) s = (r, s1)"
    by (rule prod.exhaust)
  moreover obtain log where "s1 = (log, ())" by (cases s1) auto
  ultimately have run: "execute_scan (log_executor plain_executor) (u ''a'') (Some analysis_execute) None 0
      (Some default_limits) None () = (r, Inr (log, ()))"
    using p by (simp add: execute_scan_def)
  from scan_traffic_admitted [OF run] run show ?thesis by (simp add: default_limits_def plain_executor_def)
qed

end
