(* ===== verification/DateText.thy ===== *)
theory DateText
  imports PyText
begin

text \<open>
  \<open>datetime.isoformat()\<close> of a UTC time.  A timestamp is the number of microseconds since
  1970-01-01T00:00:00Z; the calendar date is the proleptic Gregorian one, counted in eras of 400 years
  that begin on 1 March.
\<close>

definition civil_date :: "int \<Rightarrow> int \<times> int \<times> int" where
  "civil_date day =
     (let z = day + 719468;
          era = z div 146097; doe = z mod 146097;
          yoe = (doe - doe div 1460 + doe div 36524 - doe div 146096) div 365;
          doy = doe - (365 * yoe + yoe div 4 - yoe div 100);
          mp = (5 * doy + 2) div 153;
          d = doy - (153 * mp + 2) div 5 + 1;
          m = (if mp < 10 then mp + 3 else mp - 9)
      in (yoe + era * 400 + (if m \<le> 2 then 1 else 0), m, d))"

fun pad_digits :: "nat \<Rightarrow> nat \<Rightarrow> pystr" where
  "pad_digits 0 n = []"
| "pad_digits (Suc k) n = pad_digits k (n div 10) @ [48 + n mod 10]"

definition isoformat :: "timestamp \<Rightarrow> pystr" where
  "isoformat t =
     (let day = t div 86400000000; us = t mod 86400000000;
          (y, m, d) = civil_date day;
          s = us div 1000000; frac = us mod 1000000
      in pad_digits 4 (nat y) @ 45 # pad_digits 2 (nat m) @ 45 # pad_digits 2 (nat d) @ 84
         # pad_digits 2 (nat (s div 3600)) @ 58 # pad_digits 2 (nat (s div 60 mod 60)) @ 58
         # pad_digits 2 (nat (s mod 60)) @ (if frac = 0 then [] else 46 # pad_digits 6 (nat frac))
         @ u ''+00:00'')"

lemma length_pad_digits [simp]: "length (pad_digits k n) = k"
  by (induction k arbitrary: n) auto

lemma pad_digits_ascii: "c \<in> set (pad_digits k n) \<Longrightarrow> ascii_digit c"
  by (induction k arbitrary: n) (auto simp: ascii_digit_def)

lemma pad_digits_value: "n < 10 ^ k \<Longrightarrow> digits_value (pad_digits k n) = n"
proof (induction k arbitrary: n)
  case 0
  then show ?case by (simp add: digits_value_def)
next
  case (Suc k)
  from Suc.prems have "n div 10 < 10 ^ k" by (simp add: less_mult_imp_div_less mult.commute)
  from Suc.IH [OF this] show ?case by (simp add: digits_value_snoc)
qed

end
