(* ===== verification/AuditRecords.thy ===== *)
theory AuditRecords
  imports Store DateText
begin

text \<open>
  The audit trail (\<open>domain/audit/audit_service.py\<close>): recording, the visibility rule and the two read
  paths, which record their own access.  The clock is an argument; rows with equal times are read
  latest insertion first.
\<close>

section \<open>Recording\<close>

definition record_audit ::
  "pystr \<Rightarrow> pystr \<Rightarrow> uuid \<Rightarrow> json pydict \<Rightarrow> uuid option \<Rightarrow> timestamp \<Rightarrow> db \<Rightarrow> audit_row \<times> db" where
  "record_audit action_code entity_type entity_id metadata actor occurred_at d =
     (let (i, d1) = uuid4 d;
          entry = \<lparr>al_id = i, al_actor_user_id = actor, al_action_code = action_code,
            al_entity_type = entity_type, al_entity_id = entity_id, al_metadata_json = metadata,
            al_occurred_at = occurred_at\<rparr>
      in (entry, d1\<lparr>audit_log := audit_log d1 @ [entry]\<rparr>))"

section \<open>Reading\<close>

definition visible_to :: "audit_row \<Rightarrow> uuid \<Rightarrow> bool" where
  "visible_to row user =
     (if al_actor_user_id row = Some user then True
      else case dict_get (al_metadata_json row) (u ''ownerUserId'') of
             Some (JStr owner) \<Rightarrow> owner = uuid_text user
           | _ \<Rightarrow> False)"

record audit_filter =
  af_entity_type :: "pystr option"
  af_entity_id :: "uuid option"
  af_action_code :: "pystr option"
  af_date_from :: "timestamp option"
  af_date_to :: "timestamp option"

definition matches_filter :: "audit_filter \<Rightarrow> audit_row \<Rightarrow> bool" where
  "matches_filter q row \<longleftrightarrow>
     (case af_entity_type q of None \<Rightarrow> True | Some t \<Rightarrow> al_entity_type row = t)
     \<and> (case af_entity_id q of None \<Rightarrow> True | Some i \<Rightarrow> al_entity_id row = i)
     \<and> (case af_action_code q of None \<Rightarrow> True | Some a \<Rightarrow> al_action_code row = a)
     \<and> (case af_date_from q of None \<Rightarrow> True | Some t \<Rightarrow> t \<le> al_occurred_at row)
     \<and> (case af_date_to q of None \<Rightarrow> True | Some t \<Rightarrow> al_occurred_at row \<le> t)"

definition opt_text :: "pystr option \<Rightarrow> json" where
  "opt_text t = (case t of None \<Rightarrow> JNull | Some s \<Rightarrow> JStr s)"

definition query_metadata :: "audit_filter \<Rightarrow> json pydict" where
  "query_metadata q =
     [(u ''filters'', JObj
        [(u ''entityType'', opt_text (af_entity_type q)),
         (u ''entityId'', opt_text (map_option uuid_text (af_entity_id q))),
         (u ''actionCode'', opt_text (af_action_code q))])]"

definition query_entries :: "uuid \<Rightarrow> audit_filter \<Rightarrow> nat \<Rightarrow> timestamp \<Rightarrow> db \<Rightarrow> audit_row list \<times> db" where
  "query_entries user q limit now d =
     (let rows = take limit (order_desc al_occurred_at (select_where (matches_filter q) (audit_log d)));
          visible = filter (\<lambda>row. visible_to row user) rows;
          (_, d1) = record_audit (u ''AUDIT_LOG_ACCESSED'') (u ''audit_log'') user (query_metadata q) (Some user) now d
      in (visible, d1))"

definition get_entry :: "uuid \<Rightarrow> uuid \<Rightarrow> timestamp \<Rightarrow> db \<Rightarrow> audit_row option \<times> db" where
  "get_entry entry_id user now d =
     (case session_get al_id (audit_log d) entry_id of
        None \<Rightarrow> (None, d)
      | Some row \<Rightarrow>
          if \<not> visible_to row user then (None, d)
          else (let (_, d1) = record_audit (u ''AUDIT_LOG_ACCESSED'') (u ''audit_log'') user
                      [(u ''filters'', JObj [(u ''entryId'', JStr (uuid_text entry_id))])] (Some user) now d
                in (Some row, d1)))"

section \<open>Lemmas\<close>

lemma record_audit_eq:
  "record_audit a t e m ac now d =
     (let row = \<lparr>al_id = next_id d, al_actor_user_id = ac, al_action_code = a, al_entity_type = t, al_entity_id = e,
        al_metadata_json = m, al_occurred_at = now\<rparr>
      in (row, d\<lparr>next_id := Suc (next_id d), audit_log := audit_log d @ [row]\<rparr>))"
  by (simp add: record_audit_def uuid4_def Let_def)

lemma record_audit_log: "audit_log (snd (record_audit a t e m ac now d)) = audit_log d @ [fst (record_audit a t e m ac now d)]"
  by (simp add: record_audit_eq Let_def)

lemma record_audit_frame [simp]:
  "users (snd (record_audit a t e m ac now d)) = users d"
  "organizations (snd (record_audit a t e m ac now d)) = organizations d"
  "memberships (snd (record_audit a t e m ac now d)) = memberships d"
  "targets (snd (record_audit a t e m ac now d)) = targets d"
  "attestations (snd (record_audit a t e m ac now d)) = attestations d"
  "scans (snd (record_audit a t e m ac now d)) = scans d"
  "executions (snd (record_audit a t e m ac now d)) = executions d"
  "scan_findings (snd (record_audit a t e m ac now d)) = scan_findings d"
  "status_history (snd (record_audit a t e m ac now d)) = status_history d"
  "attestation_methods (snd (record_audit a t e m ac now d)) = attestation_methods d"
  "scan_profiles (snd (record_audit a t e m ac now d)) = scan_profiles d"
  "next_id (snd (record_audit a t e m ac now d)) = Suc (next_id d)"
  by (simp_all add: record_audit_eq Let_def)

lemma query_entries_visible: "fst (query_entries user q limit now d) = filter (\<lambda>row. visible_to row user) (take limit (order_desc al_occurred_at (select_where (matches_filter q) (audit_log d))))"
  by (simp add: query_entries_def Let_def split: prod.splits)

lemma query_entries_db: "snd (query_entries user q limit now d)
    = snd (record_audit (u ''AUDIT_LOG_ACCESSED'') (u ''audit_log'') user (query_metadata q) (Some user) now d)"
  by (simp add: query_entries_def Let_def split: prod.splits)

lemma get_entry_cases:
  "get_entry i user now d =
     (case session_get al_id (audit_log d) i of
        Some row \<Rightarrow> if visible_to row user then (Some row, snd (record_audit (u ''AUDIT_LOG_ACCESSED'') (u ''audit_log'') user
                      [(u ''filters'', JObj [(u ''entryId'', JStr (uuid_text i))])] (Some user) now d)) else (None, d)
      | None \<Rightarrow> (None, d))"
  by (simp add: get_entry_def split: option.splits prod.splits)

section \<open>The append-only contract\<close>

text \<open>
  A trail is append-only for a set of operations when each of them only adds entries at its end.  What
  follows for any sequence of operations: no entry is ever changed, removed or moved.
\<close>

fun run_all :: "('s \<Rightarrow> 's) list \<Rightarrow> 's \<Rightarrow> 's" where
  "run_all [] s = s"
| "run_all (f # fs) s = run_all fs (f s)"

locale append_only_log =
  fixes trail :: "'s \<Rightarrow> 'e list"
    and operation :: "('s \<Rightarrow> 's) \<Rightarrow> bool"
  assumes appends: "operation f \<Longrightarrow> \<exists>es. trail (f s) = trail s @ es"
begin

lemma all_append: "list_all operation fs \<Longrightarrow> \<exists>es. trail (run_all fs s) = trail s @ es"
proof (induction fs arbitrary: s)
  case Nil
  then show ?case by simp
next
  case (Cons f fs)
  from Cons.prems obtain es where "trail (f s) = trail s @ es" using appends by auto
  moreover from Cons obtain es' where "trail (run_all fs (f s)) = trail (f s) @ es'" by fastforce
  ultimately show ?case by simp
qed

lemma entry_stays:
  assumes "list_all operation fs" and "i < length (trail s)"
  shows "i < length (trail (run_all fs s)) \<and> trail (run_all fs s) ! i = trail s ! i"
  using all_append [OF assms(1), of s] assms(2) by (auto simp: nth_append)

end

end
