(* ===== verification/Paging.thy ===== *)
theory Paging
  imports Prelude "HOL-Library.Product_Lexorder"
begin

text \<open>
  Keyset pagination: a listing ordered by a key, newest first, that is read page by page with the key of
  the last row as the cursor.  The locale states what one page query promises; its client lemma is
  that walking the pages reads the whole listing.
\<close>

definition before_cursor :: "('r \<Rightarrow> 'k :: linorder) \<Rightarrow> 'k option \<Rightarrow> 'r \<Rightarrow> bool" where
  "before_cursor key cursor r = (case cursor of None \<Rightarrow> True | Some k \<Rightarrow> key r < k)"

text \<open>
  A client that follows the cursor: \<open>page cursor\<close> answers the rows of one page and whether there are
  more.  \<open>None\<close> means that the fuel ran out.
\<close>

fun walk_pages :: "('k option \<Rightarrow> 'r list \<times> bool) \<Rightarrow> ('r \<Rightarrow> 'k) \<Rightarrow> nat \<Rightarrow> 'k option \<Rightarrow> 'r list option" where
  "walk_pages page key 0 cursor = None"
| "walk_pages page key (Suc fuel) cursor =
     (let (items, more) = page cursor
      in if more \<and> items \<noteq> []
         then map_option (\<lambda>rest. items @ rest) (walk_pages page key fuel (Some (key (last items))))
         else Some items)"

lemma order_desc_filter: "order_desc key (filter p rs) = filter p (order_desc key rs)"
  by (simp add: order_desc_def rev_filter [symmetric] filter_sort)

lemma order_desc_sorted: "sorted (rev (map key (order_desc key rs)))"
  by (simp add: order_desc_def rev_map [symmetric])

lemma distinct_order_desc [simp]: "distinct (map key (order_desc key rs)) = distinct (map key rs)"
  by (simp add: distinct_map order_desc_def)

lemma filter_below_last:
  assumes "sorted (rev (map key (xs @ ys)))" and "distinct (map key (xs @ ys))" and "xs \<noteq> []"
  shows "filter (\<lambda>r. key r < key (last xs)) (xs @ ys) = ys"
proof -
  obtain zs z where xs: "xs = zs @ [z]" using assms(3) by (metis rev_exhaust)
  have le: "key z \<le> key x" if "x \<in> set xs" for x
    using assms(1) that by (auto simp: xs sorted_append)
  have gt: "key y < key z" if y: "y \<in> set ys" for y
  proof -
    from assms(1) y have "key y \<le> key z" by (auto simp: xs sorted_append)
    moreover from assms(2) have "key z \<notin> key ` set ys" by (simp add: xs)
    with y have "key y \<noteq> key z" by (metis imageI)
    ultimately show ?thesis by simp
  qed
  have "filter (\<lambda>r. key r < key z) xs = []" using le by (force simp: filter_empty_conv)
  moreover have "filter (\<lambda>r. key r < key z) ys = ys" using gt by (simp add: filter_id_conv)
  moreover have "last xs = z" by (simp add: xs)
  ultimately show ?thesis by simp
qed

locale keyset_listing =
  fixes key :: "'r \<Rightarrow> 'k :: linorder"
    and rows :: "'r list"
    and limit :: nat
    and page :: "'k option \<Rightarrow> 'r list \<times> bool"
  assumes page_items: "fst (page c) = take limit (order_desc key (filter (before_cursor key c) rows))"
    and page_more: "snd (page c) \<longleftrightarrow> limit < length (filter (before_cursor key c) rows)"
begin

lemma rest_of_page:
  assumes distinct_keys: "distinct (map key rows)" and limit_pos: "0 < limit" and "limit < length (filter (before_cursor key c) rows)"
    and "all = order_desc key (filter (before_cursor key c) rows)" and "k = key (last (take limit all))"
  shows "take limit all \<noteq> []" and "order_desc key (filter (before_cursor key (Some k)) rows) = drop limit all"
proof -
  have len: "limit < length all" using assms(3,4) by simp
  show ne: "take limit all \<noteq> []" using len limit_pos by auto
  have dist: "distinct (map key all)" using distinct_keys by (simp add: assms(4) distinct_map_filter)
  have below: "filter (\<lambda>r. key r < k) all = drop limit all"
    using filter_below_last [of key "take limit all" "drop limit all"] order_desc_sorted [of key] dist ne
    by (simp add: assms(4,5))
  obtain r0 where r0: "r0 \<in> set all" "k = key r0"
    using in_set_takeD [OF last_in_set [OF ne]] assms(5) by blast
  then have c0: "before_cursor key c r0" by (simp add: assms(4))
  have lt: "before_cursor key c r" if "key r < k" for r
    using that c0 r0(2) by (auto simp: before_cursor_def split: option.splits)
  have eq: "filter (before_cursor key (Some k)) rows = filter (\<lambda>r. key r < k) (filter (before_cursor key c) rows)"
    unfolding filter_filter by (rule filter_cong [OF refl]) (metis before_cursor_def lt option.simps(5))
  show "order_desc key (filter (before_cursor key (Some k)) rows) = drop limit all"
    using below unfolding eq order_desc_filter [of key "\<lambda>r. key r < k"] assms(4) .
qed

lemma walk_from:
  assumes distinct_keys: "distinct (map key rows)" and limit_pos: "0 < limit"
    and "length (filter (before_cursor key c) rows) < fuel"
  shows "walk_pages page key fuel c = Some (order_desc key (filter (before_cursor key c) rows))"
  using assms(3)
proof (induction fuel arbitrary: c)
  case 0
  then show ?case by simp
next
  case (Suc n)
  define all where "all = order_desc key (filter (before_cursor key c) rows)"
  have len: "length (filter (before_cursor key c) rows) = length all" by (simp add: all_def)
  have p: "page c = (take limit all, limit < length all)"
    using page_items [of c] page_more [of c] by (simp add: prod_eq_iff all_def)
  show ?case
  proof (cases "limit < length all")
    case False
    with p show ?thesis by (simp add: all_def)
  next
    case True
    define k where "k = key (last (take limit all))"
    note rest = rest_of_page [OF distinct_keys limit_pos, of c, OF _ all_def k_def, unfolded len, OF True]
    from rest(2) have "length (filter (before_cursor key (Some k)) rows) = length all - limit"
      by (metis length_drop length_order_desc)
    with Suc.prems True limit_pos len have "length (filter (before_cursor key (Some k)) rows) < n" by simp
    from Suc.IH [OF this] have "walk_pages page key n (Some k) = Some (drop limit all)" by (simp only: rest(2))
    with True rest(1) p show ?thesis by (simp add: k_def all_def)
  qed
qed

lemma walk_complete:
  assumes "distinct (map key rows)" and "0 < limit" and "length rows < fuel"
  shows "walk_pages page key fuel None = Some (order_desc key rows)"
  using walk_from [OF assms(1,2), of None fuel] assms(3) by (simp add: before_cursor_def)

end

end
