(* ===== verification/Tenancy.thy ===== *)
theory Tenancy
  imports AuditRecords Users TargetNorm Paging
begin

text \<open>
  Who may see and change what: organization membership (\<open>membership_repository.py\<close>,
  \<open>organization_service.py\<close>), targets (\<open>target_repository.py\<close>, \<open>target_service.py\<close>) and authorization
  attestations (\<open>attestation_repository.py\<close>, \<open>attestation_service.py\<close>).  \<open>p\<close> is the identifier of the
  principal, \<open>now\<close> the clock reading of the operation; the row handed back is the entity the service
  returns.
\<close>

section \<open>Memberships\<close>

definition role_admin :: pystr where "role_admin = u ''ADMIN''"
definition role_member :: pystr where "role_member = u ''MEMBER''"

definition is_member :: "db \<Rightarrow> uuid \<Rightarrow> uuid \<Rightarrow> bool" where
  "is_member d user org \<longleftrightarrow>
     first_row (select_where (\<lambda>r. mb_user_id r = user \<and> mb_organization_id r = org) (memberships d)) \<noteq> None"

definition get_membership :: "db \<Rightarrow> uuid \<Rightarrow> uuid \<Rightarrow> membership_row option" where
  "get_membership d org user =
     first_row (select_where (\<lambda>r. mb_organization_id r = org \<and> mb_user_id r = user) (memberships d))"

definition members_of :: "db \<Rightarrow> uuid \<Rightarrow> membership_row list" where
  "members_of d org = sort_key mb_created_at (select_where (\<lambda>r. mb_organization_id r = org) (memberships d))"

definition is_admin :: "db \<Rightarrow> uuid \<Rightarrow> uuid \<Rightarrow> bool" where
  "is_admin d user org = (case get_membership d org user of None \<Rightarrow> False | Some m \<Rightarrow> mb_role m = role_admin)"

text \<open>
  The table's constraints, checked when a staged row is flushed: foreign keys, the role check, one row
  per organization and user.
\<close>

abbreviation integrity_error :: exn where "integrity_error \<equiv> OtherException (u ''IntegrityError'')"

definition role_valid :: "pystr \<Rightarrow> bool" where
  "role_valid r \<longleftrightarrow> r = role_admin \<or> r = role_member"

definition membership_ok :: "db \<Rightarrow> membership_row \<Rightarrow> bool" where
  "membership_ok d m \<longleftrightarrow> mb_organization_id m \<in> og_id ` set (organizations d) \<and> mb_user_id m \<in> us_id ` set (users d)
     \<and> role_valid (mb_role m) \<and> get_membership d (mb_organization_id m) (mb_user_id m) = None"

definition insert_membership :: "uuid \<Rightarrow> uuid \<Rightarrow> pystr \<Rightarrow> timestamp \<Rightarrow> db \<Rightarrow> (membership_row \<times> db) result" where
  "insert_membership org user role now d =
     (let (i, d1) = uuid4 d;
          m = \<lparr>mb_id = i, mb_organization_id = org, mb_user_id = user, mb_role = role, mb_created_at = now\<rparr>
      in if membership_ok d1 m then Inr (m, d1\<lparr>memberships := memberships d1 @ [m]\<rparr>) else Inl integrity_error)"

section \<open>Organizations\<close>

definition create_organization :: "uuid \<Rightarrow> timestamp \<Rightarrow> pystr \<Rightarrow> db \<Rightarrow> (organization_row \<times> db) result" where
  "create_organization p now name d =
     (let (i, d1) = uuid4 d;
          org = \<lparr>og_id = i, og_name = take 255 name, og_created_at = now\<rparr>;
          d2 = d1\<lparr>organizations := organizations d1 @ [org]\<rparr>
      in bindE (insert_membership i p role_admin now d2) (\<lambda>(_, d3). Inr (org, d3)))"

definition require_member :: "db \<Rightarrow> uuid \<Rightarrow> uuid \<Rightarrow> unit result" where
  "require_member d p org = (if is_member d p org then Inr () else raise NotFoundError)"

definition get_organization :: "uuid \<Rightarrow> uuid \<Rightarrow> db \<Rightarrow> organization_row result" where
  "get_organization p org d =
     bindE (require_member d p org) (\<lambda>_. some_or (Domain NotFoundError) (session_get og_id (organizations d) org))"

definition list_members :: "uuid \<Rightarrow> uuid \<Rightarrow> db \<Rightarrow> membership_row list result" where
  "list_members p org d = bindE (require_member d p org) (\<lambda>_. Inr (members_of d org))"

definition add_member :: "uuid \<Rightarrow> timestamp \<Rightarrow> uuid \<Rightarrow> uuid \<Rightarrow> pystr \<Rightarrow> db \<Rightarrow> (membership_row \<times> db) result" where
  "add_member p now org user role d =
     (if \<not> is_admin d p org then raise ForbiddenError
      else case get_membership d org user of
             Some existing \<Rightarrow> Inr (existing, d)
           | None \<Rightarrow> insert_membership org user role now d)"

definition require_admin_and_get :: "db \<Rightarrow> uuid \<Rightarrow> uuid \<Rightarrow> uuid \<Rightarrow> membership_row result" where
  "require_admin_and_get d p org user =
     (if \<not> is_admin d p org then raise ForbiddenError
      else some_or (Domain NotFoundError) (get_membership d org user))"

definition change_role :: "uuid \<Rightarrow> uuid \<Rightarrow> uuid \<Rightarrow> pystr \<Rightarrow> db \<Rightarrow> (membership_row \<times> db) result" where
  "change_role p org user role d =
     bindE (require_admin_and_get d p org user) (\<lambda>m.
       if \<not> role_valid role then Inl integrity_error
       else Inr (m\<lparr>mb_role := role\<rparr>,
                 d\<lparr>memberships := update_where (\<lambda>r. mb_id r = mb_id m) (\<lambda>r. r\<lparr>mb_role := role\<rparr>) (memberships d)\<rparr>))"

definition remove_member :: "uuid \<Rightarrow> uuid \<Rightarrow> uuid \<Rightarrow> db \<Rightarrow> (unit \<times> db) result" where
  "remove_member p org user d =
     bindE (require_admin_and_get d p org user) (\<lambda>m.
       Inr ((), d\<lparr>memberships := filter (\<lambda>r. mb_id r \<noteq> mb_id m) (memberships d)\<rparr>))"

section \<open>Targets\<close>

definition owned_by :: "uuid option \<Rightarrow> uuid option \<Rightarrow> target_row \<Rightarrow> bool" where
  "owned_by org user r \<longleftrightarrow> tg_owner_organization_id r = org \<and> tg_owner_user_id r = user"

definition find_by_owner_and_url :: "db \<Rightarrow> uuid option \<Rightarrow> uuid option \<Rightarrow> pystr \<Rightarrow> target_row option result" where
  "find_by_owner_and_url d org user url =
     scalar_one_or_none (select_where (\<lambda>r. tg_normalized_url r = url \<and> owned_by org user r) (targets d))"

definition target_by_id :: "db \<Rightarrow> uuid \<Rightarrow> target_row option result" where
  "target_by_id d i = scalar_one_or_none (select_where (\<lambda>r. tg_id r = i) (targets d))"

abbreviation target_key :: "target_row \<Rightarrow> timestamp \<times> uuid" where
  "target_key r \<equiv> (tg_created_at r, tg_id r)"

definition list_for_owner ::
  "db \<Rightarrow> uuid option \<Rightarrow> uuid option \<Rightarrow> bool \<Rightarrow> nat \<Rightarrow> (timestamp \<times> uuid) option \<Rightarrow> target_row list" where
  "list_for_owner d org user include_archived limit cursor =
     take limit (order_desc target_key
       (select_where (\<lambda>r. owned_by org user r \<and> (include_archived \<or> \<not> tg_is_archived r)
          \<and> (case cursor of None \<Rightarrow> True
             | Some (t, i) \<Rightarrow> tg_created_at r < t \<or> (tg_created_at r = t \<and> tg_id r < i))) (targets d)))"

definition register_target ::
  "uuid \<Rightarrow> timestamp \<Rightarrow> pystr \<Rightarrow> pystr \<Rightarrow> uuid option \<Rightarrow> db \<Rightarrow> (target_row \<times> db) result" where
  "register_target p now hostname url owner_organization d =
     bindE (normalize_target hostname url) (\<lambda>n.
     bindE (case owner_organization of
              Some org \<Rightarrow> if is_member d p org then Inr (Some org, None) else raise ForbiddenError
            | None \<Rightarrow> Inr (None, Some p)) (\<lambda>(org, user).
     bindE (find_by_owner_and_url d org user (nt_normalized_url n)) (\<lambda>existing.
       case existing of
         Some _ \<Rightarrow> raise DuplicateTargetError
       | None \<Rightarrow>
           (let (i, d1) = uuid4 d;
                row = \<lparr>tg_id = i, tg_owner_organization_id = org, tg_owner_user_id = user,
                       tg_hostname = nt_hostname n, tg_normalized_url = nt_normalized_url n,
                       tg_is_archived = False, tg_created_at = now\<rparr>
            in Inr (row, d1\<lparr>targets := targets d1 @ [row]\<rparr>)))))"

definition get_visible_target :: "uuid \<Rightarrow> uuid \<Rightarrow> db \<Rightarrow> target_row result" where
  "get_visible_target p i d =
     bindE (target_by_id d i) (\<lambda>found.
       case found of
         None \<Rightarrow> raise NotFoundError
       | Some t \<Rightarrow>
           if tg_owner_user_id t = Some p then Inr t
           else case tg_owner_organization_id t of
                  Some org \<Rightarrow> if is_member d p org then Inr t else raise NotFoundError
                | None \<Rightarrow> raise NotFoundError)"

definition list_targets ::
  "uuid \<Rightarrow> uuid option \<Rightarrow> bool \<Rightarrow> nat \<Rightarrow> (timestamp \<times> uuid) option \<Rightarrow> db \<Rightarrow> (target_row list \<times> bool) result" where
  "list_targets p org include_archived limit cursor d =
     (if (case org of None \<Rightarrow> False | Some o' \<Rightarrow> \<not> is_member d p o') then raise ForbiddenError
      else let rows = list_for_owner d org (case org of None \<Rightarrow> Some p | Some _ \<Rightarrow> None) include_archived (limit + 1) cursor
           in Inr (take limit rows, limit < length rows))"

definition update_target :: "uuid \<Rightarrow> (target_row \<Rightarrow> target_row) \<Rightarrow> db \<Rightarrow> db" where
  "update_target i f d = d\<lparr>targets := update_where (\<lambda>r. tg_id r = i) f (targets d)\<rparr>"

definition set_archived :: "uuid \<Rightarrow> uuid \<Rightarrow> bool \<Rightarrow> db \<Rightarrow> (target_row \<times> db) result" where
  "set_archived p i archived d =
     bindE (get_visible_target p i d) (\<lambda>t.
       Inr (t\<lparr>tg_is_archived := archived\<rparr>, update_target (tg_id t) (\<lambda>r. r\<lparr>tg_is_archived := archived\<rparr>) d))"

definition archive_target :: "uuid \<Rightarrow> uuid \<Rightarrow> db \<Rightarrow> (unit \<times> db) result" where
  "archive_target p i d =
     bindE (get_visible_target p i d) (\<lambda>t.
       Inr ((), update_target (tg_id t) (\<lambda>r. r\<lparr>tg_is_archived := True\<rparr>) d))"

section \<open>Attestations\<close>

definition self_attestation_code :: pystr where "self_attestation_code = u ''SELF_ATTESTATION''"

record attestation_details =
  ad_attestation :: attestation_row
  ad_method_code :: pystr

definition attestation_active :: "timestamp \<Rightarrow> attestation_row \<Rightarrow> bool" where
  "attestation_active now a =
     (if at_status a \<noteq> CONFIRMED then False
      else case at_expires_at a of None \<Rightarrow> True | Some t \<Rightarrow> now < t)"

definition active_confirmed :: "db \<Rightarrow> uuid \<Rightarrow> timestamp \<Rightarrow> attestation_row list" where
  "active_confirmed d target now =
     select_where (\<lambda>a. at_target_id a = target \<and> at_status a = CONFIRMED
       \<and> (at_expires_at a = None \<or> (case at_expires_at a of None \<Rightarrow> False | Some t \<Rightarrow> now < t))) (attestations d)"

definition has_active_confirmed :: "db \<Rightarrow> uuid \<Rightarrow> timestamp \<Rightarrow> bool" where
  "has_active_confirmed d target now \<longleftrightarrow> first_row (active_confirmed d target now) \<noteq> None"

definition latest_active_row :: "db \<Rightarrow> uuid \<Rightarrow> timestamp \<Rightarrow> attestation_row option" where
  "latest_active_row d target now = first_row (take 1 (order_desc at_created_at (active_confirmed d target now)))"

definition attestations_of :: "db \<Rightarrow> uuid \<Rightarrow> attestation_row list" where
  "attestations_of d target = order_desc at_created_at (select_where (\<lambda>a. at_target_id a = target) (attestations d))"

definition method_code_map :: "db \<Rightarrow> (nat \<times> pystr) list" where
  "method_code_map d = codes_by_id (attestation_methods d)"

definition attestation_details_of :: "db \<Rightarrow> attestation_row \<Rightarrow> attestation_details" where
  "attestation_details_of d a =
     \<lparr>ad_attestation = a, ad_method_code = dict_default (method_code_map d) (at_method_id a) self_attestation_code\<rparr>"

definition latest_active_confirmed :: "db \<Rightarrow> uuid \<Rightarrow> timestamp \<Rightarrow> attestation_details option" where
  "latest_active_confirmed d target now = map_option (attestation_details_of d) (latest_active_row d target now)"

text \<open>The attestation service has its own copy of the visibility rule.\<close>

definition require_visible_target :: "uuid \<Rightarrow> uuid \<Rightarrow> db \<Rightarrow> target_row result" where
  "require_visible_target p i d =
     bindE (target_by_id d i) (\<lambda>found.
       case found of
         None \<Rightarrow> raise NotFoundError
       | Some t \<Rightarrow>
           if tg_owner_user_id t = Some p then Inr t
           else if tg_owner_organization_id t \<noteq> None \<and> is_member d p (the (tg_owner_organization_id t)) then Inr t
           else raise NotFoundError)"

definition method_id :: "db \<Rightarrow> pystr \<Rightarrow> nat result" where
  "method_id d code = some_or (OtherException (u ''LookupError'')) (id_of_code (attestation_methods d) code)"

definition uuid_or_empty :: "uuid option \<Rightarrow> pystr" where
  "uuid_or_empty i = (case i of None \<Rightarrow> [] | Some x \<Rightarrow> uuid_text x)"

definition create_self_attestation ::
  "uuid \<Rightarrow> timestamp \<Rightarrow> uuid \<Rightarrow> timestamp option \<Rightarrow> pystr option \<Rightarrow> db \<Rightarrow> (attestation_details \<times> db) result" where
  "create_self_attestation p now target_id expires_at evidence_file_ref d =
     bindE (require_visible_target p target_id d) (\<lambda>t.
     bindE (method_id d self_attestation_code) (\<lambda>mid.
       let (i, d1) = uuid4 d;
           a = \<lparr>at_id = i, at_target_id = target_id, at_method_id = mid, at_status = CONFIRMED,
                at_evidence_file_ref = evidence_file_ref, at_expires_at = expires_at,
                at_created_by_user_id = Some p, at_revoked_at = None, at_revoked_reason = None, at_created_at = now\<rparr>;
           d2 = d1\<lparr>attestations := attestations d1 @ [a]\<rparr>;
           (_, d3) = record_audit (u ''ATTESTATION_CONFIRMED'') (u ''authorization_attestation'') i
             [(u ''method'', JStr self_attestation_code), (u ''targetId'', JStr (uuid_text target_id)),
              (u ''targetOwnerUserId'', JStr (uuid_or_empty (tg_owner_user_id t))),
              (u ''targetOwnerOrganizationId'', JStr (uuid_or_empty (tg_owner_organization_id t))),
              (u ''expiresAt'', (case expires_at of None \<Rightarrow> JNull | Some e \<Rightarrow> JStr (isoformat e)))] (Some p) now d2
       in Inr (\<lparr>ad_attestation = a, ad_method_code = self_attestation_code\<rparr>, d3)))"

definition list_attestations :: "uuid \<Rightarrow> uuid \<Rightarrow> db \<Rightarrow> attestation_details list result" where
  "list_attestations p target_id d =
     bindE (require_visible_target p target_id d) (\<lambda>_.
       Inr (map (attestation_details_of d) (attestations_of d target_id)))"

definition revoke_attestation :: "uuid \<Rightarrow> timestamp \<Rightarrow> uuid \<Rightarrow> pystr \<Rightarrow> db \<Rightarrow> (attestation_details \<times> db) result" where
  "revoke_attestation p now attestation_id reason d =
     bindE (some_or (Domain NotFoundError) (session_get at_id (attestations d) attestation_id)) (\<lambda>a.
     bindE (require_visible_target p (at_target_id a) d) (\<lambda>_.
       let revoke = (\<lambda>r. r\<lparr>at_status := REVOKED, at_revoked_at := Some now, at_revoked_reason := Some (take 1000 reason)\<rparr>);
           d1 = d\<lparr>attestations := update_where (\<lambda>r. at_id r = at_id a) revoke (attestations d)\<rparr>;
           (_, d2) = record_audit (u ''ATTESTATION_REVOKED'') (u ''authorization_attestation'') (at_id a)
             [(u ''reason'', JStr (take 1000 reason))] (Some p) now d1
       in Inr (attestation_details_of d2 (revoke a), d2)))"

section \<open>Lemmas\<close>

lemma is_member_iff: "is_member d user org \<longleftrightarrow> (\<exists>m \<in> set (memberships d). mb_user_id m = user \<and> mb_organization_id m = org)"
  by (auto simp: is_member_def filter_empty_conv)

lemma is_admin_member: "is_admin d p org \<Longrightarrow> is_member d p org"
  by (auto simp: is_admin_def get_membership_def is_member_iff split: option.splits dest!: first_row_Some_in)

text \<open>What a principal may see.\<close>

definition sees_target :: "db \<Rightarrow> uuid \<Rightarrow> target_row \<Rightarrow> bool" where
  "sees_target d p t \<longleftrightarrow> tg_owner_user_id t = Some p
     \<or> (\<exists>org. tg_owner_organization_id t = Some org \<and> (\<exists>m \<in> set (memberships d). mb_user_id m = p \<and> mb_organization_id m = org))"

lemma require_visible_same: "require_visible_target p i d = get_visible_target p i d"
  by (auto simp: require_visible_target_def get_visible_target_def intro!: arg_cong [of _ _ "bindE _"] split: option.splits)

definition targets_inv :: "db \<Rightarrow> bool" where
  "targets_inv d \<longleftrightarrow> distinct (map tg_id (targets d)) \<and> (\<forall>t \<in> set (targets d). tg_id t < next_id d)
     \<and> distinct (map (\<lambda>t. (tg_owner_organization_id t, tg_owner_user_id t, tg_normalized_url t)) (targets d))"

lemma target_by_id_find: "targets_inv d \<Longrightarrow> target_by_id d i = Inr (List.find (\<lambda>r. tg_id r = i) (targets d))"
  by (simp add: target_by_id_def targets_inv_def scalar_one_or_none_key)

lemma get_visible_cases:
  assumes "targets_inv d"
  shows "get_visible_target p i d =
    (case List.find (\<lambda>r. tg_id r = i) (targets d) of
       Some t \<Rightarrow> if sees_target d p t then Inr t else raise NotFoundError
     | None \<Rightarrow> raise NotFoundError)"
  using assms
  by (auto simp: get_visible_target_def target_by_id_find sees_target_def is_member_iff split: option.splits)

lemma get_visible_Inr:
  assumes "targets_inv d"
  shows "get_visible_target p i d = Inr t \<longleftrightarrow> t \<in> set (targets d) \<and> tg_id t = i \<and> sees_target d p t"
proof
  assume "get_visible_target p i d = Inr t"
  then show "t \<in> set (targets d) \<and> tg_id t = i \<and> sees_target d p t"
    by (auto simp: get_visible_cases [OF assms] split: option.splits if_splits dest!: find_Some_in)
next
  assume t: "t \<in> set (targets d) \<and> tg_id t = i \<and> sees_target d p t"
  then have "List.find (\<lambda>r. tg_id r = i) (targets d) = Some t"
    using session_get_unique [of tg_id "targets d" t] assms by (auto simp: session_get_def targets_inv_def)
  with t show "get_visible_target p i d = Inr t" by (simp add: get_visible_cases [OF assms])
qed

lemma get_visible_Inl:
  "targets_inv d \<Longrightarrow> get_visible_target p i d = Inl e \<Longrightarrow> e = Domain NotFoundError"
  by (auto simp: get_visible_cases split: option.splits if_splits)

lemma register_targets_inv:
  assumes "targets_inv d" and "register_target p now h url org d = Inr (t, d')"
  shows "targets_inv d' \<and> t \<in> set (targets d') \<and> sees_target d' p t"
proof -
  from assms(2) obtain hn un o' us where f: "find_by_owner_and_url d o' us un = Inr None"
    and ow: "(o' = None \<and> us = Some p) \<or> (\<exists>g. o' = Some g \<and> is_member d p g)"
    and t: "t = \<lparr>tg_id = next_id d, tg_owner_organization_id = o', tg_owner_user_id = us, tg_hostname = hn,
      tg_normalized_url = un, tg_is_archived = False, tg_created_at = now\<rparr>"
    and d': "d' = d\<lparr>next_id := Suc (next_id d), targets := targets d @ [t]\<rparr>"
    by (auto simp: register_target_def result_simps uuid4_def Let_def split: option.splits if_splits)
  from f have "\<forall>r \<in> set (targets d). (tg_owner_organization_id r, tg_owner_user_id r, tg_normalized_url r) \<noteq> (o', us, un)"
    by (auto simp: find_by_owner_and_url_def scalar_one_or_none_None filter_empty_conv owned_by_def)
  then have "(o', us, un) \<notin> (\<lambda>r. (tg_owner_organization_id r, tg_owner_user_id r, tg_normalized_url r)) ` set (targets d)"
    by (metis (mono_tags, lifting) imageE)
  moreover have "next_id d \<notin> tg_id ` set (targets d)" using assms(1) by (auto simp: targets_inv_def)
  moreover have "sees_target d' p t" using ow by (auto simp: sees_target_def t d' is_member_iff)
  ultimately show ?thesis using assms(1) by (auto simp: targets_inv_def d' t less_Suc_eq)
qed

lemma update_target_inv:
  assumes "\<And>r. tg_id (f r) = tg_id r" "\<And>r. tg_owner_organization_id (f r) = tg_owner_organization_id r"
    "\<And>r. tg_owner_user_id (f r) = tg_owner_user_id r" "\<And>r. tg_normalized_url (f r) = tg_normalized_url r"
  shows "targets_inv (update_target i f d) = targets_inv d"
  using assms by (simp add: targets_inv_def update_target_def map_update_where set_update_where ball_Un) blast

lemma latest_active_iff:
  "latest_active_row d t now = None \<longleftrightarrow> \<not> has_active_confirmed d t now"
  by (simp add: latest_active_row_def has_active_confirmed_def order_desc_def take_Cons' split: if_splits) (metis length_0_conv length_sort rev_is_Nil_conv take_eq_Nil zero_neq_one)

lemma latest_active_in:
  assumes "latest_active_row d t now = Some a"
  shows "a \<in> set (attestations d) \<and> at_target_id a = t \<and> attestation_active now a"
proof -
  from assms have "a \<in> set (order_desc at_created_at (active_confirmed d t now))"
    by (auto simp: latest_active_row_def dest!: first_row_Some_in in_set_takeD)
  then show ?thesis by (auto simp: active_confirmed_def attestation_active_def split: option.splits)
qed

section \<open>Paging through targets\<close>

definition owned_targets :: "db \<Rightarrow> uuid option \<Rightarrow> uuid option \<Rightarrow> bool \<Rightarrow> target_row list" where
  "owned_targets d org user archived = select_where (\<lambda>r. owned_by org user r \<and> (archived \<or> \<not> tg_is_archived r)) (targets d)"

definition target_page ::
  "db \<Rightarrow> uuid option \<Rightarrow> uuid option \<Rightarrow> bool \<Rightarrow> nat \<Rightarrow> (timestamp \<times> uuid) option \<Rightarrow> target_row list \<times> bool" where
  "target_page d org user archived limit cursor =
     (let rows = list_for_owner d org user archived (limit + 1) cursor in (take limit rows, limit < length rows))"

lemma list_for_owner_cursor:
  "list_for_owner d org user archived n cursor
     = take n (order_desc target_key (filter (before_cursor target_key cursor) (owned_targets d org user archived)))"
proof -
  have "(\<lambda>r. owned_by org user r \<and> (archived \<or> \<not> tg_is_archived r) \<and> (case cursor of None \<Rightarrow> True
       | Some (t, i) \<Rightarrow> tg_created_at r < t \<or> (tg_created_at r = t \<and> tg_id r < i)))
     = (\<lambda>r. (owned_by org user r \<and> (archived \<or> \<not> tg_is_archived r)) \<and> before_cursor target_key cursor r)"
    by (auto simp: fun_eq_iff before_cursor_def less_prod_def split: option.splits prod.splits)
  then show ?thesis by (simp add: list_for_owner_def owned_targets_def)
qed

interpretation target_pages: keyset_listing target_key "owned_targets d org user archived" limit
    "target_page d org user archived limit"
  for d org user archived limit
  by unfold_locales (auto simp: target_page_def list_for_owner_cursor Let_def min_def)

lemma owned_targets_distinct: "targets_inv d \<Longrightarrow> distinct (map target_key (owned_targets d org user archived))"
proof -
  assume "targets_inv d"
  then have "inj_on tg_id (set (targets d))" "distinct (targets d)"
    by (auto simp: targets_inv_def distinct_map)
  then show ?thesis
    by (auto simp: owned_targets_def distinct_map inj_on_def)
qed

section \<open>Properties\<close>

text \<open>C4 [tenant_isolation]: a principal reads a target exactly when it owns it or is a member of the owning
  organization, a foreign target gives the very error of a missing one, and archiving or unarchiving
  leaves every target that the principal cannot see untouched.\<close>

theorem tenant_isolation:
  assumes "targets_inv d"
  shows "(get_visible_target p i d = Inr t \<longleftrightarrow> t \<in> set (targets d) \<and> tg_id t = i \<and> sees_target d p t)
    \<and> (isl (get_visible_target p i d) \<longrightarrow> get_visible_target p i d = raise NotFoundError)
    \<and> (set_archived p i b d = Inr (t', d')
         \<longrightarrow> filter (\<lambda>r. \<not> sees_target d p r) (targets d') = filter (\<lambda>r. \<not> sees_target d p r) (targets d))"
proof (intro conjI impI)
  show "get_visible_target p i d = Inr t \<longleftrightarrow> t \<in> set (targets d) \<and> tg_id t = i \<and> sees_target d p t"
    by (rule get_visible_Inr [OF assms])
  show "get_visible_target p i d = raise NotFoundError" if "isl (get_visible_target p i d)"
    using that get_visible_Inl [OF assms] by (cases "get_visible_target p i d") auto
  show "filter (\<lambda>r. \<not> sees_target d p r) (targets d') = filter (\<lambda>r. \<not> sees_target d p r) (targets d)"
    if run: "set_archived p i b d = Inr (t', d')"
  proof -
    from run obtain s where v: "get_visible_target p i d = Inr s"
      and d': "d' = update_target (tg_id s) (\<lambda>r. r\<lparr>tg_is_archived := b\<rparr>) d"
      by (auto simp: set_archived_def bindE_Inr_iff)
    from get_visible_Inr [OF assms] v have s: "s \<in> set (targets d)" "sees_target d p s" by blast+
    have same: "sees_target d p (r\<lparr>tg_is_archived := b\<rparr>) = sees_target d p r" for r by (simp add: sees_target_def)
    have only: "r = s" if "r \<in> set (targets d)" "tg_id r = tg_id s" for r
      using that s assms by (auto simp: targets_inv_def distinct_map inj_on_def)
    have "filter (\<lambda>r. \<not> sees_target d p r) (update_where (\<lambda>r. tg_id r = tg_id s) (\<lambda>r. r\<lparr>tg_is_archived := b\<rparr>) (targets d))
        = filter (\<lambda>r. \<not> sees_target d p r) (targets d)"
      by (rule filter_update_where) (use only same s(2) in metis)
    then show ?thesis by (simp add: d' update_target_def)
  qed
qed

text \<open>Following the cursor from page to page reads every target of the scope
  exactly once, newest first, for every page size.\<close>

theorem target_listing_complete:
  assumes "targets_inv d" and "0 < limit" and "length (targets d) < fuel"
    and "org = None \<or> (\<exists>g. org = Some g \<and> is_member d p g)"
  shows "walk_pages (\<lambda>c. projr (list_targets p org archived limit c d)) target_key fuel None
    = Some (order_desc target_key (owned_targets d org (case org of None \<Rightarrow> Some p | Some _ \<Rightarrow> None) archived))"
proof -
  let ?user = "case org of None \<Rightarrow> Some p | Some _ \<Rightarrow> None"
  have "(case org of None \<Rightarrow> False | Some o' \<Rightarrow> \<not> is_member d p o') = False"
    using assms(4) by (cases org) simp_all
  then have "(\<lambda>c. projr (list_targets p org archived limit c d)) = target_page d org ?user archived limit"
    by (simp only: fun_eq_iff list_targets_def target_page_def Let_def if_False sum.sel simp_thms)
  moreover have "length (owned_targets d org ?user archived) < fuel"
    unfolding owned_targets_def by (rule le_less_trans [OF length_filter_le assms(3)])
  ultimately show ?thesis
    using target_pages.walk_complete [OF owned_targets_distinct [OF assms(1)] assms(2)] by (simp only:)
qed

text \<open>C27 [no_duplicate_registration]: after a registration no two targets of one owner have the same stored
  URL, the new target is visible to who registered it, and registering the same address again is
  refused as a duplicate.\<close>

theorem no_duplicate_registration:
  assumes "targets_inv d" and "register_target p now h url org d = Inr (t, d')"
  shows "targets_inv d' \<and> get_visible_target p (tg_id t) d' = Inr t
    \<and> register_target p later h url org d' = raise DuplicateTargetError"
proof -
  note inv = register_targets_inv [OF assms]
  then have "get_visible_target p (tg_id t) d' = Inr t" using get_visible_Inr by blast
  moreover have "register_target p later h url org d' = raise DuplicateTargetError"
  proof -
    from assms(2) obtain n o' us where n: "normalize_target h url = Inr n"
      and ow: "(case org of Some org \<Rightarrow> if is_member d p org then Inr (Some org, None) else raise ForbiddenError
            | None \<Rightarrow> Inr (None, Some p)) = Inr (o', us)"
      and t: "tg_normalized_url t = nt_normalized_url n" "owned_by o' us t"
      and d': "d' = d\<lparr>next_id := Suc (next_id d), targets := targets d @ [t]\<rparr>"
      by (auto simp: register_target_def bindE_Inr_iff uuid4_def Let_def owned_by_def split: option.splits if_splits)
    have ow': "(case org of Some org \<Rightarrow> if is_member d' p org then Inr (Some org, None) else raise ForbiddenError
            | None \<Rightarrow> Inr (None, Some p)) = Inr (o', us)"
      using ow by (auto simp: d' is_member_iff split: option.splits if_splits)
    have "scalar_one_or_none (filter (\<lambda>r. (tg_owner_organization_id r, tg_owner_user_id r, tg_normalized_url r) = (o', us, nt_normalized_url n)) (targets d'))
      \<noteq> Inr None"
      using t by (auto simp: scalar_one_or_none_None filter_empty_conv d' owned_by_def)
    moreover have "scalar_one_or_none (filter (\<lambda>r. (tg_owner_organization_id r, tg_owner_user_id r, tg_normalized_url r) = (o', us, nt_normalized_url n)) (targets d'))
      = Inr (List.find (\<lambda>r. (tg_owner_organization_id r, tg_owner_user_id r, tg_normalized_url r) = (o', us, nt_normalized_url n)) (targets d'))"
      using inv by (intro scalar_one_or_none_key) (simp add: targets_inv_def)
    ultimately obtain r where "find_by_owner_and_url d' o' us (nt_normalized_url n) = Inr (Some r)"
      by (auto simp: find_by_owner_and_url_def owned_by_def conj_commute conj_left_commute)
    with n ow' show ?thesis by (simp add: register_target_def)
  qed
  ultimately show ?thesis using inv by blast
qed

text \<open>Adding a member, changing a role and removing a member succeed only
  for an administrator of that organization and touch no other organization's memberships; anybody
  else is refused with the forbidden error.\<close>

theorem membership_changes_need_admin:
  assumes "distinct (map mb_id (memberships d))"
  shows "(add_member p now org user role d = Inr (m, d') \<or> change_role p org user role d = Inr (m, d')
      \<or> remove_member p org user d = Inr ((), d')
    \<longrightarrow> is_admin d p org
      \<and> filter (\<lambda>r. mb_organization_id r \<noteq> org) (memberships d') = filter (\<lambda>r. mb_organization_id r \<noteq> org) (memberships d))
   \<and> (\<not> is_admin d p org \<longrightarrow> add_member p now org user role d = raise ForbiddenError
      \<and> change_role p org user role d = raise ForbiddenError \<and> remove_member p org user d = raise ForbiddenError)"
proof -
  have org_of: "get_membership d org user = Some m' \<Longrightarrow> m' \<in> set (memberships d) \<and> mb_organization_id m' = org" for m'
    by (auto simp: get_membership_def dest!: first_row_Some_in)
  have same: "mb_organization_id r = org" if "get_membership d org user = Some m'" "r \<in> set (memberships d)" "mb_id r = mb_id m'" for r m'
    using that assms org_of [OF that(1)] by (auto simp: distinct_map dest: inj_onD)
  have add: "add_member p now org user role d = Inr (m, d') \<Longrightarrow> is_admin d p org
      \<and> filter (\<lambda>r. mb_organization_id r \<noteq> org) (memberships d') = filter (\<lambda>r. mb_organization_id r \<noteq> org) (memberships d)"
    by (auto simp: add_member_def insert_membership_def uuid4_def Let_def split: if_splits option.splits)
  have change: "is_admin d p org
      \<and> filter (\<lambda>r. mb_organization_id r \<noteq> org) (memberships d') = filter (\<lambda>r. mb_organization_id r \<noteq> org) (memberships d)"
    if run: "change_role p org user role d = Inr (m, d')"
  proof -
    from run obtain m' where m': "get_membership d org user = Some m'" "is_admin d p org"
      "memberships d' = update_where (\<lambda>r. mb_id r = mb_id m') (\<lambda>r. r\<lparr>mb_role := role\<rparr>) (memberships d)"
      by (auto simp: change_role_def require_admin_and_get_def bindE_Inr_iff split: if_splits)
    show ?thesis
      unfolding m'(3) by (rule conjI [OF m'(2)], rule filter_update_where) (use same [OF m'(1)] in auto)
  qed
  have remove: "is_admin d p org
      \<and> filter (\<lambda>r. mb_organization_id r \<noteq> org) (memberships d') = filter (\<lambda>r. mb_organization_id r \<noteq> org) (memberships d)"
    if run: "remove_member p org user d = Inr ((), d')"
  proof -
    from run obtain m' where m': "get_membership d org user = Some m'" "is_admin d p org"
      "memberships d' = filter (\<lambda>r. mb_id r \<noteq> mb_id m') (memberships d)"
      by (auto simp: remove_member_def require_admin_and_get_def bindE_Inr_iff split: if_splits)
    show ?thesis
      unfolding m'(3) filter_filter by (rule conjI [OF m'(2)], rule filter_cong [OF refl]) (use same [OF m'(1)] in auto)
  qed
  have "\<not> is_admin d p org \<Longrightarrow> add_member p now org user role d = raise ForbiddenError
      \<and> change_role p org user role d = raise ForbiddenError \<and> remove_member p org user d = raise ForbiddenError"
    by (simp add: add_member_def change_role_def remove_member_def require_admin_and_get_def)
  with add change remove show ?thesis by blast
qed

text \<open>C23 [revoked_attestation_never_authorizes]: a successful revocation is final: at no later time does that
  attestation authorize a scan of any target, the other attestations are unchanged, and the
  revocation is the newest entry of the audit trail.\<close>

theorem revoked_attestation_never_authorizes:
  assumes "revoke_attestation p now i reason d = Inr (det, d')"
  shows "(latest_active_row d' t later = Some a \<longrightarrow> at_id a \<noteq> i)
    \<and> filter (\<lambda>r. at_id r \<noteq> i) (attestations d') = filter (\<lambda>r. at_id r \<noteq> i) (attestations d)
    \<and> (\<exists>e. audit_log d' = audit_log d @ [e] \<and> al_action_code e = u ''ATTESTATION_REVOKED'' \<and> al_entity_id e = i
         \<and> al_actor_user_id e = Some p)"
proof -
  from assms obtain r where r: "session_get at_id (attestations d) i = Some r"
    and d': "d' = snd (record_audit (u ''ATTESTATION_REVOKED'') (u ''authorization_attestation'') (at_id r)
        [(u ''reason'', JStr (take 1000 reason))] (Some p) now (d\<lparr>attestations := update_where (\<lambda>x. at_id x = at_id r)
           (\<lambda>x. x\<lparr>at_status := REVOKED, at_revoked_at := Some now, at_revoked_reason := Some (take 1000 reason)\<rparr>) (attestations d)\<rparr>))"
    by (auto simp: revoke_attestation_def bindE_Inr_iff Let_def case_prod_beta)
  from session_get_Some [OF r] have i: "at_id r = i" by blast
  have att: "attestations d' = update_where (\<lambda>x. at_id x = i)
      (\<lambda>x. x\<lparr>at_status := REVOKED, at_revoked_at := Some now, at_revoked_reason := Some (take 1000 reason)\<rparr>) (attestations d)"
    by (simp add: d' i)
  have "at_id a \<noteq> i" if "latest_active_row d' t later = Some a"
  proof -
    from latest_active_in [OF that] have a: "a \<in> set (attestations d')" "at_status a = CONFIRMED"
      by (simp_all add: attestation_active_def split: if_splits)
    then obtain y where y: "a = (if at_id y = i then y\<lparr>at_status := REVOKED, at_revoked_at := Some now,
        at_revoked_reason := Some (take 1000 reason)\<rparr> else y)"
      unfolding att update_where_def set_map by blast
    have "at_id y \<noteq> i" using a(2) unfolding y by (cases "at_id y = i") simp_all
    then show ?thesis using y by simp
  qed
  moreover have "filter (\<lambda>r. at_id r \<noteq> i) (attestations d') = filter (\<lambda>r. at_id r \<noteq> i) (attestations d)"
    unfolding att by (rule filter_update_where) simp
  moreover have "\<exists>e. audit_log d' = audit_log d @ [e] \<and> al_action_code e = u ''ATTESTATION_REVOKED'' \<and> al_entity_id e = i
         \<and> al_actor_user_id e = Some p"
    by (simp add: d' i record_audit_eq Let_def)
  ultimately show ?thesis by blast
qed

section \<open>Examples\<close>

definition example_tenants :: db where
  "example_tenants = seeded_db
     \<lparr>organizations := [\<lparr>og_id = 10, og_name = u ''acme'', og_created_at = 0\<rparr>],
      memberships := [\<lparr>mb_id = 11, mb_organization_id = 10, mb_user_id = 1, mb_role = role_admin, mb_created_at = 0\<rparr>],
      targets := [\<lparr>tg_id = 20, tg_owner_organization_id = Some 10, tg_owner_user_id = None, tg_hostname = u ''a.com'',
                    tg_normalized_url = u ''https://a.com/'', tg_is_archived = False, tg_created_at = 5\<rparr>,
                  \<lparr>tg_id = 21, tg_owner_organization_id = None, tg_owner_user_id = Some 2, tg_hostname = u ''b.com'',
                    tg_normalized_url = u ''https://b.com/'', tg_is_archived = False, tg_created_at = 6\<rparr>],
      attestations := [\<lparr>at_id = 30, at_target_id = 20, at_method_id = 1, at_status = CONFIRMED,
                    at_evidence_file_ref = None, at_expires_at = None, at_created_by_user_id = Some 1,
                    at_revoked_at = None, at_revoked_reason = None, at_created_at = 7\<rparr>],
      next_id := 40\<rparr>"

lemmas example_tenants_simps = example_tenants_def seeded_db_def

lemma example_targets_inv: "targets_inv example_tenants"
  by (simp add: targets_inv_def example_tenants_simps)

theorem tenant_isolation_witness:
  "get_visible_target 1 21 example_tenants = raise NotFoundError"
proof -
  have "get_visible_target 1 21 example_tenants = Inr t \<longleftrightarrow> False" for t
    using tenant_isolation [OF example_targets_inv, of 1 21 t] by (auto simp: example_tenants_simps sees_target_def)
  then have "isl (get_visible_target 1 21 example_tenants)" by (cases "get_visible_target 1 21 example_tenants") auto
  with tenant_isolation [OF example_targets_inv, of 1 21] show ?thesis by blast
qed

theorem target_listing_complete_witness:
  "walk_pages (\<lambda>c. projr (list_targets 2 None False 1 c example_tenants)) target_key 3 None
     = Some (order_desc target_key (owned_targets example_tenants None (Some 2) False))"
  using target_listing_complete [OF example_targets_inv, of 1 3 None 2 False] by (simp add: example_tenants_simps)

theorem revoked_attestation_never_authorizes_witness:
  "\<exists>det d'. revoke_attestation 1 50 30 [] example_tenants = Inr (det, d')
     \<and> filter (\<lambda>r. at_id r \<noteq> 30) (attestations d') = []"
proof -
  have "get_visible_target 1 20 example_tenants = Inr (hd (targets example_tenants))"
    using get_visible_Inr [OF example_targets_inv, of 1 20] by (simp add: example_tenants_simps sees_target_def)
  moreover have "session_get at_id (attestations example_tenants) 30 = Some (hd (attestations example_tenants))"
    "at_target_id (hd (attestations example_tenants)) = 20"
    by (simp_all add: session_get_def example_tenants_simps)
  ultimately obtain det d' where run: "revoke_attestation 1 50 30 [] example_tenants = Inr (det, d')"
    by (auto simp: revoke_attestation_def require_visible_same Let_def case_prod_beta)
  from revoked_attestation_never_authorizes [OF run] run show ?thesis by (simp add: example_tenants_simps)
qed

theorem membership_changes_need_admin_witness:
  "add_member 2 50 10 2 role_member example_tenants = raise ForbiddenError"
proof -
  have "\<not> is_admin example_tenants 2 10" "distinct (map mb_id (memberships example_tenants))"
    by (simp_all add: is_admin_def get_membership_def example_tenants_simps)
  with membership_changes_need_admin show ?thesis by blast
qed

theorem no_duplicate_registration_witness:
  "\<exists>t d'. register_target 2 50 (u ''example.com'') (u ''http://Example.com:8080?b#c'') None example_tenants = Inr (t, d')
     \<and> register_target 2 60 (u ''example.com'') (u ''http://Example.com:8080?b#c'') None d' = raise DuplicateTargetError"
proof -
  have "find_by_owner_and_url example_tenants None (Some 2) (u ''http://example.com:8080/?b'') = Inr None"
    by (simp add: find_by_owner_and_url_def example_tenants_simps scalar_one_or_none_def)
  then obtain t d' where run: "register_target 2 50 (u ''example.com'') (u ''http://Example.com:8080?b#c'') None example_tenants = Inr (t, d')"
    by (auto simp: register_target_def normalize_example Let_def case_prod_beta)
  from no_duplicate_registration [OF example_targets_inv run] run show ?thesis by blast
qed

end
