(* ===== verification/ScanStore.thy ===== *)
theory ScanStore
  imports Tenancy
begin

text \<open>
  Persistence of scans (\<open>infrastructure/database/repositories/scan_repository.py\<close>): optimistic status
  transitions, engine executions and their findings, the assessment of an execution, and the
  dictionaries the API and the reports read.
\<close>

section \<open>Scans\<close>

definition add_scan :: "scan_row \<Rightarrow> db \<Rightarrow> db" where
  "add_scan s d = d\<lparr>scans := scans d @ [s]\<rparr>"

definition scan_by_id :: "db \<Rightarrow> uuid \<Rightarrow> scan_row option" where
  "scan_by_id d i = session_get sc_id (scans d) i"

definition list_for_user :: "db \<Rightarrow> uuid \<Rightarrow> uuid option \<Rightarrow> pystr option \<Rightarrow> nat \<Rightarrow> scan_row list" where
  "list_for_user d user target_id status limit =
     take limit (order_desc sc_created_at
       (select_where (\<lambda>r. sc_initiated_by_user_id r = user
          \<and> (case target_id of None \<Rightarrow> True | Some t \<Rightarrow> sc_target_id r = t)
          \<and> (case status of None \<Rightarrow> True | Some c \<Rightarrow> status_text (sc_status r) = c)) (scans d)))"

text \<open>UPDATE scan SET ... WHERE id = .. AND status = ..; the answer is whether exactly one row was hit.\<close>

definition set_scan_status :: "scan_status \<Rightarrow> timestamp option \<Rightarrow> timestamp option \<Rightarrow> scan_row \<Rightarrow> scan_row" where
  "set_scan_status to_status started completed r =
     r\<lparr>sc_status := to_status,
       sc_started_at := (case started of None \<Rightarrow> sc_started_at r | Some t \<Rightarrow> Some t),
       sc_completed_at := (case completed of None \<Rightarrow> sc_completed_at r | Some t \<Rightarrow> Some t)\<rparr>"

definition try_transition ::
  "uuid \<Rightarrow> scan_status \<Rightarrow> scan_status \<Rightarrow> timestamp option \<Rightarrow> timestamp option \<Rightarrow> db \<Rightarrow> bool \<times> db" where
  "try_transition i from_status to_status started completed d =
     (let hit = (\<lambda>r. sc_id r = i \<and> sc_status r = from_status)
      in (rowcount hit (scans d) = 1,
          d\<lparr>scans := update_where hit (set_scan_status to_status started completed) (scans d)\<rparr>))"

section \<open>Lookup tables\<close>

abbreviation lookup_error :: exn where "lookup_error \<equiv> OtherException (u ''LookupError'')"

definition profile_id :: "db \<Rightarrow> pystr \<Rightarrow> nat result" where
  "profile_id d code = some_or lookup_error (id_of_code (scan_profiles d) code)"

definition profile_code :: "db \<Rightarrow> nat \<Rightarrow> pystr result" where
  "profile_code d i = some_or lookup_error (code_of_id (scan_profiles d) i)"

section \<open>Executions\<close>

definition create_execution ::
  "uuid \<Rightarrow> nat \<Rightarrow> pystr \<Rightarrow> execution_status \<Rightarrow> timestamp option \<Rightarrow> db \<Rightarrow> execution_row \<times> db" where
  "create_execution scan_id engine_id version status started d =
     (let (i, d1) = uuid4 d;
          row = \<lparr>ex_id = i, ex_scan_id = scan_id, ex_scan_engine_id = engine_id,
            ex_tool_version_snapshot = version, ex_status = status, ex_started_at = started,
            ex_completed_at = None, ex_error_message = None\<rparr>
      in (row, d1\<lparr>executions := executions d1 @ [row]\<rparr>))"

definition mark_execution :: "uuid \<Rightarrow> execution_status \<Rightarrow> timestamp \<Rightarrow> pystr option \<Rightarrow> db \<Rightarrow> db" where
  "mark_execution i status completed err d =
     d\<lparr>executions := update_where (\<lambda>r. ex_id r = i)
       (\<lambda>r. r\<lparr>ex_status := status, ex_completed_at := Some completed, ex_error_message := err\<rparr>) (executions d)\<rparr>"

text \<open>Staged findings get their identifier and creation time when the rows are flushed.\<close>

fun add_findings :: "timestamp \<Rightarrow> finding_row list \<Rightarrow> db \<Rightarrow> finding_row list \<times> db" where
  "add_findings now [] d = ([], d)"
| "add_findings now (f # fs) d =
     (let (i, d1) = uuid4 d; row = f\<lparr>fi_id := i, fi_created_at := now\<rparr>;
          (rows, d2) = add_findings now fs (d1\<lparr>scan_findings := scan_findings d1 @ [row]\<rparr>)
      in (row # rows, d2))"

record assessment_values =
  av_provider :: pystr
  av_model :: pystr
  av_prompt_schema_version :: pystr
  av_output_schema_version :: pystr
  av_is_available :: bool
  av_failure_kind :: "pystr option"
  av_unsupported_claim_count :: int
  av_payload :: json

definition set_assessment :: "assessment_values \<Rightarrow> assessment_row \<Rightarrow> assessment_row" where
  "set_assessment v r =
     r\<lparr>as_provider := av_provider v, as_model := av_model v,
       as_prompt_schema_version := av_prompt_schema_version v,
       as_output_schema_version := av_output_schema_version v, as_is_available := av_is_available v,
       as_failure_kind := av_failure_kind v, as_unsupported_claim_count := av_unsupported_claim_count v,
       as_payload := av_payload v\<rparr>"

definition upsert_ai_assessment :: "timestamp \<Rightarrow> uuid \<Rightarrow> assessment_values \<Rightarrow> db \<Rightarrow> db" where
  "upsert_ai_assessment now execution_id v d =
     (case first_row (select_where (\<lambda>r. as_execution_id r = execution_id) (assessments d)) of
        Some existing \<Rightarrow>
          d\<lparr>assessments := update_where (\<lambda>r. as_id r = as_id existing) (set_assessment v) (assessments d)\<rparr>
      | None \<Rightarrow>
          (let (i, d1) = uuid4 d;
               row = set_assessment v \<lparr>as_id = i, as_execution_id = execution_id, as_provider = [], as_model = [],
                 as_prompt_schema_version = [], as_output_schema_version = [], as_is_available = False,
                 as_failure_kind = None, as_unsupported_claim_count = 0, as_payload = JNull, as_created_at = now\<rparr>
           in d1\<lparr>assessments := assessments d1 @ [row]\<rparr>))"

section \<open>Reading\<close>

definition belongs_to_scan :: "db \<Rightarrow> uuid \<Rightarrow> uuid \<Rightarrow> bool" where
  "belongs_to_scan d scan_id execution_id \<longleftrightarrow>
     list_ex (\<lambda>e. ex_id e = execution_id \<and> ex_scan_id e = scan_id) (executions d)"

definition list_findings :: "db \<Rightarrow> uuid \<Rightarrow> finding_row list" where
  "list_findings d scan_id =
     sort_key fi_created_at (select_where (\<lambda>f. belongs_to_scan d scan_id (fi_execution_id f)) (scan_findings d))"

definition get_assessment :: "db \<Rightarrow> uuid \<Rightarrow> assessment_row option" where
  "get_assessment d scan_id =
     first_row (take 1 (order_desc as_created_at
       (select_where (\<lambda>a. belongs_to_scan d scan_id (as_execution_id a)) (assessments d))))"

text \<open>Inner joins: a row without its category or severity does not appear.\<close>

definition severity_code :: "db \<Rightarrow> finding_row \<Rightarrow> pystr option" where
  "severity_code d f = code_of_id (severity_levels d) (fi_severity_id f)"

definition category_code :: "db \<Rightarrow> finding_row \<Rightarrow> pystr option" where
  "category_code d f = code_of_id (finding_categories d) (fi_category_id f)"

definition list_finding_dtos :: "db \<Rightarrow> uuid \<Rightarrow> json list" where
  "list_finding_dtos d scan_id =
     List.map_filter (\<lambda>f.
       case (category_code d f, severity_code d f) of
         (Some _, Some sev) \<Rightarrow>
           Some (JObj
             [(u ''id'', JStr (uuid_text (fi_id f))), (u ''title'', JStr (fi_title f)),
              (u ''description'', JStr (fi_description f)), (u ''evidence'', JStr (fi_evidence f)),
              (u ''location'', JStr (fi_location f)), (u ''recommendation'', JStr (fi_recommendation f)),
              (u ''severity'', JStr sev), (u ''createdAt'', JStr (isoformat (fi_created_at f)))])
       | _ \<Rightarrow> None) (list_findings d scan_id)"

fun evidence_type_text :: "evidence_type \<Rightarrow> pystr" where
  "evidence_type_text RAW_HEADER = u ''RAW_HEADER''"
| "evidence_type_text TOOL_OUTPUT_SNIPPET = u ''TOOL_OUTPUT_SNIPPET''"
| "evidence_type_text RESPONSE_BODY_SNIPPET = u ''RESPONSE_BODY_SNIPPET''"
| "evidence_type_text REQUEST_METADATA = u ''REQUEST_METADATA''"

definition evidence_json :: "evidence_row \<Rightarrow> json" where
  "evidence_json e = JObj
     [(u ''id'', JStr (uuid_text (ev_id e))), (u ''type'', JStr (evidence_type_text (ev_evidence_type e))),
      (u ''content'', JStr (ev_content e))]"

definition get_finding_with_evidence :: "db \<Rightarrow> uuid \<Rightarrow> json option" where
  "get_finding_with_evidence d finding_id =
     (case first_row (select_where (\<lambda>f. fi_id f = finding_id
              \<and> list_ex (\<lambda>e. ex_id e = fi_execution_id f) (executions d)
              \<and> category_code d f \<noteq> None \<and> severity_code d f \<noteq> None) (scan_findings d)) of
        None \<Rightarrow> None
      | Some f \<Rightarrow>
          Some (JObj
            [(u ''id'', JStr (uuid_text (fi_id f))), (u ''title'', JStr (fi_title f)),
             (u ''description'', JStr (fi_description f)), (u ''evidence'', JStr (fi_evidence f)),
             (u ''location'', JStr (fi_location f)), (u ''recommendation'', JStr (fi_recommendation f)),
             (u ''severity'', JStr (the (severity_code d f))), (u ''category'', JStr (the (category_code d f))),
             (u ''evidence_rows'', JArr (map evidence_json (sort_key ev_created_at
                (select_where (\<lambda>e. ev_finding_id e = finding_id) (finding_evidence d)))))]))"

definition get_assessment_dto :: "db \<Rightarrow> uuid \<Rightarrow> json option" where
  "get_assessment_dto d scan_id =
     map_option (\<lambda>r. JObj
       [(u ''provider'', JStr (as_provider r)), (u ''model'', JStr (as_model r)),
        (u ''promptSchemaVersion'', JStr (as_prompt_schema_version r)),
        (u ''outputSchemaVersion'', JStr (as_output_schema_version r)),
        (u ''available'', JBool (as_is_available r)), (u ''failureKind'', opt_text (as_failure_kind r)),
        (u ''unsupportedClaimCount'', JInt (as_unsupported_claim_count r)), (u ''payload'', as_payload r),
        (u ''createdAt'', JStr (isoformat (as_created_at r)))]) (get_assessment d scan_id)"

section \<open>Lemmas\<close>

definition scans_inv :: "db \<Rightarrow> bool" where
  "scans_inv d \<longleftrightarrow> distinct (map sc_id (scans d)) \<and> (\<forall>s \<in> set (scans d). sc_id s < next_id d)"

definition status_of :: "db \<Rightarrow> uuid \<Rightarrow> scan_status option" where
  "status_of d i = map_option sc_status (scan_by_id d i)"

lemma set_scan_status_simps [simp]:
  "sc_id (set_scan_status t a b r) = sc_id r" "sc_status (set_scan_status t a b r) = t"
  "sc_target_id (set_scan_status t a b r) = sc_target_id r"
  "sc_initiated_by_user_id (set_scan_status t a b r) = sc_initiated_by_user_id r"
  "sc_authorization_attestation_id (set_scan_status t a b r) = sc_authorization_attestation_id r"
  by (simp_all add: set_scan_status_def)

lemma try_transition_frame [simp]:
  "map sc_id (scans (snd (try_transition i f t a b d))) = map sc_id (scans d)"
  "next_id (snd (try_transition i f t a b d)) = next_id d"
  "audit_log (snd (try_transition i f t a b d)) = audit_log d"
  "executions (snd (try_transition i f t a b d)) = executions d"
  "attestations (snd (try_transition i f t a b d)) = attestations d"
  "targets (snd (try_transition i f t a b d)) = targets d"
  "memberships (snd (try_transition i f t a b d)) = memberships d"
  "scan_findings (snd (try_transition i f t a b d)) = scan_findings d"
  "assessments (snd (try_transition i f t a b d)) = assessments d"
  "status_history (snd (try_transition i f t a b d)) = status_history d"
  by (simp_all add: try_transition_def Let_def map_update_where)

lemma scan_by_id_update:
  assumes "\<And>r. sc_id (f r) = sc_id r"
  shows "session_get sc_id (update_where h f rs) i = map_option (\<lambda>r. if h r then f r else r) (session_get sc_id rs i)"
  by (induction rs) (auto simp: session_get_def assms)

text \<open>On well-formed scans a transition is an optimistic lock: it moves exactly the scan that is in the expected
  state, and otherwise changes nothing.\<close>

lemma try_transition_exact:
  assumes "scans_inv d"
  shows "fst (try_transition i f t a b d) \<longleftrightarrow> status_of d i = Some f"
    and "status_of (snd (try_transition i f t a b d)) j
      = (if j = i \<and> status_of d i = Some f then Some t else status_of d j)"
    and "status_of d i \<noteq> Some f \<Longrightarrow> snd (try_transition i f t a b d) = d"
proof -
  have inv: "distinct (map sc_id (scans d))" using assms by (simp add: scans_inv_def)
  have st: "status_of d i = Some f \<longleftrightarrow> (\<exists>r \<in> set (scans d). sc_id r = i \<and> sc_status r = f)"
    using session_get_unique [OF inv] session_get_Some [of sc_id "scans d" i]
    by (auto simp: status_of_def scan_by_id_def)
  show "fst (try_transition i f t a b d) \<longleftrightarrow> status_of d i = Some f"
    using rowcount_distinct_key [OF inv, of i "\<lambda>r. sc_status r = f"] st
    by (simp add: try_transition_def Let_def)
  show "status_of (snd (try_transition i f t a b d)) j
      = (if j = i \<and> status_of d i = Some f then Some t else status_of d j)"
    by (cases "session_get sc_id (scans d) j")
      (auto simp: status_of_def scan_by_id_def try_transition_def Let_def scan_by_id_update dest: session_get_Some)
  show "snd (try_transition i f t a b d) = d" if "status_of d i \<noteq> Some f"
  proof -
    have "update_where (\<lambda>r. sc_id r = i \<and> sc_status r = f) (set_scan_status t a b) (scans d) = scans d"
      using that st unfolding update_where_def by (intro map_idI) auto
    then show ?thesis by (simp add: try_transition_def Let_def)
  qed
qed

lemma try_transition_inv [simp]: "scans_inv (snd (try_transition i f t a b d)) = scans_inv d"
proof -
  have "sc_id ` set (scans (snd (try_transition i f t a b d))) = sc_id ` set (scans d)"
    by (metis list.set_map try_transition_frame(1))
  then show ?thesis unfolding scans_inv_def try_transition_frame by (metis image_iff)
qed

end
