(* ===== verification/Fingerprints.thy ===== *)
theory Fingerprints
  imports Sha256
begin

text \<open>
  Cross-scan finding identity (\<open>domain/scans/fingerprinting.py\<close>): the regular expressions of the
  identifier rules as lists of pieces with a backtracking greedy matcher, the rules per category, and
  the SHA-256 fingerprint of the normalized parts.
\<close>

section \<open>Normalization\<close>

definition normalize_hostname :: "pystr \<Rightarrow> pystr" where
  "normalize_hostname hostname = py_rstrip_chars (py_lower (py_strip hostname)) [46]"

definition normalize_header_name :: "pystr \<Rightarrow> pystr" where
  "normalize_header_name raw = py_rstrip_chars (py_lower (py_strip raw)) [58]"

text \<open>Replacing \<open>//\<close> by \<open>/\<close> until none is left collapses every run of slashes.\<close>

fun replace_double_slash :: "pystr \<Rightarrow> pystr" where
  "replace_double_slash (a # b # s) =
     (if a = 47 \<and> b = 47 then 47 # replace_double_slash s else a # replace_double_slash (b # s))"
| "replace_double_slash s = s"

lemma length_replace_double_slash: "length (replace_double_slash s) \<le> length s"
  by (induction s rule: replace_double_slash.induct) auto

lemma replace_double_slash_shrinks: "py_contains s [47, 47] \<Longrightarrow> length (replace_double_slash s) < length s"
proof (induction s rule: replace_double_slash.induct)
  case (1 a b s)
  show ?case
  proof (cases "a = 47 \<and> b = 47")
    case True
    then show ?thesis using length_replace_double_slash [of s] by simp
  next
    case False
    with "1.prems" have "py_contains (b # s) [47, 47]" by (auto simp: py_startswith_def)
    with "1.IH"(2) [OF False] have "length (replace_double_slash (b # s)) < length (b # s)" by blast
    with False show ?thesis by auto
  qed
qed (auto simp: py_startswith_def)

function collapse_slashes :: "pystr \<Rightarrow> pystr" where
  "collapse_slashes p = (if py_contains p [47, 47] then collapse_slashes (replace_double_slash p) else p)"
  by pat_completeness auto
termination by (relation "measure length") (simp_all add: replace_double_slash_shrinks)

declare collapse_slashes.simps [simp del]

definition normalize_path :: "pystr \<Rightarrow> pystr" where
  "normalize_path path =
     (let p = py_rstrip_chars (collapse_slashes (py_lower (py_strip path))) [47]
      in if p = [] then [47] else p)"

definition normalize_cve_id :: "pystr \<Rightarrow> pystr" where
  "normalize_cve_id raw = py_upper (py_strip raw)"

definition normalize_generic_identifier :: "pystr \<Rightarrow> pystr" where
  "normalize_generic_identifier raw = py_join [32] (split_ws (py_lower (py_strip raw)))"

section \<open>Patterns\<close>

text \<open>
  A piece consumes one character, one or more, at most one, or any number of a class (greedily); the boolean says
  whether what it consumes belongs to the captured group.  The classes ignore case as Python does for
  \<open>str\<close> patterns: the dotted and dotless i, the long s and the Kelvin sign count as letters.
\<close>

datatype piece = One "nat \<Rightarrow> bool" bool | Many "nat \<Rightarrow> bool" bool | Maybe "nat \<Rightarrow> bool" | Star "nat \<Rightarrow> bool"

fun first_some :: "'a option list \<Rightarrow> 'a option" where
  "first_some [] = None"
| "first_some (x # xs) = (case x of None \<Rightarrow> first_some xs | Some y \<Rightarrow> Some y)"

fun rx_match :: "piece list \<Rightarrow> pystr \<Rightarrow> pystr option" where
  "rx_match [] s = Some []"
| "rx_match (One p c # ps) s =
     (case s of [] \<Rightarrow> None
      | x # xs \<Rightarrow> if p x then map_option (\<lambda>g. if c then x # g else g) (rx_match ps xs) else None)"
| "rx_match (Many p c # ps) s =
     first_some (map (\<lambda>n. map_option (\<lambda>g. (if c then take n s else []) @ g) (rx_match ps (drop n s)))
       (rev [1..<Suc (length (takeWhile p s))]))"
| "rx_match (Star p # ps) s =
     first_some (map (\<lambda>n. rx_match ps (drop n s)) (rev [0..<Suc (length (takeWhile p s))]))"
| "rx_match (Maybe p # ps) s =
     (case s of [] \<Rightarrow> rx_match ps s
      | x # xs \<Rightarrow> if p x then (case rx_match ps xs of Some g \<Rightarrow> Some g | None \<Rightarrow> rx_match ps s) else rx_match ps s)"

fun rx_search :: "piece list \<Rightarrow> pystr \<Rightarrow> pystr option" where
  "rx_search ps s =
     (case rx_match ps s of
        Some g \<Rightarrow> Some g
      | None \<Rightarrow> (case s of [] \<Rightarrow> None | _ # xs \<Rightarrow> rx_search ps xs))"

definition any_case :: "nat \<Rightarrow> nat \<Rightarrow> bool" where
  "any_case c x \<longleftrightarrow> (if is_upper_alpha x then x + 32 else x) = (if is_upper_alpha c then c + 32 else c)
     \<or> (c \<in> {73, 105} \<and> x \<in> {304, 305}) \<or> (c \<in> {83, 115} \<and> x = 383) \<or> (c \<in> {75, 107} \<and> x = 8490)"

definition letter_class :: "nat \<Rightarrow> bool" where
  "letter_class x \<longleftrightarrow> is_upper_alpha x \<or> is_lower_alpha x \<or> x \<in> {304, 305, 383, 8490}"

definition name_class :: "nat \<Rightarrow> bool" where
  "name_class x \<longleftrightarrow> letter_class x \<or> ascii_digit x \<or> x = 45"

definition lits :: "pystr \<Rightarrow> bool \<Rightarrow> piece list" where
  "lits s captured = map (\<lambda>c. One (any_case c) captured) s"

definition spaces :: piece where "spaces = Many py_isspace False"

text \<open>The first characters of the runs of ten decimal digits (\<open>\\d\<close>, Unicode 15.0).\<close>

definition decimal_starts :: "nat list" where
  "decimal_starts =
     [48, 1632, 1776, 1984, 2406, 2534, 2662, 2790, 2918, 3046, 3174, 3302, 3430, 3558, 3664, 3792,
      3872, 4160, 4240, 6112, 6160, 6470, 6608, 6784, 6800, 6992, 7088, 7232, 7248, 42528, 43216,
      43264, 43472, 43504, 43600, 44016, 65296, 66720, 68912, 69734, 69872, 69942, 70096, 70384,
      70736, 70864, 71248, 71360, 71472, 71904, 72016, 72784, 73040, 73120, 73552, 92768, 92864,
      93008, 120782, 120792, 120802, 120812, 120822, 123200, 123632, 124144, 125264, 130032]"

definition py_isdecimal :: "nat \<Rightarrow> bool" where
  "py_isdecimal c \<longleftrightarrow> list_ex (\<lambda>z. z \<le> c \<and> c \<le> z + 9) decimal_starts"

definition header_title_re :: "piece list" where
  "header_title_re = lits (u ''Missing'') False @ [spaces, One letter_class True, Many name_class True, spaces]
     @ lits (u ''security'') False @ [spaces] @ lits (u ''header'') False"

definition nonstandard_xcto_re :: "piece list" where
  "nonstandard_xcto_re = lits (u ''Nonstandard'') False @ [spaces] @ lits (u ''X-Content-Type-Options'') True
     @ [spaces] @ lits (u ''value'') False"

definition cookie_re :: "pystr \<Rightarrow> piece list" where
  "cookie_re flag = lits (u ''Cookie'') False @ [Maybe (any_case 115), spaces] @ lits (u ''without'') False @ [spaces]
     @ lits (u ''the'') False @ [spaces] @ lits flag True @ [spaces] @ lits (u ''attribute'') False"

definition cookie_secure_re :: "piece list" where "cookie_secure_re = cookie_re (u ''Secure'')"
definition cookie_httponly_re :: "piece list" where "cookie_httponly_re = cookie_re (u ''HttpOnly'')"

definition cve_id_re :: "piece list" where
  "cve_id_re = lits (u ''CVE-'') True @ replicate 4 (One py_isdecimal True) @ [One (any_case 45) True]
     @ replicate 3 (One py_isdecimal True) @ [Many py_isdecimal True]"

definition exposed_re :: "piece list" where
  "exposed_re = lits (u ''exposed:'') False @ [Star py_isspace, Many (\<lambda>c. \<not> py_isspace c) True]"

section \<open>Identifier rules\<close>

definition known_headers :: "pystr list" where
  "known_headers = [u ''strict-transport-security'', u ''x-content-type-options'', u ''x-frame-options'',
     u ''referrer-policy'', u ''permissions-policy'']"

definition extract_security_header :: "pystr \<Rightarrow> pystr \<Rightarrow> pystr option" where
  "extract_security_header title location =
     (case rx_search header_title_re title of
        Some name \<Rightarrow> Some (normalize_header_name name)
      | None \<Rightarrow>
          (case rx_search nonstandard_xcto_re title of
             Some name \<Rightarrow> Some (normalize_header_name name)
           | None \<Rightarrow> List.find (\<lambda>known. py_contains (py_lower title) known) known_headers))"

definition extract_cookie :: "pystr \<Rightarrow> pystr \<Rightarrow> pystr option" where
  "extract_cookie title location =
     (if rx_search cookie_secure_re title \<noteq> None then Some (u ''cookie_missing_secure'')
      else if rx_search cookie_httponly_re title \<noteq> None then Some (u ''cookie_missing_httponly'')
      else if py_contains (py_lower title) (u ''samesite'') then Some (u ''cookie_samesite_issue'')
      else None)"

definition extract_transport :: "pystr \<Rightarrow> pystr \<Rightarrow> pystr option" where
  "extract_transport title location =
     (let lowered = py_lower title
      in if py_contains lowered (u ''hsts'') \<or> py_contains lowered (u ''https downgrade'')
         then Some (u ''transport_hsts_downgrade'')
         else if py_contains lowered (u ''tls'') \<or> py_contains lowered (u ''certificate'')
         then Some (u ''transport_tls'')
         else Some (u ''transport_posture''))"

definition extract_server_info :: "pystr \<Rightarrow> pystr \<Rightarrow> pystr option" where
  "extract_server_info title location =
     (case rx_search exposed_re title of
        Some name \<Rightarrow> Some (normalize_header_name name)
      | None \<Rightarrow> Some (u ''server_info_disclosure''))"

definition nonempty :: "pystr \<Rightarrow> pystr option" where
  "nonempty s = (if s = [] then None else Some s)"

text \<open>The registry: the first rule found for the upper-case, then for the lower-case category code.\<close>

definition identifier_extractors :: "(pystr \<times> (pystr \<Rightarrow> pystr \<Rightarrow> pystr option)) list" where
  "identifier_extractors =
     [(u ''MISSING_SECURITY_HEADER'', extract_security_header),
      (u ''http.security-headers'', extract_security_header),
      (u ''http.cookies'', extract_cookie),
      (u ''http.transport'', extract_transport),
      (u ''http.server-info'', extract_server_info),
      (u ''KNOWN_CVE'', \<lambda>title loc. map_option normalize_cve_id (rx_search cve_id_re title)),
      (u ''EXPOSED_ADMIN_PANEL'', \<lambda>title loc. if py_strip loc \<noteq> [] then Some (normalize_path loc) else None),
      (u ''OUTDATED_TLS'', \<lambda>title loc. nonempty (normalize_generic_identifier title)),
      (u ''WEAK_CIPHER'', \<lambda>title loc. nonempty (normalize_generic_identifier title))]"

definition find_extractor :: "pystr \<Rightarrow> (pystr \<Rightarrow> pystr \<Rightarrow> pystr option) option" where
  "find_extractor category_code =
     (case map_of identifier_extractors (py_upper (py_strip category_code)) of
        Some f \<Rightarrow> Some f
      | None \<Rightarrow> map_of identifier_extractors (py_lower (py_strip category_code)))"

definition extract_identifier :: "pystr \<Rightarrow> pystr \<Rightarrow> pystr \<Rightarrow> pystr result" where
  "extract_identifier category_code title location =
     (case find_extractor category_code of
        None \<Rightarrow> Inl UnsupportedFingerprintCategory
      | Some extractor \<Rightarrow>
          (case extractor title location of
             None \<Rightarrow> Inl UnsupportedFingerprintCategory
           | Some raw \<Rightarrow> if py_strip raw = [] then Inl UnsupportedFingerprintCategory else Inr raw))"

section \<open>Fingerprints\<close>

definition fingerprint_identity :: "pystr \<Rightarrow> pystr \<Rightarrow> pystr \<Rightarrow> pystr" where
  "fingerprint_identity host category ident = host @ 124 # category @ 124 # ident"

definition generate_fingerprint :: "pystr \<Rightarrow> pystr \<Rightarrow> pystr \<Rightarrow> pystr result" where
  "generate_fingerprint hostname category_code identifier =
     (let host = normalize_hostname hostname;
          cat = py_upper (py_strip category_code);
          ident = normalize_generic_identifier identifier
      in if host = [] \<or> cat = [] \<or> ident = [] then Inl ValueError
         else sha256_text (fingerprint_identity host cat ident))"

definition generate_fingerprint_from_finding :: "pystr \<Rightarrow> pystr \<Rightarrow> pystr \<Rightarrow> pystr \<Rightarrow> pystr result" where
  "generate_fingerprint_from_finding hostname category_code title location =
     bindE (extract_identifier category_code title location) (generate_fingerprint hostname category_code)"

section \<open>Evaluation\<close>

lemmas rx_eval = text_defs any_case_def letter_class_def name_class_def is_upper_alpha_def is_lower_alpha_def
  ascii_digit_def py_isspace_def lits_def spaces_def

text \<open>A pattern that begins with a character class skips every other character.\<close>

declare rx_search.simps [simp del]

lemma rx_search_Cons_miss: "\<not> p x \<Longrightarrow> rx_search (One p c # ps) (x # xs) = rx_search (One p c # ps) xs"
  by (simp add: rx_search.simps [of _ "x # xs"])

lemma rx_search_Nil_miss: "rx_search (One p c # ps) [] = None"
  by (simp add: rx_search.simps)

section \<open>Properties\<close>

definition normalized_identity :: "pystr \<Rightarrow> pystr \<Rightarrow> pystr \<Rightarrow> pystr \<times> pystr \<times> pystr" where
  "normalized_identity hostname category_code identifier =
     (normalize_hostname hostname, py_upper (py_strip category_code), normalize_generic_identifier identifier)"

lemma fingerprint_identity_inj:
  assumes "124 \<notin> set host" "124 \<notin> set cat" "124 \<notin> set host'" "124 \<notin> set cat'"
  shows "fingerprint_identity host cat ident = fingerprint_identity host' cat' ident'
    \<longleftrightarrow> (host, cat, ident) = (host', cat', ident')"
  unfolding fingerprint_identity_def prod.inject using assms separator_inj by metis

text \<open>C31 [fingerprint_identity_separates]: a fingerprint is 64 characters and a function of the normalized
  host, category and identifier; as long as host and category contain no vertical bar, two findings
  whose normalized triples differ never share a hash input, whatever characters the identifiers
  contain (so a shared fingerprint would be a SHA-256 collision).\<close>

theorem fingerprint_identity_separates:
  assumes "generate_fingerprint h c i = Inr fp" and "generate_fingerprint h' c' i' = Inr fp'"
    and "124 \<notin> set (normalize_hostname h)" "124 \<notin> set (py_upper (py_strip c))"
    and "124 \<notin> set (normalize_hostname h')" "124 \<notin> set (py_upper (py_strip c'))"
  shows "length fp = 64 \<and> (normalized_identity h c i = normalized_identity h' c' i' \<longrightarrow> fp = fp')
    \<and> (\<exists>raw raw'. sha256_text raw = Inr fp \<and> sha256_text raw' = Inr fp'
         \<and> (raw = raw' \<longleftrightarrow> normalized_identity h c i = normalized_identity h' c' i'))"
proof -
  have raw: "sha256_text (fingerprint_identity (normalize_hostname h) (py_upper (py_strip c)) (normalize_generic_identifier i)) = Inr fp"
    "sha256_text (fingerprint_identity (normalize_hostname h') (py_upper (py_strip c')) (normalize_generic_identifier i')) = Inr fp'"
    using assms(1,2) by (simp_all add: generate_fingerprint_def Let_def split: if_splits)
  have eq: "fingerprint_identity (normalize_hostname h) (py_upper (py_strip c)) (normalize_generic_identifier i)
      = fingerprint_identity (normalize_hostname h') (py_upper (py_strip c')) (normalize_generic_identifier i')
    \<longleftrightarrow> normalized_identity h c i = normalized_identity h' c' i'"
    unfolding normalized_identity_def by (rule fingerprint_identity_inj) (rule assms)+
  have "fp = fp'" if "normalized_identity h c i = normalized_identity h' c' i'"
    using raw eq that by simp
  with raw eq sha256_text_length show ?thesis by blast
qed

lemmas text_eval = text_defs strip_by_def lstrip_by_def rstrip_by_def py_lower_def lower_char_def py_upper_def upper_char_def
  is_upper_alpha_def is_lower_alpha_def py_isspace_def

lemma example_normalized:
  "normalized_identity (u ''A.com.'') (u ''weak_cipher'') (u ''x|Y'') = (u ''a.com'', u ''WEAK_CIPHER'', u ''x|y'')"
  "normalized_identity (u ''A.com.'') (u ''weak_cipher'') (u ''x'') = (u ''a.com'', u ''WEAK_CIPHER'', u ''x'')"
proof -
  have "split_ws [120] = [[120]]" "split_ws [120, 124, 121] = [[120, 124, 121]]"
    by (subst split_ws.simps, simp add: text_eval, subst split_ws.simps, simp add: text_eval)+
  then show "normalized_identity (u ''A.com.'') (u ''weak_cipher'') (u ''x|Y'') = (u ''a.com'', u ''WEAK_CIPHER'', u ''x|y'')"
    "normalized_identity (u ''A.com.'') (u ''weak_cipher'') (u ''x'') = (u ''a.com'', u ''WEAK_CIPHER'', u ''x'')"
    by (simp_all add: normalized_identity_def normalize_hostname_def normalize_generic_identifier_def text_eval)
qed

lemma generate_fingerprint_ascii:
  assumes "normalized_identity h c i = (host, cat, ident)" and "host \<noteq> []" "cat \<noteq> []" "ident \<noteq> []"
    and "list_all (\<lambda>c. c < 128) (fingerprint_identity host cat ident)"
  shows "generate_fingerprint h c i = Inr (sha256_hexdigest (fingerprint_identity host cat ident))"
  using assms by (simp add: generate_fingerprint_def normalized_identity_def Let_def sha256_text_ascii)

theorem fingerprint_identity_separates_witness:
  "\<exists>fp fp' raw raw'. generate_fingerprint (u ''A.com.'') (u ''weak_cipher'') (u ''x|Y'') = Inr fp
     \<and> generate_fingerprint (u ''A.com.'') (u ''weak_cipher'') (u ''x'') = Inr fp'
     \<and> sha256_text raw = Inr fp \<and> sha256_text raw' = Inr fp' \<and> raw \<noteq> raw' \<and> length fp = 64"
proof -
  obtain fp fp' where run: "generate_fingerprint (u ''A.com.'') (u ''weak_cipher'') (u ''x|Y'') = Inr fp"
    "generate_fingerprint (u ''A.com.'') (u ''weak_cipher'') (u ''x'') = Inr fp'"
    using generate_fingerprint_ascii [OF example_normalized(1)] generate_fingerprint_ascii [OF example_normalized(2)]
    by (simp add: fingerprint_identity_def text_defs)
  have "124 \<notin> set (normalize_hostname (u ''A.com.''))" "124 \<notin> set (py_upper (py_strip (u ''weak_cipher'')))"
    using example_normalized by (simp_all add: normalized_identity_def text_defs)
  from fingerprint_identity_separates [OF run this this] run example_normalized show ?thesis by auto
qed

end
