(* ===== verification/ScanService.thy ===== *)
theory ScanService
  imports ScanStore Fingerprints Findings
begin

text \<open>
  The scan service as the API calls it, and how an analysis result is stored
  (\<open>domain/scans/scan_service.py\<close>).  \<open>pr\<close> is the principal (\<open>None\<close> in a background job), \<open>clock\<close> the
  successive clock readings of one call.
\<close>

section \<open>Creation and queries\<close>

record scan_details =
  sd_id :: uuid
  sd_target_id :: uuid
  sd_status_code :: pystr
  sd_scan_profile_code :: pystr
  sd_initiated_by_user_id :: uuid
  sd_authorization_attestation_id :: uuid
  sd_queued_at :: "timestamp option"
  sd_started_at :: "timestamp option"
  sd_completed_at :: "timestamp option"
  sd_created_at :: timestamp

definition scan_details_of :: "db \<Rightarrow> scan_row \<Rightarrow> scan_details result" where
  "scan_details_of d s =
     bindE (profile_code d (sc_scan_profile_id s)) (\<lambda>profile.
       Inr \<lparr>sd_id = sc_id s, sd_target_id = sc_target_id s, sd_status_code = status_text (sc_status s),
            sd_scan_profile_code = profile, sd_initiated_by_user_id = sc_initiated_by_user_id s,
            sd_authorization_attestation_id = sc_authorization_attestation_id s,
            sd_queued_at = sc_queued_at s, sd_started_at = sc_started_at s,
            sd_completed_at = sc_completed_at s, sd_created_at = sc_created_at s\<rparr>)"

definition assert_principal :: "uuid option \<Rightarrow> uuid result" where
  "assert_principal pr = some_or (Domain NotAuthenticatedError) pr"

definition get_visible_scan :: "uuid option \<Rightarrow> uuid \<Rightarrow> db \<Rightarrow> scan_row result" where
  "get_visible_scan pr i d =
     (case scan_by_id d i of
        None \<Rightarrow> raise NotFoundError
      | Some s \<Rightarrow>
          if pr \<noteq> None \<and> Some (sc_initiated_by_user_id s) \<noteq> pr then raise NotFoundError else Inr s)"

definition new_scan_row ::
  "uuid \<Rightarrow> uuid \<Rightarrow> nat \<Rightarrow> uuid \<Rightarrow> uuid \<Rightarrow> uuid option \<Rightarrow> timestamp \<Rightarrow> scan_row" where
  "new_scan_row i target_id profile initiator attestation parent now =
     \<lparr>sc_id = i, sc_target_id = target_id, sc_scan_profile_id = profile, sc_initiated_by_user_id = initiator,
      sc_authorization_attestation_id = attestation, sc_status = QUEUED, sc_parent_scan_id = parent,
      sc_queued_at = Some now, sc_started_at = None, sc_completed_at = None, sc_created_at = now\<rparr>"

definition create_scan ::
  "uuid option \<Rightarrow> (nat \<Rightarrow> timestamp) \<Rightarrow> uuid \<Rightarrow> pystr \<Rightarrow> db \<Rightarrow> (scan_details \<times> db) result" where
  "create_scan pr clock target_id profile d =
     bindE (assert_principal pr) (\<lambda>p.
     bindE (get_visible_target p target_id d) (\<lambda>target.
       if tg_is_archived target then raise NotFoundError
       else bindE (some_or (Domain AttestationNotConfirmedError) (latest_active_confirmed d target_id (clock 0))) (\<lambda>att.
            bindE (profile_id d profile) (\<lambda>pid.
              let now = clock 1; (i, d1) = uuid4 d; att_id = at_id (ad_attestation att);
                  s = new_scan_row i (tg_id target) pid p att_id None now;
                  (_, d2) = record_audit (u ''SCAN_REQUESTED'') (u ''scan'') i
                    [(u ''targetId'', JStr (uuid_text (tg_id target))), (u ''scanProfile'', JStr profile),
                     (u ''authorizationAttestationId'', JStr (uuid_text att_id))] (Some p) now (add_scan s d1)
              in bindE (scan_details_of d2 s) (\<lambda>details. Inr (details, d2))))))"

definition get_scan :: "uuid option \<Rightarrow> uuid \<Rightarrow> db \<Rightarrow> scan_details result" where
  "get_scan pr i d = bindE (get_visible_scan pr i d) (scan_details_of d)"

definition list_scans :: "uuid option \<Rightarrow> uuid option \<Rightarrow> pystr option \<Rightarrow> nat \<Rightarrow> db \<Rightarrow> scan_details list result" where
  "list_scans pr target_id status limit d =
     bindE (assert_principal pr) (\<lambda>p. mapE (scan_details_of d) (list_for_user d p target_id status limit))"

definition rescan_scan :: "uuid option \<Rightarrow> (nat \<Rightarrow> timestamp) \<Rightarrow> uuid \<Rightarrow> db \<Rightarrow> (scan_details \<times> db) result" where
  "rescan_scan pr clock scan_id d =
     bindE (get_visible_scan pr scan_id d) (\<lambda>original.
     bindE (assert_principal pr) (\<lambda>p.
     bindE (some_or (Domain AttestationNotConfirmedError)
              (latest_active_confirmed d (sc_target_id original) (clock 0))) (\<lambda>latest.
       let now = clock 1; (i, d1) = uuid4 d; att_id = at_id (ad_attestation latest);
           s = new_scan_row i (sc_target_id original) (sc_scan_profile_id original) p att_id (Some (sc_id original)) now
       in bindE (profile_code d1 (sc_scan_profile_id original)) (\<lambda>profile.
            let (_, d2) = record_audit (u ''SCAN_REQUESTED'') (u ''scan'') i
                  [(u ''targetId'', JStr (uuid_text (sc_target_id original))),
                   (u ''parentScanId'', JStr (uuid_text (sc_id original))), (u ''scanProfile'', JStr profile),
                   (u ''authorizationAttestationId'', JStr (uuid_text att_id))] (Some p) now (add_scan s d1)
            in bindE (scan_details_of d2 s) (\<lambda>details. Inr (details, d2))))))"

definition cancel_scan :: "uuid option \<Rightarrow> timestamp \<Rightarrow> uuid \<Rightarrow> db \<Rightarrow> (scan_details \<times> db) result" where
  "cancel_scan pr now scan_id d =
     bindE (get_visible_scan pr scan_id d) (\<lambda>s.
       if is_terminal (sc_status s) \<or> sc_status s = RUNNING then raise InvalidScanStateError
       else (let (moved, d1) = try_transition (sc_id s) (sc_status s) CANCELLED_STATUS None (Some now) d
             in if \<not> moved then raise InvalidScanStateError
                else case scan_by_id d1 (sc_id s) of
                       None \<Rightarrow> Inl (OtherException (u ''AssertionError''))
                     | Some refreshed \<Rightarrow> bindE (scan_details_of d1 refreshed) (\<lambda>details. Inr (details, d1))))"

section \<open>Comparison\<close>

definition fingerprint_index :: "db \<Rightarrow> uuid \<Rightarrow> (pystr \<times> uuid \<times> pystr) list" where
  "fingerprint_index d scan_id =
     dict_of (List.map_filter (\<lambda>f.
       case fi_fingerprint f of
         Some fp \<Rightarrow> if fi_scan_id f = Some scan_id \<and> fp \<noteq> [] then Some (fp, fi_id f, fi_title f) else None
       | None \<Rightarrow> None) (scan_findings d))"

definition fingerprints_with_status :: "db \<Rightarrow> uuid \<Rightarrow> pystr set \<Rightarrow> nat \<Rightarrow> pystr set" where
  "fingerprints_with_status d target_id fps status_id =
     set (filter (\<lambda>fp. fp \<noteq> []) (map hi_fingerprint
       (select_where (\<lambda>h. hi_target_id h = target_id \<and> hi_status_id h = status_id \<and> hi_fingerprint h \<in> fps)
          (status_history d))))"

definition sorted_where :: "(pystr \<Rightarrow> bool) \<Rightarrow> pystr list \<Rightarrow> pystr list" where
  "sorted_where p fps = sorted_set (filter p fps)"

record comparison =
  cp_new :: "pystr list"
  cp_persistent :: "pystr list"
  cp_resolved :: "pystr list"
  cp_regressed :: "pystr list"

definition compare_fingerprints :: "db \<Rightarrow> uuid \<Rightarrow> pystr list \<Rightarrow> pystr list \<Rightarrow> comparison" where
  "compare_fingerprints d target_id a_fps b_fps =
     (let candidates = filter (\<lambda>f. f \<notin> set a_fps) b_fps;
          resolved_before =
            (if candidates = [] then {}
             else case dict_get (ids_by_code (lifecycle_statuses d)) (u ''RESOLVED'') of
                    None \<Rightarrow> {}
                  | Some i \<Rightarrow> fingerprints_with_status d target_id (set candidates) i)
      in \<lparr>cp_new = sorted_where (\<lambda>f. f \<notin> resolved_before) candidates,
          cp_persistent = sorted_where (\<lambda>f. f \<in> set b_fps) a_fps,
          cp_resolved = sorted_where (\<lambda>f. f \<notin> set b_fps) a_fps,
          cp_regressed = sorted_where (\<lambda>f. f \<in> resolved_before) candidates\<rparr>)"

definition to_compare_dtos :: "pystr list \<Rightarrow> (pystr \<times> uuid \<times> pystr) list \<Rightarrow> json result" where
  "to_compare_dtos fps source_map =
     bindE (mapE (\<lambda>fp. bindE (some_or KeyError (dict_get source_map fp)) (\<lambda>(i, title).
        Inr (JObj [(u ''id'', JStr (uuid_text i)), (u ''fingerprint'', JStr fp), (u ''title'', JStr title)]))) (sort fps))
       (\<lambda>vs. Inr (JArr vs))"

definition compare_scans :: "uuid option \<Rightarrow> uuid \<Rightarrow> uuid \<Rightarrow> db \<Rightarrow> json result" where
  "compare_scans pr scan_a_id scan_b_id d =
     bindE (get_visible_scan pr scan_a_id d) (\<lambda>a.
     bindE (get_visible_scan pr scan_b_id d) (\<lambda>b.
       if sc_target_id a \<noteq> sc_target_id b then raise InvalidScanStateError
       else (let a_map = fingerprint_index d (sc_id a); b_map = fingerprint_index d (sc_id b);
                 c = compare_fingerprints d (sc_target_id a) (map fst a_map) (map fst b_map)
             in bindE (to_compare_dtos (cp_new c) b_map) (\<lambda>n.
                bindE (to_compare_dtos (cp_persistent c) b_map) (\<lambda>p.
                bindE (to_compare_dtos (cp_resolved c) a_map) (\<lambda>r.
                bindE (to_compare_dtos (cp_regressed c) b_map) (\<lambda>g.
                  Inr (JObj [(u ''new'', n), (u ''persistent'', p), (u ''resolved'', r), (u ''regressed'', g)]))))))))"

end
