(* ===== verification/ScanPersist.thy ===== *)
theory ScanPersist
  imports ScanService UrlSplit
begin

text \<open>
  Storing an analysis result (the second half of \<open>domain/scans/scan_service.py\<close>): canonical categories,
  fingerprints, evidence rows and the lifecycle history.  Where the code iterates over a set of
  fingerprints the model takes them in sorted order; the rows of one flush share one time.
\<close>

section \<open>Categories and identity\<close>

definition category_fallback :: pystr where "category_fallback = u ''MISSING_SECURITY_HEADER''"

definition engine_category_to_canonical :: "(pystr \<times> pystr) list" where
  "engine_category_to_canonical =
     [(u ''http.security-headers'', u ''MISSING_SECURITY_HEADER''),
      (u ''http.cookies'', u ''MISSING_SECURITY_HEADER''),
      (u ''http.transport'', u ''WEAK_CIPHER''),
      (u ''http.server-info'', u ''MISSING_SECURITY_HEADER'')]"

definition canonical_category_code :: "pystr \<Rightarrow> pystr" where
  "canonical_category_code engine_category =
     dict_default engine_category_to_canonical engine_category (py_upper engine_category)"

text \<open>\<open>ids.get(code, ids[FALLBACK])\<close> reads the fallback entry first.\<close>

definition map_category :: "(pystr \<times> nat) list \<Rightarrow> pystr \<Rightarrow> nat result" where
  "map_category ids engine_category =
     (let canonical = canonical_category_code engine_category;
          code = (if canonical \<in> fst ` set ids then canonical else category_fallback)
      in bindE (some_or KeyError (dict_get ids category_fallback)) (\<lambda>fallback. Inr (dict_default ids code fallback)))"

record finding_identity =
  fy_scan_id :: "uuid option"
  fy_target_id :: "uuid option"
  fy_hostname :: pystr
  fy_affected_asset :: pystr

definition no_identity :: finding_identity where
  "no_identity = \<lparr>fy_scan_id = None, fy_target_id = None, fy_hostname = [], fy_affected_asset = [47]\<rparr>"

definition resolve_finding_identity :: "db \<Rightarrow> uuid \<Rightarrow> finding_identity result" where
  "resolve_finding_identity d execution_id =
     (case session_get ex_id (executions d) execution_id of
        None \<Rightarrow> Inr no_identity
      | Some e \<Rightarrow>
          (case session_get sc_id (scans d) (ex_scan_id e) of
             None \<Rightarrow> Inr no_identity
           | Some s \<Rightarrow>
               bindE (target_by_id d (sc_target_id s)) (\<lambda>found.
                 case found of
                   None \<Rightarrow> Inr (no_identity\<lparr>fy_scan_id := Some (sc_id s), fy_target_id := Some (sc_target_id s)\<rparr>)
                 | Some t \<Rightarrow>
                     (let asset = py_rstrip_chars (tg_normalized_url t) [47]
                      in Inr \<lparr>fy_scan_id = Some (sc_id s), fy_target_id = Some (sc_target_id s),
                              fy_hostname = tg_hostname t,
                              fy_affected_asset = (if asset = [] then [47] else asset)\<rparr>))))"

definition engine_code_for_execution :: "db \<Rightarrow> uuid \<Rightarrow> pystr" where
  "engine_code_for_execution d execution_id =
     (case session_get ex_id (executions d) execution_id of
        None \<Rightarrow> u ''unknown''
      | Some e \<Rightarrow>
          (case code_of_id (scan_engines d) (ex_scan_engine_id e) of
             None \<Rightarrow> u ''unknown''
           | Some code \<Rightarrow> take 50 code))"

definition safe_fingerprint :: "pystr \<Rightarrow> pystr \<Rightarrow> pystr \<Rightarrow> pystr \<Rightarrow> pystr option result" where
  "safe_fingerprint hostname canonical title location =
     (case generate_fingerprint_from_finding hostname canonical title location of
        Inr fp \<Rightarrow> Inr (Some fp)
      | Inl e \<Rightarrow> if e = UnsupportedFingerprintCategory \<or> e = ValueError then Inr None else Inl e)"

section \<open>Rows\<close>

text \<open>A staged finding row; its identifier and creation time are set when it is flushed.\<close>

definition finding_row_of ::
  "finding_identity \<Rightarrow> uuid \<Rightarrow> pystr \<Rightarrow> (pystr \<times> nat) list \<Rightarrow> (pystr \<times> nat) list \<Rightarrow> finding \<Rightarrow> finding_row result" where
  "finding_row_of identity execution_id engine_code category_ids severity_ids f =
     bindE (safe_fingerprint (fy_hostname identity) (canonical_category_code (fd_category f)) (fd_title f) (fd_location f)) (\<lambda>fp.
     bindE (map_category category_ids (fd_category f)) (\<lambda>cat.
     bindE (some_or KeyError (dict_get severity_ids (py_upper (severity_value (fd_severity f))))) (\<lambda>sev.
       Inr \<lparr>fi_id = 0, fi_execution_id = execution_id, fi_category_id = cat, fi_severity_id = sev,
            fi_title = take 200 (fd_title f), fi_description = fd_description f, fi_evidence = fd_evidence f,
            fi_location = take 500 (fd_location f), fi_recommendation = fd_recommendation f, fi_fingerprint = fp,
            fi_target_id = fy_target_id identity, fi_scan_id = fy_scan_id identity,
            fi_source_engine_code = Some engine_code,
            fi_affected_asset = Some (take 500 (if fd_location f \<noteq> [] then fd_location f else fy_affected_asset identity)),
            fi_created_at = 0\<rparr>)))"

definition classify_evidence_type :: "finding \<Rightarrow> evidence_type" where
  "classify_evidence_type f =
     (let title = py_lower (fd_title f); cat = py_lower (fd_category f); ev = py_lower (fd_evidence f)
      in if py_startswith ev (u ''request '') \<or> py_contains title (u ''request metadata'') then REQUEST_METADATA
         else if py_startswith ev (u ''response body'') \<or> py_contains title (u ''response body'') then RESPONSE_BODY_SNIPPET
         else if py_contains title (u ''header'') \<or> py_contains cat (u ''header'') then RAW_HEADER
         else TOOL_OUTPUT_SNIPPET)"

definition evidence_content :: "finding \<Rightarrow> pystr" where
  "evidence_content f =
     take 2048 (if fd_evidence f \<noteq> [] then fd_evidence f
                else if fd_description f \<noteq> [] then fd_description f else fd_title f)"

fun persist_evidence :: "timestamp \<Rightarrow> (finding_row \<times> finding) list \<Rightarrow> db \<Rightarrow> db" where
  "persist_evidence now [] d = d"
| "persist_evidence now ((row, f) # rest) d =
     (if py_strip (evidence_content f) = [] then persist_evidence now rest d
      else (let (i, d1) = uuid4 d;
                e = \<lparr>ev_id = i, ev_finding_id = fi_id row, ev_evidence_type = classify_evidence_type f,
                     ev_content = evidence_content f, ev_created_at = now\<rparr>
            in persist_evidence now rest (d1\<lparr>finding_evidence := finding_evidence d1 @ [e]\<rparr>)))"

section \<open>Lifecycle history\<close>

definition previous_scan_id :: "db \<Rightarrow> uuid \<Rightarrow> uuid \<Rightarrow> uuid option" where
  "previous_scan_id d target_id current_scan_id =
     (case Option.bind (session_get sc_id (scans d) current_scan_id) sc_parent_scan_id of
        Some parent \<Rightarrow> Some parent
      | None \<Rightarrow>
          map_option sc_id (first_row (take 1 (order_desc (\<lambda>s. the (sc_completed_at s))
            (select_where (\<lambda>s. sc_target_id s = target_id \<and> sc_id s \<noteq> current_scan_id \<and> sc_completed_at s \<noteq> None)
               (scans d))))))"

definition fingerprints_for_scan :: "db \<Rightarrow> uuid \<Rightarrow> pystr set" where
  "fingerprints_for_scan d scan_id =
     set (filter (\<lambda>fp. fp \<noteq> []) (List.map_filter (\<lambda>f. if fi_scan_id f = Some scan_id then fi_fingerprint f else None)
       (scan_findings d)))"

definition latest_status_map :: "db \<Rightarrow> uuid \<Rightarrow> pystr set \<Rightarrow> (pystr \<times> pystr) list" where
  "latest_status_map d target_id fps =
     (if fps = {} then []
      else fold (\<lambda>h out. if hi_fingerprint h \<in> fst ` set out then out
                       else out @ [(hi_fingerprint h, dict_default (codes_by_id (lifecycle_statuses d)) (hi_status_id h) [])])
             (order_desc hi_effective_at
               (select_where (\<lambda>h. hi_target_id h = target_id \<and> hi_fingerprint h \<in> fps) (status_history d))) [])"

fun add_history :: "timestamp \<Rightarrow> uuid \<Rightarrow> uuid \<Rightarrow> (pystr \<times> nat) list \<Rightarrow> db \<Rightarrow> db" where
  "add_history now target_id scan_id [] d = d"
| "add_history now target_id scan_id ((fp, status_id) # rest) d =
     (let (i, d1) = uuid4 d;
          h = \<lparr>hi_id = i, hi_fingerprint = fp, hi_target_id = target_id, hi_status_id = status_id,
               hi_observed_in_scan_id = scan_id, hi_effective_at = now\<rparr>
      in add_history now target_id scan_id rest (d1\<lparr>status_history := status_history d1 @ [h]\<rparr>))"

definition derived_statuses ::
  "pystr list \<Rightarrow> pystr list \<Rightarrow> (pystr \<times> pystr) list \<Rightarrow> (pystr \<times> nat) list \<Rightarrow> (pystr \<times> nat) list" where
  "derived_statuses current previous history_map status_ids =
     List.map_filter (\<lambda>fp.
       case derive_lifecycle_status fp (fp \<in> set current) (fp \<in> set previous) (dict_get history_map fp) of
         None \<Rightarrow> None
       | Some derived \<Rightarrow> map_option (\<lambda>i. (fp, i)) (dict_get status_ids derived))
       (sorted_set (current @ previous))"

definition record_lifecycle :: "timestamp \<Rightarrow> uuid \<Rightarrow> uuid \<Rightarrow> pystr list \<Rightarrow> db \<Rightarrow> db" where
  "record_lifecycle now target_id scan_id current d =
     (let previous = (case previous_scan_id d target_id scan_id of
                        None \<Rightarrow> [] | Some prev \<Rightarrow> sorted_list_of_set (fingerprints_for_scan d prev));
          history_map = latest_status_map d target_id (set current \<union> set previous)
      in add_history now target_id scan_id
           (derived_statuses current previous history_map (ids_by_code (lifecycle_statuses d))) d)"

definition persist_findings :: "timestamp \<Rightarrow> uuid \<Rightarrow> finding list \<Rightarrow> db \<Rightarrow> db result" where
  "persist_findings now execution_id fs d =
     bindE (resolve_finding_identity d execution_id) (\<lambda>identity.
     bindE (mapE (finding_row_of identity execution_id (engine_code_for_execution d execution_id)
                    (ids_by_code (finding_categories d)) (ids_by_code (severity_levels d))) fs) (\<lambda>staged.
       let (rows, d1) = add_findings now staged d;
           d2 = persist_evidence now (zip rows fs) d1
       in case (fy_target_id identity, fy_scan_id identity) of
            (Some t, Some s) \<Rightarrow>
              Inr (record_lifecycle now t s (filter (\<lambda>fp. fp \<noteq> []) (List.map_filter fi_fingerprint rows)) d2)
          | _ \<Rightarrow> Inr d2))"

section \<open>Where to scan\<close>

record origin =
  or_hostname :: pystr
  or_scheme :: pystr
  or_port :: nat
  or_path :: pystr

definition origin_for_target :: "db \<Rightarrow> uuid \<Rightarrow> origin result" where
  "origin_for_target d target_id =
     bindE (target_by_id d target_id) (\<lambda>found.
     bindE (some_or (Domain NotFoundError) found) (\<lambda>t.
     bindE (some_or ValueError (urlsplit (tg_normalized_url t))) (\<lambda>parts.
       let scheme = (if sp_scheme parts = [] then u ''https'' else py_lower (sp_scheme parts));
           hostname = (case url_hostname parts of None \<Rightarrow> tg_hostname t | Some h \<Rightarrow> h)
       in bindE (some_or ValueError (url_port parts)) (\<lambda>port.
            Inr \<lparr>or_hostname = hostname, or_scheme = scheme,
                 or_port = (case port of Some p \<Rightarrow> if p \<noteq> 0 then p else if scheme = u ''https'' then 443 else 80
                            | None \<Rightarrow> if scheme = u ''https'' then 443 else 80),
                 or_path = (if sp_path parts = [] then [47] else sp_path parts)\<rparr>))))"

section \<open>What storing leaves alone\<close>

text \<open>The tables that decide who may see what, the scans, the executions and the audit trail.\<close>

definition same_authority :: "db \<Rightarrow> db \<Rightarrow> bool" where
  "same_authority d d' \<longleftrightarrow> audit_log d' = audit_log d \<and> scans d' = scans d \<and> targets d' = targets d
     \<and> attestations d' = attestations d \<and> memberships d' = memberships d \<and> executions d' = executions d
     \<and> organizations d' = organizations d \<and> users d' = users d \<and> assessments d' = assessments d
     \<and> scan_profiles d' = scan_profiles d \<and> next_id d \<le> next_id d'"

lemma same_authority_refl [simp]: "same_authority d d"
  by (simp add: same_authority_def)

lemma same_authority_trans: "same_authority a b \<Longrightarrow> same_authority b c \<Longrightarrow> same_authority a c"
  by (auto simp: same_authority_def)

lemma add_findings_frame: "same_authority d (snd (add_findings now fs d))"
proof (induction fs arbitrary: d)
  case Nil
  show ?case by simp
next
  case (Cons f fs)
  let ?d = "d\<lparr>next_id := Suc (next_id d), scan_findings := scan_findings d @ [f\<lparr>fi_id := next_id d, fi_created_at := now\<rparr>]\<rparr>"
  have "same_authority d ?d" by (simp add: same_authority_def)
  from same_authority_trans [OF this Cons.IH] show ?case by (simp add: case_prod_beta Let_def)
qed

lemma persist_evidence_frame: "same_authority d (persist_evidence now rows d)"
proof (induction rows arbitrary: d)
  case Nil
  show ?case by simp
next
  case (Cons r rows)
  obtain row f where r: "r = (row, f)" by (rule prod.exhaust)
  let ?e = "\<lparr>ev_id = next_id d, ev_finding_id = fi_id row, ev_evidence_type = classify_evidence_type f,
      ev_content = evidence_content f, ev_created_at = now\<rparr>"
  have "same_authority d (d\<lparr>next_id := Suc (next_id d), finding_evidence := finding_evidence d @ [?e]\<rparr>)"
    by (simp add: same_authority_def)
  from same_authority_trans [OF this Cons.IH] Cons.IH show ?case
    unfolding r persist_evidence.simps by (cases "py_strip (evidence_content f) = []") (simp_all add: case_prod_beta Let_def)
qed

lemma add_history_frame: "same_authority d (add_history now t s rows d)"
proof (induction rows arbitrary: d)
  case Nil
  show ?case by simp
next
  case (Cons r rows)
  obtain fp status_id where r: "r = (fp, status_id)" by (rule prod.exhaust)
  let ?h = "\<lparr>hi_id = next_id d, hi_fingerprint = fp, hi_target_id = t, hi_status_id = status_id,
      hi_observed_in_scan_id = s, hi_effective_at = now\<rparr>"
  have "same_authority d (d\<lparr>next_id := Suc (next_id d), status_history := status_history d @ [?h]\<rparr>)"
    by (simp add: same_authority_def)
  from same_authority_trans [OF this Cons.IH] show ?case
    unfolding r add_history.simps by (simp add: case_prod_beta Let_def)
qed

lemma rows_and_evidence_frame: "same_authority d (persist_evidence now rows (snd (add_findings now fs d)))"
  by (rule same_authority_trans [OF add_findings_frame persist_evidence_frame])

lemma record_lifecycle_frame: "same_authority d (record_lifecycle now t s current d)"
  unfolding record_lifecycle_def Let_def by (rule add_history_frame)

lemma rows_evidence_lifecycle_frame:
  "same_authority d (record_lifecycle now t s current (persist_evidence now rows (snd (add_findings now fs d))))"
  by (rule same_authority_trans [OF rows_and_evidence_frame record_lifecycle_frame])

lemma persist_findings_same: "persist_findings now i fs d = Inr d' \<Longrightarrow> same_authority d d'"
  unfolding persist_findings_def bindE_Inr_iff
  by (elim exE conjE)
    (auto simp: case_prod_beta Let_def rows_and_evidence_frame rows_evidence_lifecycle_frame split: option.splits)

lemmas persist_findings_frame = persist_findings_same [unfolded same_authority_def]

end
