(* ===== verification/JsonRoundTrip.thy ===== *)
theory JsonRoundTrip
  imports JsonText Sha256 DateText
begin

text \<open>
  \<open>json.loads\<close> reads back what \<open>json.dumps\<close> writes, whatever blanks follow its separators, and what
  \<open>dumps_stable\<close> writes with the keys of every object sorted.  The values are those with floats in decimal notation,
  integers below the digit limit, texts of Unicode scalar values and distinct keys.
\<close>

section \<open>Values\<close>

definition scalar_text :: "pystr \<Rightarrow> bool" where
  "scalar_text s \<longleftrightarrow> (\<forall>c \<in> set s. c < 1114112 \<and> \<not> is_surrogate c)"

definition float_text :: "pystr \<Rightarrow> bool" where
  "float_text t \<longleftrightarrow> (\<exists>n ds. t = nat_to_text n @ 46 # ds \<and> ds \<noteq> [] \<and> list_all ascii_digit ds)"

fun plain_json :: "json \<Rightarrow> bool" where
  "plain_json (JFloat t) = float_text t"
| "plain_json (JInt i) = (length (nat_to_text (nat \<bar>i\<bar>)) \<le> 4300)"
| "plain_json (JStr s) = scalar_text s"
| "plain_json (JArr vs) = list_all plain_json vs"
| "plain_json (JObj kvs) = (distinct (map fst kvs) \<and> list_all (\<lambda>(k, v). scalar_text k \<and> plain_json v) kvs)"
| "plain_json _ = True"

fun canonical :: "json \<Rightarrow> json" where
  "canonical (JArr vs) = JArr (map canonical vs)"
| "canonical (JObj kvs) = JObj (sort_key fst (map (\<lambda>(k, v). (k, canonical v)) kvs))"
| "canonical v = v"

section \<open>Texts\<close>

lemma small_scalar: "\<forall>c \<in> set s. c < 256 \<Longrightarrow> scalar_text s"
  by (auto simp: scalar_text_def is_surrogate_def)

lemma u_scalar [simp]: "scalar_text (u s)"
  by (rule small_scalar) (auto simp: u_def)

lemma scalar_append [simp]: "scalar_text []" "scalar_text (a @ b) \<longleftrightarrow> scalar_text a \<and> scalar_text b"
  by (auto simp: scalar_text_def)

lemma scalar_Cons: "c < 256 \<Longrightarrow> scalar_text (c # s) \<longleftrightarrow> scalar_text s"
  by (auto simp: scalar_text_def is_surrogate_def)

lemma scalar_pieces [simp]: "scalar_text s \<Longrightarrow> scalar_text (take n s)" "scalar_text s \<Longrightarrow> scalar_text (drop n s)"
  by (auto simp: scalar_text_def dest: in_set_takeD in_set_dropD)

lemma scalar_pads [simp]: "scalar_text (pad_digits k n)" "scalar_text (hex_pad k n)"
proof -
  show "scalar_text (pad_digits k n)" by (induction k arbitrary: n) (simp_all add: scalar_Cons)
  show "scalar_text (hex_pad k n)"
    by (induction k arbitrary: n) (simp_all add: scalar_Cons hex_digit_def)
qed

lemma scalar_texts [simp]: "scalar_text (uuid_text i)" "scalar_text (isoformat t)"
proof -
  show "scalar_text (uuid_text i)"
    by (simp add: uuid_text_def Let_def scalar_Cons del: hex_pad.simps)
  show "scalar_text (isoformat t)"
    unfolding isoformat_def Let_def by (simp add: split_beta scalar_Cons del: pad_digits.simps)
qed

lemma hex_digit_value [simp]: "d < 16 \<Longrightarrow> hex_value (hex_digit d) = Some d"
  by (auto simp: hex_digit_def hex_value_def)

lemma hex_pad_hex: "list_all is_hex (hex_pad k n)"
  by (induction k arbitrary: n) (simp_all add: is_hex_def)

lemma hex_digits_snoc: "hex_digits_value (s @ [c]) = 16 * hex_digits_value s + (case hex_value c of None \<Rightarrow> 0 | Some v \<Rightarrow> v)"
  by (simp add: hex_digits_value_def)

lemma hex_pad_value: "n < 16 ^ k \<Longrightarrow> hex_digits_value (hex_pad k n) = n"
proof (induction k arbitrary: n)
  case 0
  then show ?case by (simp add: hex_digits_value_def)
next
  case (Suc k)
  have "n div 16 < 16 ^ k" using Suc.prems by (simp add: less_mult_imp_div_less mult.commute)
  from Suc.IH [OF this] show ?case by (simp add: hex_digits_snoc)
qed

lemma hex4_pad: "n < 65536 \<Longrightarrow> hex4 (hex_pad 4 n) = Some n"
  using hex_pad_value [of n 4] by (simp add: hex4_def hex_pad_hex del: hex_pad.simps)

lemma hex_take: "take 4 (hex_pad 4 n @ r) = hex_pad 4 n" "drop 4 (hex_pad 4 n @ r) = r"
  by (simp_all del: hex_pad.simps)

lemma scan_char:
  assumes "c < 1114112" and "\<not> is_surrogate c" and "r \<noteq> []"
  shows "scan_string (json_char c @ r) = cons_char c (scan_string r)"
proof -
  have l: "\<not> length (hex_pad 4 n @ r) \<le> 4" for n using assms(3) by (cases r) simp_all
  consider "c \<in> {34, 92, 10, 13, 9, 12, 8}" | "32 \<le> c \<and> c \<le> 126 \<and> c \<notin> {34, 92}"
    | "c < 65536 \<and> c \<notin> {34, 92, 10, 13, 9, 12, 8} \<and> \<not> (32 \<le> c \<and> c \<le> 126)" | "65536 \<le> c" by force
  then show ?thesis
  proof cases
    case 1
    then show ?thesis by (auto simp: json_char_def escape_of_def)
  next
    case 2
    then show ?thesis by (simp add: json_char_def)
  next
    case 3
    then have j: "json_char c = 92 # 117 # hex_pad 4 c" by (simp add: json_char_def unicode_escape_def)
    have "\<not> (55296 \<le> c \<and> c \<le> 56319)" using assms(2) by (auto simp: is_surrogate_def)
    then show ?thesis unfolding j append_Cons scan_string.simps(2)
      using l [of c] 3 by (auto simp: hex4_pad hex_take simp del: hex_pad.simps)
  next
    case 4
    define a b where "a = 55296 + (c - 65536) div 1024" and "b = 56320 + (c - 65536) mod 1024"
    have j: "json_char c = 92 # 117 # hex_pad 4 a @ 92 # 117 # hex_pad 4 b"
      using 4 by (simp add: json_char_def unicode_escape_def a_def b_def)
    have ab: "55296 \<le> a" "a \<le> 56319" "56320 \<le> b" "b \<le> 57343"
      and c: "65536 + (a - 55296) * 1024 + (b - 56320) = c"
      using 4 assms(1) by (simp_all add: a_def b_def less_mult_imp_div_less)
    have h: "hex4 (hex_pad 4 a) = Some a" "hex4 (hex_pad 4 b) = Some b" using ab by (simp_all add: hex4_pad)
    have lr: "7 \<le> length (92 # 117 # hex_pad 4 b @ r)" "take 2 (92 # 117 # hex_pad 4 b @ r) = [92, 117]"
      "take 4 (drop 2 (92 # 117 # hex_pad 4 b @ r)) = hex_pad 4 b" "drop 6 (92 # 117 # hex_pad 4 b @ r) = r"
      using assms(3) by (cases r; simp add: hex_take numeral_eq_Suc del: hex_pad.simps)+
    have "\<not> length (hex_pad 4 a @ 92 # 117 # hex_pad 4 b @ r) \<le> 4" by (simp del: hex_pad.simps)
    then show ?thesis unfolding j append_Cons append_assoc scan_string.simps(2)
      using ab c lr h by (simp only: hex_take if_True if_False list.case option.case Let_def simp_thms) simp
  qed
qed

lemma json_string_scanned: "scalar_text s \<Longrightarrow> scan_string (concat (map json_char s) @ 34 # r) = Inr (s, r)"
  by (induction s) (simp_all add: scalar_text_def scan_char cons_char_def)

section \<open>Numbers\<close>

definition ends_value :: "pystr \<Rightarrow> bool" where
  "ends_value r \<longleftrightarrow> r = [] \<or> hd r \<in> {44, 93, 125}"

lemma nat_to_text_zero: "hd (nat_to_text n) = 48 \<longleftrightarrow> n = 0"
proof (induction n rule: nat_to_text.induct)
  case (1 n)
  show ?case
  proof (cases "n < 10")
    case True
    then show ?thesis by (simp add: nat_to_text.simps [of n])
  next
    case False
    with 1 show ?thesis by (simp add: nat_to_text.simps [of n])
  qed
qed

lemma takeWhile_digits: "ends_value r \<Longrightarrow> scan_digits (nat_to_text n @ r) = (nat_to_text n, r)"
proof -
  assume "ends_value r"
  then have "takeWhile ascii_digit r = []" "dropWhile ascii_digit r = r"
    by (cases r; auto simp: ends_value_def ascii_digit_def)+
  moreover have "\<And>c. c \<in> set (nat_to_text n) \<Longrightarrow> ascii_digit c" by (rule nat_to_text_digits)
  ultimately show ?thesis by (simp add: scan_digits_def takeWhile_append2 dropWhile_append2)
qed

lemma no_fraction: "ends_value r \<Longrightarrow> scan_frac r = ([], r)" "ends_value r \<Longrightarrow> scan_exp r = ([], r)"
  by (auto simp: ends_value_def scan_frac_def scan_exp_def split: list.splits)

lemma number_scanned:
  assumes "ends_value r" and "length (nat_to_text (nat \<bar>i\<bar>)) \<le> 4300"
  shows "scan_number (int_to_text i @ r) = Inr (JInt i, r)"
proof -
  obtain c t where t: "nat_to_text (nat \<bar>i\<bar>) = c # t" by (cases "nat_to_text (nat \<bar>i\<bar>)") auto
  have c: "ascii_digit c" "c \<noteq> 45" using nat_to_text_digits [of c "nat \<bar>i\<bar>"] t by (auto simp: ascii_digit_def)
  have z: "t = []" if "c = 48"
  proof -
    have "nat \<bar>i\<bar> = 0" using nat_to_text_zero [of "nat \<bar>i\<bar>"] t that by simp
    with t show ?thesis by (simp add: nat_to_text.simps [of 0])
  qed
  have v: "digits_value (c # t) = nat \<bar>i\<bar>" using digits_value_nat_to_text [of "nat \<bar>i\<bar>"] t by simp
  have d: "scan_digits (c # t @ r) = (c # t, r)" using takeWhile_digits [OF assms(1), of "nat \<bar>i\<bar>"] t by simp
  have s: "int_to_text i = (if i < 0 then 45 # c # t else c # t)" using t by (auto simp: int_to_text_def)
  show ?thesis
  proof (cases "i < 0")
    case True
    then have "int (digits_value (c # t)) = - i" using v by simp
    with True show ?thesis using c z d assms(2) t v
      by (cases "c = 48") (simp_all add: s scan_number_def Let_def no_fraction [OF assms(1)])
  next
    case False
    then obtain n where n: "i = int n" using nonneg_int_cases [of i] by auto
    have s': "int_to_text (int n) = c # t" using s n by simp
    show ?thesis using c z d assms(2) t v unfolding n
      by (cases "c = 48") (simp_all add: s' scan_number_def Let_def no_fraction [OF assms(1)])
  qed
qed

lemma float_scanned:
  assumes "ends_value r" and "float_text t"
  shows "scan_number (t @ r) = Inr (JFloat t, r)"
proof -
  obtain n ds where t: "t = nat_to_text n @ 46 # ds" "ds \<noteq> []" "list_all ascii_digit ds"
    using assms(2) by (auto simp: float_text_def)
  obtain c cs where n: "nat_to_text n = c # cs" by (cases "nat_to_text n") auto
  have c: "ascii_digit c" "c \<noteq> 45" using nat_to_text_digits [of c n] n by (auto simp: ascii_digit_def)
  have z: "cs = []" if "c = 48"
  proof -
    have "n = 0" using nat_to_text_zero [of n] n that by simp
    with n show ?thesis by (simp add: nat_to_text.simps [of 0])
  qed
  have d: "scan_digits (c # cs @ 46 # ds @ r) = (c # cs, 46 # ds @ r)"
  proof -
    have "\<And>e. e \<in> set (c # cs) \<Longrightarrow> ascii_digit e" using nat_to_text_digits [of _ n] n by simp
    then have "takeWhile ascii_digit ((c # cs) @ 46 # ds @ r) = c # cs" "dropWhile ascii_digit ((c # cs) @ 46 # ds @ r) = 46 # ds @ r"
      by (subst takeWhile_append2 dropWhile_append2; simp add: ascii_digit_def)+
    then show ?thesis by (simp add: scan_digits_def)
  qed
  have "takeWhile ascii_digit r = []" "dropWhile ascii_digit r = r"
    using assms(1) by (cases r; auto simp: ends_value_def ascii_digit_def)+
  then have f: "scan_frac (46 # ds @ r) = (46 # ds, r)"
    using t by (cases ds) (simp_all add: scan_frac_def scan_digits_def takeWhile_append2 dropWhile_append2 list_all_iff)
  show ?thesis using c z d f
    by (cases "c = 48") (simp_all add: t(1) n scan_number_def Let_def no_fraction(2) [OF assms(1)])
qed

section \<open>Values and texts\<close>

fun json_fuel :: "json \<Rightarrow> nat" where
  "json_fuel (JArr vs) = Suc (sum_list (map (\<lambda>v. Suc (json_fuel v)) vs))"
| "json_fuel (JObj kvs) = Suc (sum_list (map (\<lambda>(k, v). Suc (json_fuel v)) kvs))"
| "json_fuel v = 1"

text \<open>The writer with the blanks \<open>a\<close> after a comma and \<open>b\<close> after a colon.\<close>

abbreviation writes :: "pystr \<Rightarrow> pystr \<Rightarrow> json \<Rightarrow> pystr" where
  "writes a b \<equiv> dumps_plain (44 # a) (58 # b)"

definition member_text :: "pystr \<Rightarrow> pystr \<Rightarrow> pystr \<times> json \<Rightarrow> pystr" where
  "member_text a b kv = json_string (fst kv) @ 58 # b @ writes a b (snd kv)"

lemma member_text_pairs: "member_text a b = (\<lambda>(k, v). json_string k @ (58 # b) @ writes a b v)"
  by (auto simp: member_text_def)

lemma digit_atom:
  assumes "ascii_digit c"
  shows "scan_value (Suc n) (c # t) = scan_number (c # t)" "scan_value (Suc n) (45 # c # t) = scan_number (45 # c # t)"
  using assms by (auto simp: scan_value.simps(2) scan_atom_def py_startswith_def text_defs ascii_digit_def)

lemma number_value:
  assumes "ends_value r"
  shows "length (nat_to_text (nat \<bar>i\<bar>)) \<le> 4300 \<Longrightarrow> scan_value (Suc n) (int_to_text i @ r) = Inr (JInt i, r)"
    and "float_text t \<Longrightarrow> scan_value (Suc n) (t @ r) = Inr (JFloat t, r)"
proof -
  have digit: "\<exists>c cs. nat_to_text n = c # cs \<and> ascii_digit c" for n
    using nat_to_text_digits [of _ n] by (cases "nat_to_text n") auto
  show "scan_value (Suc n) (int_to_text i @ r) = Inr (JInt i, r)" if "length (nat_to_text (nat \<bar>i\<bar>)) \<le> 4300"
    using number_scanned [OF assms that] digit [of "nat \<bar>i\<bar>"] by (auto simp: int_to_text_def digit_atom)
  show "scan_value (Suc n) (t @ r) = Inr (JFloat t, r)" if t: "float_text t"
  proof -
    obtain m ds where m: "t = nat_to_text m @ 46 # ds" using t by (auto simp: float_text_def)
    show ?thesis using float_scanned [OF assms t] digit [of m] by (auto simp: m digit_atom)
  qed
qed

lemma writes_head: "plain_json v \<Longrightarrow> \<exists>c t. writes a b v = c # t \<and> \<not> json_ws c \<and> c < 128 \<and> c \<noteq> 93"
proof (cases v)
  case (JInt i)
  obtain c t where t: "nat_to_text (nat \<bar>i\<bar>) = c # t" by (cases "nat_to_text (nat \<bar>i\<bar>)") auto
  have c: "ascii_digit c" using nat_to_text_digits [of c "nat \<bar>i\<bar>"] t by simp
  have "int_to_text i = (if i < 0 then 45 # c # t else c # t)" using t by (auto simp: int_to_text_def)
  with c JInt show ?thesis by (auto simp: json_ws_def ascii_digit_def)
next
  case (JFloat t)
  assume "plain_json v"
  then obtain n ds where t: "t = nat_to_text n @ 46 # ds" using JFloat by (auto simp: float_text_def)
  obtain c cs where n: "nat_to_text n = c # cs" by (cases "nat_to_text n") auto
  have "ascii_digit c" using nat_to_text_digits [of c n] n by simp
  with JFloat show ?thesis by (auto simp: t n json_ws_def ascii_digit_def)
qed (auto simp: text_defs json_string_def json_ws_def)

lemma skip_writes: "plain_json v \<Longrightarrow> skip_ws (writes a b v @ r) = writes a b v @ r"
  using writes_head [of v a b] by (auto simp: skip_ws_def)

lemma skip_mark [simp]: "c \<in> {34, 44, 58, 93, 125} \<Longrightarrow> skip_ws (c # r) = c # r"
  by (auto simp: skip_ws_def json_ws_def)

lemma skip_blanks: "list_all json_ws a \<Longrightarrow> skip_ws (a @ r) = skip_ws r"
  by (simp add: skip_ws_def dropWhile_append2 list_all_iff)

lemma length_join: "sum_list (map length xs) + (length xs - 1) \<le> length (py_join (c # a) xs)"
  by (induction "c # a" xs rule: py_join.induct) auto

lemma double_lengths:
  "sum_list (map (\<lambda>(k, v). 2 * length (g k v)) xs) = 2 * sum_list (map length (map (\<lambda>(k, v). g k v) xs))"
  by (induction xs) auto

lemma dict_of_distinct: "distinct (map fst kvs) \<Longrightarrow> dict_of kvs = kvs"
proof -
  have new: "k \<notin> fst ` set d \<Longrightarrow> AList.update k v d = d @ [(k, v)]" for k v and d :: "('a \<times> 'b) list"
    by (induction d) auto
  have "distinct (map fst (d @ kvs)) \<Longrightarrow> fold (\<lambda>(k, v) d. AList.update k v d) kvs d = d @ kvs" for d
    by (induction kvs arbitrary: d) (auto simp: new)
  from this [of "[]"] show "distinct (map fst kvs) \<Longrightarrow> dict_of kvs = kvs" by (simp add: dict_of_def)
qed

lemma fuel_bound: "plain_json v \<Longrightarrow> json_fuel v \<le> 2 * length (writes a b v)"
proof (induction v)
  case (JArr vs)
  have "sum_list (map (\<lambda>v. Suc (json_fuel v)) vs) \<le> sum_list (map (\<lambda>v. Suc (2 * length (writes a b v))) vs)"
    using JArr by (intro sum_list_mono) (auto simp: list_all_iff)
  also have "\<dots> = length vs + 2 * sum_list (map length (map (writes a b) vs))"
    by (induction vs) simp_all
  finally show ?case using length_join [of "map (writes a b) vs" 44 a] by simp
next
  case (JObj kvs)
  let ?ts = "map (\<lambda>(k, v). json_string k @ (58 # b) @ writes a b v) kvs"
  have "sum_list (map (\<lambda>(k, v). Suc (json_fuel v)) kvs) \<le> sum_list (map (\<lambda>(k, v). Suc (2 * length (writes a b v))) kvs)"
    using JObj by (intro sum_list_mono) (fastforce simp: list_all_iff)
  also have "\<dots> \<le> sum_list (map (\<lambda>(k, v). 2 * length (json_string k @ (58 # b) @ writes a b v)) kvs)"
    by (intro sum_list_mono) (auto simp: json_string_def)
  also have "\<dots> = 2 * sum_list (map length ?ts)"
    by (rule double_lengths)
  also have "\<dots> \<le> 2 * length (py_join (44 # a) ?ts)"
    using length_join [of ?ts 44 a] by (intro mult_le_mono2) simp
  finally show ?case by simp
next
  case (JInt i)
  then show ?case using writes_head [of "JInt i" a b] by auto
next
  case (JFloat t)
  then show ?case by (auto simp: float_text_def)
qed (auto simp: text_defs json_string_def)

section \<open>The round trip\<close>

text \<open>The contract of a writer whose separators are followed by blanks, and what reading its texts gives.\<close>

locale blank_separators =
  fixes a b :: pystr
  assumes blanks: "list_all json_ws a" "list_all json_ws b"
begin

lemma elements_scanned:
  assumes "\<And>v n r. v \<in> set vs \<Longrightarrow> json_fuel v \<le> n \<Longrightarrow> ends_value r \<Longrightarrow> scan_value n (writes a b v @ r) = Inr (v, r)"
    and "list_all plain_json vs" and "vs \<noteq> []" and "sum_list (map (\<lambda>v. Suc (json_fuel v)) vs) \<le> n"
  shows "scan_elements n (py_join (44 # a) (map (writes a b) vs) @ 93 # r) = Inr (vs, r)"
  using assms
proof (induction vs arbitrary: n)
  case (Cons v vs)
  then obtain m where m: "n = Suc m" by (cases n) auto
  show ?case
  proof (cases vs)
    case Nil
    with Cons.prems m show ?thesis by (simp add: scan_elements.simps(2) ends_value_def)
  next
    case (Cons w ws)
    then have ne: "vs \<noteq> []" by simp
    let ?j = "py_join (44 # a) (map (writes a b) vs) @ 93 # r"
    have e: "scan_elements m ?j = Inr (vs, r)"
      using Cons.IH [OF _ _ ne] Cons.prems m by simp
    have "skip_ws ?j = ?j"
      using skip_writes [of w] Cons.prems(2) Cons by (cases ws) simp_all
    then have w: "skip_ws (a @ ?j) = ?j" by (simp add: skip_blanks blanks)
    have "scan_value m (writes a b v @ 44 # a @ ?j) = Inr (v, 44 # a @ ?j)"
      using Cons.prems m by (simp add: ends_value_def)
    with e w show ?thesis using ne
      by (simp add: m scan_elements.simps(2) py_join_Cons)
  qed
qed simp

lemma members_scanned:
  assumes "\<And>k v n r. (k, v) \<in> set kvs \<Longrightarrow> json_fuel v \<le> n \<Longrightarrow> ends_value r \<Longrightarrow>
      scan_value n (writes a b v @ r) = Inr (v, r)"
    and "list_all (\<lambda>(k, v). scalar_text k \<and> plain_json v) kvs" and "kvs \<noteq> []"
    and "sum_list (map (\<lambda>(k, v). Suc (json_fuel v)) kvs) \<le> n"
  shows "scan_members n (py_join (44 # a) (map (member_text a b) kvs) @ 125 # r) = Inr (kvs, r)"
  using assms
proof (induction kvs arbitrary: n)
  case (Cons kv kvs)
  obtain k v where kv: "kv = (k, v)" by (rule prod.exhaust)
  from Cons.prems obtain m where m: "n = Suc m" by (cases n) (auto simp: kv)
  have key: "scan_string (concat (map json_char k) @ 34 # x) = Inr (k, x)" for x
    using Cons.prems(2) by (simp add: kv json_string_scanned)
  have val: "scan_value m (writes a b v @ x) = Inr (v, x)" if "ends_value x" for x
    using Cons.prems(1) [of k v m x] Cons.prems(4) m that by (simp add: kv)
  have sk: "skip_ws (b @ writes a b v @ x) = writes a b v @ x" for x
    using Cons.prems(2) by (simp add: kv skip_writes skip_blanks blanks)
  show ?case
  proof (cases "kvs = []")
    case True
    then show ?thesis
      by (simp add: m kv scan_members.simps(2) member_text_def json_string_def key val sk ends_value_def)
  next
    case False
    let ?j = "py_join (44 # a) (map (member_text a b) kvs) @ 125 # r"
    have e: "scan_members m ?j = Inr (kvs, r)"
    proof (rule Cons.IH [OF _ _ False])
      show "scan_value n (writes a b v @ r) = Inr (v, r)"
        if "(k, v) \<in> set kvs" "json_fuel v \<le> n" "ends_value r" for k v n r
        using Cons.prems(1) [of k v n r] that by simp
    qed (use Cons.prems m in \<open>simp_all add: kv\<close>)
    obtain w ws where ws: "kvs = w # ws" using False by (cases kvs) auto
    have "skip_ws ?j = ?j" by (cases ws) (simp_all add: ws member_text_def json_string_def)
    then have w: "skip_ws (a @ ?j) = ?j" by (simp add: skip_blanks blanks)
    have "member_text a b (k, v) = 34 # concat (map json_char k) @ 34 # 58 # b @ writes a b v"
      by (simp add: member_text_def json_string_def)
    then show ?thesis using e w False
      by (simp add: m kv scan_members.simps(2) py_join_Cons key val sk ends_value_def)
  qed
qed simp

lemma value_scanned:
  "plain_json v \<Longrightarrow> json_fuel v \<le> n \<Longrightarrow> ends_value r \<Longrightarrow> scan_value n (writes a b v @ r) = Inr (v, r)"
proof (induction v arbitrary: n r)
  case (JInt i)
  then show ?case using number_value(1) [OF JInt.prems(3), of i] by (cases n) simp_all
next
  case (JFloat t)
  then show ?case using number_value(2) [OF JFloat.prems(3), of t] by (cases n) simp_all
next
  case (JStr s)
  then show ?case by (cases n) (simp_all add: scan_value.simps(2) json_string_def json_string_scanned)
next
  case (JArr vs)
  then obtain m where m: "n = Suc m" by (cases n) auto
  show ?case
  proof (cases "vs = []")
    case True
    then show ?thesis by (simp add: m scan_value.simps(2))
  next
    case False
    then obtain w ws where ws: "vs = w # ws" by (cases vs) auto
    have w: "plain_json w" using JArr.prems(1) ws by simp
    have e: "scan_elements m (py_join (44 # a) (map (writes a b) vs) @ 93 # r) = Inr (vs, r)"
      using JArr False by (intro elements_scanned) (auto simp: m list_all_iff)
    obtain c t where c: "py_join (44 # a) (map (writes a b) vs) @ 93 # r = c # t" "\<not> json_ws c" "c \<noteq> 93"
      using writes_head [OF w, of a b] by (cases ws) (auto simp: ws)
    show ?thesis using e c by (simp add: m scan_value.simps(2) skip_ws_def)
  qed
next
  case (JObj kvs)
  then obtain m where m: "n = Suc m" by (cases n) auto
  show ?case
  proof (cases "kvs = []")
    case True
    then show ?thesis by (simp add: m scan_value.simps(2))
  next
    case False
    have e: "scan_members m (py_join (44 # a) (map (member_text a b) kvs) @ 125 # r) = Inr (kvs, r)"
    proof (rule members_scanned [OF _ _ False])
      show "scan_value n (writes a b v @ r) = Inr (v, r)"
        if "(k, v) \<in> set kvs" "json_fuel v \<le> n" "ends_value r" for k v n r
        using JObj.IH [of "(k, v)" v n r] JObj.prems(1) that by (auto simp: list_all_iff)
    qed (use JObj.prems in \<open>simp_all add: m list_all_iff\<close>)
    have d: "dict_of kvs = kvs" using JObj.prems(1) by (simp add: dict_of_distinct)
    obtain w ws where ws: "kvs = w # ws" using False by (cases kvs) auto
    obtain t where t: "py_join (44 # a) (map (member_text a b) kvs) @ 125 # r = 34 # t"
      by (cases ws) (simp_all add: ws member_text_def json_string_def)
    have "writes a b (JObj kvs) @ r = 123 # py_join (44 # a) (map (member_text a b) kvs) @ 125 # r"
      by (simp add: member_text_pairs)
    then show ?thesis using e d t by (simp add: m scan_value.simps(2))
  qed
next
  case JNull
  then show ?case by (cases n) (simp_all add: scan_value.simps(2) scan_atom_def text_defs py_startswith_def)
next
  case (JBool x)
  then show ?case by (cases n; cases x) (simp_all add: scan_value.simps(2) scan_atom_def text_defs py_startswith_def)
qed

lemma loads_written: "plain_json v \<Longrightarrow> json_loads (writes a b v) = Inr v"
proof -
  assume p: "plain_json v"
  obtain c t where c: "writes a b v = c # t" "\<not> json_ws c" "c < 128" using writes_head [OF p] by blast
  have "scan_value (2 * length (writes a b v) + 2) (writes a b v @ []) = Inr (v, [])"
    using fuel_bound [OF p, of a b] by (intro value_scanned [OF p]) (simp_all add: ends_value_def)
  moreover have "skip_ws (writes a b v) = writes a b v" using skip_writes [OF p, of a b "[]"] by simp
  moreover have "\<not> py_startswith (writes a b v) [65279]" using c by (simp add: py_startswith_def)
  ultimately show ?thesis by (simp add: json_loads_def skip_ws_def)
qed

end

interpretation compact: blank_separators "[]" "[]"
  by unfold_locales simp_all

interpretation spaced: blank_separators "[32]" "[32]"
  by unfold_locales (simp_all add: json_ws_def)

section \<open>Sorted keys\<close>

lemma insort_map_values:
  "insort_key fst (k, f v) (map (\<lambda>(k, v). (k, f v)) kvs) = map (\<lambda>(k, v). (k, f v)) (insort_key fst (k, v) kvs)"
  by (induction kvs) auto

lemma sort_map_values: "sort_key fst (map (\<lambda>(k, v). (k, f v)) kvs) = map (\<lambda>(k, v). (k, f v)) (sort_key fst kvs)"
  by (induction kvs) (auto simp: insort_map_values)

lemma map_fst_insort: "map fst (insort_key fst kv kvs) = insort (fst kv) (map fst kvs)"
  by (induction kvs) auto

lemma map_fst_sort: "map fst (sort_key fst kvs) = sort (map fst kvs)"
  by (induction kvs) (auto simp: map_fst_insort)

lemma dumps_stable_canonical: "dumps_stable v = dumps_compact (canonical v)"
proof (induction v)
  case (JArr vs)
  then have "map dumps_stable vs = map dumps_compact (map canonical vs)" by simp
  then show ?case unfolding dumps_stable.simps canonical.simps dumps_plain.simps by (rule arg_cong)
next
  case (JObj kvs)
  have e: "dumps_stable (snd kv) = dumps_compact (canonical (snd kv))" if "kv \<in> set (sort_key fst kvs)" for kv
    using JObj [of kv "snd kv"] that by (cases kv) auto
  then have "py_join [44] (map (\<lambda>x. json_string (fst x) @ 58 # dumps_stable (snd x)) (sort_key fst kvs))
      = py_join [44] (map (\<lambda>x. json_string (fst x) @ 58 # dumps_compact (canonical (snd x))) (sort_key fst kvs))"
    by (intro arg_cong [where f = "py_join [44]"]) simp
  then show ?case unfolding dumps_stable.simps canonical.simps dumps_plain.simps sort_map_values map_map
    by (simp add: comp_def case_prod_unfold)
qed simp_all

lemma plain_canonical: "plain_json v \<Longrightarrow> plain_json (canonical v)"
proof (induction v)
  case (JObj kvs)
  have "distinct (map fst (sort_key fst (map (\<lambda>(k, v). (k, canonical v)) kvs)))"
    unfolding map_fst_sort using JObj.prems by (simp add: comp_def case_prod_unfold)
  moreover have "scalar_text k \<and> plain_json (canonical v)" if "(k, v) \<in> set kvs" for k v
    using JObj.IH [of "(k, v)" v] JObj.prems that by (auto simp: list_all_iff)
  ultimately show ?case by (auto simp: list_all_iff)
qed (simp_all add: list_all_iff)

lemma loads_dumps_stable: "plain_json v \<Longrightarrow> json_loads (dumps_stable v) = Inr (canonical v)"
  unfolding dumps_stable_canonical by (intro compact.loads_written plain_canonical)

end
