(* ===== verification/Reports.thy ===== *)
theory Reports
  imports ScanPersist JsonRoundTrip
begin

text \<open>
  Reports: the assembler that reads one scan out of the database (\<open>reporting/assembler.py\<close>) and the JSON and
  CSV formatters (\<open>reporting/export_formatters\<close>), with the writer of the \<open>csv\<close> module (dialect excel) and a
  reader for RFC 4180 to compare it with.
\<close>

section \<open>The document\<close>

record report_scan =
  rsc_target_hostname :: pystr
  rsc_target_normalized_url :: pystr
  rsc_scan_id :: uuid
  rsc_scan_profile :: pystr
  rsc_scan_status :: pystr
  rsc_initiated_by_user_id :: uuid
  rsc_queued_at :: "timestamp option"
  rsc_started_at :: "timestamp option"
  rsc_completed_at :: "timestamp option"

record report_engine =
  ren_engine_code :: pystr
  ren_tool_version_snapshot :: pystr
  ren_status :: pystr
  ren_started_at :: "timestamp option"
  ren_completed_at :: "timestamp option"
  ren_error_message :: "pystr option"

record report_finding =
  rfi_id :: uuid
  rfi_severity :: pystr
  rfi_category :: pystr
  rfi_title :: pystr
  rfi_description :: pystr
  rfi_evidence :: pystr
  rfi_location :: pystr
  rfi_recommendation :: pystr
  rfi_fingerprint :: "pystr option"
  rfi_affected_asset :: "pystr option"
  rfi_source_engine_code :: "pystr option"
  rfi_evidence_rows :: "json list"
  rfi_explanation :: "json pydict option"

record report_assessment =
  ras_available :: bool
  ras_provider :: pystr
  ras_model :: pystr
  ras_prompt_schema_version :: pystr
  ras_output_schema_version :: pystr
  ras_failure_kind :: "pystr option"
  ras_unsupported_claim_count :: int
  ras_overall_summary :: pystr
  ras_priority :: "pystr option"
  ras_payload :: "json pydict"

record report_document =
  rd_schema_version :: pystr
  rd_generated_at :: timestamp
  rd_scan :: report_scan
  rd_engines :: "report_engine list"
  rd_findings :: "report_finding list"
  rd_assessment :: "report_assessment option"
  rd_severity_counts :: "(pystr \<times> int) list"
  rd_lifecycle_counts :: "(pystr \<times> int) list"

definition report_schema_version :: pystr where
  "report_schema_version = u ''sgpt.report.v1''"

definition opt_time :: "timestamp option \<Rightarrow> json" where
  "opt_time t = opt_text (map_option isoformat t)"

definition counts_json :: "(pystr \<times> int) list \<Rightarrow> json" where
  "counts_json counts = JObj (map (\<lambda>(k, n). (k, JInt n)) (sort_key fst counts))"

definition report_engine_json :: "report_engine \<Rightarrow> json" where
  "report_engine_json e = JObj
     [(u ''engine_code'', JStr (ren_engine_code e)),
      (u ''tool_version_snapshot'', JStr (ren_tool_version_snapshot e)), (u ''status'', JStr (ren_status e)),
      (u ''started_at'', opt_time (ren_started_at e)), (u ''completed_at'', opt_time (ren_completed_at e)),
      (u ''error_message'', opt_text (ren_error_message e))]"

definition report_finding_json :: "report_finding \<Rightarrow> json" where
  "report_finding_json f = JObj
     [(u ''id'', JStr (uuid_text (rfi_id f))), (u ''severity'', JStr (rfi_severity f)),
      (u ''category'', JStr (rfi_category f)), (u ''title'', JStr (rfi_title f)),
      (u ''description'', JStr (rfi_description f)), (u ''evidence'', JStr (rfi_evidence f)),
      (u ''location'', JStr (rfi_location f)), (u ''recommendation'', JStr (rfi_recommendation f)),
      (u ''fingerprint'', opt_text (rfi_fingerprint f)), (u ''affected_asset'', opt_text (rfi_affected_asset f)),
      (u ''source_engine_code'', opt_text (rfi_source_engine_code f)),
      (u ''evidence_rows'', JArr (rfi_evidence_rows f)),
      (u ''explanation'', case rfi_explanation f of None \<Rightarrow> JNull | Some x \<Rightarrow> JObj x)]"

definition report_assessment_json :: "report_assessment \<Rightarrow> json" where
  "report_assessment_json a = JObj
     [(u ''available'', JBool (ras_available a)), (u ''provider'', JStr (ras_provider a)),
      (u ''model'', JStr (ras_model a)), (u ''prompt_schema_version'', JStr (ras_prompt_schema_version a)),
      (u ''output_schema_version'', JStr (ras_output_schema_version a)),
      (u ''failure_kind'', opt_text (ras_failure_kind a)),
      (u ''unsupported_claim_count'', JInt (ras_unsupported_claim_count a)),
      (u ''overall_summary'', JStr (ras_overall_summary a)), (u ''priority'', opt_text (ras_priority a)),
      (u ''payload'', JObj (ras_payload a))]"

definition report_scan_json :: "report_scan \<Rightarrow> json" where
  "report_scan_json s = JObj
     [(u ''id'', JStr (uuid_text (rsc_scan_id s))), (u ''target_hostname'', JStr (rsc_target_hostname s)),
      (u ''target_normalized_url'', JStr (rsc_target_normalized_url s)),
      (u ''scan_profile'', JStr (rsc_scan_profile s)), (u ''status'', JStr (rsc_scan_status s)),
      (u ''initiated_by_user_id'', JStr (uuid_text (rsc_initiated_by_user_id s))),
      (u ''queued_at'', opt_time (rsc_queued_at s)), (u ''started_at'', opt_time (rsc_started_at s)),
      (u ''completed_at'', opt_time (rsc_completed_at s))]"

definition document_json :: "report_document \<Rightarrow> json" where
  "document_json doc = JObj
     [(u ''schema_version'', JStr (rd_schema_version doc)),
      (u ''generated_at'', JStr (isoformat (rd_generated_at doc))), (u ''scan'', report_scan_json (rd_scan doc)),
      (u ''engines'', JArr (map report_engine_json (rd_engines doc))),
      (u ''severity_counts'', counts_json (rd_severity_counts doc)),
      (u ''lifecycle_counts'', counts_json (rd_lifecycle_counts doc)),
      (u ''findings'', JArr (map report_finding_json (rd_findings doc))),
      (u ''assessment'', case rd_assessment doc of None \<Rightarrow> JNull | Some a \<Rightarrow> report_assessment_json a)]"

section \<open>The assembler\<close>

fun execution_status_text :: "execution_status \<Rightarrow> pystr" where
  "execution_status_text PENDING = u ''PENDING''"
| "execution_status_text EXEC_RUNNING = u ''RUNNING''"
| "execution_status_text SUCCEEDED = u ''SUCCEEDED''"
| "execution_status_text FAILED = u ''FAILED''"
| "execution_status_text TIMED_OUT = u ''TIMED_OUT''"

text \<open>\<open>ORDER BY started_at ASC NULLS LAST\<close>\<close>

definition nulls_last :: "('r \<Rightarrow> timestamp option) \<Rightarrow> 'r list \<Rightarrow> 'r list" where
  "nulls_last key rs = sort_key (\<lambda>r. the (key r)) (filter (\<lambda>r. key r \<noteq> None) rs) @ filter (\<lambda>r. key r = None) rs"

definition report_engines :: "db \<Rightarrow> uuid \<Rightarrow> report_engine list" where
  "report_engines d scan_id =
     List.map_filter (\<lambda>e.
       map_option (\<lambda>code.
         \<lparr>ren_engine_code = code, ren_tool_version_snapshot = ex_tool_version_snapshot e,
          ren_status = execution_status_text (ex_status e), ren_started_at = ex_started_at e,
          ren_completed_at = ex_completed_at e, ren_error_message = ex_error_message e\<rparr>)
         (code_of_id (scan_engines d) (ex_scan_engine_id e)))
       (nulls_last ex_started_at (select_where (\<lambda>e. ex_scan_id e = scan_id) (executions d)))"

definition report_finding_of :: "db \<Rightarrow> finding_row \<Rightarrow> report_finding option" where
  "report_finding_of d f =
     (case (category_code d f, severity_code d f) of
        (Some cat, Some sev) \<Rightarrow>
          Some \<lparr>rfi_id = fi_id f, rfi_severity = sev, rfi_category = cat, rfi_title = fi_title f,
            rfi_description = fi_description f, rfi_evidence = fi_evidence f, rfi_location = fi_location f,
            rfi_recommendation = fi_recommendation f, rfi_fingerprint = fi_fingerprint f,
            rfi_affected_asset = fi_affected_asset f, rfi_source_engine_code = fi_source_engine_code f,
            rfi_evidence_rows = map evidence_json (sort_key ev_created_at
              (select_where (\<lambda>e. ev_finding_id e = fi_id f) (finding_evidence d))),
            rfi_explanation = None\<rparr>
      | _ \<Rightarrow> None)"

definition report_findings :: "db \<Rightarrow> uuid \<Rightarrow> report_finding list" where
  "report_findings d scan_id = List.map_filter (report_finding_of d) (list_findings d scan_id)"

text \<open>
  \<open>dict(row.payload or {})\<close>: the column holds the object \<open>upsert_ai_assessment\<close> stored; what is no object and
  not falsy is refused by \<open>dict\<close>.
\<close>

fun payload_dict :: "json \<Rightarrow> json pydict result" where
  "payload_dict (JObj kvs) = Inr kvs"
| "payload_dict JNull = Inr []"
| "payload_dict (JBool b) = (if b then Inl (OtherException (u ''TypeError'')) else Inr [])"
| "payload_dict (JInt i) = (if i \<noteq> 0 then Inl (OtherException (u ''TypeError'')) else Inr [])"
| "payload_dict (JStr s) = (if s \<noteq> [] then Inl ValueError else Inr [])"
| "payload_dict (JArr vs) = (if vs \<noteq> [] then Inl (OtherException (u ''TypeError'')) else Inr [])"
| "payload_dict (JFloat t) = Inl (OtherException (u ''TypeError''))"

fun text_unless_null :: "json \<Rightarrow> pystr option" where
  "text_unless_null JNull = None"
| "text_unless_null v = Some (str_value v)"

definition report_assessment_of :: "db \<Rightarrow> uuid \<Rightarrow> report_assessment option result" where
  "report_assessment_of d scan_id =
     (case get_assessment d scan_id of
        None \<Rightarrow> Inr None
      | Some r \<Rightarrow>
          bindE (payload_dict (as_payload r)) (\<lambda>payload.
            Inr (Some \<lparr>ras_available = as_is_available r, ras_provider = as_provider r, ras_model = as_model r,
              ras_prompt_schema_version = as_prompt_schema_version r,
              ras_output_schema_version = as_output_schema_version r, ras_failure_kind = as_failure_kind r,
              ras_unsupported_claim_count = as_unsupported_claim_count r,
              ras_overall_summary = str_value (dict_default payload (u ''overall_summary'') (JStr [])),
              ras_priority = text_unless_null (dict_default payload (u ''priority'') JNull),
              ras_payload = payload\<rparr>)))"

definition count_into :: "pystr list \<Rightarrow> (pystr \<times> int) list" where
  "count_into ks = fold (\<lambda>k counts. dict_set k (dict_default counts k 0 + 1) counts) ks []"

definition report_lifecycle_counts :: "db \<Rightarrow> uuid \<Rightarrow> pystr option list \<Rightarrow> (pystr \<times> int) list" where
  "report_lifecycle_counts d target_id fingerprints =
     (let fps = filter (\<lambda>fp. fp \<noteq> []) (List.map_filter id fingerprints)
      in if fps = [] then [] else count_into (map snd (latest_status_map d target_id (set fps))))"

definition assemble :: "timestamp \<Rightarrow> uuid \<Rightarrow> db \<Rightarrow> report_document option result" where
  "assemble now scan_id d =
     (case session_get sc_id (scans d) scan_id of
        None \<Rightarrow> Inr None
      | Some s \<Rightarrow>
          (let target = session_get tg_id (targets d) (sc_target_id s);
               fs = report_findings d scan_id
           in bindE (report_assessment_of d scan_id) (\<lambda>a.
              Inr (Some
                \<lparr>rd_schema_version = report_schema_version, rd_generated_at = now,
                 rd_scan =
                   \<lparr>rsc_target_hostname = (case target of None \<Rightarrow> [] | Some t \<Rightarrow> tg_hostname t),
                    rsc_target_normalized_url = (case target of None \<Rightarrow> [] | Some t \<Rightarrow> tg_normalized_url t),
                    rsc_scan_id = sc_id s,
                    rsc_scan_profile = (case code_of_id (scan_profiles d) (sc_scan_profile_id s) of
                       None \<Rightarrow> u ''unknown'' | Some c \<Rightarrow> c),
                    rsc_scan_status = status_text (sc_status s),
                    rsc_initiated_by_user_id = sc_initiated_by_user_id s, rsc_queued_at = sc_queued_at s,
                    rsc_started_at = sc_started_at s, rsc_completed_at = sc_completed_at s\<rparr>,
                 rd_engines = report_engines d scan_id, rd_findings = fs, rd_assessment = a,
                 rd_severity_counts = count_into (map rfi_severity fs),
                 rd_lifecycle_counts = report_lifecycle_counts d (sc_target_id s) (map rfi_fingerprint fs)\<rparr>))))"

section \<open>JSON export\<close>

definition render_json_report :: "report_document \<Rightarrow> pystr" where
  "render_json_report doc = dumps_stable (document_json doc)"

section \<open>CSV export\<close>

definition csv_columns :: "string list" where
  "csv_columns =
     [''scan_id'', ''scan_status'', ''scan_profile'', ''target_hostname'', ''finding_id'', ''severity'', ''category'',
      ''title'', ''affected_asset'', ''source_engine'', ''fingerprint'', ''lifecycle_status'',
      ''explanation_validation_status'', ''explanation_summary'', ''remediation_summary'']"

definition spaces_for :: "nat set \<Rightarrow> pystr \<Rightarrow> pystr" where
  "spaces_for cs s = map (\<lambda>c. if c \<in> cs then 32 else c) s"

definition explanation_summary :: "json pydict option \<Rightarrow> pystr" where
  "explanation_summary x =
     (case x of
        None \<Rightarrow> []
      | Some kvs \<Rightarrow>
          if kvs = [] then []
          else (case dict_default kvs (u ''explanation_text'') (JStr []) of
                  JStr t \<Rightarrow> py_strip (spaces_for {10, 13} t) | _ \<Rightarrow> []))"

definition remediation_summary :: "json pydict option \<Rightarrow> pystr" where
  "remediation_summary x =
     (case x of
        None \<Rightarrow> []
      | Some kvs \<Rightarrow>
          (case dict_default kvs (u ''remediation'') JNull of
             JObj r \<Rightarrow>
               (let summary = (case dict_default r (u ''summary'') (JStr []) of JStr s \<Rightarrow> if s = [] then [] else [s] | _ \<Rightarrow> []);
                    steps = (case dict_default r (u ''steps'') JNull of JArr vs \<Rightarrow> strs_of vs | _ \<Rightarrow> [])
                in py_strip (spaces_for {10} (py_join (u '' | '') (summary @ steps))))
           | _ \<Rightarrow> []))"

definition csv_lifecycle_status :: "pystr option \<Rightarrow> (pystr \<times> int) list \<Rightarrow> pystr" where
  "csv_lifecycle_status fingerprint lifecycle_counts = []"

definition or_empty :: "pystr option \<Rightarrow> pystr" where
  "or_empty t = (case t of None \<Rightarrow> [] | Some s \<Rightarrow> s)"

definition csv_cells :: "report_document \<Rightarrow> report_finding \<Rightarrow> pystr list" where
  "csv_cells doc f =
     [uuid_text (rsc_scan_id (rd_scan doc)), rsc_scan_status (rd_scan doc), rsc_scan_profile (rd_scan doc),
      rsc_target_hostname (rd_scan doc), uuid_text (rfi_id f), rfi_severity f, rfi_category f, rfi_title f,
      or_empty (rfi_affected_asset f), or_empty (rfi_source_engine_code f), or_empty (rfi_fingerprint f),
      csv_lifecycle_status (rfi_fingerprint f) (rd_lifecycle_counts doc),
      (case rfi_explanation f of
         None \<Rightarrow> []
       | Some kvs \<Rightarrow> if kvs = [] then [] else str_value (dict_default kvs (u ''validation_status'') (JStr []))),
      explanation_summary (rfi_explanation f), remediation_summary (rfi_explanation f)]"

text \<open>
  \<open>csv.writer\<close> with dialect excel (\<open>QUOTE_MINIMAL\<close>): a field is quoted when it contains the delimiter, the
  quote character or a character of a line end, and quotes are doubled.
\<close>

definition csv_special :: "nat \<Rightarrow> bool" where
  "csv_special c \<longleftrightarrow> c \<in> {44, 34, 10, 13}"

definition csv_field :: "pystr \<Rightarrow> pystr" where
  "csv_field s =
     (if list_ex csv_special s then 34 # concat (map (\<lambda>c. if c = 34 then [34, 34] else [c]) s) @ [34] else s)"

text \<open>A row with a single empty field is written as \<open>""\<close>.\<close>

definition csv_row :: "pystr list \<Rightarrow> pystr" where
  "csv_row cells = (if cells = [[]] then [34, 34] else py_join [44] (map csv_field cells)) @ [13, 10]"

definition render_csv_report :: "report_document \<Rightarrow> pystr" where
  "render_csv_report doc =
     concat (map csv_row (map u csv_columns # map (csv_cells doc) (rd_findings doc)))"

section \<open>Reading CSV\<close>

text \<open>
  RFC 4180: fields separated by commas, records ended by CRLF, a field that begins with a quote runs to the
  closing quote, two quotes in it stand for one.
\<close>

datatype csv_state = FieldStart | Unquoted | Quoted | QuoteInQuoted | AfterCR

fun csv_read :: "csv_state \<Rightarrow> pystr \<Rightarrow> pystr list \<Rightarrow> pystr \<Rightarrow> pystr list list" where
  "csv_read st f row [] = (if st = FieldStart \<and> row = [] then [] else [row @ [f]])"
| "csv_read st f row (c # cs) =
     (case st of
        Quoted \<Rightarrow> if c = 34 then csv_read QuoteInQuoted f row cs else csv_read Quoted (f @ [c]) row cs
      | AfterCR \<Rightarrow> (row @ [f]) # csv_read FieldStart [] [] cs
      | _ \<Rightarrow>
          if c = 44 then csv_read FieldStart [] (row @ [f]) cs
          else if c = 13 then csv_read AfterCR f row cs
          else if c = 34 then
            (if st = FieldStart then csv_read Quoted [] row cs
             else if st = QuoteInQuoted then csv_read Quoted (f @ [34]) row cs
             else csv_read st (f @ [34]) row cs)
          else csv_read Unquoted (f @ [c]) row cs)"

definition csv_records :: "pystr \<Rightarrow> pystr list list" where
  "csv_records s = csv_read FieldStart [] [] s"

lemma read_plain:
  "\<not> list_ex csv_special s \<Longrightarrow> st \<in> {FieldStart, Unquoted} \<Longrightarrow>
     \<exists>st' \<in> {FieldStart, Unquoted}. csv_read st f row (s @ r) = csv_read st' (f @ s) row r"
proof (induction s arbitrary: st f)
  case Nil
  then show ?case by auto
next
  case (Cons c s)
  then have "\<exists>st' \<in> {FieldStart, Unquoted}. csv_read Unquoted (f @ [c]) row (s @ r) = csv_read st' (f @ [c] @ s) row r"
    using Cons.IH [of Unquoted "f @ [c]"] by simp
  with Cons.prems show ?case by (auto simp: csv_special_def)
qed

lemma read_quoted:
  "csv_read Quoted f row (concat (map (\<lambda>c. if c = 34 then [34, 34] else [c]) s) @ 34 # r)
     = csv_read QuoteInQuoted (f @ s) row r"
  by (induction s arbitrary: f) simp_all

lemma read_field:
  "csv_read FieldStart [] row (csv_field s @ 44 # r) = csv_read FieldStart [] (row @ [s]) r"
  "csv_read FieldStart [] row (csv_field s @ 13 # 10 # r) = (row @ [s]) # csv_read FieldStart [] [] r"
proof -
  have "\<exists>st \<in> {FieldStart, Unquoted, QuoteInQuoted}. csv_read FieldStart [] row (csv_field s @ q) = csv_read st s row q" for q
    using read_plain [of s FieldStart "[]" row q] read_quoted [of "[]" row s q] by (auto simp: csv_field_def)
  from this [of "44 # r"] this [of "13 # 10 # r"]
  show "csv_read FieldStart [] row (csv_field s @ 44 # r) = csv_read FieldStart [] (row @ [s]) r"
    "csv_read FieldStart [] row (csv_field s @ 13 # 10 # r) = (row @ [s]) # csv_read FieldStart [] [] r" by auto
qed

lemma read_cells:
  "cells \<noteq> [] \<Longrightarrow> csv_read FieldStart [] row (py_join [44] (map csv_field cells) @ 13 # 10 # r)
     = (row @ cells) # csv_read FieldStart [] [] r"
proof (induction cells arbitrary: row)
  case (Cons s cells)
  then show ?case by (cases cells) (simp_all add: read_field)
qed simp

lemma read_row: "cells \<noteq> [] \<Longrightarrow> csv_read FieldStart [] [] (csv_row cells @ r) = cells # csv_read FieldStart [] [] r"
  using read_cells [of cells "[]" r] by (auto simp: csv_row_def)

lemma read_rows: "\<forall>cells \<in> set rows. cells \<noteq> [] \<Longrightarrow> csv_records (concat (map csv_row rows)) = rows"
proof (induction rows)
  case (Cons cells rows)
  then have "csv_read FieldStart [] [] (concat (map csv_row rows)) = rows" by (simp add: csv_records_def)
  with Cons.prems show ?case by (simp add: csv_records_def read_row)
qed (simp add: csv_records_def)

section \<open>Counts\<close>

lemma dict_default_set: "dict_default (dict_set k v d) j x = (if j = k then v else dict_default d j x)"
  by (simp add: dict_default_def update_conv')

lemma count_fold:
  "dict_default (fold (\<lambda>k counts. dict_set k (dict_default counts k 0 + 1) counts) ks d) k (0::int)
     = dict_default d k 0 + int (count_list ks k)"
  by (induction ks arbitrary: d) (auto simp: dict_default_set)

lemma count_into_count: "dict_default (count_into ks) k 0 = int (count_list ks k)"
  using count_fold [of ks "[]" k] by (simp add: count_into_def dict_default_def)


section \<open>Properties\<close>

text \<open>C36 [csv_report_reads_back]: whatever texts a report contains (commas, quotes, line ends), a reader for RFC 4180 gets from
  the CSV export exactly the header and one row per finding with the document's values; every row has the
  15 columns of the header.\<close>

theorem csv_report_reads_back:
  "csv_records (render_csv_report doc) = map u csv_columns # map (csv_cells doc) (rd_findings doc)
    \<and> length (map u csv_columns) = 15 \<and> (\<forall>f. length (csv_cells doc f) = 15)"
proof -
  have "\<forall>cells \<in> set (map u csv_columns # map (csv_cells doc) (rd_findings doc)). cells \<noteq> []"
    by (auto simp: csv_columns_def csv_cells_def)
  from read_rows [OF this] show ?thesis unfolding render_csv_report_def
    by (intro conjI allI) (simp_all only:, simp_all add: csv_columns_def csv_cells_def)
qed

text \<open>Parsing the JSON export gives back the report's document, with the keys of every object in
  sorted order: nothing is lost or changed by the text form, whatever characters the texts contain.\<close>

theorem json_report_reads_back:
  assumes "plain_json (document_json doc)"
  shows "json_loads (render_json_report doc) = Inr (canonical (document_json doc))"
  unfolding render_json_report_def by (rule loads_dumps_stable [OF assms])

lemma report_finding_row:
  assumes "report_finding_of d r = Some f"
  shows "rfi_id f = fi_id r \<and> severity_code d r = Some (rfi_severity f) \<and> category_code d r = Some (rfi_category f)
    \<and> rfi_title f = fi_title r \<and> rfi_evidence f = fi_evidence r \<and> rfi_fingerprint f = fi_fingerprint r \<and> rfi_explanation f = None"
  using assms by (auto simp: report_finding_of_def split: option.splits)

lemma list_findings_in: "r \<in> set (list_findings d i) \<longleftrightarrow> r \<in> set (scan_findings d) \<and> belongs_to_scan d i (fi_execution_id r)"
  by (auto simp: list_findings_def)


section \<open>Witness\<close>

definition example_report :: db where
  "example_report = example_tenants
     \<lparr>scans := [new_scan_row 35 20 1 1 30 None 8],
      executions := [\<lparr>ex_id = 36, ex_scan_id = 35, ex_scan_engine_id = 4, ex_tool_version_snapshot = [49],
        ex_status = SUCCEEDED, ex_started_at = Some 9, ex_completed_at = Some 10, ex_error_message = None\<rparr>],
      scan_findings := [\<lparr>fi_id = 37, fi_execution_id = 36, fi_category_id = 1, fi_severity_id = 1, fi_title = u ''t'',
        fi_description = [], fi_evidence = [], fi_location = [47], fi_recommendation = [],
        fi_fingerprint = Some (u ''ab''), fi_target_id = Some 20, fi_scan_id = Some 35, fi_source_engine_code = None,
        fi_affected_asset = None, fi_created_at = 10\<rparr>]\<rparr>"

lemmas example_report_simps = example_report_def example_tenants_simps new_scan_row_def

lemma example_findings:
  "list_findings example_report 35 = scan_findings example_report"
  "map (category_code example_report) (scan_findings example_report) = [Some (u ''MISSING_SECURITY_HEADER'')]"
  "map (severity_code example_report) (scan_findings example_report) = [Some (u ''LOW'')]"
  by (simp_all add: example_report_simps list_findings_def belongs_to_scan_def category_code_def severity_code_def
      code_of_id_def)


definition example_document :: report_document where
  "example_document =
     \<lparr>rd_schema_version = report_schema_version, rd_generated_at = 0,
      rd_scan = \<lparr>rsc_target_hostname = u ''h'', rsc_target_normalized_url = u ''http://h/'', rsc_scan_id = 35,
        rsc_scan_profile = u ''quick-check'', rsc_scan_status = u ''QUEUED'', rsc_initiated_by_user_id = 1,
        rsc_queued_at = None, rsc_started_at = None, rsc_completed_at = None\<rparr>,
      rd_engines = [], rd_findings = [], rd_assessment = None, rd_severity_counts = [(u ''LOW'', 2)], rd_lifecycle_counts = []\<rparr>"

theorem json_report_reads_back_witness:
  "json_loads (render_json_report example_document) = Inr (canonical (document_json example_document))"
proof (rule json_report_reads_back)
  have "length (nat_to_text 2) \<le> 4300" by code_simp
  then show "plain_json (document_json example_document)"
    by (simp add: document_json_def report_scan_json_def counts_json_def opt_time_def opt_text_def example_document_def
        report_schema_version_def)
qed

end
