(* ===== verification/AuditTrail.thy ===== *)
theory AuditTrail
  imports ScanPersist
begin

text \<open>
  The audit trail over the whole application: \<open>trail_operation\<close> lists what the services, the background job
  and the audit routes do to the database (each as one committed step), and the trail is append-only for
  all of them.
\<close>

section \<open>The steps\<close>

text \<open>A request that changes the database when it succeeds and is rolled back when it raises.\<close>

definition committed :: "(db \<Rightarrow> ('a \<times> db) result) \<Rightarrow> db \<Rightarrow> db" where
  "committed f d = snd (run_request f d)"

lemma committed_cases: "committed f d = d \<or> (\<exists>x. f d = Inr (x, committed f d))"
  by (auto simp: committed_def run_request_def split: sum.splits)

inductive trail_operation :: "(db \<Rightarrow> db) \<Rightarrow> bool" where
  organization: "trail_operation (committed (create_organization p now name))"
| member_added: "trail_operation (committed (add_member p now org user role))"
| role_changed: "trail_operation (committed (change_role p org user role))"
| member_removed: "trail_operation (committed (remove_member p org user))"
| target_registered: "trail_operation (committed (register_target p now hostname url owner))"
| target_archived: "trail_operation (committed (archive_target p i))"
| archive_set: "trail_operation (committed (set_archived p i b))"
| attested: "trail_operation (committed (create_self_attestation p now i expires evidence))"
| revoked: "trail_operation (committed (revoke_attestation p now i reason))"
| trail_read: "trail_operation (\<lambda>d. snd (query_entries p q limit now d))"
| entry_read: "trail_operation (\<lambda>d. snd (get_entry i p now d))"
| scan_created: "trail_operation (committed (create_scan pr clock i profile))"
| scan_repeated: "trail_operation (committed (rescan_scan pr clock i))"
| scan_cancelled: "trail_operation (committed (cancel_scan pr now i))"
| scan_moved: "trail_operation (\<lambda>d. snd (try_transition i a b started completed d))"
| execution_started: "trail_operation (\<lambda>d. snd (create_execution i engine version status started d))"
| execution_marked: "trail_operation (mark_execution i execution_status now err)"
| findings_stored: "trail_operation (committed (\<lambda>d. map_sum id (Pair ()) (persist_findings now i fs d)))"
| assessment_stored: "trail_operation (upsert_ai_assessment now i v)"
| event_recorded: "trail_operation (\<lambda>d. snd (record_audit code entity i metadata actor now d))"

section \<open>What each step adds\<close>

lemma organization_log: "create_organization p now name d = Inr (x, d') \<Longrightarrow> audit_log d' = audit_log d"
  by (auto simp: create_organization_def insert_membership_def uuid4_def Let_def bindE_Inr_iff split: if_splits)

lemma membership_log:
  "add_member p now org user role d = Inr (x, d') \<Longrightarrow> audit_log d' = audit_log d"
  "change_role p org user role d = Inr (x, d') \<Longrightarrow> audit_log d' = audit_log d"
  "remove_member p org user d = Inr (y, d') \<Longrightarrow> audit_log d' = audit_log d"
  by (auto simp: add_member_def insert_membership_def change_role_def remove_member_def uuid4_def Let_def bindE_Inr_iff
      split: if_splits option.splits)

lemma target_log:
  "register_target p now h url owner d = Inr (x, d') \<Longrightarrow> audit_log d' = audit_log d"
  "archive_target p i d = Inr (y, d') \<Longrightarrow> audit_log d' = audit_log d"
  "set_archived p i b d = Inr (x, d') \<Longrightarrow> audit_log d' = audit_log d"
  by (auto simp: register_target_def archive_target_def set_archived_def update_target_def uuid4_def Let_def bindE_Inr_iff
      split: if_splits option.splits)

lemma attestation_log:
  "create_self_attestation p now i e f d = Inr (x, d') \<Longrightarrow> \<exists>es. audit_log d' = audit_log d @ es"
  "revoke_attestation p now i reason d = Inr (x, d') \<Longrightarrow> \<exists>es. audit_log d' = audit_log d @ es"
  by (auto simp: create_self_attestation_def revoke_attestation_def record_audit_log case_prod_beta Let_def bindE_Inr_iff)

lemma reading_log:
  "\<exists>es. audit_log (snd (query_entries p q limit now d)) = audit_log d @ es"
  "\<exists>es. audit_log (snd (get_entry i p now d)) = audit_log d @ es"
  by (auto simp: query_entries_db get_entry_cases record_audit_log split: option.splits)

lemma scan_request_log:
  "create_scan pr clock i profile d = Inr (x, d') \<Longrightarrow> \<exists>es. audit_log d' = audit_log d @ es"
  "rescan_scan pr clock i d = Inr (x, d') \<Longrightarrow> \<exists>es. audit_log d' = audit_log d @ es"
  by (auto simp: create_scan_def rescan_scan_def add_scan_def record_audit_log case_prod_beta Let_def bindE_Inr_iff
      split: if_splits)

lemma cancel_log: "cancel_scan pr now i d = Inr (x, d') \<Longrightarrow> audit_log d' = audit_log d"
  by (auto simp: cancel_scan_def case_prod_beta Let_def bindE_Inr_iff split: if_splits option.splits)

lemma persist_findings_log: "persist_findings now i fs d = Inr d' \<Longrightarrow> audit_log d' = audit_log d"
  using persist_findings_frame by blast

lemma storing_log:
  "audit_log (snd (create_execution i engine version status started d)) = audit_log d"
  "audit_log (mark_execution i st now err d) = audit_log d"
  "audit_log (upsert_ai_assessment now i v d) = audit_log d"
  by (simp_all add: create_execution_def mark_execution_def upsert_ai_assessment_def uuid4_def Let_def split: option.splits)

lemma committed_log:
  assumes "\<And>x d'. f d = Inr (x, d') \<Longrightarrow> \<exists>es. audit_log d' = audit_log d @ es"
  shows "\<exists>es. audit_log (committed f d) = audit_log d @ es"
  using committed_cases [of f d] assms by fastforce

lemma committed_log_same:
  assumes "\<And>x d'. f d = Inr (x, d') \<Longrightarrow> audit_log d' = audit_log d"
  shows "\<exists>es. audit_log (committed f d) = audit_log d @ es"
  using committed_cases [of f d] assms by fastforce

interpretation trail: append_only_log audit_log trail_operation
proof unfold_locales
  fix f :: "db \<Rightarrow> db" and d :: db
  assume "trail_operation f"
  then show "\<exists>es. audit_log (f d) = audit_log d @ es"
  proof cases
    case (findings_stored now i fs)
    then show ?thesis
      by (simp only:) (rule committed_log_same, auto simp: map_sum_def dest: persist_findings_log split: sum.splits)
  next
    case (member_removed p org user)
    then show ?thesis by (simp only:) (rule committed_log_same, erule membership_log)
  next
    case (target_archived p i)
    then show ?thesis by (simp only:) (rule committed_log_same, erule target_log)
  qed (simp_all add: committed_log_same committed_log organization_log membership_log target_log attestation_log reading_log
      scan_request_log cancel_log storing_log record_audit_log)
qed

section \<open>Properties\<close>

text \<open>C12 [audit_trail_append_only]: whatever sequence of service calls, job steps and audit reads runs, every
  entry of the audit trail stays what and where it was; only the two audit-reading calls and the calls
  that request scans or change attestations add to it.\<close>

theorem audit_trail_append_only:
  assumes "list_all trail_operation fs" and "i < length (audit_log d)"
  shows "audit_log (run_all fs d) ! i = audit_log d ! i \<and> length (audit_log d) \<le> length (audit_log (run_all fs d))"
  using trail.entry_stays [OF assms] trail.all_append [OF assms(1), of d] by auto

definition example_trail :: db where
  "example_trail = snd (record_audit (u ''X'') (u ''y'') 1 [] None 0 example_tenants)"

lemma example_trail_log: "audit_log example_trail = [\<lparr>al_id = 40, al_actor_user_id = None, al_action_code = u ''X'',
    al_entity_type = u ''y'', al_entity_id = 1, al_metadata_json = [], al_occurred_at = 0\<rparr>]"
  by (simp add: example_trail_def record_audit_eq Let_def example_tenants_simps)

theorem audit_trail_append_only_witness:
  "al_action_code (audit_log (run_all [committed (revoke_attestation 1 50 30 []), committed (create_scan (Some 1) int 20 []),
      committed (cancel_scan (Some 1) 60 41)] example_trail) ! 0) = u ''X''"
proof -
  have "list_all trail_operation [committed (revoke_attestation 1 50 30 []), committed (create_scan (Some 1) int 20 []),
      committed (cancel_scan (Some 1) 60 41)]"
    by (simp add: trail_operation.intros)
  from audit_trail_append_only [OF this, of 0 example_trail] show ?thesis
    unfolding example_trail_log by simp
qed

end
