(* ===== verification/Evidence.thy ===== *)
theory Evidence
  imports HttpAnalysis "HOL-Library.Multiset"
begin

text \<open>
  The evidence handed to the AI layer (\<open>domain/scanning/analysis/evidence.py\<close>) and its deterministic
  clustering (\<open>correlation.py\<close>).
\<close>

section \<open>The evidence set\<close>

definition evidence_schema_version :: pystr where "evidence_schema_version = u ''sgpt.evidence.v1''"

record evidence_set =
  es_schema_version :: pystr
  es_evidence_set_id :: pystr
  es_engine_name :: pystr
  es_engine_version :: pystr
  es_target_hostname :: pystr
  es_request_scheme :: pystr
  es_request_port :: int
  es_request_path :: pystr
  es_status :: "int option"
  es_redirect_count :: nat
  es_truncated :: bool
  es_content_type :: pystr
  es_response_bytes :: "nat option"
  es_error_kind :: "pystr option"
  es_error_detail :: pystr
  es_observations :: "observation list"
  es_findings :: "finding list"
  es_finding_index :: "(pystr \<times> finding) list"

definition json_opt :: "('a \<Rightarrow> json) \<Rightarrow> 'a option \<Rightarrow> json" where
  "json_opt f x = (case x of None \<Rightarrow> JNull | Some v \<Rightarrow> f v)"

definition request_json :: "evidence_set \<Rightarrow> json" where
  "request_json e =
     JObj
      [(u ''scheme'', JStr (es_request_scheme e)), (u ''port'', JInt (es_request_port e)),
       (u ''path'', JStr (es_request_path e)), (u ''status'', json_opt JInt (es_status e)),
       (u ''redirect_count'', JInt (int (es_redirect_count e))), (u ''truncated'', JBool (es_truncated e)),
       (u ''content_type'', JStr (es_content_type e)),
       (u ''response_bytes'', json_opt (\<lambda>n. JInt (int n)) (es_response_bytes e)),
       (u ''error_kind'', json_opt JStr (es_error_kind e)), (u ''error_detail'', JStr (es_error_detail e))]"

text \<open>What the identifier is derived from: everything but the identifier itself.\<close>

definition canonical_json :: "evidence_set \<Rightarrow> json" where
  "canonical_json e =
     JObj
      [(u ''schema_version'', JStr (es_schema_version e)),
       (u ''engine'', JObj [(u ''name'', JStr (es_engine_name e)), (u ''version'', JStr (es_engine_version e))]),
       (u ''target_hostname'', JStr (es_target_hostname e)), (u ''request'', request_json e),
       (u ''observations'', JArr (map observation_json (es_observations e))),
       (u ''findings'', JArr (map finding_json (es_findings e)))]"

definition derive_id :: "json \<Rightarrow> pystr result" where
  "derive_id canonical = sha16 (dumps_stable canonical)"

text \<open>The fields copied from the engine result; the identifier and the index are filled in afterwards.\<close>

definition evidence_fields :: "analysis_result \<Rightarrow> evidence_set" where
  "evidence_fields r =
     \<lparr>es_schema_version = evidence_schema_version, es_evidence_set_id = [],
      es_engine_name = an_engine_name r, es_engine_version = an_engine_version r,
      es_target_hostname = an_target_hostname r, es_request_scheme = an_request_scheme r,
      es_request_port = an_request_port r, es_request_path = an_request_path r, es_status = an_status r,
      es_redirect_count = an_redirect_count r, es_truncated = an_truncated r,
      es_content_type = an_content_type r, es_response_bytes = an_response_bytes r,
      es_error_kind = an_error_kind r, es_error_detail = an_error_detail r,
      es_observations = sort_key ob_id (an_observations r), es_findings = sort_key fd_id (an_findings r),
      es_finding_index = []\<rparr>"

definition evidence_from_result :: "analysis_result \<Rightarrow> evidence_set result" where
  "evidence_from_result r =
     (let e = evidence_fields r
      in bindE (derive_id (canonical_json e)) (\<lambda>i.
           Inr (e\<lparr>es_evidence_set_id := i, es_finding_index := dict_of (map (\<lambda>f. (fd_id f, f)) (es_findings e))\<rparr>)))"

definition get_finding :: "evidence_set \<Rightarrow> pystr \<Rightarrow> finding option" where
  "get_finding e i = dict_get (es_finding_index e) i"

definition has_finding :: "evidence_set \<Rightarrow> pystr \<Rightarrow> bool" where
  "has_finding e i \<longleftrightarrow> dict_get (es_finding_index e) i \<noteq> None"

definition evidence_set_json :: "evidence_set \<Rightarrow> json" where
  "evidence_set_json e =
     JObj
      [(u ''schema_version'', JStr (es_schema_version e)), (u ''evidence_set_id'', JStr (es_evidence_set_id e)),
       (u ''engine'', JObj [(u ''name'', JStr (es_engine_name e)), (u ''version'', JStr (es_engine_version e))]),
       (u ''target_hostname'', JStr (es_target_hostname e)), (u ''request'', request_json e),
       (u ''observations'', JArr (map observation_json (es_observations e))),
       (u ''findings'', JArr (map finding_json (es_findings e)))]"

definition evidence_serialize :: "evidence_set \<Rightarrow> pystr" where
  "evidence_serialize e = dumps_stable (evidence_set_json e)"

section \<open>Candidate groups\<close>

definition cluster_titles :: "(pystr \<times> pystr) list" where
  "cluster_titles =
     [(category_headers, u ''Missing security-header family''), (category_cookies, u ''Cookie hygiene cluster''),
      (category_transport, u ''Transport / TLS posture''), (category_server, u ''Server-information disclosure'')]"

record candidate_group =
  cg_group_id :: pystr
  cg_category :: pystr
  cg_title :: pystr
  cg_finding_ids :: "pystr list"

definition candidate_json :: "candidate_group \<Rightarrow> json" where
  "candidate_json g =
     JObj [(u ''group_id'', JStr (cg_group_id g)), (u ''category'', JStr (cg_category g)),
           (u ''title'', JStr (cg_title g)), (u ''finding_ids'', JArr (map JStr (cg_finding_ids g)))]"

text \<open>\<open>by_category.setdefault(category, []).append(id)\<close> over the findings.\<close>

definition by_category :: "finding list \<Rightarrow> (pystr \<times> pystr list) list" where
  "by_category fs =
     fold (\<lambda>f d. dict_set (fd_category f) (dict_default d (fd_category f) [] @ [fd_id f]) d) fs []"

definition make_group :: "pystr \<Rightarrow> pystr \<Rightarrow> pystr list \<Rightarrow> candidate_group result" where
  "make_group category title ids =
     bindE (sha16 (u ''candidate|'' @ category @ 124 # py_join [124] ids)) (\<lambda>i.
       Inr \<lparr>cg_group_id = i, cg_category = category, cg_title = title, cg_finding_ids = ids\<rparr>)"

definition known_groups :: "(pystr \<times> pystr list) list \<Rightarrow> candidate_group list result" where
  "known_groups d =
     mapE (\<lambda>(category, title). make_group category title (sort (dict_default d category [])))
       (filter (\<lambda>(category, title). dict_default d category [] \<noteq> []) cluster_titles)"

definition extra_groups :: "(pystr \<times> pystr list) list \<Rightarrow> candidate_group list result" where
  "extra_groups d =
     mapE (\<lambda>category. make_group category (category @ u '' cluster'') (sort (dict_default d category [])))
       (sorted_set (filter (\<lambda>c. c \<notin> fst ` set cluster_titles) (map fst d)))"

definition build_candidate_groups :: "evidence_set \<Rightarrow> candidate_group list result" where
  "build_candidate_groups e =
     (let d = by_category (es_findings e)
      in bindE (known_groups d) (\<lambda>known.
         bindE (extra_groups d) (\<lambda>extra.
           Inr (sort_key cg_group_id (sort_key cg_group_id known @ extra)))))"

section \<open>Canonical text\<close>

text \<open>\<open>dumps_stable\<close> writes ASCII whatever the strings contain, so hashing it never fails.\<close>

abbreviation ascii_text :: "pystr \<Rightarrow> bool" where
  "ascii_text \<equiv> list_all (\<lambda>c. c < 128)"

fun float_free :: "json \<Rightarrow> bool" where
  "float_free (JFloat t) = False"
| "float_free (JArr vs) = list_all float_free vs"
| "float_free (JObj kvs) = list_all (\<lambda>(k, v). float_free v) kvs"
| "float_free _ = True"

lemma ascii_hex_pad: "ascii_text (hex_pad k n)"
proof (induction k arbitrary: n)
  case (Suc k)
  have "hex_digit (n mod 16) < 128"
    using mod_less_divisor [of 16 n] unfolding hex_digit_def by (auto simp del: mod_less_divisor)
  with Suc show ?case by simp
qed simp

lemma ascii_json_char: "ascii_text (json_char c)"
  by (simp add: json_char_def unicode_escape_def ascii_hex_pad)

lemma ascii_json_string: "ascii_text (json_string s)"
  by (induction s) (simp_all add: json_string_def ascii_json_char)

lemma ascii_nat_to_text: "ascii_text (nat_to_text n)"
proof (induction n rule: nat_to_text.induct)
  case (1 n)
  have "48 + n mod 10 < 128" using mod_less_divisor [of 10 n] by linarith
  with 1 show ?case by (subst nat_to_text.simps) simp
qed

lemma ascii_int_to_text: "ascii_text (int_to_text i)"
  by (simp add: int_to_text_def ascii_nat_to_text)

lemma ascii_join: "ascii_text sep \<Longrightarrow> list_all ascii_text xs \<Longrightarrow> ascii_text (py_join sep xs)"
  by (induction sep xs rule: py_join.induct) auto

lemma ascii_dumps: "float_free v \<Longrightarrow> ascii_text (dumps_stable v)"
proof (induction v rule: dumps_stable.induct)
  case (6 vs)
  have "list_all ascii_text (map dumps_stable vs)"
    using 6 by (auto simp: list_all_iff)
  then show ?case by (simp add: ascii_join)
next
  case (7 kvs)
  have "ascii_text (snd kv)" if "kv \<in> set (map (\<lambda>(k, v). (k, dumps_stable v)) kvs)" for kv
    using that 7 by (fastforce simp: list_all_iff)
  then have "list_all ascii_text (map (\<lambda>(k, v). json_string k @ 58 # v)
          (sort_key fst (map (\<lambda>(k, v). (k, dumps_stable v)) kvs)))"
    using ascii_json_string by (fastforce simp: list_all_iff)
  then show ?case by (simp add: ascii_join)
qed (simp_all add: text_defs ascii_int_to_text ascii_json_string)

lemma sha16_ascii: "ascii_text s \<Longrightarrow> sha16 s = Inr (take 16 (sha256_hexdigest s))"
  by (simp add: sha16_def sha256_text_ascii)

lemma float_free_notes [simp]: "float_free (observation_json ob)" "float_free (finding_json f)"
  by (simp_all add: observation_json_def finding_json_def list_all_iff)

lemma canonical_float_free: "float_free (canonical_json e)"
  by (auto simp: canonical_json_def request_json_def json_opt_def list_all_iff split: option.splits)

section \<open>Lemmas on evidence sets\<close>

lemma evidence_total: "\<exists>e. evidence_from_result r = Inr e"
  by (simp add: evidence_from_result_def derive_id_def sha16_ascii ascii_dumps canonical_float_free Let_def)

lemma evidence_fields_of:
  "evidence_from_result r = Inr e \<Longrightarrow>
     es_findings e = sort_key fd_id (an_findings r)
     \<and> es_finding_index e = dict_of (map (\<lambda>f. (fd_id f, f)) (es_findings e))"
  by (auto simp: evidence_from_result_def evidence_fields_def bindE_Inr_iff Let_def)

lemma finding_index:
  "evidence_from_result r = Inr e \<Longrightarrow>
     map_of (es_finding_index e) = map_of (rev (map (\<lambda>f. (fd_id f, f)) (sort_key fd_id (an_findings r))))"
  by (auto dest!: evidence_fields_of simp: dict_of_map)

lemma has_finding_iff: "evidence_from_result r = Inr e \<Longrightarrow> has_finding e i \<longleftrightarrow> i \<in> fd_id ` set (an_findings r)"
  unfolding has_finding_def by (drule finding_index) (simp add: map_of_eq_None_iff rev_map image_image)

lemma get_finding_in:
  assumes "evidence_from_result r = Inr e" and "get_finding e i = Some f"
  shows "f \<in> set (an_findings r) \<and> fd_id f = i"
proof -
  from assms have "(i, f) \<in> set (rev (map (\<lambda>f. (fd_id f, f)) (sort_key fd_id (an_findings r))))"
    unfolding get_finding_def finding_index [OF assms(1)] by (rule_tac map_of_SomeD)
  then show ?thesis by auto
qed

section \<open>Grouping\<close>

lemma by_category_gen:
  "dict_default (fold (\<lambda>f d. dict_set (fd_category f) (dict_default d (fd_category f) [] @ [fd_id f]) d) fs d) c []
     = dict_default d c [] @ map fd_id (filter (\<lambda>f. fd_category f = c) fs)"
proof (induction fs arbitrary: d)
  case Nil
  show ?case by simp
next
  case (Cons f fs)
  show ?case unfolding fold_simps Cons.IH by (simp add: dict_default_def update_conv')
qed

lemma by_category_ids: "dict_default (by_category fs) c [] = map fd_id (filter (\<lambda>f. fd_category f = c) fs)"
  using by_category_gen [of fs "[]" c] by (simp add: by_category_def dict_default_def)

lemma by_category_keys: "fst ` set (by_category fs) = fd_category ` set fs"
proof -
  have "fst ` set (fold (\<lambda>f d. dict_set (fd_category f) (dict_default d (fd_category f) [] @ [fd_id f]) d) fs d)
      = fst ` set d \<union> fd_category ` set fs" for d :: "(pystr \<times> pystr list) list"
    by (induction fs arbitrary: d) (auto simp: dom_update [unfolded dom_map_of_conv_image_fst])
  then show ?thesis by (simp add: by_category_def)
qed

lemma partition_by_key:
  assumes "distinct cs" and "k ` set xs \<subseteq> set cs"
  shows "mset (concat (map (\<lambda>c. map g (filter (\<lambda>x. k x = c) xs)) cs)) = mset (map g xs)"
  using assms(2)
proof (induction xs)
  case Nil
  show ?case by (induction cs) simp_all
next
  case (Cons x xs)
  have "mset (concat (map (\<lambda>c. map g (filter (\<lambda>y. k y = c) (x # xs))) cs'))
      = mset (concat (map (\<lambda>c. map g (filter (\<lambda>y. k y = c) xs)) cs')) + (if k x \<in> set cs' then {#g x#} else {#})"
    if "distinct cs'" for cs'
    using that by (induction cs') auto
  from this [OF assms(1)] Cons show ?case by simp
qed

lemma mset_concat_perm: "mset gs = mset hs \<Longrightarrow> mset (concat (map f gs)) = mset (concat (map f hs))"
  unfolding mset_concat sum_mset_sum_list [symmetric] mset_map by simp

lemma sort_key_perm:
  assumes "distinct (map k xs)" and "mset xs = mset ys"
  shows "sort_key k xs = sort_key k ys"
proof (rule properties_for_sort_key)
  show "mset (sort_key k ys) = mset xs" using assms(2) by simp
  fix x
  assume x: "x \<in> set (sort_key k ys)"
  have d: "distinct (map k (sort_key k ys))"
    using assms(1) mset_eq_imp_distinct_iff [of "map k (sort_key k ys)" "map k xs"] by (simp add: assms(2))
  have "x \<in> set xs" using x assms(2) by (metis mset_eq_setD set_sort)
  then show "filter (\<lambda>y. k x = k y) (sort_key k ys) = filter (\<lambda>y. k x = k y) xs"
    using filter_key_unique [OF d x] filter_key_unique [OF assms(1)] by (simp add: eq_commute)
next
  show "sorted (map k (sort_key k ys))" by simp
qed

lemma make_group_Inr:
  "make_group c t ids = Inr g \<Longrightarrow> cg_category g = c \<and> cg_finding_ids g = ids"
  by (auto simp: make_group_def bindE_Inr_iff)

lemma groups_of:
  assumes "mapE (\<lambda>x. make_group (c x) (t x) (ids x)) xs = Inr gs"
  shows "map cg_category gs = map c xs \<and> map cg_finding_ids gs = map ids xs"
  using assms by (induction xs arbitrary: gs) (auto simp: bindE_Inr_iff dest: make_group_Inr)

lemma encodable_join: "encodable sep \<Longrightarrow> list_all encodable xs \<Longrightarrow> encodable (py_join sep xs)"
  by (induction sep xs rule: py_join.induct) simp_all

lemma make_group_total: "encodable c \<Longrightarrow> list_all encodable ids \<Longrightarrow> \<exists>g. make_group c t ids = Inr g"
  using sha256_text_encodable [of "u ''candidate|'' @ c @ 124 # py_join [124] ids"]
  by (auto simp: make_group_def sha16_def encodable_join is_surrogate_def)

definition group_categories :: "evidence_set \<Rightarrow> pystr list" where
  "group_categories e =
     (let d = by_category (es_findings e)
      in map fst (filter (\<lambda>(c, t). dict_default d c [] \<noteq> []) cluster_titles)
         @ sorted_set (filter (\<lambda>c. c \<notin> fst ` set cluster_titles) (map fst d)))"

lemma group_categories_props:
  "distinct (group_categories e)" "set (group_categories e) = fd_category ` set (es_findings e)"
proof -
  let ?d = "by_category (es_findings e)"
  have "distinct (map fst cluster_titles)"
    by (simp add: cluster_titles_def category_headers_def category_cookies_def category_transport_def category_server_def)
  then show "distinct (group_categories e)"
    unfolding group_categories_def Let_def by (auto simp: distinct_map_filter)
  have "dict_default ?d c [] \<noteq> [] \<longleftrightarrow> c \<in> fd_category ` set (es_findings e)" for c
    by (auto simp: by_category_ids filter_empty_conv)
  moreover have "fst ` set ?d = fd_category ` set (es_findings e)" by (rule by_category_keys)
  ultimately show "set (group_categories e) = fd_category ` set (es_findings e)"
    unfolding group_categories_def Let_def by (force simp: image_iff)
qed

lemma groups_total:
  assumes "list_all (\<lambda>f. encodable (fd_id f) \<and> encodable (fd_category f)) (es_findings e)"
  shows "\<exists>gs. build_candidate_groups e = Inr gs"
proof -
  let ?d = "by_category (es_findings e)"
  have ids: "list_all encodable (sort (dict_default ?d c []))" for c
    using assms by (auto simp: by_category_ids list_all_iff)
  have "encodable c" if "c \<in> fst ` set cluster_titles" for c
    using that by (auto simp: cluster_titles_def category_headers_def category_cookies_def category_transport_def category_server_def)
  with ids have "\<exists>ks. known_groups ?d = Inr ks"
    unfolding known_groups_def by (intro mapE_total) (force intro: make_group_total)
  moreover have "encodable c" if "c \<in> fst ` set ?d" for c
    using that assms unfolding by_category_keys by (auto simp: list_all_iff)
  with ids have "\<exists>xs. extra_groups ?d = Inr xs"
    unfolding extra_groups_def by (intro mapE_total) (auto intro: make_group_total)
  ultimately show ?thesis by (auto simp: build_candidate_groups_def Let_def)
qed

lemma build_groups_shape:
  assumes "build_candidate_groups e = Inr gs"
  shows "\<exists>hs. mset gs = mset hs \<and> sorted (map cg_group_id gs) \<and> map cg_category hs = group_categories e
    \<and> map cg_finding_ids hs = map (\<lambda>c. sort (map fd_id (filter (\<lambda>f. fd_category f = c) (es_findings e)))) (group_categories e)"
proof -
  let ?d = "by_category (es_findings e)"
  from assms obtain ks xs where ks: "known_groups ?d = Inr ks" and xs: "extra_groups ?d = Inr xs"
    and gs: "gs = sort_key cg_group_id (sort_key cg_group_id ks @ xs)"
    by (auto simp: build_candidate_groups_def Let_def bindE_Inr_iff)
  have k: "map cg_category ks = map fst (filter (\<lambda>(c, t). dict_default ?d c [] \<noteq> []) cluster_titles)
      \<and> map cg_finding_ids ks = map (\<lambda>x. sort (dict_default ?d (fst x) [])) (filter (\<lambda>(c, t). dict_default ?d c [] \<noteq> []) cluster_titles)"
    using ks unfolding known_groups_def case_prod_beta by (rule groups_of)
  have x: "map cg_category xs = map (\<lambda>c. c) (sorted_set (filter (\<lambda>c. c \<notin> fst ` set cluster_titles) (map fst ?d)))
      \<and> map cg_finding_ids xs = map (\<lambda>c. sort (dict_default ?d c [])) (sorted_set (filter (\<lambda>c. c \<notin> fst ` set cluster_titles) (map fst ?d)))"
    using xs unfolding extra_groups_def by (rule groups_of)
  have "mset gs = mset (ks @ xs)" "sorted (map cg_group_id gs)" by (simp_all add: gs)
  moreover have "map cg_category (ks @ xs) = group_categories e" using k x by (simp add: group_categories_def Let_def)
  moreover have "map cg_finding_ids (ks @ xs)
      = map (\<lambda>c. sort (map fd_id (filter (\<lambda>f. fd_category f = c) (es_findings e)))) (group_categories e)"
    using k x by (simp add: group_categories_def Let_def by_category_ids comp_def case_prod_beta)
  ultimately show ?thesis by blast
qed

section \<open>Properties\<close>

text \<open>C26 [candidate_groups_partition]: the seed clusters are a partition of the findings by category: every
  finding is in exactly one of them and nothing else is, each category has one cluster with its sorted
  finding ids, and the clusters come in the order of their ids.\<close>

theorem candidate_groups_partition:
  assumes "build_candidate_groups e = Inr gs"
  shows "mset (concat (map cg_finding_ids gs)) = mset (map fd_id (es_findings e))
    \<and> distinct (map cg_category gs) \<and> set (map cg_category gs) = fd_category ` set (es_findings e)
    \<and> (\<forall>g \<in> set gs. cg_finding_ids g = sort (map fd_id (filter (\<lambda>f. fd_category f = cg_category g) (es_findings e)))
         \<and> cg_finding_ids g \<noteq> [])
    \<and> sorted (map cg_group_id gs)"
proof -
  from build_groups_shape [OF assms] obtain hs where hs: "mset gs = mset hs" "sorted (map cg_group_id gs)"
    and c: "map cg_category hs = group_categories e"
    and i: "map cg_finding_ids hs = map (\<lambda>c. sort (map fd_id (filter (\<lambda>f. fd_category f = c) (es_findings e)))) (group_categories e)"
    by blast
  note cats = group_categories_props [of e]
  have sets: "set gs = set hs" using hs(1) by (rule mset_eq_setD)
  have catm: "mset (map cg_category gs) = mset (group_categories e)" unfolding c [symmetric] mset_map hs(1) ..
  have "mset (concat (map cg_finding_ids gs)) = mset (concat (map cg_finding_ids hs))"
    by (rule mset_concat_perm [OF hs(1)])
  also have "\<dots> = mset (concat (map (\<lambda>c. map fd_id (filter (\<lambda>f. fd_category f = c) (es_findings e))) (group_categories e)))"
    unfolding i by (simp add: mset_concat comp_def)
  also have "\<dots> = mset (map fd_id (es_findings e))"
    by (rule partition_by_key) (simp_all add: cats)
  finally have "mset (concat (map cg_finding_ids gs)) = mset (map fd_id (es_findings e))" .
  moreover have "distinct (map cg_category gs)" using mset_eq_imp_distinct_iff [OF catm] cats(1) by simp
  moreover have "set (map cg_category gs) = fd_category ` set (es_findings e)"
    using mset_eq_setD [OF catm] cats(2) by simp
  moreover have "cg_finding_ids g = sort (map fd_id (filter (\<lambda>f. fd_category f = cg_category g) (es_findings e)))
      \<and> cg_finding_ids g \<noteq> []" if "g \<in> set gs" for g
  proof -
    from that sets obtain n where n: "n < length hs" "g = hs ! n" by (auto simp: in_set_conv_nth)
    have len: "length hs = length (group_categories e)" using arg_cong [OF c, of length] by simp
    have gc: "cg_category g = group_categories e ! n" using arg_cong [OF c, of "\<lambda>l. l ! n"] n by simp
    have ids: "cg_finding_ids g = sort (map fd_id (filter (\<lambda>f. fd_category f = cg_category g) (es_findings e)))"
      using arg_cong [OF i, of "\<lambda>l. l ! n"] n len gc by simp
    have "cg_category g \<in> fd_category ` set (es_findings e)"
      using gc n(1) len nth_mem [of n "group_categories e"] cats(2) by simp
    then have "filter (\<lambda>f. fd_category f = cg_category g) (es_findings e) \<noteq> []" by (auto simp: filter_empty_conv)
    then have "map fd_id (filter (\<lambda>f. fd_category f = cg_category g) (es_findings e)) \<noteq> []" by simp
    with ids show ?thesis by (metis length_0_conv length_sort)
  qed
  ultimately show ?thesis using hs(2) by blast
qed

text \<open>An evidence set always exists, it knows exactly the ids of the engine's
  findings, and two results that differ only in the order of observations and findings (whose ids are
  distinct) give the same evidence set, identifier included.\<close>

theorem evidence_order_independent:
  assumes "mset fs = mset (an_findings r)" "mset obs = mset (an_observations r)"
    and "distinct (map fd_id fs)" "distinct (map ob_id obs)"
  shows "\<exists>e. evidence_from_result r = Inr e
    \<and> evidence_from_result (r\<lparr>an_findings := fs, an_observations := obs\<rparr>) = Inr e
    \<and> (\<forall>i. has_finding e i \<longleftrightarrow> i \<in> fd_id ` set (an_findings r))"
proof -
  have "evidence_fields (r\<lparr>an_findings := fs, an_observations := obs\<rparr>) = evidence_fields r"
    using sort_key_perm [OF assms(3,1)] sort_key_perm [OF assms(4,2)] by (simp add: evidence_fields_def)
  then have "evidence_from_result (r\<lparr>an_findings := fs, an_observations := obs\<rparr>) = evidence_from_result r"
    by (simp add: evidence_from_result_def)
  with evidence_total [of r] has_finding_iff show ?thesis by metis
qed

section \<open>Examples\<close>

definition example_finding :: "pystr \<Rightarrow> pystr \<Rightarrow> finding" where
  "example_finding i c = \<lparr>fd_id = i, fd_category = c, fd_title = u ''t'', fd_description = [], fd_severity = LOW,
     fd_confidence = CONF_HIGH, fd_evidence = [], fd_location = [], fd_recommendation = [], fd_observation_ids = []\<rparr>"

definition example_result :: analysis_result where
  "example_result = \<lparr>an_engine_name = engine_name, an_target_hostname = u ''a.com'', an_request_scheme = u ''https'',
     an_request_port = 443, an_request_path = [47], an_status = Some 200, an_redirect_count = 0, an_truncated = False,
     an_content_type = [], an_response_bytes = Some 2, an_observations = [],
     an_findings = [example_finding (u ''f2'') category_cookies, example_finding (u ''f1'') category_cookies],
     an_error_kind = None, an_error_detail = [], an_engine_version = engine_version\<rparr>"

lemma example_finding_ids: "fd_id ` set (an_findings example_result) = {u ''f1'', u ''f2''}"
  by (auto simp: example_result_def example_finding_def)

theorem candidate_groups_partition_witness:
  "\<exists>e gs. evidence_from_result example_result = Inr e \<and> build_candidate_groups e = Inr gs
     \<and> mset (concat (map cg_finding_ids gs)) = {#u ''f1'', u ''f2''#}"
proof -
  obtain e where e: "evidence_from_result example_result = Inr e" using evidence_total by blast
  have fs: "mset (map fd_id (es_findings e)) = {#u ''f1'', u ''f2''#}"
    "es_findings e = sort_key fd_id (an_findings example_result)"
    using evidence_fields_of [OF e] by (simp_all add: example_result_def example_finding_def)
  have "list_all (\<lambda>f. encodable (fd_id f) \<and> encodable (fd_category f)) (es_findings e)"
    unfolding fs(2) by (simp add: list_all_iff example_result_def example_finding_def category_cookies_def)
  then obtain gs where "build_candidate_groups e = Inr gs" using groups_total by blast
  with candidate_groups_partition e fs(1) show ?thesis by metis
qed

theorem evidence_order_independent_witness:
  "\<exists>e. evidence_from_result example_result = Inr e
    \<and> evidence_from_result (example_result\<lparr>an_findings := rev (an_findings example_result), an_observations := []\<rparr>) = Inr e"
proof -
  have "distinct (map fd_id (rev (an_findings example_result)))" "distinct (map ob_id ([] :: observation list))"
    "mset (rev (an_findings example_result)) = mset (an_findings example_result)"
    "mset ([] :: observation list) = mset (an_observations example_result)"
    by (simp_all add: example_result_def example_finding_def)
  from evidence_order_independent [OF this(3,4,1,2)] show ?thesis by blast
qed

end

