(* ===== verification/Assessment.thy ===== *)
theory Assessment
  imports Evidence JsonText DateText
begin

text \<open>
  The models of the AI layer (\<open>analysis/models.py\<close>) and the response validator
  (\<open>analysis/validator.py\<close>), the boundary between AI output and evidence.  A provider response is bytes, a
  string or an already parsed value; a float in it is kept as its text.
\<close>

section \<open>Models\<close>

datatype evidence_status = SUPPORTED | INFERRED | UNSUPPORTED

fun evidence_status_value :: "evidence_status \<Rightarrow> pystr" where
  "evidence_status_value SUPPORTED = u ''supported''"
| "evidence_status_value INFERRED = u ''inferred''"
| "evidence_status_value UNSUPPORTED = u ''unsupported''"

datatype analysis_failure_kind =
  PROVIDER_UNAVAILABLE | AUTHENTICATION_FAILED | TIMEOUT | MALFORMED_RESPONSE | SCHEMA_INVALID | LIMIT_EXCEEDED | UNEXPECTED

fun analysis_failure_value :: "analysis_failure_kind \<Rightarrow> pystr" where
  "analysis_failure_value PROVIDER_UNAVAILABLE = u ''provider_unavailable''"
| "analysis_failure_value AUTHENTICATION_FAILED = u ''authentication_failed''"
| "analysis_failure_value TIMEOUT = u ''timeout''"
| "analysis_failure_value MALFORMED_RESPONSE = u ''malformed_response''"
| "analysis_failure_value SCHEMA_INVALID = u ''schema_invalid''"
| "analysis_failure_value LIMIT_EXCEEDED = u ''limit_exceeded''"
| "analysis_failure_value UNEXPECTED = u ''unexpected''"

record claim =
  cl_text :: pystr
  cl_finding_ids :: "pystr list"
  cl_status :: evidence_status
  cl_detail :: pystr

definition claim_json :: "claim \<Rightarrow> json" where
  "claim_json c =
     JObj [(u ''text'', JStr (cl_text c)), (u ''finding_ids'', JArr (map JStr (cl_finding_ids c))),
           (u ''status'', JStr (evidence_status_value (cl_status c))), (u ''detail'', JStr (cl_detail c))]"

record correlated_group =
  gr_group_id :: pystr
  gr_title :: pystr
  gr_finding_ids :: "pystr list"
  gr_rationale :: pystr
  gr_status :: evidence_status

definition derive_group_id :: "pystr \<Rightarrow> pystr list \<Rightarrow> pystr result" where
  "derive_group_id title ids = sha16 (u ''group|'' @ title @ 124 # py_join [124] (sort ids))"

definition group_json :: "correlated_group \<Rightarrow> json" where
  "group_json g =
     JObj [(u ''group_id'', JStr (gr_group_id g)), (u ''title'', JStr (gr_title g)),
           (u ''finding_ids'', JArr (map JStr (gr_finding_ids g))), (u ''rationale'', JStr (gr_rationale g)),
           (u ''status'', JStr (evidence_status_value (gr_status g)))]"

record remediation_item =
  ri_title :: pystr
  ri_detail :: pystr
  ri_finding_ids :: "pystr list"

definition remediation_json :: "remediation_item \<Rightarrow> json" where
  "remediation_json r =
     JObj [(u ''title'', JStr (ri_title r)), (u ''detail'', JStr (ri_detail r)),
           (u ''finding_ids'', JArr (map JStr (ri_finding_ids r)))]"

record provider_metadata =
  pm_provider :: pystr
  pm_model :: pystr
  pm_model_version :: pystr
  pm_prompt_schema_version :: pystr
  pm_output_schema_version :: pystr
  pm_created_at :: timestamp
  pm_nondeterministic :: bool

definition metadata_json :: "provider_metadata \<Rightarrow> json" where
  "metadata_json m =
     JObj [(u ''provider'', JStr (pm_provider m)), (u ''model'', JStr (pm_model m)),
           (u ''model_version'', JStr (pm_model_version m)),
           (u ''prompt_schema_version'', JStr (pm_prompt_schema_version m)),
           (u ''output_schema_version'', JStr (pm_output_schema_version m)),
           (u ''created_at'', JStr (isoformat (pm_created_at m))), (u ''nondeterministic'', JBool (pm_nondeterministic m))]"

record assessment =
  am_assessment_id :: pystr
  am_evidence_set_id :: pystr
  am_overall_summary :: pystr
  am_priority :: severity
  am_correlated_groups :: "correlated_group list"
  am_remediation :: "remediation_item list"
  am_limitations :: "pystr list"
  am_claims :: "claim list"
  am_unsupported_claim_count :: nat
  am_provider_metadata :: "provider_metadata option"

definition derive_assessment_id :: "pystr \<Rightarrow> provider_metadata \<Rightarrow> pystr \<Rightarrow> pystr result" where
  "derive_assessment_id evidence_set_id m content_canonical =
     sha16 (py_join [124]
       [u ''assessment'', evidence_set_id, pm_provider m, pm_model m, pm_prompt_schema_version m,
        pm_output_schema_version m, content_canonical])"

definition assessment_json :: "assessment \<Rightarrow> (pystr \<times> json) list" where
  "assessment_json a =
     [(u ''assessment_id'', JStr (am_assessment_id a)), (u ''evidence_set_id'', JStr (am_evidence_set_id a)),
      (u ''overall_summary'', JStr (am_overall_summary a)),
      (u ''priority'', JStr (severity_value (am_priority a))),
      (u ''correlated_groups'', JArr (map group_json (am_correlated_groups a))),
      (u ''remediation'', JArr (map remediation_json (am_remediation a))),
      (u ''limitations'', JArr (map JStr (am_limitations a))),
      (u ''claims'', JArr (map claim_json (am_claims a))),
      (u ''unsupported_claim_count'', JInt (int (am_unsupported_claim_count a))),
      (u ''provider_metadata'', json_opt metadata_json (am_provider_metadata a))]"

record assessment_unavailable =
  un_evidence_set_id :: pystr
  un_failure_kind :: analysis_failure_kind
  un_detail :: pystr
  un_created_at :: timestamp

definition unavailable_json :: "assessment_unavailable \<Rightarrow> (pystr \<times> json) list" where
  "unavailable_json a =
     [(u ''evidence_set_id'', JStr (un_evidence_set_id a)),
      (u ''failure_kind'', JStr (analysis_failure_value (un_failure_kind a))),
      (u ''detail'', JStr (un_detail a)), (u ''created_at'', JStr (isoformat (un_created_at a)))]"

section \<open>Decoding bytes\<close>

text \<open>
  \<open>bytes.decode("utf-8", errors="replace")\<close>: a sequence that breaks off becomes one U+FFFD for the part that
  was still valid.  \<open>utf8_shape\<close> gives, for a first byte, its payload and the range of each further byte.
\<close>

definition utf8_shape :: "nat \<Rightarrow> (nat \<times> (nat \<times> nat) list) option" where
  "utf8_shape b =
     (if b < 128 then Some (b, [])
      else if 194 \<le> b \<and> b \<le> 223 then Some (b - 192, [(128, 191)])
      else if b = 224 then Some (0, [(160, 191), (128, 191)])
      else if b = 237 then Some (13, [(128, 159), (128, 191)])
      else if 225 \<le> b \<and> b \<le> 239 then Some (b - 224, [(128, 191), (128, 191)])
      else if b = 240 then Some (0, [(144, 191), (128, 191), (128, 191)])
      else if 241 \<le> b \<and> b \<le> 243 then Some (b - 240, [(128, 191), (128, 191), (128, 191)])
      else if b = 244 then Some (4, [(128, 143), (128, 191), (128, 191)])
      else None)"

fun utf8_tail :: "nat \<Rightarrow> (nat \<times> nat) list \<Rightarrow> nat list \<Rightarrow> nat \<times> nat list" where
  "utf8_tail acc [] bs = (acc, bs)"
| "utf8_tail acc (r # rs) [] = (65533, [])"
| "utf8_tail acc ((lo, hi) # rs) (b # bs) =
     (if lo \<le> b \<and> b \<le> hi then utf8_tail (acc * 64 + (b - 128)) rs bs else (65533, b # bs))"

lemma utf8_tail_length: "length (snd (utf8_tail acc rs bs)) \<le> length bs"
  by (induction acc rs bs rule: utf8_tail.induct) auto

function utf8_decode_replace :: "nat list \<Rightarrow> pystr" where
  "utf8_decode_replace [] = []"
| "utf8_decode_replace (b # bs) =
     (case utf8_shape b of
        None \<Rightarrow> 65533 # utf8_decode_replace bs
      | Some (v, rs) \<Rightarrow> (let (c, rest) = utf8_tail v rs bs in c # utf8_decode_replace rest))"
  by pat_completeness auto
termination
proof (relation "measure length", goal_cases)
  case (3 b bs y v rs z c rest)
  then show ?case using utf8_tail_length [of v rs bs] by (metis in_measure le_imp_less_Suc length_Cons snd_conv)
qed auto

section \<open>The validator\<close>

definition max_output_json_bytes :: nat where "max_output_json_bytes = 262144"
definition max_summary_chars :: nat where "max_summary_chars = 4000"

record validation_result =
  vr_accepted :: bool
  vr_assessment :: "assessment option"
  vr_failure_kind :: "analysis_failure_kind option"
  vr_errors :: "pystr list"
  vr_unsupported_claims :: "claim list"

definition reject_response :: "analysis_failure_kind \<Rightarrow> pystr \<Rightarrow> validation_result" where
  "reject_response kind detail =
     \<lparr>vr_accepted = False, vr_assessment = None, vr_failure_kind = Some kind, vr_errors = [detail],
      vr_unsupported_claims = []\<rparr>"

definition safe_str :: "json \<Rightarrow> pystr" where
  "safe_str v = bound_evidence (str_value v)"

definition json_field :: "(pystr \<times> json) list \<Rightarrow> string \<Rightarrow> json \<Rightarrow> json" where
  "json_field payload key v = dict_default payload (u key) v"

text \<open>A value that is a string with something other than blanks in it.\<close>

fun nonblank_text :: "json \<Rightarrow> pystr option" where
  "nonblank_text (JStr s) = (if py_strip s = [] then None else Some s)"
| "nonblank_text _ = None"

fun string_items :: "json \<Rightarrow> pystr list option" where
  "string_items (JArr vs) = (if list_all is_jstr vs then Some (strs_of vs) else None)"
| "string_items _ = None"

definition string_list :: "json \<Rightarrow> string \<Rightarrow> pystr list \<times> pystr list" where
  "string_list raw name =
     (case string_items raw of
        None \<Rightarrow> ([], [u name @ u '' must be a list of strings''])
      | Some ss \<Rightarrow> (map (\<lambda>s. safe_str (JStr s)) ss, []))"

definition item_error :: "string \<Rightarrow> nat \<Rightarrow> string \<Rightarrow> pystr" where
  "item_error name index text = u name @ 91 # nat_to_text index @ 93 # u text"

definition check_summary :: "json \<Rightarrow> pystr list" where
  "check_summary v =
     (case nonblank_text v of
        None \<Rightarrow> [u ''overall_summary must be a non-empty string'']
      | Some s \<Rightarrow> if max_summary_chars < length s then [u ''overall_summary exceeds length cap''] else [])"

definition all_severities :: "severity list" where
  "all_severities = [INFO, LOW, MEDIUM, HIGH, CRITICAL]"

fun priority_of :: "json \<Rightarrow> severity option" where
  "priority_of (JStr s) = List.find (\<lambda>p. severity_value p = s) all_severities"
| "priority_of _ = None"

definition check_priority :: "json \<Rightarrow> pystr list" where
  "check_priority v =
     (if priority_of v = None
      then [u ''priority must be one of '' @ repr_value (JArr (map JStr (sort (map severity_value all_severities))))]
      else [])"

text \<open>One group: the errors, the unsupported claims and the group (none when it has no known finding).\<close>

definition quoted :: "pystr \<Rightarrow> pystr" where "quoted t = 39 # t @ [39]"

definition unknown_in_group :: "pystr \<Rightarrow> pystr \<Rightarrow> claim" where
  "unknown_in_group title i =
     \<lparr>cl_text = u ''Group '' @ quoted title @ u '' references unknown finding'', cl_finding_ids = [i],
      cl_status = UNSUPPORTED, cl_detail = u ''ID absent from evidence set''\<rparr>"

type_synonym 'a item_outcome = "pystr list \<times> claim list \<times> 'a list"

definition validate_group :: "evidence_set \<Rightarrow> nat \<times> json \<Rightarrow> correlated_group item_outcome result" where
  "validate_group ev item =
     (let (index, group) = item in
      case group of
        JObj kvs \<Rightarrow>
          (case nonblank_text (json_field kvs ''title'' JNull) of
             None \<Rightarrow> Inr ([item_error ''correlated_groups'' index ''.title invalid''], [], [])
           | Some title \<Rightarrow>
               (case string_items (json_field kvs ''finding_ids'' (JArr [])) of
                  None \<Rightarrow> Inr ([item_error ''correlated_groups'' index ''.finding_ids invalid''], [], [])
                | Some ids \<Rightarrow>
                    (let known = sorted_set (filter (has_finding ev) ids);
                         unsupported = map (unknown_in_group title) (filter (\<lambda>i. \<not> has_finding ev i) ids)
                     in if known = [] then Inr ([], unsupported, [])
                        else bindE (derive_group_id title known) (\<lambda>gid.
                          Inr ([], unsupported,
                            [\<lparr>gr_group_id = gid, gr_title = title, gr_finding_ids = known,
                              gr_rationale = safe_str (json_field kvs ''rationale'' (JStr [])),
                              gr_status = SUPPORTED\<rparr>])))))
      | _ \<Rightarrow> Inr ([item_error ''correlated_groups'' index '' is not an object''], [], []))"

definition validate_remediation :: "evidence_set \<Rightarrow> nat \<times> json \<Rightarrow> remediation_item item_outcome result" where
  "validate_remediation ev entry =
     (let (index, item) = entry in
      case item of
        JObj kvs \<Rightarrow>
          (case nonblank_text (json_field kvs ''title'' JNull) of
             None \<Rightarrow> Inr ([item_error ''remediation'' index ''.title invalid''], [], [])
           | Some title \<Rightarrow>
               Inr ([], [],
                 [\<lparr>ri_title = title, ri_detail = safe_str (json_field kvs ''detail'' (JStr [])),
                   ri_finding_ids =
                     (case json_field kvs ''finding_ids'' (JArr []) of
                        JArr vs \<Rightarrow> sorted_set (filter (has_finding ev) (strs_of vs))
                      | _ \<Rightarrow> [])\<rparr>]))
      | _ \<Rightarrow> Inr ([item_error ''remediation'' index '' is not an object''], [], []))"

definition unknown_in_claim :: "pystr \<Rightarrow> pystr \<Rightarrow> claim" where
  "unknown_in_claim text i =
     \<lparr>cl_text = take 200 text, cl_finding_ids = [i], cl_status = UNSUPPORTED,
      cl_detail = u ''referenced finding does not exist''\<rparr>"

fun declared_status :: "json \<Rightarrow> evidence_status option" where
  "declared_status (JStr s) = List.find (\<lambda>st. evidence_status_value st = s) [SUPPORTED, INFERRED, UNSUPPORTED]"
| "declared_status _ = None"

definition claim_status :: "evidence_set \<Rightarrow> pystr list \<Rightarrow> json \<Rightarrow> evidence_status" where
  "claim_status ev ids declared =
     (if filter (\<lambda>i. \<not> has_finding ev i) ids \<noteq> [] then UNSUPPORTED
      else case declared_status declared of
             Some st \<Rightarrow> st
           | None \<Rightarrow>
               if ids = [] then UNSUPPORTED
               else if length (filter (has_finding ev) ids) = length ids then SUPPORTED else INFERRED)"

definition validate_claim :: "evidence_set \<Rightarrow> nat \<times> json \<Rightarrow> claim item_outcome result" where
  "validate_claim ev entry =
     (let (index, c) = entry in
      case c of
        JObj kvs \<Rightarrow>
          (case nonblank_text (json_field kvs ''text'' JNull) of
             None \<Rightarrow> Inr ([item_error ''claims'' index ''.text invalid''], [], [])
           | Some text \<Rightarrow>
               (let ids = (case json_field kvs ''finding_ids'' (JArr []) of JArr vs \<Rightarrow> strs_of vs | _ \<Rightarrow> [])
                in Inr ([], map (unknown_in_claim text) (filter (\<lambda>i. \<not> has_finding ev i) ids),
                     [\<lparr>cl_text = safe_str (JStr text), cl_finding_ids = sorted_set ids,
                       cl_status = claim_status ev ids (json_field kvs ''status'' JNull), cl_detail = []\<rparr>])))
      | _ \<Rightarrow> Inr ([item_error ''claims'' index '' is not an object''], [], []))"

text \<open>A section of the payload: absent means empty, anything but a list is an error.\<close>

definition validate_section ::
  "(nat \<times> json \<Rightarrow> 'a item_outcome result) \<Rightarrow> string \<Rightarrow> (pystr \<times> json) list \<Rightarrow> 'a item_outcome result" where
  "validate_section check name payload =
     (case json_field payload name (JArr []) of
        JArr vs \<Rightarrow>
          bindE (mapE check (enumerate 0 vs)) (\<lambda>outs.
            Inr (concat (map fst outs), concat (map (fst \<circ> snd) outs), concat (map (snd \<circ> snd) outs)))
      | _ \<Rightarrow> Inr ([u name @ u '' must be a list''], [], []))"

definition metadata_of :: "(pystr \<times> pystr) list \<Rightarrow> timestamp \<Rightarrow> provider_metadata" where
  "metadata_of base now =
     \<lparr>pm_provider = dict_default base (u ''provider'') (u ''unknown''),
      pm_model = dict_default base (u ''model'') (u ''unknown''),
      pm_model_version = dict_default base (u ''model_version'') (u ''unknown''),
      pm_prompt_schema_version = dict_default base (u ''prompt_schema_version'') (u ''v1''),
      pm_output_schema_version = dict_default base (u ''output_schema_version'') (u ''v1''),
      pm_created_at = now, pm_nondeterministic = True\<rparr>"

definition body_canonical ::
  "pystr \<Rightarrow> severity \<Rightarrow> correlated_group list \<Rightarrow> remediation_item list \<Rightarrow> pystr list \<Rightarrow> claim list \<Rightarrow> pystr" where
  "body_canonical summary priority groups remediation limitations claims =
     dumps_stable (JObj
       [(u ''summary'', JStr summary), (u ''priority'', JStr (severity_value priority)),
        (u ''groups'', JArr (map group_json groups)), (u ''remediation'', JArr (map remediation_json remediation)),
        (u ''limitations'', JArr (map JStr limitations)), (u ''claims'', JArr (map claim_json claims))])"

definition validate_structure ::
  "(pystr \<times> json) list \<Rightarrow> evidence_set \<Rightarrow> (pystr \<times> pystr) list \<Rightarrow> timestamp \<Rightarrow> validation_result result" where
  "validate_structure payload ev base now =
     (let summary = json_field payload ''overall_summary'' JNull;
          priority = json_field payload ''priority'' JNull;
          (limitations, e1) = string_list (json_field payload ''limitations'' (JArr [])) ''limitations''
      in bindE (validate_section (validate_group ev) ''correlated_groups'' payload) (\<lambda>(e2, u2, groups).
         bindE (validate_section (validate_remediation ev) ''remediation'' payload) (\<lambda>(e3, u3, remediation).
         bindE (validate_section (validate_claim ev) ''claims'' payload) (\<lambda>(e4, u4, claims).
           let errors = check_summary summary @ check_priority priority @ e1 @ e2 @ e3 @ e4;
               unsupported = u2 @ u3 @ u4
           in if errors \<noteq> [] then
                Inr \<lparr>vr_accepted = False, vr_assessment = None, vr_failure_kind = Some SCHEMA_INVALID,
                     vr_errors = errors, vr_unsupported_claims = unsupported\<rparr>
              else
                (let s = the (nonblank_text summary); p = the (priority_of priority); m = metadata_of base now
                 in bindE (derive_assessment_id (es_evidence_set_id ev) m
                             (body_canonical s p groups remediation limitations claims)) (\<lambda>i.
                      Inr \<lparr>vr_accepted = True,
                        vr_assessment = Some
                          \<lparr>am_assessment_id = i, am_evidence_set_id = es_evidence_set_id ev,
                           am_overall_summary = s, am_priority = p, am_correlated_groups = groups,
                           am_remediation = remediation,
                           am_limitations = map (\<lambda>x. safe_str (JStr x)) limitations, am_claims = claims,
                           am_unsupported_claim_count = length unsupported, am_provider_metadata = Some m\<rparr>,
                        vr_failure_kind = None, vr_errors = [], vr_unsupported_claims = unsupported\<rparr>))))))"

datatype raw_response = RawBytes "nat list" | RawText pystr | RawValue json

definition validate_value ::
  "json \<Rightarrow> evidence_set \<Rightarrow> (pystr \<times> pystr) list \<Rightarrow> timestamp \<Rightarrow> validation_result result" where
  "validate_value v ev base now =
     (case v of
        JObj payload \<Rightarrow> validate_structure payload ev base now
      | _ \<Rightarrow> Inr (reject_response MALFORMED_RESPONSE (u ''payload is not a JSON object'')))"

text \<open>Only \<open>JSONDecodeError\<close> is handled: a number of too many digits is another \<open>ValueError\<close>.\<close>

definition validate_text ::
  "pystr \<Rightarrow> evidence_set \<Rightarrow> (pystr \<times> pystr) list \<Rightarrow> timestamp \<Rightarrow> validation_result result" where
  "validate_text raw ev base now =
     bindE (utf8_encode raw) (\<lambda>bs.
       if max_output_json_bytes < length bs
       then Inr (reject_response LIMIT_EXCEEDED (u ''response exceeds size cap''))
       else case json_loads raw of
              Inl (Decode msg) \<Rightarrow> Inr (reject_response MALFORMED_RESPONSE (u ''invalid JSON: '' @ u msg))
            | Inl _ \<Rightarrow> Inl ValueError
            | Inr v \<Rightarrow> validate_value v ev base now)"

definition validate_analysis_response ::
  "raw_response \<Rightarrow> evidence_set \<Rightarrow> (pystr \<times> pystr) list \<Rightarrow> timestamp \<Rightarrow> validation_result result" where
  "validate_analysis_response raw ev base now =
     (case raw of
        RawBytes bs \<Rightarrow>
          if max_output_json_bytes < length bs
          then Inr (reject_response LIMIT_EXCEEDED (u ''response exceeds size cap''))
          else validate_text (utf8_decode_replace bs) ev base now
      | RawText t \<Rightarrow> validate_text t ev base now
      | RawValue v \<Rightarrow> validate_value v ev base now)"

section \<open>Lemmas\<close>

lemma section_items:
  assumes "validate_section check name payload = Inr (e, us, xs)"
    and "\<And>x e us xs. check x = Inr (e, us, xs) \<Longrightarrow> (\<forall>y \<in> set xs. P y) \<and> (\<forall>c \<in> set us. Q c)"
  shows "(\<forall>y \<in> set xs. P y) \<and> (\<forall>c \<in> set us. Q c)"
proof (cases "json_field payload name (JArr [])")
  case (JArr vs)
  with assms(1) obtain outs where outs: "mapE check (enumerate 0 vs) = Inr outs"
    and eq: "us = concat (map (fst \<circ> snd) outs)" "xs = concat (map (snd \<circ> snd) outs)"
    by (auto simp: validate_section_def bindE_Inr_iff)
  have "(\<forall>y \<in> set (snd (snd o1)). P y) \<and> (\<forall>c \<in> set (fst (snd o1)). Q c)" if "o1 \<in> set outs" for o1
  proof -
    from mapE_Inr_in [OF outs that] obtain entry where "check entry = Inr o1" by blast
    then show ?thesis using assms(2) [of entry "fst o1" "fst (snd o1)" "snd (snd o1)"] by simp
  qed
  then show ?thesis by (auto simp: eq)
qed (use assms(1) in \<open>simp_all add: validate_section_def\<close>)

definition unsupported_for :: "evidence_set \<Rightarrow> claim \<Rightarrow> bool" where
  "unsupported_for ev c \<longleftrightarrow> cl_status c = UNSUPPORTED \<and> (\<exists>i. cl_finding_ids c = [i] \<and> \<not> has_finding ev i)"

lemma validate_group_items:
  "validate_group ev x = Inr (e, us, xs) \<Longrightarrow>
     (\<forall>g \<in> set xs. gr_finding_ids g \<noteq> [] \<and> (\<forall>i \<in> set (gr_finding_ids g). has_finding ev i))
     \<and> (\<forall>c \<in> set us. unsupported_for ev c)"
  by (auto simp: validate_group_def bindE_Inr_iff Let_def case_prod_beta unsupported_for_def unknown_in_group_def
      split: json.splits option.splits if_splits)

lemma validate_remediation_items:
  "validate_remediation ev x = Inr (e, us, xs) \<Longrightarrow>
     (\<forall>r \<in> set xs. \<forall>i \<in> set (ri_finding_ids r). has_finding ev i) \<and> (\<forall>c \<in> set us. unsupported_for ev c)"
  by (auto simp: validate_remediation_def case_prod_beta split: json.splits option.splits)

lemma validate_claim_items:
  "validate_claim ev x = Inr (e, us, xs) \<Longrightarrow>
     (\<forall>c \<in> set xs. (\<exists>i \<in> set (cl_finding_ids c). \<not> has_finding ev i) \<longrightarrow> cl_status c = UNSUPPORTED)
     \<and> (\<forall>c \<in> set us. unsupported_for ev c)"
  by (auto simp: validate_claim_def Let_def case_prod_beta unsupported_for_def unknown_in_claim_def claim_status_def
      filter_empty_conv split: json.splits option.splits)

lemma validate_to_structure:
  assumes "validate_analysis_response raw ev base now = Inr v" and "vr_assessment v = Some a"
  shows "\<exists>payload. validate_structure payload ev base now = Inr v"
  using assms
  by (auto simp: validate_analysis_response_def validate_text_def validate_value_def reject_response_def bindE_Inr_iff
      split: raw_response.splits if_splits sum.splits json_error.splits json.splits)

lemma structure_accepted:
  assumes "validate_structure payload ev base now = Inr v" and "vr_assessment v = Some a"
  shows "vr_accepted v \<and> am_evidence_set_id a = es_evidence_set_id ev
    \<and> (\<exists>s. nonblank_text (json_field payload ''overall_summary'' JNull) = Some s \<and> length s \<le> max_summary_chars
         \<and> am_overall_summary a = s)
    \<and> priority_of (json_field payload ''priority'' JNull) = Some (am_priority a)
    \<and> (\<exists>e2 u2 e3 u3 e4 u4.
         validate_section (validate_group ev) ''correlated_groups'' payload = Inr (e2, u2, am_correlated_groups a)
         \<and> validate_section (validate_remediation ev) ''remediation'' payload = Inr (e3, u3, am_remediation a)
         \<and> validate_section (validate_claim ev) ''claims'' payload = Inr (e4, u4, am_claims a)
         \<and> vr_unsupported_claims v = u2 @ u3 @ u4)
    \<and> am_unsupported_claim_count a = length (vr_unsupported_claims v)
    \<and> am_provider_metadata a = Some (metadata_of base now)"
  using assms
  by (auto simp: validate_structure_def bindE_Inr_iff Let_def case_prod_beta check_summary_def check_priority_def
      not_less split: if_splits option.splits)

end
