(* ===== verification/AiAnalysis.thy ===== *)
theory AiAnalysis
  imports Assessment
begin

text \<open>
  Prompt assembly (\<open>analysis/prompts.py\<close>) and the fail-closed analysis service (\<open>analysis/service.py\<close>).  The
  provider is an argument: a function of the evidence, the groups and the prompts that answers with a
  raw response or raises.  \<open>clock\<close> gives the successive clock readings.
\<close>

section \<open>Prompts\<close>

definition prompt_schema_version :: pystr where "prompt_schema_version = u ''v1''"
definition output_schema_version :: pystr where "output_schema_version = u ''v1''"

definition system_instructions :: pystr where
  "system_instructions = py_join [10]
     [u ''You are a security-analysis assistant for SentinelGPT.'',
      [],
      u ''You will receive ONE JSON document containing:'',
      u ''  * evidence_set: deterministic findings (and observations) produced by a'',
      u ''    passive HTTP analysis engine, plus request/transport metadata;'',
      u ''  * candidate_groups: pre-computed finding-ID clusters.'',
      [],
      u ''Hard rules:'',
      u ''1. Use ONLY the supplied evidence. Never invent findings, hosts,'',
      u ''   headers, cookies, vulnerabilities, CVEs, or CWEs.'',
      u ''2. Do not invent finding IDs. Every claim MUST reference existing finding'',
      u ''   IDs from the evidence set.'',
      u ''3. Distinguish evidence-backed conclusions from inference. If you reason'',
      u ''   beyond the literal findings, mark that claim INFERRED; if you cannot'',
      u ''   anchor it to any supplied ID, mark it UNSUPPORTED.'',
      u ''4. Preserve severity/confidence semantics: do not escalate a LOW/HIGH'',
      u ''   finding into CRITICAL without new evidence '' @ [8212] @ u '' and you have none.'',
      u ''5. Return remediation guidance that maps to specific findings where possible.'',
      u ''6. State limitations explicitly when evidence is thin or absent.'',
      u ''7. Output ONLY one JSON object matching this schema, with no prose around it:'',
      [],
      u ''{'',
      u ''  '' @ [34] @ u ''overall_summary'' @ [34] @ u '': string,'',
      u ''  '' @ [34] @ u ''priority'' @ [34] @ u '': '' @ [34] @ u ''info'' @ [34] @ u '' | '' @ [34] @ u ''low'' @ [34] @ u '' | '' @ [34] @ u ''medium'' @ [34] @ u '' | '' @ [34] @ u ''high'' @ [34] @ u '' | '' @ [34] @ u ''critical'' @ [34] @ u '','',
      u ''  '' @ [34] @ u ''correlated_groups'' @ [34] @ u '': ['',
      u ''    {'' @ [34] @ u ''title'' @ [34] @ u '': string, '' @ [34] @ u ''finding_ids'' @ [34] @ u '': [string], '' @ [34] @ u ''rationale'' @ [34] @ u '': string}'',
      u ''  ],'',
      u ''  '' @ [34] @ u ''remediation'' @ [34] @ u '': ['',
      u ''    {'' @ [34] @ u ''title'' @ [34] @ u '': string, '' @ [34] @ u ''detail'' @ [34] @ u '': string, '' @ [34] @ u ''finding_ids'' @ [34] @ u '': [string]}'',
      u ''  ],'',
      u ''  '' @ [34] @ u ''limitations'' @ [34] @ u '': [string],'',
      u ''  '' @ [34] @ u ''claims'' @ [34] @ u '': ['',
      u ''    {'' @ [34] @ u ''text'' @ [34] @ u '': string, '' @ [34] @ u ''finding_ids'' @ [34] @ u '': [string],'',
      u ''     '' @ [34] @ u ''status'' @ [34] @ u '': '' @ [34] @ u ''supported'' @ [34] @ u '' | '' @ [34] @ u ''inferred'' @ [34] @ u '' | '' @ [34] @ u ''unsupported'' @ [34] @ u '','',
      u ''     '' @ [34] @ u ''detail'' @ [34] @ u '': string}'',
      u ''  ]'',
      u ''}'',
      [],
      u ''Claim '' @ [34] @ u ''status'' @ [34] @ u '' semantics: use '' @ [34] @ u ''supported'' @ [34] @ u '' when the statement restates what'',
      u ''the referenced findings literally record; '' @ [34] @ u ''inferred'' @ [34] @ u '' when you reason beyond'',
      u ''the literal findings; '' @ [34] @ u ''unsupported'' @ [34] @ u '' only for statements you cannot anchor.'',
      u ''The validator independently re-checks every reference and will force'',
      [34] @ u ''unsupported'' @ [34] @ u '' on unknown IDs regardless of what you declare.'',
      [],
      u ''Any finding_ids you output that do not exist in the evidence set will be'',
      u ''marked UNSUPPORTED and counted against your response.'',
      []]"

definition build_user_prompt :: "evidence_set \<Rightarrow> candidate_group list \<Rightarrow> pystr" where
  "build_user_prompt ev groups =
     dumps_stable (JObj
       [(u ''prompt_schema_version'', JStr prompt_schema_version),
        (u ''output_schema_version'', JStr output_schema_version),
        (u ''evidence_set'', evidence_set_json ev), (u ''candidate_groups'', JArr (map candidate_json groups))])"

definition build_prompts :: "evidence_set \<Rightarrow> candidate_group list \<Rightarrow> pystr \<times> pystr" where
  "build_prompts ev groups = (system_instructions, build_user_prompt ev groups)"

section \<open>The service\<close>

text \<open>A provider's exception: the typed one (its detail cut to 500 characters), or any other, by class name.\<close>

datatype provider_exn = AnalysisProviderError analysis_failure_kind pystr | AnyProviderExn pystr

definition make_provider_error :: "analysis_failure_kind \<Rightarrow> pystr \<Rightarrow> provider_exn" where
  "make_provider_error kind detail = AnalysisProviderError kind (take 500 detail)"

record analyzer =
  az_provider :: pystr
  az_model :: pystr
  az_model_version :: pystr
  az_analyze :: "evidence_set \<Rightarrow> candidate_group list \<Rightarrow> pystr \<Rightarrow> pystr \<Rightarrow> provider_exn + raw_response"

text \<open>The analyzer used by tests and baselines.\<close>

definition scripted_analyzer :: "(provider_exn + raw_response) \<Rightarrow> analyzer" where
  "scripted_analyzer response =
     \<lparr>az_provider = u ''scripted'', az_model = u ''scripted-v1'', az_model_version = [49],
      az_analyze = (\<lambda>_ _ _ _. response)\<rparr>"

datatype analysis_outcome = Assessed assessment | Unavailable assessment_unavailable

definition unavailable :: "evidence_set \<Rightarrow> analysis_failure_kind \<Rightarrow> pystr \<Rightarrow> timestamp \<Rightarrow> assessment_unavailable" where
  "unavailable ev kind detail now =
     \<lparr>un_evidence_set_id = es_evidence_set_id ev, un_failure_kind = kind,
      un_detail = map (\<lambda>c. if c = 10 then 32 else c) (take 300 detail), un_created_at = now\<rparr>"

definition metadata_base :: "analyzer \<Rightarrow> (pystr \<times> pystr) list" where
  "metadata_base az =
     [(u ''provider'', az_provider az), (u ''model'', az_model az), (u ''model_version'', az_model_version az),
      (u ''prompt_schema_version'', prompt_schema_version), (u ''output_schema_version'', output_schema_version)]"

definition analyze ::
  "analyzer \<Rightarrow> (nat \<Rightarrow> timestamp) \<Rightarrow> evidence_set \<Rightarrow> candidate_group list option
     \<Rightarrow> (evidence_set \<times> analysis_outcome) result" where
  "analyze az clock ev given =
     bindE (case given of Some gs \<Rightarrow> Inr gs | None \<Rightarrow> build_candidate_groups ev) (\<lambda>groups.
       let (system, prompt) = build_prompts ev groups
       in case az_analyze az ev groups system prompt of
            Inl (AnalysisProviderError kind detail) \<Rightarrow> Inr (ev, Unavailable (unavailable ev kind detail (clock 0)))
          | Inl (AnyProviderExn name) \<Rightarrow> Inr (ev, Unavailable (unavailable ev UNEXPECTED name (clock 0)))
          | Inr raw \<Rightarrow>
              bindE (validate_analysis_response raw ev (metadata_base az) (clock 0)) (\<lambda>v.
                if \<not> vr_accepted v then
                  Inr (ev, Unavailable (unavailable ev
                    (case vr_failure_kind v of None \<Rightarrow> SCHEMA_INVALID | Some k \<Rightarrow> k)
                    (take 300 (py_join [59, 32] (vr_errors v))) (clock 1)))
                else bindE (some_or (OtherException (u ''AssertionError'')) (vr_assessment v)) (\<lambda>a.
                  Inr (ev, Assessed a))))"

section \<open>When validation returns\<close>

text \<open>Group titles are hashed: a lone surrogate in one cannot be encoded.\<close>

fun title_encodable :: "json \<Rightarrow> bool" where
  "title_encodable (JObj kvs) = (case json_field kvs ''title'' JNull of JStr t \<Rightarrow> encodable t | _ \<Rightarrow> True)"
| "title_encodable _ = True"

fun titles_encodable :: "json \<Rightarrow> bool" where
  "titles_encodable (JObj payload) =
     (case json_field payload ''correlated_groups'' (JArr []) of JArr gs \<Rightarrow> list_all title_encodable gs | _ \<Rightarrow> True)"
| "titles_encodable _ = True"

lemma section_total:
  assumes "\<And>vs n x. json_field payload name (JArr []) = JArr vs \<Longrightarrow> x \<in> set vs \<Longrightarrow> \<exists>out. check (n, x) = Inr out"
  shows "\<exists>out. validate_section check name payload = Inr out"
proof (cases "json_field payload name (JArr [])")
  case (JArr vs)
  have "\<exists>out. check p = Inr out" if "p \<in> set (enumerate 0 vs)" for p
  proof -
    from that have "snd p \<in> set (map snd (enumerate 0 vs))" unfolding set_map by (rule imageI)
    then have "snd p \<in> set vs" by (simp only: map_snd_enumerate)
    from assms [OF JArr this, of "fst p"] show ?thesis by simp
  qed
  then obtain outs where "mapE check (enumerate 0 vs) = Inr outs" using mapE_total by blast
  with JArr show ?thesis by (simp add: validate_section_def)
qed (simp_all add: validate_section_def)

lemma derive_group_total: "encodable t \<Longrightarrow> list_all encodable ids \<Longrightarrow> \<exists>g. derive_group_id t ids = Inr g"
  using sha256_text_encodable [of "u ''group|'' @ t @ 124 # py_join [124] (sort ids)"]
  by (auto simp: derive_group_id_def sha16_def is_surrogate_def encodable_join list_all_iff)

lemma group_total:
  assumes "title_encodable g" and "\<And>i. has_finding ev i \<Longrightarrow> encodable i"
  shows "\<exists>out. validate_group ev (n, g) = Inr out"
proof (cases g)
  case (JObj kvs)
  show ?thesis
  proof (cases "json_field kvs ''title'' JNull")
    case (JStr t)
    with assms(1) JObj have t: "encodable t" by simp
    have "\<exists>gid. derive_group_id t (sorted_set (filter (has_finding ev) ids)) = Inr gid" for ids
      by (rule derive_group_total [OF t]) (simp add: list_all_iff assms(2))
    then obtain gid where "derive_group_id t (sorted_set (filter (has_finding ev) ids)) = Inr (gid ids)" for ids by metis
    with JObj JStr show ?thesis by (auto simp: validate_group_def Let_def split: option.splits)
  qed (simp_all add: JObj validate_group_def)
qed (simp_all add: validate_group_def)

lemma items_total:
  "\<exists>out. validate_section (validate_remediation ev) n payload = Inr out"
  "\<exists>out. validate_section (validate_claim ev) n payload = Inr out"
proof -
  have items: "\<exists>out. validate_remediation ev p = Inr out" "\<exists>out. validate_claim ev p = Inr out" for p
    by (auto simp: validate_remediation_def validate_claim_def Let_def case_prod_beta split: json.splits option.splits)
  show "\<exists>out. validate_section (validate_remediation ev) n payload = Inr out"
    by (rule section_total) (rule items)
  show "\<exists>out. validate_section (validate_claim ev) n payload = Inr out"
    by (rule section_total) (rule items)
qed

lemma body_ascii: "ascii_text (body_canonical s p gs rs ls cs)"
  unfolding body_canonical_def
  by (rule ascii_dumps) (simp add: list_all_iff group_json_def remediation_json_def claim_json_def)

lemma ascii_encodable: "ascii_text s \<Longrightarrow> encodable s"
  by (auto simp: encodable_def list_all_iff list_ex_iff is_surrogate_def)

lemma assessment_id_total:
  assumes "encodable i" "encodable (pm_provider m)" "encodable (pm_model m)"
    "encodable (pm_prompt_schema_version m)" "encodable (pm_output_schema_version m)"
  shows "\<exists>h. derive_assessment_id i m (body_canonical s p gs rs ls cs) = Inr h"
proof -
  have "encodable (py_join [124] [u ''assessment'', i, pm_provider m, pm_model m, pm_prompt_schema_version m,
        pm_output_schema_version m, body_canonical s p gs rs ls cs])"
    using assms ascii_encodable [OF body_ascii] by (intro encodable_join) (simp_all add: is_surrogate_def)
  from sha256_text_encodable [OF this] show ?thesis by (auto simp: derive_assessment_id_def sha16_def)
qed

lemma structure_total:
  assumes "titles_encodable (JObj payload)" and "\<And>i. has_finding ev i \<Longrightarrow> encodable i"
    and "encodable (es_evidence_set_id ev)" "encodable (az_provider az)" "encodable (az_model az)"
  shows "\<exists>v. validate_structure payload ev (metadata_base az) now = Inr v"
proof -
  have "\<exists>out. validate_section (validate_group ev) ''correlated_groups'' payload = Inr out"
  proof (rule section_total)
    fix vs n x
    assume "json_field payload ''correlated_groups'' (JArr []) = JArr vs" "x \<in> set vs"
    with assms(1) have "title_encodable x" by (auto simp: list_all_iff)
    then show "\<exists>out. validate_group ev (n, x) = Inr out" by (rule group_total) (rule assms(2))
  qed
  then obtain e2 u2 gs where s2: "validate_section (validate_group ev) ''correlated_groups'' payload = Inr (e2, u2, gs)"
    by auto
  obtain e3 u3 rs where s3: "validate_section (validate_remediation ev) ''remediation'' payload = Inr (e3, u3, rs)"
    using items_total(1) [of ev "''remediation''" payload] by auto
  obtain e4 u4 cs where s4: "validate_section (validate_claim ev) ''claims'' payload = Inr (e4, u4, cs)"
    using items_total(2) [of ev "''claims''" payload] by auto
  have "\<exists>h. derive_assessment_id (es_evidence_set_id ev) (metadata_of (metadata_base az) now)
      (body_canonical s p gs rs ls cs) = Inr h" for s p ls
    by (rule assessment_id_total)
      (use assms in \<open>simp_all add: metadata_of_def metadata_base_def dict_default_def prompt_schema_version_def
        output_schema_version_def\<close>)
  with s2 s3 s4 show ?thesis
    by (auto simp: validate_structure_def Let_def case_prod_beta) (metis bindE_simps(2))
qed

lemma nonblank_not_empty: "nonblank_text v \<noteq> Some []"
  by (cases v) (auto simp: strip_by_def lstrip_by_def)

lemma accepted_has_assessment:
  assumes "validate_structure payload ev base now = Inr v" and "vr_accepted v"
  shows "\<exists>a. vr_assessment v = Some a"
  using assms by (auto simp: validate_structure_def bindE_Inr_iff Let_def case_prod_beta split: if_splits)

lemma value_total:
  assumes "titles_encodable v" and "\<And>i. has_finding ev i \<Longrightarrow> encodable i"
    and "encodable (es_evidence_set_id ev)" "encodable (az_provider az)" "encodable (az_model az)"
  shows "\<exists>r. validate_value v ev (metadata_base az) now = Inr r \<and> (vr_accepted r \<longrightarrow> (\<exists>a. vr_assessment r = Some a))"
proof (cases v)
  case (JObj payload)
  with structure_total [of payload ev az now] assms accepted_has_assessment show ?thesis
    by (auto simp: validate_value_def)
qed (simp_all add: validate_value_def reject_response_def)

lemma hexdigest_encodable: "encodable (take n (sha256_hexdigest bs))"
proof -
  have "ascii_text (concat (map (\<lambda>w. hex_pad 8 (unat w)) ws))" for ws :: "u32 list"
    by (induction ws) (simp_all add: ascii_hex_pad)
  then have "ascii_text (sha256_hexdigest bs)" unfolding sha256_hexdigest_def .
  then have "ascii_text (take n (sha256_hexdigest bs))" by (meson in_set_takeD list_all_iff)
  then show ?thesis by (rule ascii_encodable)
qed

lemma evidence_id_encodable: "evidence_from_result r = Inr ev \<Longrightarrow> encodable (es_evidence_set_id ev)"
  by (auto simp: evidence_from_result_def derive_id_def sha16_ascii ascii_dumps canonical_float_free Let_def hexdigest_encodable)

section \<open>Properties\<close>

lemma claim_citations_recorded:
  assumes "validate_section (validate_claim ev) name payload = Inr (es, us, cs)" and "c \<in> set cs"
    and "i \<in> set (cl_finding_ids c)" and "\<not> has_finding ev i"
  shows "\<exists>x \<in> set us. cl_finding_ids x = [i]"
proof -
  from assms(1,2) obtain vs outs where outs: "mapE (validate_claim ev) (enumerate 0 vs) = Inr outs"
    "us = concat (map (fst \<circ> snd) outs)" "cs = concat (map (snd \<circ> snd) outs)"
    by (auto simp: validate_section_def bindE_Inr_iff split: json.splits)
  with assms(2) obtain out where out: "out \<in> set outs" "c \<in> set (snd (snd out))" by auto
  from mapE_Inr_in [OF outs(1) out(1)] obtain entry where "validate_claim ev entry = Inr out" by blast
  with out(2) assms(3,4) have "\<exists>x \<in> set (fst (snd out)). cl_finding_ids x = [i]"
    by (auto simp: validate_claim_def Let_def case_prod_beta unknown_in_claim_def sorted_set_def
        split: json.splits option.splits)
  with out(1) show ?thesis unfolding outs(2) by auto
qed


text \<open>C25 [analysis_fails_closed]: whatever a provider does that answers with parsed JSON whose group titles are
  encodable (or raises, in whatever way), analysing an engine result returns the evidence unchanged and
  either an assessment bound to it or a typed failure bound to it with a one-line detail of at most 300
  characters; a typed provider failure keeps its kind, any other exception becomes \<open>unexpected\<close>.\<close>

theorem analysis_fails_closed:
  assumes "evidence_from_result r = Inr ev"
    and "list_all (\<lambda>f. encodable (fd_id f) \<and> encodable (fd_category f)) (an_findings r)"
    and "encodable (az_provider az)" "encodable (az_model az)"
    and "\<And>gs s p. (\<exists>x. az_analyze az ev gs s p = Inl x)
      \<or> (\<exists>val. az_analyze az ev gs s p = Inr (RawValue val) \<and> titles_encodable val)"
  shows "\<exists>out gs. analyze az clock ev None = Inr (ev, out) \<and> build_candidate_groups ev = Inr gs
    \<and> (case out of
         Assessed a \<Rightarrow> am_evidence_set_id a = es_evidence_set_id ev
       | Unavailable x \<Rightarrow> un_evidence_set_id x = es_evidence_set_id ev \<and> length (un_detail x) \<le> 300 \<and> 10 \<notin> set (un_detail x))
    \<and> (case az_analyze az ev gs system_instructions (build_user_prompt ev gs) of
         Inl (AnalysisProviderError k d) \<Rightarrow> out = Unavailable (unavailable ev k d (clock 0))
       | Inl (AnyProviderExn n) \<Rightarrow> out = Unavailable (unavailable ev UNEXPECTED n (clock 0))
       | Inr _ \<Rightarrow> True)"
proof -
  have fs: "set (es_findings ev) = set (an_findings r)" using evidence_fields_of [OF assms(1)] by simp
  then obtain gs where gs: "build_candidate_groups ev = Inr gs"
    using groups_total [of ev] assms(2) by (auto simp: list_all_iff)
  have un: "un_evidence_set_id (unavailable ev k d t) = es_evidence_set_id ev
      \<and> length (un_detail (unavailable ev k d t)) \<le> 300 \<and> 10 \<notin> set (un_detail (unavailable ev k d t))" for k d t
    by (auto simp: unavailable_def)
  have enc: "encodable i" if "has_finding ev i" for i
    using that has_finding_iff [OF assms(1)] assms(2) by (auto simp: list_all_iff)
  let ?ans = "az_analyze az ev gs system_instructions (build_user_prompt ev gs)"
  show ?thesis
  proof (cases ?ans)
    case (Inl x)
    with gs un show ?thesis by (cases x) (auto simp: analyze_def build_prompts_def)
  next
    case (Inr raw)
    with assms(5) obtain val where val: "raw = RawValue val" "titles_encodable val"
      by (metis Inl_Inr_False sum.inject(2))
    from value_total [OF val(2) enc evidence_id_encodable [OF assms(1)] assms(3,4), of "clock 0"]
    obtain v where v: "validate_value val ev (metadata_base az) (clock 0) = Inr v"
      "vr_accepted v \<longrightarrow> (\<exists>a. vr_assessment v = Some a)" by blast
    have raw: "validate_analysis_response raw ev (metadata_base az) (clock 0) = Inr v"
      using v(1) by (simp add: val(1) validate_analysis_response_def)
    show ?thesis
    proof (cases "vr_accepted v")
      case True
      with v(2) obtain a where a: "vr_assessment v = Some a" by blast
      have "am_evidence_set_id a = es_evidence_set_id ev"
        using validate_to_structure [OF raw a] structure_accepted [OF _ a] by blast
      with True a raw Inr gs show ?thesis by (auto simp: analyze_def build_prompts_def)
    next
      case False
      with raw Inr gs un show ?thesis by (auto simp: analyze_def build_prompts_def)
    qed
  qed
qed

text \<open>One JSON value breaks through the boundary: when a group title is a lone surrogate (the JSON text
  \<open>"\\ud800"\<close>), hashing the title raises and the exception leaves the analysis.\<close>

definition surrogate_reply :: "pystr \<Rightarrow> json" where
  "surrogate_reply i =
     JObj [(u ''overall_summary'', JStr (u ''s'')), (u ''priority'', JStr (u ''low'')),
           (u ''correlated_groups'', JArr [JObj [(u ''title'', JStr [55296]), (u ''finding_ids'', JArr [JStr i])]])]"

lemma surrogate_raises:
  assumes "has_finding ev i" and "build_candidate_groups ev = Inr gs"
  shows "analyze (scripted_analyzer (Inr (RawValue (surrogate_reply i)))) clock ev None = Inl ValueError"
proof -
  have "validate_group ev (0, JObj [(u ''title'', JStr [55296]), (u ''finding_ids'', JArr [JStr i])]) = Inl ValueError"
    using assms(1)
    by (simp add: validate_group_def json_field_def dict_default_def derive_group_id_def sha16_def sha256_text_def
        utf8_encode_def is_surrogate_def strip_by_def lstrip_by_def rstrip_by_def py_isspace_def sorted_set_def)
  then have "validate_section (validate_group ev) ''correlated_groups''
      [(u ''overall_summary'', JStr (u ''s'')), (u ''priority'', JStr (u ''low'')),
       (u ''correlated_groups'', JArr [JObj [(u ''title'', JStr [55296]), (u ''finding_ids'', JArr [JStr i])]])] = Inl ValueError"
    by (simp add: validate_section_def json_field_def dict_default_def)
  with assms(2) show ?thesis
    by (simp add: analyze_def scripted_analyzer_def build_prompts_def validate_analysis_response_def validate_value_def
        surrogate_reply_def validate_structure_def case_prod_beta)
qed

section \<open>Examples\<close>

definition example_reply :: json where
  "example_reply =
     JObj [(u ''overall_summary'', JStr (u ''s'')), (u ''priority'', JStr (u ''low'')),
           (u ''claims'', JArr [JObj [(u ''text'', JStr (u ''t'')), (u ''finding_ids'', JArr [JStr (u ''zz'')]),
              (u ''status'', JStr (u ''supported''))]])]"

lemma example_plain_findings: "list_all (\<lambda>f. encodable (fd_id f) \<and> encodable (fd_category f)) (an_findings example_result)"
  by (simp add: example_result_def example_finding_def category_cookies_def)

theorem analysis_fails_closed_witness:
  "\<exists>ev out. evidence_from_result example_result = Inr ev
     \<and> analyze (scripted_analyzer (Inl (AnalysisProviderError TIMEOUT (u ''late'')))) int ev None = Inr (ev, out)
     \<and> out = Unavailable (unavailable ev TIMEOUT (u ''late'') 0)"
proof -
  obtain ev where ev: "evidence_from_result example_result = Inr ev" using evidence_total by blast
  from analysis_fails_closed [OF ev example_plain_findings,
      of "scripted_analyzer (Inl (AnalysisProviderError TIMEOUT (u ''late'')))" int] ev
  show ?thesis by (auto simp: scripted_analyzer_def text_defs is_surrogate_def)
qed

lemma surrogate_example:
  "\<exists>ev. evidence_from_result example_result = Inr ev
     \<and> analyze (scripted_analyzer (Inr (RawValue (surrogate_reply (u ''f1''))))) int ev None = Inl ValueError"
proof -
  obtain ev where ev: "evidence_from_result example_result = Inr ev" using evidence_total by blast
  then have "has_finding ev (u ''f1'')" by (simp add: has_finding_iff example_finding_ids)
  moreover obtain gs where "build_candidate_groups ev = Inr gs"
    using groups_total [of ev] example_plain_findings evidence_fields_of [OF ev] by (auto simp: list_all_iff)
  ultimately show ?thesis using surrogate_raises ev by blast
qed


end
