(* ===== verification/Explanations.thy ===== *)
theory Explanations
  imports ScanPersist Evidence
begin

text \<open>
  Per-finding explanations (\<open>analysis/finding_explanation.py\<close>) and the deterministic templates used without
  the AI (\<open>analysis/fallback_templates.py\<close>).
\<close>

section \<open>Explanations\<close>

datatype explanation_status = VALIDATED | FALLBACK_USED | EXPLANATION_PENDING

fun explanation_status_value :: "explanation_status \<Rightarrow> pystr" where
  "explanation_status_value VALIDATED = u ''validated''"
| "explanation_status_value FALLBACK_USED = u ''fallback_used''"
| "explanation_status_value EXPLANATION_PENDING = u ''pending''"

record evidence_reference =
  er_evidence_id :: pystr
  er_snippet :: pystr

record explained_claim =
  ec_text :: pystr
  ec_references :: "evidence_reference list"

record remediation =
  rm_summary :: pystr
  rm_steps :: "pystr list"
  rm_stack_specific_notes :: pystr

record finding_explanation =
  fx_finding_id :: pystr
  fx_claims :: "explained_claim list"
  fx_explanation_text :: pystr
  fx_severity_rationale :: pystr
  fx_remediation :: remediation
  fx_validation_status :: explanation_status
  fx_prompt_template_version :: pystr
  fx_model_name :: pystr
  fx_model_version :: pystr
  fx_provider :: pystr
  fx_confidence_note :: pystr
  fx_is_nondeterministic :: bool

definition reference_json :: "evidence_reference \<Rightarrow> json" where
  "reference_json r = JObj [(u ''evidence_id'', JStr (er_evidence_id r)), (u ''snippet'', JStr (er_snippet r))]"

definition explained_claim_json :: "explained_claim \<Rightarrow> json" where
  "explained_claim_json c =
     JObj [(u ''text'', JStr (ec_text c)), (u ''references'', JArr (map reference_json (ec_references c)))]"

definition remediation_guidance_json :: "remediation \<Rightarrow> json" where
  "remediation_guidance_json r =
     JObj [(u ''summary'', JStr (rm_summary r)), (u ''steps'', JArr (map JStr (rm_steps r))),
           (u ''stack_specific_notes'', JStr (rm_stack_specific_notes r))]"

definition explanation_json :: "finding_explanation \<Rightarrow> json" where
  "explanation_json x =
     JObj
      [(u ''finding_id'', JStr (fx_finding_id x)), (u ''claims'', JArr (map explained_claim_json (fx_claims x))),
       (u ''explanation_text'', JStr (fx_explanation_text x)),
       (u ''severity_rationale'', JStr (fx_severity_rationale x)),
       (u ''remediation'', remediation_guidance_json (fx_remediation x)),
       (u ''validation_status'', JStr (explanation_status_value (fx_validation_status x))),
       (u ''prompt_template_version'', JStr (fx_prompt_template_version x)),
       (u ''model'', JObj
          [(u ''provider'', JStr (fx_provider x)), (u ''name'', JStr (fx_model_name x)),
           (u ''version'', JStr (fx_model_version x)), (u ''nondeterministic'', JBool (fx_is_nondeterministic x))]),
       (u ''confidence_note'', JStr (fx_confidence_note x))]"

definition render_explanation_text :: "explained_claim list \<Rightarrow> pystr" where
  "render_explanation_text claims =
     (if claims = [] then u ''No evidence-validated claims are available for this finding.''
      else py_join [32] (filter (\<lambda>t. t \<noteq> []) (map (\<lambda>c. py_strip (ec_text c)) claims)))"

section \<open>Templates\<close>

record fallback_template =
  ft_claims :: "explained_claim list"
  ft_rationale :: pystr
  ft_remediation :: remediation

definition plain_claim :: "pystr \<Rightarrow> explained_claim" where
  "plain_claim text = \<lparr>ec_text = text, ec_references = []\<rparr>"

definition generic_rationale :: pystr where
  "generic_rationale = u ''Severity reflects the deterministic impact category assigned by the scanner; this fallback explanation is template-based because the AI service was unavailable at explanation time.''"

definition templates :: "(pystr \<times> fallback_template) list" where
  "templates =
     [(u ''MISSING_SECURITY_HEADER'',
       \<lparr>ft_claims = [plain_claim (u ''The response did not include a security header the browser relies on to enforce an expected security policy.'')],
        ft_rationale = generic_rationale,
        ft_remediation = \<lparr>rm_summary = u ''Add the recommended HTTP response header.'',
          rm_steps = [u ''Identify the missing header in the finding evidence.'',
            u ''Configure your web server or application to send the header on every response.'',
            u ''Verify the header is present using an external request and re-run the scan.''],
          rm_stack_specific_notes = []\<rparr>\<rparr>),
      (u ''WEAK_CIPHER'',
       \<lparr>ft_claims = [plain_claim (u ''The TLS configuration accepted a cipher or protocol version that is no longer considered secure.'')],
        ft_rationale = generic_rationale,
        ft_remediation = \<lparr>rm_summary = u ''Disable the weak cipher or protocol on the TLS endpoint.'',
          rm_steps = [u ''Identify the weak cipher suite or protocol version in the evidence.'',
            u ''Reconfigure the TLS endpoint to disable the weak option.'',
            u ''Re-test the endpoint with an external scanner to confirm only strong options remain.''],
          rm_stack_specific_notes = []\<rparr>\<rparr>),
      (u ''OUTDATED_TLS'',
       \<lparr>ft_claims = [plain_claim (u ''The TLS endpoint accepted a protocol version (for example TLS 1.0 or 1.1) that has been deprecated.'')],
        ft_rationale = generic_rationale,
        ft_remediation = \<lparr>rm_summary = u ''Restrict the TLS endpoint to TLS 1.2 and TLS 1.3 only.'',
          rm_steps = [u ''Update the TLS configuration to disable deprecated protocol versions.'',
            u ''Confirm the change with a TLS-scanning tool and re-run the scan.''],
          rm_stack_specific_notes = []\<rparr>\<rparr>),
      (u ''KNOWN_CVE'',
       \<lparr>ft_claims = [plain_claim (u ''The finding references a known CVE; consult the linked advisory for authoritative impact and remediation guidance.'')],
        ft_rationale = generic_rationale,
        ft_remediation = \<lparr>rm_summary = u ''Apply the vendor fix or mitigation from the CVE advisory.'',
          rm_steps = [u ''Open the CVE advisory referenced in the evidence.'',
            u ''Apply the vendor-supplied patch or documented workaround.'',
            u ''Re-run the scan to confirm the finding is gone.''],
          rm_stack_specific_notes = []\<rparr>\<rparr>),
      (u ''EXPOSED_ADMIN_PANEL'',
       \<lparr>ft_claims = [plain_claim (u ''An administrative interface is reachable at a path that should not be publicly exposed.'')],
        ft_rationale = generic_rationale,
        ft_remediation = \<lparr>rm_summary = u ''Restrict access to the administrative interface.'',
          rm_steps = [u ''Place the admin path behind a VPN, IP allow-list, or single-sign-on gateway.'',
            u ''Audit the existing access log for unexpected connections.'',
            u ''Re-run the scan to confirm the path is no longer reachable from the public internet.''],
          rm_stack_specific_notes = []\<rparr>\<rparr>)]"

definition generic_fallback :: fallback_template where
  "generic_fallback =
      \<lparr>ft_claims = [plain_claim (u ''A scanner detected an issue whose AI explanation could not be produced at this time.'')],
        ft_rationale = generic_rationale,
        ft_remediation = \<lparr>rm_summary = u ''Review the finding evidence directly and apply a manual fix.'',
          rm_steps = [u ''Read the finding'' @ [39] @ u ''s evidence field for the raw scanner observation.'',
            u ''Consult your internal security checklist for the matching category.'',
            u ''Re-run the scan after the fix to confirm resolution.''],
          rm_stack_specific_notes = []\<rparr>\<rparr>"

definition get_template :: "pystr \<Rightarrow> fallback_template" where
  "get_template code = dict_default templates (py_upper code) generic_fallback"

definition build_fallback_explanation :: "pystr \<Rightarrow> pystr \<Rightarrow> finding_explanation" where
  "build_fallback_explanation i code =
     (let template = get_template code
      in \<lparr>fx_finding_id = i, fx_claims = ft_claims template,
          fx_explanation_text = py_strip (py_join [32] (map (\<lambda>c. bound_evidence (ec_text c)) (ft_claims template))),
          fx_severity_rationale = bound_evidence (ft_rationale template),
          fx_remediation = ft_remediation template, fx_validation_status = FALLBACK_USED,
          fx_prompt_template_version = u ''fallback.v1'', fx_model_name = u ''template-fallback'',
          fx_model_version = [49], fx_provider = u ''template'', fx_confidence_note = [],
          fx_is_nondeterministic = False\<rparr>)"

text \<open>\<open>ScanService._build_per_finding_fallback_payload\<close>: one explanation per finding id.\<close>

definition per_finding_fallbacks :: "finding list \<Rightarrow> (pystr \<times> json) list" where
  "per_finding_fallbacks fs =
     dict_of (map (\<lambda>f. (fd_id f, explanation_json (build_fallback_explanation (fd_id f) (fd_category f)))) fs)"

section \<open>Properties\<close>

lemma template_no_references:
  "\<forall>c \<in> set (ft_claims (get_template code)). ec_references c = []"
proof -
  have "\<forall>(k, t) \<in> set templates. \<forall>c \<in> set (ft_claims t). ec_references c = []"
    by (simp add: templates_def plain_claim_def)
  moreover have "\<forall>c \<in> set (ft_claims generic_fallback). ec_references c = []"
    by (simp add: generic_fallback_def plain_claim_def)
  ultimately show ?thesis
    by (auto simp: get_template_def dict_default_def split: option.splits dest: map_of_SomeD)
qed

lemma generic_no_references: "\<forall>c \<in> set (ft_claims generic_fallback). ec_references c = []"
  by (simp add: generic_fallback_def plain_claim_def)

definition engine_categories :: "pystr list" where
  "engine_categories = [category_headers, category_cookies, category_transport, category_server]"

lemma engine_category_template: "c \<in> set engine_categories \<Longrightarrow> get_template c = generic_fallback"
  by (auto simp: engine_categories_def get_template_def templates_def dict_default_def category_headers_def
      category_cookies_def category_transport_def category_server_def py_upper_def upper_char_def is_lower_alpha_def
      text_defs)

text \<open>The payload of an unavailable assessment has exactly one explanation per finding
  id, each labelled as a fallback and without evidence references; but because the template is looked up
  by the engine category instead of the canonical code, every finding of the engine gets the generic
  text, although the canonical codes of all four categories have a template of their own.\<close>

theorem fallbacks_are_generic:
  assumes "\<forall>f \<in> set fs. fd_category f \<in> set engine_categories"
  shows "fst ` set (per_finding_fallbacks fs) = fd_id ` set fs
    \<and> (\<forall>f \<in> set fs. let x = build_fallback_explanation (fd_id f) (fd_category f)
         in fx_validation_status x = FALLBACK_USED \<and> (\<forall>c \<in> set (fx_claims x). ec_references c = [])
            \<and> fx_claims x = ft_claims generic_fallback \<and> fx_remediation x = ft_remediation generic_fallback
            \<and> get_template (canonical_category_code (fd_category f)) \<noteq> generic_fallback)"
proof -
  have keys: "fst ` set (dict_of kvs) = fst ` set kvs" for kvs :: "(pystr \<times> json) list"
    using arg_cong [OF dict_of_map [of kvs], of dom] by (simp add: dom_map_of_conv_image_fst)
  have own: "get_template (canonical_category_code c) \<noteq> generic_fallback" if "c \<in> set engine_categories" for c
    using that
    by (auto simp: engine_categories_def canonical_category_code_def engine_category_to_canonical_def dict_default_def
        category_headers_def category_cookies_def category_transport_def category_server_def get_template_def
        templates_def generic_fallback_def plain_claim_def py_upper_def upper_char_def is_lower_alpha_def u_def)
  show ?thesis
    using assms own generic_no_references engine_category_template
    by (auto simp: per_finding_fallbacks_def keys build_fallback_explanation_def image_image Let_def)
qed

theorem fallbacks_are_generic_witness:
  "fst ` set (per_finding_fallbacks (an_findings example_result)) = {u ''f1'', u ''f2''}"
proof -
  have "\<forall>f \<in> set (an_findings example_result). fd_category f \<in> set engine_categories"
    by (simp add: example_result_def example_finding_def engine_categories_def)
  from fallbacks_are_generic [OF this] show ?thesis by (simp add: example_finding_ids)
qed

end
