(* ===== verification/ScanJob.thy ===== *)
theory ScanJob
  imports AuditTrail AiAnalysis Explanations
begin

text \<open>
  The background job (\<open>ScanService.execute_scan_job\<close>), the pipeline it runs (\<open>domain/scans/pipeline.py\<close>) and
  the worker around it (\<open>workers/scan_tasks.py\<close>).  The job commits three times; each stretch between two
  commits is one function on the database, atomic because it is one transaction, and an exception rolls
  it back.  \<open>clock\<close> gives the successive clock readings of one stretch.
\<close>

section \<open>Claiming the scan\<close>

definition engine_id :: "db \<Rightarrow> pystr \<Rightarrow> nat result" where
  "engine_id d code = some_or lookup_error (id_of_code (scan_engines d) code)"

definition headers_analyzer :: pystr where "headers_analyzer = u ''headers-analyzer''"

text \<open>\<open>SCAN_STATE_TRANSITION\<close> entries carry the initiator as owner and no actor.\<close>

definition transition_metadata :: "pystr \<Rightarrow> pystr \<Rightarrow> pystr option \<Rightarrow> scan_row \<Rightarrow> json pydict" where
  "transition_metadata from_code to_code reason s =
     [(u ''from'', JStr from_code), (u ''to'', JStr to_code)]
     @ (case reason of None \<Rightarrow> [] | Some r \<Rightarrow> [(u ''reason'', JStr r)])
     @ [(u ''ownerUserId'', JStr (uuid_text (sc_initiated_by_user_id s)))]"

definition audit_transition :: "pystr \<Rightarrow> pystr \<Rightarrow> pystr option \<Rightarrow> scan_row \<Rightarrow> timestamp \<Rightarrow> db \<Rightarrow> db" where
  "audit_transition from_code to_code reason s now d =
     snd (record_audit (u ''SCAN_STATE_TRANSITION'') (u ''scan'') (sc_id s)
            (transition_metadata from_code to_code reason s) None now d)"

abbreviation move :: "uuid \<Rightarrow> scan_status \<Rightarrow> scan_status \<Rightarrow> timestamp option \<Rightarrow> db \<Rightarrow> db" where
  "move i a b completed d \<equiv> snd (try_transition i a b None completed d)"

definition invalid_attestation :: pystr where
  "invalid_attestation = u ''authorization attestation no longer valid''"

definition reject_unauthorized :: "(nat \<Rightarrow> timestamp) \<Rightarrow> scan_row \<Rightarrow> db \<Rightarrow> db result" where
  "reject_unauthorized clock s d =
     (let d1 = audit_transition (status_text QUEUED) (status_text REJECTED) (Some invalid_attestation) s (clock 2) d
      in bindE (engine_id d1 headers_analyzer) (\<lambda>eid.
           let (row, d2) = create_execution (sc_id s) eid (u ''unknown'') FAILED None d1;
               d3 = mark_execution (ex_id row) FAILED (clock 3) (Some invalid_attestation) d2
           in Inr (move (sc_id s) RUNNING REJECTED (Some (clock 4)) d3)))"

text \<open>What the first stretch ends in: nothing to do, a rejection, or a claimed scan with its execution.\<close>

datatype claim_outcome = NothingToDo | RejectedScan | Claimed scan_row uuid origin

record scan_pipeline =
  pl_engine_code :: pystr
  pl_engine_version :: pystr

definition default_pipeline :: scan_pipeline where
  "default_pipeline = \<lparr>pl_engine_code = headers_analyzer, pl_engine_version = [49]\<rparr>"

definition claim_scan :: "scan_pipeline \<Rightarrow> (nat \<Rightarrow> timestamp) \<Rightarrow> uuid \<Rightarrow> db \<Rightarrow> (claim_outcome \<times> db) result" where
  "claim_scan pl clock scan_id d =
     (case scan_by_id d scan_id of
        None \<Rightarrow> Inr (NothingToDo, d)
      | Some s \<Rightarrow>
          (let (claimed, d1) = try_transition (sc_id s) QUEUED RUNNING (Some (clock 0)) None d
           in if \<not> claimed then Inr (NothingToDo, d)
              else if (case session_get at_id (attestations d1) (sc_authorization_attestation_id s) of
                         None \<Rightarrow> True | Some a \<Rightarrow> \<not> attestation_active (clock 1) a)
              then bindE (reject_unauthorized clock s d1) (\<lambda>d2. Inr (RejectedScan, d2))
              else bindE (origin_for_target d1 (sc_target_id s)) (\<lambda>origin.
                   bindE (engine_id d1 (pl_engine_code pl)) (\<lambda>eid.
                     let (row, d2) = create_execution (sc_id s) eid (take 50 (pl_engine_version pl)) EXEC_RUNNING
                           (Some (clock 2)) d1
                     in Inr (Claimed s (ex_id row) origin, d2)))))"

section \<open>Recording the result\<close>

definition record_failure :: "(nat \<Rightarrow> timestamp) \<Rightarrow> scan_row \<Rightarrow> uuid \<Rightarrow> exn \<Rightarrow> db \<Rightarrow> db" where
  "record_failure clock s execution_id e d =
     (let d1 = mark_execution execution_id FAILED (clock 0) (Some (exn_name e)) d;
          d2 = audit_transition (status_text RUNNING) (status_text REJECTED) (Some (exn_name e)) s (clock 1) d1
      in move (sc_id s) RUNNING REJECTED (Some (clock 2)) d2)"

definition record_success :: "(nat \<Rightarrow> timestamp) \<Rightarrow> scan_row \<Rightarrow> uuid \<Rightarrow> analysis_result \<Rightarrow> db \<Rightarrow> db result" where
  "record_success clock s execution_id r d =
     (let d1 = audit_transition (status_text RUNNING) (u ''EXECUTION_SUCCEEDED'') None s (clock 0) d;
          d2 = mark_execution execution_id SUCCEEDED (clock 1) None d1
      in bindE (persist_findings (clock 2) execution_id (an_findings r) d2) (\<lambda>d3.
           Inr (move (sc_id s) SCAN_COMPLETE AI_ANALYSIS None (move (sc_id s) RUNNING SCAN_COMPLETE None d3))))"

section \<open>Assessment\<close>

text \<open>\<open>str.isdigit\<close> admits digits that \<open>int\<close> refuses.\<close>

definition decimal_value :: "nat \<Rightarrow> nat" where
  "decimal_value c = (case List.find (\<lambda>z. z \<le> c \<and> c \<le> z + 9) decimal_starts of None \<Rightarrow> 0 | Some z \<Rightarrow> c - z)"

fun coerce_count :: "json \<Rightarrow> int result" where
  "coerce_count (JBool b) = Inr (if b then 1 else 0)"
| "coerce_count (JInt i) = Inr i"
| "coerce_count (JStr s) =
     (if s \<noteq> [] \<and> list_all py_isdigit s
      then (if list_all py_isdecimal s \<and> length s \<le> 4300
            then Inr (int (fold (\<lambda>c n. 10 * n + decimal_value c) s 0)) else Inl ValueError)
      else Inr 0)"
| "coerce_count _ = Inr 0"

record assessment_summary =
  sm_payload :: "(pystr \<times> json) list"
  sm_is_available :: bool
  sm_failure_kind :: "pystr option"
  sm_provider :: pystr
  sm_model :: pystr

definition summarize_outcome :: "evidence_set \<Rightarrow> analysis_outcome option \<Rightarrow> assessment_summary" where
  "summarize_outcome ev outcome =
     (case outcome of
        None \<Rightarrow>
          \<lparr>sm_payload = [(u ''evidence_set_id'', JStr (es_evidence_set_id ev)),
             (u ''failure_kind'', JStr (u ''provider_unavailable'')),
             (u ''detail'', JStr (u ''AI provider not configured''))],
           sm_is_available = False, sm_failure_kind = Some (u ''provider_unavailable''),
           sm_provider = u ''none'', sm_model = u ''unavailable''\<rparr>
      | Some (Unavailable x) \<Rightarrow>
          \<lparr>sm_payload = unavailable_json x, sm_is_available = False,
           sm_failure_kind = Some (analysis_failure_value (un_failure_kind x)),
           sm_provider = u ''none'', sm_model = u ''unavailable''\<rparr>
      | Some (Assessed a) \<Rightarrow>
          \<lparr>sm_payload = assessment_json a, sm_is_available = True, sm_failure_kind = None,
           sm_provider = (case am_provider_metadata a of None \<Rightarrow> u ''unknown'' | Some m \<Rightarrow> pm_provider m),
           sm_model = (case am_provider_metadata a of None \<Rightarrow> u ''unknown'' | Some m \<Rightarrow> pm_model m)\<rparr>)"

definition set_default :: "(pystr \<times> json) list \<Rightarrow> pystr \<Rightarrow> json \<Rightarrow> (pystr \<times> json) list" where
  "set_default d k v = (if dict_get d k = None then d @ [(k, v)] else d)"

text \<open>The count is coerced from the whole payload, which is a dict.\<close>

definition assessment_row_values :: "assessment_summary \<Rightarrow> finding list \<Rightarrow> assessment_values result" where
  "assessment_row_values sm fs =
     (let payload = JObj (set_default (sm_payload sm) (u ''findings'') (JObj (per_finding_fallbacks fs)))
      in bindE (coerce_count payload) (\<lambda>n.
           Inr \<lparr>av_provider = sm_provider sm, av_model = sm_model sm, av_prompt_schema_version = u ''v1'',
                av_output_schema_version = u ''v1'', av_is_available = sm_is_available sm,
                av_failure_kind = sm_failure_kind sm, av_unsupported_claim_count = n, av_payload = payload\<rparr>))"

definition final_status :: "bool \<Rightarrow> scan_status" where
  "final_status available = (if available then REPORT_READY else REPORT_READY_DEGRADED)"

definition assess :: "analyzer option \<Rightarrow> (nat \<Rightarrow> timestamp) \<Rightarrow> analysis_result \<Rightarrow> assessment_summary result" where
  "assess ai clock r =
     bindE (evidence_from_result r) (\<lambda>ev.
       case ai of
         None \<Rightarrow> Inr (summarize_outcome ev None)
       | Some az \<Rightarrow> bindE (analyze az clock ev None) (\<lambda>(_, out). Inr (summarize_outcome ev (Some out))))"

definition record_assessment ::
  "analyzer option \<Rightarrow> (nat \<Rightarrow> timestamp) \<Rightarrow> scan_row \<Rightarrow> uuid \<Rightarrow> analysis_result \<Rightarrow> db \<Rightarrow> db result" where
  "record_assessment ai clock s execution_id r d =
     bindE (assess ai clock r) (\<lambda>sm.
     bindE (assessment_row_values sm (an_findings r)) (\<lambda>v.
       Inr (move (sc_id s) AI_ANALYSIS (final_status (sm_is_available sm)) (Some (clock 3))
              (upsert_ai_assessment (clock 2) execution_id v d))))"

section \<open>The job\<close>

text \<open>
  The environment of a job: the pipeline and what running it does, the analyzer in effect (the argument, or
  else the configured provider if it can be built), the clocks, and what other sessions commit while the
  job runs the pipeline and while it waits for the analysis.
\<close>

record 'w job_env =
  je_pipeline :: scan_pipeline
  je_run :: "origin \<Rightarrow> 'w \<Rightarrow> analysis_result result \<times> 'w"
  je_analyzer :: "analyzer option"
  je_clock :: "nat \<Rightarrow> nat \<Rightarrow> timestamp"
  je_between :: "nat \<Rightarrow> db \<Rightarrow> db"

definition effective_analyzer :: "analyzer option \<Rightarrow> (exn + analyzer) option \<Rightarrow> analyzer option" where
  "effective_analyzer given configured =
     (case given of
        Some a \<Rightarrow> Some a
      | None \<Rightarrow> (case configured of Some (Inr a) \<Rightarrow> Some a | _ \<Rightarrow> None))"

text \<open>The outcome of the job and the committed database; \<open>Inl\<close> is the exception that leaves it.\<close>

definition execute_scan_job :: "'w job_env \<Rightarrow> uuid \<Rightarrow> db \<times> 'w \<Rightarrow> unit result \<times> db \<times> 'w" where
  "execute_scan_job e scan_id st =
     (let (d, w) = st
      in case claim_scan (je_pipeline e) (je_clock e 0) scan_id d of
           Inl ex \<Rightarrow> (Inl ex, d, w)
         | Inr (NothingToDo, d1) \<Rightarrow> (Inr (), d1, w)
         | Inr (RejectedScan, d1) \<Rightarrow> (Inr (), d1, w)
         | Inr (Claimed s x g, d1) \<Rightarrow>
             (let (rr, w1) = je_run e g w; d2 = je_between e 0 d1
              in case rr of
                   Inl ex \<Rightarrow> (Inr (), record_failure (je_clock e 1) s x ex d2, w1)
                 | Inr r \<Rightarrow>
                     (case record_success (je_clock e 1) s x r d2 of
                        Inl ex \<Rightarrow> (Inl ex, d2, w1)
                      | Inr d3 \<Rightarrow>
                          (let d4 = je_between e 1 d3
                           in case record_assessment (je_analyzer e) (je_clock e 2) s x r d4 of
                                Inl ex \<Rightarrow> (Inl ex, d4, w1)
                              | Inr d5 \<Rightarrow> (Inr (), d5, w1)))))"

text \<open>The default pipeline: the gated executor with the HTTP engine (\<open>port or None\<close>: a port 0 is absent).\<close>

definition pipeline_run ::
  "('w, 's) executor \<Rightarrow> timestamp \<Rightarrow> origin \<Rightarrow> 'w \<Rightarrow> analysis_result result \<times> ('w + 's)" where
  "pipeline_run x now g w =
     (case make_origin (or_scheme g) (if or_port g = 0 then None else Some (int (or_port g))) (or_path g) of
        Inl e \<Rightarrow> (Inl e, Inl w)
      | Inr spec \<Rightarrow> execute_scan x (or_hostname g) (Some analysis_execute) None now None (Some spec) w)"

section \<open>The worker\<close>

definition mark_scan_rejected :: "(nat \<Rightarrow> timestamp) \<Rightarrow> uuid \<Rightarrow> pystr \<Rightarrow> db \<Rightarrow> db" where
  "mark_scan_rejected clock scan_id reason d =
     (case scan_by_id d scan_id of
        None \<Rightarrow> d
      | Some s \<Rightarrow>
          (let (running, d1) = try_transition (sc_id s) RUNNING REJECTED None (Some (clock 0)) d;
               (queued, d2) = (if running then (False, d1)
                               else try_transition (sc_id s) QUEUED REJECTED None (Some (clock 1)) d1)
           in if \<not> running \<and> \<not> queued then d2
              else (let d3 = (case id_of_code (scan_engines d2) headers_analyzer of
                                None \<Rightarrow> d2
                              | Some eid \<Rightarrow>
                                  (let (row, d') = create_execution (sc_id s) eid (u ''worker-unknown'') FAILED None d2
                                   in mark_execution (ex_id row) FAILED (clock 2) (Some (take 500 reason)) d'))
                    in audit_transition (status_text (if running then RUNNING else QUEUED)) (status_text REJECTED)
                         (Some (u ''worker_crashed:'' @ reason)) s (clock 3) d3)))"

definition expected_failures :: "domain_error list" where
  "expected_failures = [AttestationNotConfirmedError, ScannerExecutionBlockedError, TargetUnresolvedError]"

definition execute_scan_job_task :: "'w job_env \<Rightarrow> uuid \<Rightarrow> db \<times> 'w \<Rightarrow> db \<times> 'w" where
  "execute_scan_job_task e scan_id st =
     (let (out, d, w) = execute_scan_job e scan_id st
      in case out of
           Inr _ \<Rightarrow> (d, w)
         | Inl ex \<Rightarrow>
             if ex \<in> Domain ` set expected_failures then (d, w)
             else (mark_scan_rejected (je_clock e 3) scan_id (exn_name ex) (je_between e 2 d), w))"

end
