(* ===== verification/ScanSystem.thy ===== *)
theory ScanSystem
  imports ScanJob
begin

text \<open>
  The application as a transition system: API requests and the stretches of background jobs, each committed
  atomically, in any interleaving.  The abstract specification is the state machine of
  \<open>domain/scans/lifecycle.py\<close>, widened by the one transition that \<open>cancel_scan\<close> makes beyond it.
\<close>

section \<open>Steps\<close>

inductive service_step :: "db \<Rightarrow> db \<Rightarrow> bool" where
  organization: "service_step d (committed (create_organization p now name) d)"
| member_added: "service_step d (committed (add_member p now org user role) d)"
| role_changed: "service_step d (committed (change_role p org user role) d)"
| member_removed: "service_step d (committed (remove_member p org user) d)"
| target_registered: "service_step d (committed (register_target p now hostname url owner) d)"
| target_archived: "service_step d (committed (archive_target p i) d)"
| archive_set: "service_step d (committed (set_archived p i b) d)"
| attested: "service_step d (committed (create_self_attestation p now i expires evidence) d)"
| revoked: "service_step d (committed (revoke_attestation p now i reason) d)"
| trail_read: "service_step d (snd (query_entries p q limit now d))"
| entry_read: "service_step d (snd (get_entry i p now d))"
| scan_created: "service_step d (committed (create_scan pr clock i profile) d)"
| scan_repeated: "service_step d (committed (rescan_scan pr clock i) d)"
| scan_cancelled: "service_step d (committed (cancel_scan pr now i) d)"
| job_claims: "claim_scan pl clock i d = Inr (out, d') \<Longrightarrow> service_step d d'"
| job_fails: "service_step d (record_failure clock s x e d)"
| job_succeeds: "record_success clock s x r d = Inr d' \<Longrightarrow> service_step d d'"
| job_assesses: "record_assessment ai clock s x r d = Inr d' \<Longrightarrow> service_step d d'"
| worker_rejects: "service_step d (mark_scan_rejected clock i reason d)"

text \<open>The abstract specification of one scan.\<close>

inductive lifecycle_edge :: "scan_status \<Rightarrow> scan_status \<Rightarrow> bool" where
  listed: "scan_step s t \<Longrightarrow> lifecycle_edge s t"
| late_cancel: "s \<in> {SCAN_COMPLETE, PARTIALLY_COMPLETE, AI_ANALYSIS} \<Longrightarrow> lifecycle_edge s CANCELLED_STATUS"

inductive_simps lifecycle_edge_iff: "lifecycle_edge s t"

lemma edges [simp]: "can_transition s t \<Longrightarrow> lifecycle_edge s t"
  by (intro listed edge)

lemma lifecycle_edge_rank: "lifecycle_edge s t \<Longrightarrow> scan_rank t < scan_rank s"
  by (auto simp: lifecycle_edge_iff scan_step_rank)

lemma lifecycle_rank: "lifecycle_edge\<^sup>*\<^sup>* s t \<Longrightarrow> s = t \<or> scan_rank t < scan_rank s"
  by (induction rule: rtranclp_induct) (auto dest: lifecycle_edge_rank)

lemma lifecycle_terminal: "lifecycle_edge\<^sup>*\<^sup>* s t \<Longrightarrow> is_terminal s \<Longrightarrow> t = s"
  using lifecycle_rank [of s t] by (cases s) auto

section \<open>What one step may do\<close>

definition att_keys :: "db \<Rightarrow> (uuid \<times> uuid) set" where
  "att_keys d = (\<lambda>a. (at_id a, at_target_id a)) ` set (attestations d)"

definition scan_keys :: "db \<Rightarrow> (uuid \<times> uuid) set" where
  "scan_keys d = (\<lambda>s. (sc_authorization_attestation_id s, sc_target_id s)) ` set (scans d)"

definition statuses_move :: "db \<Rightarrow> db \<Rightarrow> bool" where
  "statuses_move d d' \<longleftrightarrow> (\<forall>i a. status_of d i = Some a \<longrightarrow> (\<exists>b. status_of d' i = Some b \<and> lifecycle_edge\<^sup>*\<^sup>* a b))"

definition step_ok :: "db \<Rightarrow> db \<Rightarrow> bool" where
  "step_ok d d' \<longleftrightarrow> (scans_inv d \<longrightarrow> scans_inv d' \<and> statuses_move d d')
     \<and> att_keys d \<subseteq> att_keys d' \<and> scan_keys d' \<subseteq> scan_keys d \<union> att_keys d'"

lemma step_ok_refl [simp]: "step_ok d d"
  by (auto simp: step_ok_def statuses_move_def)

lemma statuses_move_trans: "statuses_move a b \<Longrightarrow> statuses_move b c \<Longrightarrow> statuses_move a c"
  unfolding statuses_move_def by (blast intro: rtranclp_trans [of lifecycle_edge])

lemma step_ok_trans:
  assumes "step_ok a b" and "step_ok b c"
  shows "step_ok a c"
proof -
  have "scans_inv a \<longrightarrow> scans_inv c \<and> statuses_move a c"
    using assms statuses_move_trans [of a b c] by (simp add: step_ok_def)
  moreover have "att_keys a \<subseteq> att_keys c" "scan_keys c \<subseteq> scan_keys a \<union> att_keys c"
    using assms unfolding step_ok_def by blast+
  ultimately show ?thesis unfolding step_ok_def by blast
qed

text \<open>Steps that touch neither scans nor attestations.\<close>

definition quiet :: "db \<Rightarrow> db \<Rightarrow> bool" where
  "quiet d d' \<longleftrightarrow> scans d' = scans d \<and> attestations d' = attestations d \<and> next_id d \<le> next_id d'"

lemma frame_ok:
  "scans d' = scans d \<Longrightarrow> next_id d \<le> next_id d' \<Longrightarrow> att_keys d \<subseteq> att_keys d' \<Longrightarrow> step_ok d d'"
  by (auto simp: step_ok_def scans_inv_def statuses_move_def status_of_def scan_by_id_def scan_keys_def
      dest: order_less_le_trans)

lemma quiet_ok: "quiet d d' \<Longrightarrow> step_ok d d'"
  by (simp add: quiet_def frame_ok att_keys_def)

lemma quiet_trans: "quiet a b \<Longrightarrow> quiet b c \<Longrightarrow> quiet a c"
  by (simp add: quiet_def)

lemma same_authority_quiet: "same_authority d d' \<Longrightarrow> quiet d d'"
  by (simp add: quiet_def same_authority_def)

lemma move_ok:
  assumes "lifecycle_edge f t"
  shows "step_ok d (snd (try_transition i f t a b d))"
proof -
  have "map (\<lambda>s. (sc_authorization_attestation_id s, sc_target_id s)) (scans (snd (try_transition i f t a b d)))
      = map (\<lambda>s. (sc_authorization_attestation_id s, sc_target_id s)) (scans d)"
    by (simp add: try_transition_def Let_def map_update_where)
  then have "scan_keys (snd (try_transition i f t a b d)) = scan_keys d"
    unfolding scan_keys_def by (metis set_map)
  moreover have "statuses_move d (snd (try_transition i f t a b d))" if "scans_inv d"
    using assms by (auto simp: statuses_move_def try_transition_exact(2) [OF that])
  ultimately show ?thesis by (simp add: step_ok_def att_keys_def)
qed

lemma committed_ok:
  assumes "\<And>x d'. f d = Inr (x, d') \<Longrightarrow> step_ok d d'"
  shows "step_ok d (committed f d)"
  using committed_cases [of f d] assms by (metis step_ok_refl)

section \<open>Requests\<close>

lemma organization_quiet: "create_organization p now name d = Inr (x, d') \<Longrightarrow> quiet d d'"
  by (auto simp: create_organization_def insert_membership_def uuid4_def Let_def bindE_Inr_iff quiet_def split: if_splits)

lemma membership_quiet:
  "add_member p now org user role d = Inr (x, d') \<Longrightarrow> quiet d d'"
  "change_role p org user role d = Inr (x, d') \<Longrightarrow> quiet d d'"
  "remove_member p org user d = Inr (y, d') \<Longrightarrow> quiet d d'"
  by (auto simp: add_member_def insert_membership_def change_role_def remove_member_def uuid4_def Let_def bindE_Inr_iff
      quiet_def split: if_splits option.splits)

lemma target_quiet:
  "register_target p now h url owner d = Inr (x, d') \<Longrightarrow> quiet d d'"
  "archive_target p i d = Inr (y, d') \<Longrightarrow> quiet d d'"
  "set_archived p i b d = Inr (x, d') \<Longrightarrow> quiet d d'"
  by (auto simp: register_target_def archive_target_def set_archived_def update_target_def uuid4_def Let_def bindE_Inr_iff
      quiet_def split: if_splits option.splits)

lemma reading_quiet:
  "quiet d (snd (query_entries p q limit now d))" "quiet d (snd (get_entry i p now d))"
  by (auto simp: query_entries_db get_entry_cases quiet_def split: option.splits)

lemma attest_ok: "create_self_attestation p now i e f d = Inr (x, d') \<Longrightarrow> step_ok d d'"
  by (rule frame_ok) (auto simp: create_self_attestation_def case_prod_beta Let_def bindE_Inr_iff att_keys_def)

lemma revoke_ok:
  assumes "revoke_attestation p now i reason d = Inr (x, d')"
  shows "step_ok d d'"
proof (rule frame_ok)
  from assms obtain k g where g: "attestations d' = update_where k g (attestations d)"
    and keep: "\<And>r. (at_id (g r), at_target_id (g r)) = (at_id r, at_target_id r)"
    and f: "scans d' = scans d" "next_id d \<le> next_id d'"
    by (auto simp: revoke_attestation_def case_prod_beta Let_def bindE_Inr_iff)
  show "scans d' = scans d" "next_id d \<le> next_id d'" by (fact f)+
  have "map (\<lambda>a. (at_id a, at_target_id a)) (attestations d') = map (\<lambda>a. (at_id a, at_target_id a)) (attestations d)"
    unfolding g by (rule map_update_where) (rule keep)
  then show "att_keys d \<subseteq> att_keys d'" unfolding att_keys_def by (metis order_refl set_map)
qed

text \<open>Adding a scan under a fresh identifier, bound to an attestation of its target.\<close>

lemma status_of_append: "status_of d i \<noteq> None \<Longrightarrow> status_of (d\<lparr>scans := scans d @ [s]\<rparr>) i = status_of d i"
  by (auto simp: status_of_def scan_by_id_def session_get_append split: option.splits)

lemma new_scan_ok:
  assumes "scans d' = scans d @ [s]" "sc_id s = next_id d" "next_id d < next_id d'" "attestations d' = attestations d"
    and "(sc_authorization_attestation_id s, sc_target_id s) \<in> att_keys d"
  shows "step_ok d d'"
proof -
  have "status_of d' i = status_of (d\<lparr>scans := scans d @ [s]\<rparr>) i" for i
    by (simp add: status_of_def scan_by_id_def assms(1))
  then have "statuses_move d d'"
    unfolding statuses_move_def by (metis option.distinct(1) rtranclp.rtrancl_refl status_of_append)
  moreover have "scans_inv d'" if "scans_inv d"
    using that assms(1-3) by (auto simp: scans_inv_def)
  ultimately show ?thesis using assms by (auto simp: step_ok_def att_keys_def scan_keys_def)
qed

lemma latest_key:
  "latest_active_confirmed d t now = Some att \<Longrightarrow> (at_id (ad_attestation att), t) \<in> att_keys d"
  by (auto simp: latest_active_confirmed_def attestation_details_of_def att_keys_def dest!: latest_active_in)

lemma get_visible_id: "get_visible_target p i d = Inr t \<Longrightarrow> tg_id t = i"
  by (auto simp: get_visible_target_def bindE_Inr_iff target_by_id_def split: option.splits if_splits
      dest!: scalar_one_or_none_filter)

lemma create_scan_Inr:
  assumes "create_scan pr clock i profile d = Inr (det, d')"
  shows "\<exists>p t a s pid. pr = Some p \<and> get_visible_target p i d = Inr t \<and> \<not> tg_is_archived t
    \<and> latest_active_confirmed d i (clock 0) = Some a \<and> profile_id d profile = Inr pid
    \<and> s = new_scan_row (next_id d) i pid p (at_id (ad_attestation a)) None (clock 1)
    \<and> d' = snd (record_audit (u ''SCAN_REQUESTED'') (u ''scan'') (next_id d)
        [(u ''targetId'', JStr (uuid_text i)), (u ''scanProfile'', JStr profile),
         (u ''authorizationAttestationId'', JStr (uuid_text (at_id (ad_attestation a))))] (Some p) (clock 1)
        (d\<lparr>next_id := Suc (next_id d), scans := scans d @ [s]\<rparr>))
    \<and> scan_details_of d' s = Inr det"
proof -
  from assms obtain p t a pid where v: "get_visible_target p i d = Inr t"
    and rest: "pr = Some p" "\<not> tg_is_archived t" "latest_active_confirmed d i (clock 0) = Some a" "profile_id d profile = Inr pid"
    and d': "d' = snd (record_audit (u ''SCAN_REQUESTED'') (u ''scan'') (next_id d)
        [(u ''targetId'', JStr (uuid_text (tg_id t))), (u ''scanProfile'', JStr profile),
         (u ''authorizationAttestationId'', JStr (uuid_text (at_id (ad_attestation a))))] (Some p) (clock 1)
        (d\<lparr>next_id := Suc (next_id d),
            scans := scans d @ [new_scan_row (next_id d) (tg_id t) pid p (at_id (ad_attestation a)) None (clock 1)]\<rparr>))"
    and det: "scan_details_of d' (new_scan_row (next_id d) (tg_id t) pid p (at_id (ad_attestation a)) None (clock 1)) = Inr det"
    by (auto simp: create_scan_def assert_principal_def bindE_Inr_iff case_prod_beta Let_def add_scan_def split: if_splits)
  from v have "tg_id t = i" by (rule get_visible_id)
  with v rest d' det show ?thesis by blast
qed

lemma rescan_scan_Inr:
  assumes "rescan_scan pr clock i d = Inr (det, d')"
  shows "\<exists>p o' a s code. pr = Some p \<and> get_visible_scan pr i d = Inr o'
    \<and> latest_active_confirmed d (sc_target_id o') (clock 0) = Some a
    \<and> s = new_scan_row (next_id d) (sc_target_id o') (sc_scan_profile_id o') p (at_id (ad_attestation a))
        (Some (sc_id o')) (clock 1)
    \<and> d' = snd (record_audit (u ''SCAN_REQUESTED'') (u ''scan'') (next_id d)
        [(u ''targetId'', JStr (uuid_text (sc_target_id o'))), (u ''parentScanId'', JStr (uuid_text (sc_id o'))),
         (u ''scanProfile'', JStr code),
         (u ''authorizationAttestationId'', JStr (uuid_text (at_id (ad_attestation a))))] (Some p) (clock 1)
        (d\<lparr>next_id := Suc (next_id d), scans := scans d @ [s]\<rparr>))"
  using assms
  by (auto simp: rescan_scan_def assert_principal_def bindE_Inr_iff case_prod_beta Let_def add_scan_def)

lemma new_row_keys [simp]:
  "sc_id (new_scan_row i t pid p a parent now) = i" "sc_target_id (new_scan_row i t pid p a parent now) = t"
  "sc_authorization_attestation_id (new_scan_row i t pid p a parent now) = a"
  "sc_initiated_by_user_id (new_scan_row i t pid p a parent now) = p"
  "sc_status (new_scan_row i t pid p a parent now) = QUEUED"
  by (simp_all add: new_scan_row_def)

lemma added_scan_ok:
  assumes "d' = snd (record_audit a t e m ac now (d\<lparr>next_id := Suc (next_id d), scans := scans d @ [s]\<rparr>))"
    and "sc_id s = next_id d" and "(sc_authorization_attestation_id s, sc_target_id s) \<in> att_keys d"
  shows "step_ok d d'"
  by (rule new_scan_ok [where s = s]) (use assms in simp_all)

lemma create_ok: "create_scan pr clock i profile d = Inr (x, d') \<Longrightarrow> step_ok d d'"
  by (drule create_scan_Inr, elim exE conjE, erule added_scan_ok) (simp_all add: latest_key)

lemma rescan_ok: "rescan_scan pr clock i d = Inr (x, d') \<Longrightarrow> step_ok d d'"
  by (drule rescan_scan_Inr, elim exE conjE, erule added_scan_ok) (simp_all add: latest_key)

lemma cancel_scan_Inr:
  assumes "cancel_scan pr now i d = Inr (x, d')"
  shows "\<exists>s. get_visible_scan pr i d = Inr s \<and> \<not> is_terminal (sc_status s) \<and> sc_status s \<noteq> RUNNING
    \<and> fst (try_transition (sc_id s) (sc_status s) CANCELLED_STATUS None (Some now) d)
    \<and> d' = snd (try_transition (sc_id s) (sc_status s) CANCELLED_STATUS None (Some now) d)"
  using assms
  by (auto simp: cancel_scan_def case_prod_beta Let_def bindE_Inr_iff split: if_splits option.splits)

lemma cancel_ok:
  assumes "cancel_scan pr now i d = Inr (x, d')"
  shows "step_ok d d'"
proof -
  from cancel_scan_Inr [OF assms] obtain s :: scan_row where s: "\<not> is_terminal (sc_status s)" "sc_status s \<noteq> RUNNING"
    and d': "d' = snd (try_transition (sc_id s) (sc_status s) CANCELLED_STATUS None (Some now) d)" by auto
  from s have "lifecycle_edge (sc_status s) CANCELLED_STATUS"
    by (cases "sc_status s") (simp_all add: late_cancel)
  then show ?thesis unfolding d' by (rule move_ok)
qed

section \<open>Jobs\<close>

lemma storing_quiet:
  "quiet d (audit_transition a b r s now d)"
  "quiet d (snd (create_execution i e ver st started d))"
  "quiet d (mark_execution x mst now err d)"
  "quiet d (upsert_ai_assessment now x v d)"
  by (simp_all add: quiet_def audit_transition_def create_execution_def mark_execution_def upsert_ai_assessment_def
      uuid4_def Let_def split: option.splits)

lemmas storing_ok = storing_quiet [THEN quiet_ok]

lemma persist_ok: "persist_findings now x fs d = Inr d' \<Longrightarrow> step_ok d d'"
  by (rule quiet_ok [OF same_authority_quiet [OF persist_findings_same]])

text \<open>Chaining: \<open>step_ok d\<close> of a nest of updates, from the outermost inwards.\<close>

lemma step_chain:
  "step_ok d e \<Longrightarrow> step_ok d (audit_transition a b r s now e)"
  "step_ok d e \<Longrightarrow> step_ok d (snd (create_execution i eid v st started e))"
  "step_ok d e \<Longrightarrow> step_ok d (mark_execution x st now' err e)"
  "step_ok d e \<Longrightarrow> step_ok d (upsert_ai_assessment now' x w e)"
  "step_ok d e \<Longrightarrow> lifecycle_edge f t \<Longrightarrow> step_ok d (snd (try_transition i f t p q e))"
  by (blast intro: step_ok_trans storing_ok move_ok)+

lemma persist_chain: "step_ok d e \<Longrightarrow> persist_findings now' x fs e = Inr d' \<Longrightarrow> step_ok d d'"
  by (blast intro: step_ok_trans persist_ok)

lemma reject_ok:
  "step_ok d e \<Longrightarrow> reject_unauthorized clock s e = Inr d' \<Longrightarrow> step_ok d d'"
  by (auto simp: reject_unauthorized_def bindE_Inr_iff Let_def case_prod_beta intro!: step_chain)

lemma claim_ok: "claim_scan pl clock i d = Inr (out, d') \<Longrightarrow> step_ok d d'"
  by (auto simp: claim_scan_def bindE_Inr_iff Let_def case_prod_beta split: option.splits if_splits
      intro!: step_chain elim: reject_ok [rotated])

lemma failure_ok: "step_ok d (record_failure clock s x e d)"
  by (simp add: record_failure_def Let_def step_chain)

lemma success_ok: "record_success clock s x r d = Inr d' \<Longrightarrow> step_ok d d'"
  by (auto simp: record_success_def bindE_Inr_iff Let_def intro!: step_chain elim: persist_chain [rotated])

lemma assessment_ok: "record_assessment ai clock s x r d = Inr d' \<Longrightarrow> step_ok d d'"
  by (auto simp: record_assessment_def bindE_Inr_iff final_status_def intro!: step_chain)

lemma worker_ok: "step_ok d (mark_scan_rejected clock i reason d)"
  by (auto simp: mark_scan_rejected_def Let_def case_prod_beta split: option.splits intro!: step_chain)

lemma service_step_ok: "service_step d d' \<Longrightarrow> step_ok d d'"
proof (induction rule: service_step.induct)
  case (target_archived d p i)
  show ?case by (rule committed_ok) (erule target_quiet(2) [THEN quiet_ok])
next
  case (member_removed d p org user)
  show ?case by (rule committed_ok) (erule membership_quiet(3) [THEN quiet_ok])
qed (auto intro!: committed_ok intro: quiet_ok organization_quiet membership_quiet target_quiet reading_quiet attest_ok
    revoke_ok create_ok rescan_ok cancel_ok claim_ok failure_ok success_ok assessment_ok worker_ok)

lemma services_ok: "service_step\<^sup>*\<^sup>* d d' \<Longrightarrow> step_ok d d'"
  by (induction rule: rtranclp_induct) (auto intro: step_ok_trans service_step_ok)

end
