(* ===== verification/ScanLifecycle.thy ===== *)
theory ScanLifecycle
  imports ScanSystem
begin

text \<open>
  The properties of scans over whole histories: the refinement of the lifecycle's state machine, at most one
  execution per scan, the authorization gate, and where a job can end.
\<close>

section \<open>Simulation\<close>

text \<open>
  A component simulates an abstract step relation through a partial view of its state when every step keeps
  the invariant and moves the view along the abstract relation.
\<close>

locale simulates =
  fixes concrete :: "'s \<Rightarrow> 's \<Rightarrow> bool"
    and abstract_step :: "'a \<Rightarrow> 'a \<Rightarrow> bool"
    and inv :: "'s \<Rightarrow> bool"
    and view :: "'s \<Rightarrow> 'a option"
    and rank :: "'a \<Rightarrow> nat"
  assumes keeps: "inv s \<Longrightarrow> concrete s t \<Longrightarrow> inv t"
    and simulated: "inv s \<Longrightarrow> concrete s t \<Longrightarrow> view s = Some a \<Longrightarrow> \<exists>b. view t = Some b \<and> abstract_step\<^sup>*\<^sup>* a b"
    and ranked: "abstract_step a b \<Longrightarrow> rank b < rank a"
begin

lemma keeps_all: "concrete\<^sup>*\<^sup>* s t \<Longrightarrow> inv s \<Longrightarrow> inv t"
  by (induction rule: rtranclp_induct) (auto intro: keeps)

lemma simulates_all:
  assumes "concrete\<^sup>*\<^sup>* s t" and "inv s" and "view s = Some a"
  shows "\<exists>b. view t = Some b \<and> abstract_step\<^sup>*\<^sup>* a b"
  using assms
proof (induction rule: rtranclp_induct)
  case base
  then show ?case by blast
next
  case (step t t')
  then obtain b where b: "view t = Some b" "abstract_step\<^sup>*\<^sup>* a b" by blast
  have "inv t" using keeps_all [OF step.hyps(1) step.prems(1)] .
  from simulated [OF this step.hyps(2) b(1)] obtain c where "view t' = Some c" "abstract_step\<^sup>*\<^sup>* b c" by blast
  with b show ?case by (blast intro: rtranclp_trans)
qed

lemma rank_decreases: "abstract_step\<^sup>*\<^sup>* a b \<Longrightarrow> a = b \<or> rank b < rank a"
  by (induction rule: rtranclp_induct) (use ranked in fastforce)+

text \<open>A history of concrete steps, and how often the view changes along it.\<close>

fun history :: "'s \<Rightarrow> 's list \<Rightarrow> bool" where
  "history s [] \<longleftrightarrow> True"
| "history s (t # ts) \<longleftrightarrow> concrete s t \<and> history t ts"

fun changes :: "'s \<Rightarrow> 's list \<Rightarrow> nat" where
  "changes s [] = 0"
| "changes s (t # ts) = (if view t = view s then 0 else 1) + changes t ts"

lemma changes_bounded: "history s ts \<Longrightarrow> inv s \<Longrightarrow> view s = Some a \<Longrightarrow> changes s ts \<le> rank a"
proof (induction ts arbitrary: s a)
  case Nil
  then show ?case by simp
next
  case (Cons t ts)
  then have st: "concrete s t" "history t ts" by simp_all
  from simulated [OF Cons.prems(2) st(1) Cons.prems(3)] obtain b where b: "view t = Some b" "abstract_step\<^sup>*\<^sup>* a b" by blast
  from Cons.IH [OF st(2) keeps [OF Cons.prems(2) st(1)] b(1)] have "changes t ts \<le> rank b" .
  with rank_decreases [OF b(2)] b(1) Cons.prems(3) show ?case by auto
qed

end

interpretation scan_sim: simulates service_step lifecycle_edge scans_inv "\<lambda>d. status_of d i" scan_rank for i
proof unfold_locales
  fix d d' :: db
  assume "scans_inv d" "service_step d d'"
  then show "scans_inv d'" using service_step_ok by (simp add: step_ok_def)
  show "\<exists>b. status_of d' i = Some b \<and> lifecycle_edge\<^sup>*\<^sup>* a b" if "status_of d i = Some a" for a
    using service_step_ok [OF \<open>service_step d d'\<close>] \<open>scans_inv d\<close> that by (simp add: step_ok_def statuses_move_def)
qed (rule lifecycle_edge_rank)

section \<open>Histories\<close>

text \<open>A database whose scans are bound to attestations of their own targets.\<close>

definition bound_scans :: "db \<Rightarrow> bool" where
  "bound_scans d \<longleftrightarrow> scan_keys d \<subseteq> att_keys d"

lemma services_bound: "service_step\<^sup>*\<^sup>* d d' \<Longrightarrow> bound_scans d \<Longrightarrow> bound_scans d'"
  using services_ok [of d d'] by (auto simp: bound_scans_def step_ok_def)

lemma seeded_ok [simp]: "scans_inv seeded_db" "bound_scans seeded_db"
  by (simp_all add: seeded_db_def scans_inv_def bound_scans_def scan_keys_def)

fun steps_of :: "db \<Rightarrow> db list \<Rightarrow> bool" where
  "steps_of d [] \<longleftrightarrow> True"
| "steps_of d (d' # ds) \<longleftrightarrow> service_step d d' \<and> steps_of d' ds"

fun status_changes :: "uuid \<Rightarrow> db \<Rightarrow> db list \<Rightarrow> nat" where
  "status_changes i d [] = 0"
| "status_changes i d (d' # ds) = (if status_of d' i = status_of d i then 0 else 1) + status_changes i d' ds"

lemma steps_history: "steps_of d ds = scan_sim.history d ds"
  by (induction ds arbitrary: d) simp_all

lemma changes_history: "status_changes i d ds = scan_sim.changes i d ds"
  by (induction ds arbitrary: d) simp_all

section \<open>Properties of histories\<close>

text \<open>C2 [scan_lifecycle_refined]: whatever API requests, job stretches and worker recoveries are interleaved, no
  scan disappears and its status only moves along the state machine of \<open>lifecycle.py\<close> (extended by the
  late cancellation); a terminal status is final.\<close>

theorem scan_lifecycle_refined:
  assumes "scans_inv d" and "service_step\<^sup>*\<^sup>* d d'" and "status_of d i = Some a"
  shows "\<exists>b. status_of d' i = Some b \<and> lifecycle_edge\<^sup>*\<^sup>* a b \<and> (is_terminal a \<longrightarrow> b = a)"
  using scan_sim.simulates_all [OF assms(2,1,3)] lifecycle_terminal by blast

text \<open>C16 [scan_status_changes_bounded]: in any history the status of a scan changes at most as often as the rank of
  its first status allows: a queued scan at most four times.\<close>

theorem scan_status_changes_bounded:
  assumes "scans_inv d" and "steps_of d ds" and "status_of d i = Some a"
  shows "status_changes i d ds \<le> scan_rank a \<and> scan_rank QUEUED = 4"
  using scan_sim.changes_bounded [of d ds i a] assms by (simp add: steps_history changes_history)

lemma claim_scan_cases:
  assumes "claim_scan pl clock i d = Inr (out, d')"
  shows "(out = NothingToDo \<and> d' = d)
    \<or> (\<exists>s. scan_by_id d i = Some s \<and> fst (try_transition (sc_id s) QUEUED RUNNING (Some (clock 0)) None d)
         \<and> out \<noteq> NothingToDo)"
  using assms by (auto simp: claim_scan_def Let_def case_prod_beta bindE_Inr_iff split: option.splits if_splits)

lemma scan_by_id_id: "scan_by_id d i = Some s \<Longrightarrow> sc_id s = i"
  by (auto simp: scan_by_id_def dest: session_get_Some)

lemma claim_needs_queued:
  assumes "scans_inv d" and "status_of d i \<noteq> Some QUEUED" and "claim_scan pl clock i d = Inr (out, d')"
  shows "out = NothingToDo \<and> d' = d"
  using claim_scan_cases [OF assms(3)] assms(2) try_transition_exact(1) [OF assms(1)]
  by (auto dest: scan_by_id_id)

lemma status_frame: "scans d' = scans d \<Longrightarrow> status_of d' i = status_of d i"
  by (simp add: status_of_def scan_by_id_def)

lemma claim_Claimed:
  "claim_scan pl clock i d = Inr (Claimed s x g, d') \<Longrightarrow>
     scan_by_id d i = Some s \<and> fst (try_transition (sc_id s) QUEUED RUNNING (Some (clock 0)) None d)
     \<and> (\<exists>a. session_get at_id (attestations d) (sc_authorization_attestation_id s) = Some a \<and> attestation_active (clock 1) a)
     \<and> scans d' = scans (snd (try_transition (sc_id s) QUEUED RUNNING (Some (clock 0)) None d))
     \<and> attestations d' = attestations d"
  by (auto simp: claim_scan_def Let_def case_prod_beta bindE_Inr_iff create_execution_def uuid4_def
      split: option.splits if_splits)

lemma claimed_facts:
  assumes "scans_inv d" and "claim_scan pl clock i d = Inr (Claimed s x g, d')"
  shows "scan_by_id d i = Some s \<and> status_of d i = Some QUEUED \<and> status_of d' i = Some RUNNING
    \<and> (\<exists>a. session_get at_id (attestations d) (sc_authorization_attestation_id s) = Some a \<and> attestation_active (clock 1) a)
    \<and> attestations d' = attestations d \<and> scans_inv d'"
proof -
  from claim_Claimed [OF assms(2)] obtain a where s: "scan_by_id d i = Some s"
    and c: "fst (try_transition (sc_id s) QUEUED RUNNING (Some (clock 0)) None d)"
    and a: "session_get at_id (attestations d) (sc_authorization_attestation_id s) = Some a" "attestation_active (clock 1) a"
    and f: "scans d' = scans (snd (try_transition (sc_id s) QUEUED RUNNING (Some (clock 0)) None d))"
      "attestations d' = attestations d" by blast
  have i: "sc_id s = i" using s by (rule scan_by_id_id)
  have q: "status_of d i = Some QUEUED" using c try_transition_exact(1) [OF assms(1)] i by simp
  have "status_of d' i = Some RUNNING" "attestations d' = attestations d"
    using try_transition_exact(2) [OF assms(1)] q i f status_frame [OF f(1)] by simp_all
  moreover have "scans_inv d'" using claim_ok [OF assms(2)] assms(1) by (simp add: step_ok_def)
  ultimately show ?thesis using s a q by blast
qed

text \<open>C8 [scan_executes_at_most_once]: a scan is executed by one job only: once a job has claimed it, whatever
  happens afterwards, every later job for the same scan finds nothing to do and changes nothing.\<close>

theorem scan_executes_at_most_once:
  assumes "scans_inv d" and "claim_scan pl clock i d = Inr (Claimed s x g, d1)" and "service_step\<^sup>*\<^sup>* d1 d2"
    and "claim_scan pl' clock' i d2 = Inr (out, d3)"
  shows "out = NothingToDo \<and> d3 = d2"
proof -
  from claimed_facts [OF assms(1,2)] have r: "status_of d1 i = Some RUNNING" "scans_inv d1" by blast+
  from scan_sim.simulates_all [OF assms(3) r(2,1)] obtain b where b: "status_of d2 i = Some b" "lifecycle_edge\<^sup>*\<^sup>* RUNNING b"
    by blast
  from lifecycle_rank [OF b(2)] have "b \<noteq> QUEUED" by auto
  moreover have "scans_inv d2" using scan_sim.keeps_all [OF assms(3) r(2)] .
  ultimately show ?thesis using claim_needs_queued [OF _ _ assms(4)] b(1) by simp
qed

text \<open>C1 [scan_runs_only_authorized]: in every history from a database whose scans are bound to attestations of
  their targets (such as the freshly migrated one), a job executes a scan only if the attestation the scan was created under is, at that moment, confirmed and unexpired, and that
  attestation is one for the scan's own target.\<close>

theorem scan_runs_only_authorized:
  assumes "service_step\<^sup>*\<^sup>* d0 d" and "scans_inv d0" and "bound_scans d0" and "distinct (map at_id (attestations d))"
    and "claim_scan pl clock i d = Inr (Claimed s x g, d')"
  shows "\<exists>a \<in> set (attestations d). at_id a = sc_authorization_attestation_id s \<and> at_target_id a = sc_target_id s
    \<and> attestation_active (clock 1) a \<and> status_of d i = Some QUEUED \<and> status_of d' i = Some RUNNING"
proof -
  have inv: "scans_inv d" using scan_sim.keeps_all [OF assms(1,2)] .
  from claimed_facts [OF inv assms(5)] obtain a where s: "scan_by_id d i = Some s"
    and a: "session_get at_id (attestations d) (sc_authorization_attestation_id s) = Some a" "attestation_active (clock 1) a"
    and st: "status_of d i = Some QUEUED" "status_of d' i = Some RUNNING" by blast
  have "s \<in> set (scans d)" using s by (auto simp: scan_by_id_def dest: session_get_Some)
  then have "(sc_authorization_attestation_id s, sc_target_id s) \<in> att_keys d"
    using services_bound [OF assms(1,3)] unfolding bound_scans_def scan_keys_def by blast
  then obtain b where b: "b \<in> set (attestations d)" "at_id b = sc_authorization_attestation_id s" "at_target_id b = sc_target_id s"
    by (auto simp: att_keys_def)
  have "a = b" using session_get_unique [OF assms(4) b(1)] a(1) b(2) by simp
  with a b st show ?thesis by blast
qed

section \<open>Where a job ends\<close>

lemma scans_frames [simp]:
  "scans (audit_transition a b r s now d) = scans d"
  "scans (snd (create_execution i eid ver st started d)) = scans d"
  "scans (mark_execution x mst now err d) = scans d"
  "scans (upsert_ai_assessment now x v d) = scans d"
  by (rule storing_quiet [unfolded quiet_def, THEN conjunct1])+

lemma move_status:
  assumes "step_ok d e" and "scans_inv d" and "scans e = scans d"
  shows "status_of (snd (try_transition i f t p q e)) j = (if j = i \<and> status_of d i = Some f then Some t else status_of d j)"
  using try_transition_exact(2) [of e i f t p q j] assms status_frame [OF assms(3)] by (simp add: step_ok_def)

lemma reject_status:
  assumes "reject_unauthorized clock s e = Inr d'" and "scans_inv e" and "status_of e (sc_id s) = Some RUNNING"
  shows "status_of d' (sc_id s) = Some REJECTED"
proof -
  let ?a = "audit_transition (status_text QUEUED) (status_text REJECTED) (Some invalid_attestation) s (clock 2) e"
  let ?c = "\<lambda>x. create_execution (sc_id s) x (u ''unknown'') FAILED None ?a"
  let ?f = "\<lambda>x. mark_execution (ex_id (fst (?c x))) FAILED (clock 3) (Some invalid_attestation) (snd (?c x))"
  from assms(1) obtain x where d': "d' = move (sc_id s) RUNNING REJECTED (Some (clock 4)) (?f x)"
    by (auto simp: reject_unauthorized_def Let_def case_prod_beta bindE_Inr_iff)
  have f: "step_ok e (?f x)" "scans (?f x) = scans e" by (simp_all add: step_chain)
  show ?thesis unfolding d' using move_status [OF f(1) assms(2) f(2)] assms(3) by simp
qed

lemma claim_Rejected:
  "claim_scan pl clock i d = Inr (RejectedScan, d') \<Longrightarrow>
     \<exists>s. scan_by_id d i = Some s
       \<and> reject_unauthorized clock s (snd (try_transition (sc_id s) QUEUED RUNNING (Some (clock 0)) None d)) = Inr d'"
  by (auto simp: claim_scan_def Let_def case_prod_beta bindE_Inr_iff split: option.splits if_splits)

lemma rejected_status:
  assumes "claim_scan pl clock i d = Inr (RejectedScan, d')" and "scans_inv d" and "status_of d i = Some QUEUED"
  shows "status_of d' i = Some REJECTED"
proof -
  from claim_Rejected [OF assms(1)] obtain s :: scan_row where s: "scan_by_id d i = Some s"
    and r: "reject_unauthorized clock s (snd (try_transition (sc_id s) QUEUED RUNNING (Some (clock 0)) None d)) = Inr d'"
    by blast
  have i: "sc_id s = i" using s by (rule scan_by_id_id)
  from reject_status [OF r] show ?thesis
    using try_transition_exact(2) [OF assms(2)] assms(2,3) i by simp
qed

lemma failure_status:
  assumes "scans_inv d" and "status_of d (sc_id s) = Some RUNNING"
  shows "status_of (record_failure clock s x e d) (sc_id s) = Some REJECTED"
  unfolding record_failure_def Let_def
  by (subst move_status [where d = d]) (simp_all add: assms step_chain)

lemma success_status:
  assumes "record_success clock s x r d = Inr d'" and "scans_inv d" and "status_of d (sc_id s) = Some RUNNING"
  shows "status_of d' (sc_id s) = Some AI_ANALYSIS \<and> scans_inv d'"
proof -
  from assms(1) obtain e where p: "persist_findings (clock 2) x (an_findings r)
      (mark_execution x SUCCEEDED (clock 1) None
        (audit_transition (status_text RUNNING) (u ''EXECUTION_SUCCEEDED'') None s (clock 0) d)) = Inr e"
    and d': "d' = move (sc_id s) SCAN_COMPLETE AI_ANALYSIS None (move (sc_id s) RUNNING SCAN_COMPLETE None e)"
    by (auto simp: record_success_def Let_def bindE_Inr_iff)
  have e: "scans e = scans d" using persist_findings_frame [OF p] by simp
  have ok: "step_ok d e" by (rule persist_chain [OF _ p]) (simp add: step_chain)
  let ?m = "move (sc_id s) RUNNING SCAN_COMPLETE None e"
  have m: "status_of ?m (sc_id s) = Some SCAN_COMPLETE" using move_status [OF ok assms(2) e] assms(3) by simp
  have inv: "scans_inv ?m" using ok assms(2) by (simp add: step_ok_def)
  show ?thesis using try_transition_exact(2) [OF inv] m inv by (simp add: d')
qed

lemma assessment_status:
  assumes "record_assessment ai clock s x r d = Inr d'" and "scans_inv d" and "status_of d (sc_id s) = Some AI_ANALYSIS"
  shows "\<exists>b. status_of d' (sc_id s) = Some b \<and> is_terminal b"
proof -
  from assms(1) obtain sm :: assessment_summary and v where "d' = move (sc_id s) AI_ANALYSIS (final_status (sm_is_available sm)) (Some (clock 3))
      (upsert_ai_assessment (clock 2) x v d)"
    by (auto simp: record_assessment_def bindE_Inr_iff)
  then show ?thesis
    using move_status [OF step_chain(4) [OF step_ok_refl] assms(2) scans_frames(4)] assms(3)
    by (simp add: final_status_def)
qed

lemma worker_status:
  assumes "scans_inv d"
  shows "status_of (mark_scan_rejected clock i reason d) i
    = (if status_of d i \<in> {Some RUNNING, Some QUEUED} then Some REJECTED else status_of d i)"
proof (cases "scan_by_id d i")
  case None
  then show ?thesis by (simp add: mark_scan_rejected_def status_of_def)
next
  case (Some s)
  have i: "sc_id s = i" using Some by (rule scan_by_id_id)
  have t: "scans (mark_scan_rejected clock i reason d)
    = (if status_of d i = Some RUNNING then scans (snd (try_transition i RUNNING REJECTED None (Some (clock 0)) d))
       else scans (snd (try_transition i QUEUED REJECTED None (Some (clock 1)) (snd (try_transition i RUNNING REJECTED None (Some (clock 0)) d)))))"
    using Some i try_transition_exact(1) [OF assms]
    by (auto simp: mark_scan_rejected_def Let_def case_prod_beta split: option.splits)
  show ?thesis
  proof (cases "status_of d i = Some RUNNING")
    case True
    then have "scans (mark_scan_rejected clock i reason d) = scans (snd (try_transition i RUNNING REJECTED None (Some (clock 0)) d))"
      using t by simp
    from status_frame [OF this] True try_transition_exact(2) [OF assms] show ?thesis by simp
  next
    case False
    have "snd (try_transition i RUNNING REJECTED None (Some (clock 0)) d) = d"
      by (rule try_transition_exact(3) [OF assms False])
    with False t have "scans (mark_scan_rejected clock i reason d) = scans (snd (try_transition i QUEUED REJECTED None (Some (clock 1)) d))"
      by simp
    from status_frame [OF this] False try_transition_exact(2) [OF assms] show ?thesis by simp
  qed
qed

section \<open>Witnesses\<close>

text \<open>The queued scan of a target of the example tenants.\<close>

definition example_queue :: db where
  "example_queue = example_tenants\<lparr>scans := [new_scan_row 35 20 1 1 30 None 8]\<rparr>"

lemma example_queue_inv:
  "scans_inv example_queue" "bound_scans example_queue" "distinct (map at_id (attestations example_queue))"
  "status_of example_queue 35 = Some QUEUED" "targets_inv example_queue"
  by (simp_all add: example_queue_def example_tenants_simps scans_inv_def new_scan_row_def bound_scans_def scan_keys_def
      att_keys_def status_of_def scan_by_id_def session_get_def targets_inv_def)

lemma example_origin:
  "\<exists>g. origin_for_target (snd (try_transition 35 QUEUED RUNNING p q example_queue)) 20 = Inr g"
  by (simp add: origin_for_target_def example_queue_def example_tenants_simps try_transition_def Let_def target_by_id_def
      scalar_one_or_none_def norm_eval urlsplit_eval)

lemma example_claim: "\<exists>s x g d'. claim_scan default_pipeline clock 35 example_queue = Inr (Claimed s x g, d')"
proof -
  have t: "fst (try_transition 35 QUEUED RUNNING p q example_queue)" for p q
    using try_transition_exact(1) [OF example_queue_inv(1)] example_queue_inv(4) by simp
  obtain g where "origin_for_target (snd (try_transition 35 QUEUED RUNNING (Some (clock 0)) None example_queue)) 20 = Inr g"
    using example_origin by blast
  moreover have "scan_by_id example_queue 35 = Some (new_scan_row 35 20 1 1 30 None 8)"
    by (simp add: scan_by_id_def session_get_def example_queue_def new_scan_row_def)
  moreover have "attestations (snd (try_transition 35 QUEUED RUNNING p q example_queue)) = attestations example_tenants"
    "scan_engines (snd (try_transition 35 QUEUED RUNNING p q example_queue)) = scan_engines seeded_db" for p q
    by (simp_all add: try_transition_def Let_def example_queue_def example_tenants_simps)
  moreover have "session_get at_id (attestations example_tenants) 30 = Some (hd (attestations example_tenants))"
    by (simp add: session_get_def example_tenants_simps)
  ultimately show ?thesis using t
    by (simp add: claim_scan_def Let_def case_prod_beta new_scan_row_def attestation_active_def)
      (simp add: engine_id_def default_pipeline_def headers_analyzer_def seeded_db_def id_of_code_def example_tenants_simps
        text_defs)
qed

lemma claim_nothing:
  assumes "scans_inv d" and "status_of d i \<noteq> Some QUEUED"
  shows "claim_scan pl clock i d = Inr (NothingToDo, d)"
proof (cases "scan_by_id d i")
  case (Some s)
  then have "\<not> fst (try_transition (sc_id s) QUEUED RUNNING (Some (clock 0)) None d)"
    using try_transition_exact(1) [OF assms(1)] assms(2) by (simp add: scan_by_id_id)
  with Some show ?thesis by (simp add: claim_scan_def Let_def case_prod_beta)
qed (simp add: claim_scan_def)

theorem scan_lifecycle_refined_witness:
  "\<exists>d'. service_step\<^sup>*\<^sup>* example_queue d' \<and> d' \<noteq> example_queue
     \<and> (\<exists>b. status_of d' 35 = Some b \<and> lifecycle_edge\<^sup>*\<^sup>* QUEUED b)"
proof -
  obtain s x g d' where c: "claim_scan default_pipeline int 35 example_queue = Inr (Claimed s x g, d')"
    using example_claim by blast
  have step: "service_step\<^sup>*\<^sup>* example_queue d'" using job_claims [OF c] by blast
  have "d' \<noteq> example_queue" using claimed_facts [OF example_queue_inv(1) c] example_queue_inv(4) by auto
  with step scan_lifecycle_refined [OF example_queue_inv(1) step example_queue_inv(4)] show ?thesis by blast
qed

theorem scan_status_changes_bounded_witness:
  "\<exists>d'. steps_of example_queue [d', d'] \<and> status_changes 35 example_queue [d', d'] = 1
     \<and> status_changes 35 example_queue [d', d'] \<le> scan_rank QUEUED"
proof -
  obtain s x g d' where c: "claim_scan default_pipeline int 35 example_queue = Inr (Claimed s x g, d')"
    using example_claim by blast
  have st: "status_of d' 35 = Some RUNNING" and i: "scans_inv d'"
    using claimed_facts [OF example_queue_inv(1) c] by blast+
  have "claim_scan default_pipeline int 35 d' = Inr (NothingToDo, d')" using claim_nothing [OF i] st by simp
  then have "steps_of example_queue [d', d']" using job_claims [OF c] job_claims by auto
  with scan_status_changes_bounded [OF example_queue_inv(1) this example_queue_inv(4)] show ?thesis
    using st example_queue_inv(4) by (intro exI [of _ d']) simp
qed

theorem scan_executes_at_most_once_witness:
  "\<exists>s x g d'. claim_scan default_pipeline int 35 example_queue = Inr (Claimed s x g, d')
     \<and> claim_scan default_pipeline int 35 d' = Inr (NothingToDo, d')"
proof -
  obtain s x g d' where c: "claim_scan default_pipeline int 35 example_queue = Inr (Claimed s x g, d')"
    using example_claim by blast
  have st: "status_of d' 35 = Some RUNNING" and i: "scans_inv d'"
    using claimed_facts [OF example_queue_inv(1) c] by blast+
  obtain out d3 where again: "claim_scan default_pipeline int 35 d' = Inr (out, d3)" using claim_nothing [OF i] st by auto
  from scan_executes_at_most_once [OF example_queue_inv(1) c rtranclp.rtrancl_refl again] again c show ?thesis by auto
qed

theorem scan_runs_only_authorized_witness:
  "\<exists>s x g d'. claim_scan default_pipeline int 35 example_queue = Inr (Claimed s x g, d')
     \<and> (\<exists>a \<in> set (attestations example_queue). at_id a = sc_authorization_attestation_id s \<and> attestation_active 1 a)"
proof -
  obtain s x g d' where c: "claim_scan default_pipeline int 35 example_queue = Inr (Claimed s x g, d')"
    using example_claim by blast
  from scan_runs_only_authorized [OF rtranclp.rtrancl_refl example_queue_inv(1,2,3) c] c show ?thesis by auto
qed

end
