(* ===== verification/ScanOutcomes.thy ===== *)
theory ScanOutcomes
  imports ScanLifecycle
begin

text \<open>
  Creation of scans behind the attestation gate, how a worker task ends, and the two ways a scan can leave the
  documented course: an assessment that crashes and a cancellation during the analysis.
\<close>

section \<open>Which exceptions leave a job\<close>

definition unexpected :: "exn \<Rightarrow> bool" where
  "unexpected e \<longleftrightarrow> e \<notin> Domain ` set expected_failures"

lemma unexpected_simps [simp]:
  "unexpected (OtherException n)" "unexpected ValueError" "unexpected KeyError" "unexpected (Domain NotFoundError)"
  by (auto simp: unexpected_def expected_failures_def)

lemma lookup_unexpected: "engine_id d c = Inl e \<Longrightarrow> unexpected e"
  by (auto simp: engine_id_def)

lemma target_unexpected: "target_by_id d i = Inl e \<Longrightarrow> unexpected e"
  by (auto simp: target_by_id_def scalar_one_or_none_def split: list.splits)

lemma origin_unexpected: "origin_for_target d i = Inl e \<Longrightarrow> unexpected e"
  by (auto simp: origin_for_target_def Let_def bindE_Inl_iff dest: target_unexpected)

lemma reject_unexpected: "reject_unauthorized clock s d = Inl e \<Longrightarrow> unexpected e"
  by (auto simp: reject_unauthorized_def Let_def case_prod_beta bindE_Inl_iff dest: lookup_unexpected)

lemma claim_unexpected: "claim_scan pl clock i d = Inl e \<Longrightarrow> unexpected e"
  by (auto simp: claim_scan_def Let_def case_prod_beta bindE_Inl_iff split: option.splits if_splits
      dest: lookup_unexpected origin_unexpected reject_unexpected)

lemma sha256_text_Inl: "sha256_text s = Inl e \<Longrightarrow> e = ValueError"
  by (auto simp: sha256_text_def utf8_encode_def bindE_Inl_iff split: if_splits)

lemma sha16_Inl: "sha16 s = Inl e \<Longrightarrow> e = ValueError"
  by (auto simp: sha16_def bindE_Inl_iff dest: sha256_text_Inl)

lemma fingerprint_Inl:
  "generate_fingerprint_from_finding h c t l = Inl e \<Longrightarrow> e = UnsupportedFingerprintCategory \<or> e = ValueError"
  by (auto simp: generate_fingerprint_from_finding_def extract_identifier_def generate_fingerprint_def Let_def bindE_Inl_iff
      split: option.splits if_splits dest: sha256_text_Inl)

lemma safe_fingerprint_total: "\<exists>fp. safe_fingerprint h c t l = Inr fp"
  using fingerprint_Inl by (auto simp: safe_fingerprint_def split: sum.splits)

lemma finding_row_unexpected: "finding_row_of identity x c cats sevs f = Inl e \<Longrightarrow> unexpected e"
  using safe_fingerprint_total [of "fy_hostname identity" "canonical_category_code (fd_category f)" "fd_title f" "fd_location f"]
  by (auto simp: finding_row_of_def map_category_def Let_def bindE_Inl_iff)

lemma identity_unexpected: "resolve_finding_identity d x = Inl e \<Longrightarrow> unexpected e"
  by (auto simp: resolve_finding_identity_def bindE_Inl_iff Let_def split: option.splits dest: target_unexpected)

lemma persist_unexpected: "persist_findings now x fs d = Inl e \<Longrightarrow> unexpected e"
  by (auto simp: persist_findings_def Let_def case_prod_beta bindE_Inl_iff split: option.splits
      dest: identity_unexpected mapE_Inl finding_row_unexpected)

lemma success_unexpected: "record_success clock s x r d = Inl e \<Longrightarrow> unexpected e"
  by (auto simp: record_success_def Let_def bindE_Inl_iff dest: persist_unexpected)

lemma groups_unexpected: "build_candidate_groups ev = Inl e \<Longrightarrow> unexpected e"
  by (auto simp: build_candidate_groups_def known_groups_def extra_groups_def make_group_def Let_def bindE_Inl_iff case_prod_beta
      dest!: mapE_Inl sha16_Inl)

lemma section_Inl:
  "validate_section check name payload = Inl e \<Longrightarrow> (\<And>x e. check x = Inl e \<Longrightarrow> unexpected e) \<Longrightarrow> unexpected e"
  by (auto simp: validate_section_def bindE_Inl_iff split: json.splits dest!: mapE_Inl)

lemma items_unexpected:
  "validate_group ev x = Inl e \<Longrightarrow> unexpected e"
  "validate_remediation ev x = Inl e \<Longrightarrow> unexpected e"
  "validate_claim ev x = Inl e \<Longrightarrow> unexpected e"
  by (auto simp: validate_group_def validate_remediation_def validate_claim_def derive_group_id_def Let_def case_prod_beta
      bindE_Inl_iff split: json.splits option.splits if_splits dest!: sha16_Inl)

lemma structure_unexpected: "validate_structure payload ev base now = Inl e \<Longrightarrow> unexpected e"
  by (auto simp: validate_structure_def derive_assessment_id_def Let_def case_prod_beta bindE_Inl_iff split: if_splits
      dest!: sha16_Inl dest: section_Inl [OF _ items_unexpected(1)] section_Inl [OF _ items_unexpected(2)]
        section_Inl [OF _ items_unexpected(3)])

lemma response_unexpected: "validate_analysis_response raw ev base now = Inl e \<Longrightarrow> unexpected e"
  by (auto simp: validate_analysis_response_def validate_text_def validate_value_def utf8_encode_def bindE_Inl_iff
      split: raw_response.splits if_splits sum.splits json_error.splits json.splits dest: structure_unexpected)

lemma analyze_unexpected:
  assumes "analyze az clock ev None = Inl e"
  shows "unexpected e"
proof (cases "build_candidate_groups ev")
  case (Inl e')
  with assms show ?thesis by (auto simp: analyze_def Let_def case_prod_beta dest: groups_unexpected)
next
  case (Inr gs)
  show ?thesis
  proof (cases "az_analyze az ev gs (fst (build_prompts ev gs)) (snd (build_prompts ev gs))")
    case (Inl p)
    with assms Inr show ?thesis by (cases p) (auto simp: analyze_def Let_def case_prod_beta)
  next
    case raw: (Inr raw)
    with assms Inr show ?thesis
      by (auto simp: analyze_def Let_def case_prod_beta bindE_Inl_iff split: if_splits option.splits
          dest: response_unexpected)
  qed
qed

lemma assess_unexpected: "assess ai clock r = Inl e \<Longrightarrow> unexpected e"
  using evidence_total [of r]
  by (auto simp: assess_def bindE_Inl_iff case_prod_beta split: option.splits dest: analyze_unexpected)

lemma row_values_total: "\<exists>v. assessment_row_values sm fs = Inr v \<and> av_unsupported_claim_count v = 0"
  by (simp add: assessment_row_values_def Let_def)

lemma assessment_unexpected: "record_assessment ai clock s x r d = Inl e \<Longrightarrow> unexpected e"
  using row_values_total by (auto simp: record_assessment_def bindE_Inl_iff dest: assess_unexpected) (metis Inl_Inr_False)

lemma upsert_stores:
  "\<exists>a \<in> set (assessments (upsert_ai_assessment now x v d)). as_execution_id a = x
     \<and> as_unsupported_claim_count a = av_unsupported_claim_count v"
proof (cases "first_row (select_where (\<lambda>r. as_execution_id r = x) (assessments d))")
  case None
  then show ?thesis by (auto simp: upsert_ai_assessment_def Let_def set_assessment_def uuid4_def)
next
  case (Some a)
  then have a: "a \<in> set (assessments d)" "as_execution_id a = x" by (auto dest!: first_row_Some_in)
  then have "set_assessment v a \<in> set (assessments (upsert_ai_assessment now x v d))"
    using Some by (auto simp: upsert_ai_assessment_def set_update_where)
  then show ?thesis by (rule rev_bexI) (simp add: set_assessment_def a)
qed

section \<open>The worker\<close>

text \<open>The rest of the job, from a claimed scan on.\<close>

definition leaves_scan :: "uuid \<Rightarrow> (db \<Rightarrow> db) \<Rightarrow> bool" where
  "leaves_scan i f \<longleftrightarrow> (\<forall>d. scans_inv d \<longrightarrow> scans_inv (f d) \<and> status_of (f d) i = status_of d i)"

lemma claim_not_nothing:
  assumes "scans_inv d" and "status_of d i = Some QUEUED" and "claim_scan pl clock i d = Inr (out, d')"
  shows "out \<noteq> NothingToDo"
proof -
  from assms(2) obtain s where s: "scan_by_id d i = Some s" by (auto simp: status_of_def)
  then have "sc_id s = i" by (rule scan_by_id_id)
  then have "fst (try_transition (sc_id s) QUEUED RUNNING (Some (clock 0)) None d)"
    using try_transition_exact(1) [OF assms(1)] assms(2) by simp
  with assms(3) s show ?thesis
    by (auto simp: claim_scan_def Let_def case_prod_beta bindE_Inr_iff split: if_splits)
qed

lemma job_status:
  assumes "scans_inv d" and "status_of d i = Some QUEUED" and "leaves_scan i (je_between e 0)" and "leaves_scan i (je_between e 1)"
    and run: "execute_scan_job e i (d, w) = (out, d', w')"
  shows "scans_inv d' \<and> (case out of
      Inr _ \<Rightarrow> \<exists>b. status_of d' i = Some b \<and> is_terminal b
    | Inl ex \<Rightarrow> unexpected ex \<and> status_of d' i \<in> {Some QUEUED, Some RUNNING, Some AI_ANALYSIS})"
proof (cases "claim_scan (je_pipeline e) (je_clock e 0) i d")
  case (Inl ex)
  with run assms(1,2) claim_unexpected [OF Inl] show ?thesis by (auto simp: execute_scan_job_def)
next
  case (Inr r)
  obtain o1 d1 where r: "r = (o1, d1)" by (rule prod.exhaust)
  note claim = Inr [unfolded r]
  have inv1: "scans_inv d1" using claim_ok [OF claim] assms(1) by (simp add: step_ok_def)
  show ?thesis
  proof (cases o1)
    case NothingToDo
    with claim_not_nothing [OF assms(1,2) claim] show ?thesis by simp
  next
    case RejectedScan
    with claim rejected_status [OF _ assms(1,2)] run inv1 show ?thesis by (auto simp: execute_scan_job_def)
  next
    case (Claimed s x g)
    note claimed = claim [unfolded Claimed]
    from claimed_facts [OF assms(1) claimed] have st1: "status_of d1 i = Some RUNNING" and "scan_by_id d i = Some s" by blast+
    then have i: "sc_id s = i" by (simp add: scan_by_id_id)
    let ?d2 = "je_between e 0 d1"
    have st2: "status_of ?d2 (sc_id s) = Some RUNNING" "scans_inv ?d2"
      using assms(3) inv1 st1 i by (simp_all add: leaves_scan_def)
    obtain rr w1 where rr: "je_run e g w = (rr, w1)" by (rule prod.exhaust)
    show ?thesis
    proof (cases rr)
      case (Inl ex)
      have "step_ok ?d2 (record_failure (je_clock e 1) s x ex ?d2)" by (rule failure_ok)
      with run claimed rr Inl st2 i failure_status [OF st2(2,1)] show ?thesis
        by (auto simp: execute_scan_job_def step_ok_def)
    next
      case (Inr res)
      show ?thesis
      proof (cases "record_success (je_clock e 1) s x res ?d2")
        case (Inl ex)
        with run claimed rr Inr st2 i success_unexpected [OF Inl] show ?thesis by (auto simp: execute_scan_job_def)
      next
        case ok: (Inr d3)
        let ?d4 = "je_between e 1 d3"
        have st4: "status_of ?d4 (sc_id s) = Some AI_ANALYSIS" "scans_inv ?d4"
          using success_status [OF ok st2(2,1)] assms(4) i by (simp_all add: leaves_scan_def)
        show ?thesis
        proof (cases "record_assessment (je_analyzer e) (je_clock e 2) s x res ?d4")
          case (Inl ex)
          with run claimed rr Inr ok st4 i assessment_unexpected [OF Inl] show ?thesis by (auto simp: execute_scan_job_def)
        next
          case fin: (Inr d5)
          have "step_ok ?d4 d5" by (rule assessment_ok [OF fin])
          with run claimed rr Inr ok fin st4 i assessment_status [OF fin st4(2,1)] show ?thesis
            by (auto simp: execute_scan_job_def step_ok_def)
        qed
      qed
    qed
  qed
qed

section \<open>Properties\<close>


text \<open>C38 [surrogate_strands_scan]: that exception is reachable from the provider's answer alone: a group title that
  is a lone surrogate makes the assessment stretch raise, and a scan in \<open>AI_ANALYSIS\<close> is then moved neither
  by the worker's recovery nor by any later job.\<close>

theorem surrogate_strands_scan:
  assumes "scans_inv d" and "status_of d i = Some AI_ANALYSIS"
    and "f \<in> set (an_findings r)" and "list_all (\<lambda>f. encodable (fd_id f) \<and> encodable (fd_category f)) (an_findings r)"
  shows "record_assessment (Some (scripted_analyzer (Inr (RawValue (surrogate_reply (fd_id f)))))) clock s x r d = Inl ValueError
    \<and> status_of (mark_scan_rejected clock' i reason d) i = Some AI_ANALYSIS
    \<and> (claim_scan pl clock'' i d = Inr (out, d') \<longrightarrow> out = NothingToDo \<and> d' = d)"
proof -
  obtain ev where ev: "evidence_from_result r = Inr ev" using evidence_total by blast
  obtain gs where "build_candidate_groups ev = Inr gs"
    using groups_total [of ev] evidence_fields_of [OF ev] assms(4) by (auto simp: list_all_iff)
  with has_finding_iff [OF ev] assms(3)
  have "analyze (scripted_analyzer (Inr (RawValue (surrogate_reply (fd_id f))))) clock ev None = Inl ValueError"
    by (intro surrogate_raises) auto
  then have "record_assessment (Some (scripted_analyzer (Inr (RawValue (surrogate_reply (fd_id f)))))) clock s x r d = Inl ValueError"
    using ev by (simp add: record_assessment_def assess_def)
  moreover have "status_of (mark_scan_rejected clock' i reason d) i = Some AI_ANALYSIS"
    using worker_status [OF assms(1)] assms(2) by simp
  moreover have "claim_scan pl clock'' i d = Inr (out, d') \<longrightarrow> out = NothingToDo \<and> d' = d"
    using claim_needs_queued [OF assms(1), of i pl clock'' out d'] assms(2) by auto
  ultimately show ?thesis by blast
qed

text \<open>Cancelling is meant for scans that have not started, but a scan whose analysis is
  under way can be cancelled, which the state machine does not allow; the job then still stores the
  assessment of the cancelled scan, with the count of unsupported claims always 0.\<close>

theorem late_cancellation:
  assumes "scans_inv d" and "scan_by_id d i = Some s" and "sc_status s = AI_ANALYSIS"
    and "profile_code d (sc_scan_profile_id s) = Inr code"
  shows "\<not> can_transition AI_ANALYSIS CANCELLED_STATUS
    \<and> (\<exists>det d'. cancel_scan (Some (sc_initiated_by_user_id s)) now i d = Inr (det, d')
         \<and> status_of d' i = Some CANCELLED_STATUS
         \<and> (\<exists>d''. record_assessment None clock s x r d' = Inr d'')
         \<and> (\<forall>ai d''. record_assessment ai clock s x r d' = Inr d'' \<longrightarrow> status_of d'' i = Some CANCELLED_STATUS
              \<and> (\<exists>a \<in> set (assessments d''). as_execution_id a = x \<and> as_unsupported_claim_count a = 0)))"
proof -
  let ?d = "snd (try_transition i AI_ANALYSIS CANCELLED_STATUS None (Some now) d)"
  have i: "sc_id s = i" using assms(2) by (rule scan_by_id_id)
  have st: "status_of d i = Some AI_ANALYSIS" using assms(2,3) by (simp add: status_of_def)
  have c: "status_of ?d i = Some CANCELLED_STATUS" using try_transition_exact(2) [OF assms(1)] st by simp
  then obtain s' where s': "scan_by_id ?d i = Some s'" by (auto simp: status_of_def)
  have "sc_scan_profile_id s' = sc_scan_profile_id s"
    using s' assms(2) by (auto simp: scan_by_id_def try_transition_def Let_def scan_by_id_update set_scan_status_def split: if_splits)
  then have "\<exists>det. scan_details_of ?d s' = Inr det"
    using assms(4) by (simp add: scan_details_of_def profile_code_def try_transition_def Let_def)
  then obtain det where "cancel_scan (Some (sc_initiated_by_user_id s)) now i d = Inr (det, ?d)"
    using assms(2,3) i st s' try_transition_exact(1) [OF assms(1)]
    by (auto simp: cancel_scan_def get_visible_scan_def Let_def case_prod_beta)
  moreover have "\<exists>d''. record_assessment None clock s x r ?d = Inr d''"
  proof -
    obtain ev where "evidence_from_result r = Inr ev" using evidence_total by blast
    moreover obtain v where "assessment_row_values (summarize_outcome ev None) (an_findings r) = Inr v"
      using row_values_total by blast
    ultimately show ?thesis by (simp add: record_assessment_def assess_def)
  qed
  moreover have "status_of d'' i = Some CANCELLED_STATUS
      \<and> (\<exists>a \<in> set (assessments d''). as_execution_id a = x \<and> as_unsupported_claim_count a = 0)"
    if run: "record_assessment ai clock s x r ?d = Inr d''" for ai d''
  proof -
    from run obtain sm :: assessment_summary and v where v: "assessment_row_values sm (an_findings r) = Inr v"
      and d'': "d'' = move (sc_id s) AI_ANALYSIS (final_status (sm_is_available sm)) (Some (clock 3))
        (upsert_ai_assessment (clock 2) x v ?d)"
      by (auto simp: record_assessment_def bindE_Inr_iff)
    have "status_of d'' i = Some CANCELLED_STATUS"
      unfolding d'' using move_status [OF step_chain(4) [OF step_ok_refl] _ scans_frames(4)] assms(1) c i by simp
    moreover have "av_unsupported_claim_count v = 0" using v row_values_total [of sm "an_findings r"] by auto
    then have "\<exists>a \<in> set (assessments d''). as_execution_id a = x \<and> as_unsupported_claim_count a = 0"
      unfolding d'' using upsert_stores [of "clock 2" x v ?d] by simp
    ultimately show ?thesis ..
  qed
  ultimately show ?thesis using c by (auto simp: can_transition_def allowed_transitions_def)
qed

text \<open>C5 [scan_creation_gate]: a scan is created only by a signed-in principal for an unarchived target it can see,
  under an attestation of that target that is active at that moment; the new scan is queued, bound to
  that attestation and audited.  Without an active attestation the request is refused as not attested.\<close>

theorem scan_creation_gate:
  assumes "targets_inv d"
  shows "(create_scan pr clock i profile d = Inr (det, d') \<longrightarrow>
      (\<exists>p t a s. pr = Some p \<and> t \<in> set (targets d) \<and> tg_id t = i \<and> sees_target d p t \<and> \<not> tg_is_archived t
         \<and> a \<in> set (attestations d) \<and> at_target_id a = i \<and> attestation_active (clock 0) a
         \<and> scans d' = scans d @ [s] \<and> sc_target_id s = i \<and> sc_authorization_attestation_id s = at_id a
         \<and> sc_initiated_by_user_id s = p \<and> sc_status s = QUEUED \<and> sd_id det = sc_id s
         \<and> (\<exists>e. audit_log d' = audit_log d @ [e] \<and> al_action_code e = u ''SCAN_REQUESTED'' \<and> al_entity_id e = sc_id s
              \<and> al_actor_user_id e = Some p)))
    \<and> (t \<in> set (targets d) \<and> sees_target d p t \<and> \<not> tg_is_archived t
         \<and> (\<forall>a \<in> set (attestations d). at_target_id a = tg_id t \<longrightarrow> \<not> attestation_active (clock 0) a)
       \<longrightarrow> create_scan (Some p) clock (tg_id t) profile d = raise AttestationNotConfirmedError)
    \<and> create_scan None clock i profile d = raise NotAuthenticatedError"
proof (intro conjI impI)
  assume run: "create_scan pr clock i profile d = Inr (det, d')"
  from create_scan_Inr [OF run] obtain p t att s pid where c: "pr = Some p" "get_visible_target p i d = Inr t"
      "\<not> tg_is_archived t" "latest_active_confirmed d i (clock 0) = Some att"
    and s: "s = new_scan_row (next_id d) i pid p (at_id (ad_attestation att)) None (clock 1)"
    and d': "d' = snd (record_audit (u ''SCAN_REQUESTED'') (u ''scan'') (next_id d)
        [(u ''targetId'', JStr (uuid_text i)), (u ''scanProfile'', JStr profile),
         (u ''authorizationAttestationId'', JStr (uuid_text (at_id (ad_attestation att))))] (Some p) (clock 1)
        (d\<lparr>next_id := Suc (next_id d), scans := scans d @ [s]\<rparr>))"
    and det: "scan_details_of d' s = Inr det" by blast
  from c(4) have a: "ad_attestation att \<in> set (attestations d)" "at_target_id (ad_attestation att) = i"
    "attestation_active (clock 0) (ad_attestation att)"
    by (auto simp: latest_active_confirmed_def attestation_details_of_def dest!: latest_active_in)
  have "sd_id det = sc_id s" using det by (auto simp: scan_details_of_def bindE_Inr_iff)
  moreover have "\<exists>e. audit_log d' = audit_log d @ [e] \<and> al_action_code e = u ''SCAN_REQUESTED'' \<and> al_entity_id e = sc_id s
      \<and> al_actor_user_id e = Some p"
    by (simp add: d' s record_audit_eq Let_def)
  ultimately show "\<exists>p t a s. pr = Some p \<and> t \<in> set (targets d) \<and> tg_id t = i \<and> sees_target d p t \<and> \<not> tg_is_archived t
         \<and> a \<in> set (attestations d) \<and> at_target_id a = i \<and> attestation_active (clock 0) a
         \<and> scans d' = scans d @ [s] \<and> sc_target_id s = i \<and> sc_authorization_attestation_id s = at_id a
         \<and> sc_initiated_by_user_id s = p \<and> sc_status s = QUEUED \<and> sd_id det = sc_id s
         \<and> (\<exists>e. audit_log d' = audit_log d @ [e] \<and> al_action_code e = u ''SCAN_REQUESTED'' \<and> al_entity_id e = sc_id s
              \<and> al_actor_user_id e = Some p)"
    using c a get_visible_Inr [OF assms] by (intro exI [of _ p] exI [of _ t] exI [of _ "ad_attestation att"] exI [of _ s])
      (simp add: d' s)
next
  assume h: "t \<in> set (targets d) \<and> sees_target d p t \<and> \<not> tg_is_archived t
    \<and> (\<forall>a \<in> set (attestations d). at_target_id a = tg_id t \<longrightarrow> \<not> attestation_active (clock 0) a)"
  then have "get_visible_target p (tg_id t) d = Inr t" using get_visible_Inr [OF assms] by blast
  moreover have "latest_active_row d (tg_id t) (clock 0) = None"
    using h latest_active_in by (cases "latest_active_row d (tg_id t) (clock 0)") blast+
  ultimately show "create_scan (Some p) clock (tg_id t) profile d = raise AttestationNotConfirmedError"
    using h by (simp add: create_scan_def assert_principal_def latest_active_confirmed_def)
next
  show "create_scan None clock i profile d = raise NotAuthenticatedError"
    by (simp add: create_scan_def assert_principal_def)
qed

section \<open>Witnesses\<close>

definition example_env :: "unit job_env" where
  "example_env = \<lparr>je_pipeline = default_pipeline, je_run = (\<lambda>_ w. (Inl (OtherException (u ''OSError'')), w)),
     je_analyzer = None, je_clock = (\<lambda>_. int), je_between = (\<lambda>_ d. d)\<rparr>"


definition example_assessing :: db where
  "example_assessing = example_tenants\<lparr>scans := [(new_scan_row 35 20 1 1 30 None 8)\<lparr>sc_status := AI_ANALYSIS\<rparr>]\<rparr>"

lemma example_assessing_facts:
  "scans_inv example_assessing" "status_of example_assessing 35 = Some AI_ANALYSIS"
  "scan_by_id example_assessing 35 = Some ((new_scan_row 35 20 1 1 30 None 8)\<lparr>sc_status := AI_ANALYSIS\<rparr>)"
  "profile_code example_assessing 1 = Inr (u ''quick-check'')"
  by (simp_all add: example_assessing_def example_tenants_simps scans_inv_def new_scan_row_def status_of_def scan_by_id_def
      session_get_def profile_code_def code_of_id_def)

theorem surrogate_strands_scan_witness:
  "record_assessment (Some (scripted_analyzer (Inr (RawValue (surrogate_reply (u ''f1'')))))) int (new_scan_row 35 20 1 1 30 None 8) 7 example_result example_assessing
       = Inl ValueError
     \<and> status_of (mark_scan_rejected int 35 (u ''ValueError'') example_assessing) 35 = Some AI_ANALYSIS"
proof -
  have "example_finding (u ''f1'') category_cookies \<in> set (an_findings example_result)"
    by (simp add: example_result_def)
  from surrogate_strands_scan [OF example_assessing_facts(1,2) this example_plain_findings] show ?thesis
    by (simp add: example_finding_def)
qed

theorem late_cancellation_witness:
  "\<exists>det d' d''. cancel_scan (Some 1) 9 35 example_assessing = Inr (det, d') \<and> status_of d' 35 = Some CANCELLED_STATUS
     \<and> record_assessment None int ((new_scan_row 35 20 1 1 30 None 8)\<lparr>sc_status := AI_ANALYSIS\<rparr>) 7 example_result d' = Inr d''
     \<and> (\<exists>a \<in> set (assessments d''). as_execution_id a = 7 \<and> as_unsupported_claim_count a = 0)"
proof -
  let ?s = "(new_scan_row 35 20 1 1 30 None 8)\<lparr>sc_status := AI_ANALYSIS\<rparr>"
  have "sc_status ?s = AI_ANALYSIS" "profile_code example_assessing (sc_scan_profile_id ?s) = Inr (u ''quick-check'')"
    and p: "sc_initiated_by_user_id ?s = 1"
    using example_assessing_facts(4) by (simp_all add: new_scan_row_def)
  from late_cancellation [OF example_assessing_facts(1,3) this(1,2), of 9 int 7 example_result] show ?thesis
    unfolding p by blast
qed

lemma example_creates:
  "\<exists>det d'. create_scan (Some 1) int 20 (u ''quick-check'') example_tenants = Inr (det, d')"
proof -
  have "get_visible_target 1 20 example_tenants = Inr (hd (targets example_tenants))"
    using get_visible_Inr [OF example_targets_inv, of 1 20] by (simp add: example_tenants_simps sees_target_def)
  moreover have "\<not> tg_is_archived (hd (targets example_tenants))" by (simp add: example_tenants_simps)
  moreover have "latest_active_row example_tenants 20 0 \<noteq> None"
    by (simp add: latest_active_iff has_active_confirmed_def active_confirmed_def example_tenants_simps)
  then obtain a where "latest_active_confirmed example_tenants 20 0 = Some a"
    by (auto simp: latest_active_confirmed_def)
  moreover have "profile_id example_tenants (u ''quick-check'') = Inr 1"
    by (simp add: profile_id_def id_of_code_def example_tenants_simps)
  ultimately show ?thesis
    by (simp add: create_scan_def assert_principal_def Let_def case_prod_beta uuid4_def scan_details_of_def new_scan_row_def
        record_audit_eq add_scan_def profile_code_def code_of_id_def example_tenants_simps)
qed

theorem scan_creation_gate_witness:
  "\<exists>det d' s. create_scan (Some 1) int 20 (u ''quick-check'') example_tenants = Inr (det, d')
     \<and> scans d' = [s] \<and> sc_status s = QUEUED
     \<and> (\<exists>a \<in> set (attestations example_tenants). sc_authorization_attestation_id s = at_id a \<and> attestation_active 0 a)"
proof -
  obtain det d' where run: "create_scan (Some 1) int 20 (u ''quick-check'') example_tenants = Inr (det, d')"
    using example_creates by blast
  have "scans example_tenants = []" by (simp add: example_tenants_simps)
  from scan_creation_gate [OF example_targets_inv, of "Some 1" int 20 "u ''quick-check''" det d', THEN conjunct1] run
  obtain a s where "a \<in> set (attestations example_tenants)" "attestation_active 0 a" "scans d' = [s]"
    "sc_authorization_attestation_id s = at_id a" "sc_status s = QUEUED"
    by (fastforce simp: \<open>scans example_tenants = []\<close>)
  with run show ?thesis by blast
qed

end
