(* ===== verification/ScanRoutes.thy ===== *)
theory ScanRoutes
  imports Reports ScanOutcomes
begin

text \<open>
  The scan endpoints (\<open>api/routes/scan_routes.py\<close>): request checks, the service calls, the hand-over of a new
  scan to the worker queue, and the read endpoints for findings, explanations, assessments, reports and
  comparisons.  The current user is the argument \<open>p\<close>; the time format of responses is pydantic's, so
  responses keep timestamps as numbers.
\<close>

section \<open>Requests and responses\<close>

record create_scan_request =
  cs_target_id :: uuid
  cs_scan_profile :: "pystr option"

definition scan_profile_codes :: "pystr list" where
  "scan_profile_codes = [u ''quick-check'', u ''standard'', u ''full-assessment'']"

abbreviation validation_failed :: exn where
  "validation_failed \<equiv> OtherException (u ''RequestValidationError'')"

definition requested_profile :: "create_scan_request \<Rightarrow> pystr result" where
  "requested_profile b =
     (case cs_scan_profile b of
        None \<Rightarrow> Inr (u ''standard'')
      | Some c \<Rightarrow> if c \<in> set scan_profile_codes then Inr c else Inl validation_failed)"

record scan_response =
  sr_id :: uuid
  sr_target_id :: uuid
  sr_scan_profile :: pystr
  sr_status :: pystr
  sr_initiated_by :: uuid
  sr_authorization_attestation_id :: uuid
  sr_queued_at :: "timestamp option"
  sr_started_at :: "timestamp option"
  sr_completed_at :: "timestamp option"
  sr_created_at :: timestamp

definition to_response :: "scan_details \<Rightarrow> scan_response" where
  "to_response x =
     \<lparr>sr_id = sd_id x, sr_target_id = sd_target_id x, sr_scan_profile = sd_scan_profile_code x,
      sr_status = sd_status_code x, sr_initiated_by = sd_initiated_by_user_id x,
      sr_authorization_attestation_id = sd_authorization_attestation_id x, sr_queued_at = sd_queued_at x,
      sr_started_at = sd_started_at x, sr_completed_at = sd_completed_at x, sr_created_at = sd_created_at x\<rparr>"

section \<open>Dispatch\<close>

text \<open>
  \<open>enqueue_scan\<close>: \<open>send\<close> is Celery's \<open>send_task\<close> with the id of the result as text (empty when there is none);
  it acts on the broker \<open>'q\<close>, outside the transaction of the request.
\<close>

definition enqueue_scan :: "bool \<Rightarrow> (uuid \<Rightarrow> 'q \<Rightarrow> pystr result \<times> 'q) \<Rightarrow> uuid \<Rightarrow> 'q \<Rightarrow> pystr result \<times> 'q" where
  "enqueue_scan enabled send i q = (if \<not> enabled then (Inr [], q) else send i q)"

text \<open>What the route schedules in its own process after the response: nothing, or the job of the scan.\<close>

definition dispatch ::
  "bool \<Rightarrow> (uuid \<Rightarrow> 'q \<Rightarrow> pystr result \<times> 'q) \<Rightarrow> uuid \<Rightarrow> 'q \<Rightarrow> uuid list result \<times> 'q" where
  "dispatch enabled send i q =
     (if enabled
      then (let (task, q1) = enqueue_scan enabled send i q
            in (bindE task (\<lambda>t. Inr (if t = [] then [i] else [])), q1))
      else (Inr [], q))"

text \<open>A request that changes scans: the session commits after the handler has returned.\<close>

definition scan_request_route ::
  "bool \<Rightarrow> (uuid \<Rightarrow> 'q \<Rightarrow> pystr result \<times> 'q) \<Rightarrow> (db \<Rightarrow> (scan_details \<times> db) result) \<Rightarrow> db \<times> 'q
     \<Rightarrow> (scan_response \<times> uuid list) result \<times> db \<times> 'q" where
  "scan_request_route enabled send service st =
     (let (d, q) = st
      in case service d of
           Inl e \<Rightarrow> (Inl e, d, q)
         | Inr (details, d1) \<Rightarrow>
             (let (bg, q1) = dispatch enabled send (sd_id details) q
              in case bg of
                   Inl e \<Rightarrow> (Inl e, d, q1)
                 | Inr jobs \<Rightarrow> (Inr (to_response details, jobs), d1, q1)))"

definition create_scan_route ::
  "bool \<Rightarrow> (uuid \<Rightarrow> 'q \<Rightarrow> pystr result \<times> 'q) \<Rightarrow> uuid \<Rightarrow> (nat \<Rightarrow> timestamp) \<Rightarrow> create_scan_request \<Rightarrow> db \<times> 'q
     \<Rightarrow> (scan_response \<times> uuid list) result \<times> db \<times> 'q" where
  "create_scan_route enabled send p clock body st =
     (case requested_profile body of
        Inl e \<Rightarrow> (Inl e, st)
      | Inr profile \<Rightarrow> scan_request_route enabled send (create_scan (Some p) clock (cs_target_id body) profile) st)"

definition rescan_route ::
  "bool \<Rightarrow> (uuid \<Rightarrow> 'q \<Rightarrow> pystr result \<times> 'q) \<Rightarrow> uuid \<Rightarrow> (nat \<Rightarrow> timestamp) \<Rightarrow> uuid \<Rightarrow> db \<times> 'q
     \<Rightarrow> (scan_response \<times> uuid list) result \<times> db \<times> 'q" where
  "rescan_route enabled send p clock scan_id st = scan_request_route enabled send (rescan_scan (Some p) clock scan_id) st"

definition cancel_route :: "uuid \<Rightarrow> timestamp \<Rightarrow> uuid \<Rightarrow> db \<Rightarrow> scan_response result \<times> db" where
  "cancel_route p now scan_id d =
     run_request (\<lambda>d0. bindE (cancel_scan (Some p) now scan_id d0) (\<lambda>(x, d1). Inr (to_response x, d1))) d"

section \<open>Reading\<close>

definition list_scans_route :: "uuid \<Rightarrow> uuid option \<Rightarrow> pystr option \<Rightarrow> int option \<Rightarrow> db \<Rightarrow> scan_response list result" where
  "list_scans_route p target_id status limit d =
     (let n = (case limit of None \<Rightarrow> 50 | Some k \<Rightarrow> k)
      in if n < 1 \<or> 200 < n then Inl validation_failed
         else bindE (list_scans (Some p) target_id status (nat n) d) (\<lambda>xs. Inr (map to_response xs)))"

definition get_scan_route :: "uuid \<Rightarrow> uuid \<Rightarrow> db \<Rightarrow> scan_response result" where
  "get_scan_route p scan_id d = bindE (get_scan (Some p) scan_id d) (\<lambda>x. Inr (to_response x))"

fun dto_field :: "string \<Rightarrow> json \<Rightarrow> json" where
  "dto_field k (JObj kvs) = dict_default kvs (u k) JNull"
| "dto_field k _ = JNull"

definition finding_response :: "json \<Rightarrow> json" where
  "finding_response row =
     JObj (map (\<lambda>k. (u k, dto_field k row))
       [''id'', ''title'', ''description'', ''severity'', ''evidence'', ''location'', ''recommendation'', ''createdAt''])"

definition list_findings_route :: "uuid \<Rightarrow> uuid \<Rightarrow> db \<Rightarrow> json list result" where
  "list_findings_route p scan_id d =
     bindE (get_scan (Some p) scan_id d) (\<lambda>_. Inr (map finding_response (list_finding_dtos d scan_id)))"

definition unavailable_explanation :: "string \<Rightarrow> json" where
  "unavailable_explanation reason =
     JObj [(u ''available'', JBool False), (u ''validationStatus'', JStr (u ''FALLBACK_USED'')),
           (u ''fallbackReason'', JStr (u reason))]"

definition explanation_answer :: "pystr \<Rightarrow> json \<Rightarrow> json" where
  "explanation_answer validation x =
     JObj [(u ''available'', JBool True), (u ''validationStatus'', JStr validation), (u ''explanation'', x)]"

definition template_answer :: "uuid \<Rightarrow> json \<Rightarrow> json" where
  "template_answer fid dto =
     (let x = build_fallback_explanation (uuid_text fid) (str_value (dto_field ''category'' dto))
      in explanation_answer (explanation_status_value (fx_validation_status x)) (explanation_json x))"

definition finding_explanation_route :: "uuid \<Rightarrow> uuid \<Rightarrow> uuid \<Rightarrow> db \<Rightarrow> json result" where
  "finding_explanation_route p scan_id fid d =
     bindE (get_scan (Some p) scan_id d) (\<lambda>_.
       case get_finding_with_evidence d fid of
         None \<Rightarrow> Inr (unavailable_explanation ''finding_not_found'')
       | Some dto \<Rightarrow>
           if \<not> list_ex (\<lambda>row. str_value (dto_field ''id'' row) = uuid_text fid) (list_finding_dtos d scan_id)
           then Inr (unavailable_explanation ''finding_not_in_scan'')
           else (case get_assessment d scan_id of
                   None \<Rightarrow> Inr (template_answer fid dto)
                 | Some a \<Rightarrow>
                     if \<not> as_is_available a then Inr (template_answer fid dto)
                     else bindE (payload_dict (as_payload a)) (\<lambda>payload.
                            Inr (case dict_default payload (u ''findings'') JNull of
                                   JObj per_finding \<Rightarrow>
                                     (case dict_get per_finding (uuid_text fid) of
                                        Some x \<Rightarrow> explanation_answer (u ''validated'') x
                                      | None \<Rightarrow> template_answer fid dto)
                                 | _ \<Rightarrow> template_answer fid dto))))"

datatype report_body = ReportNotFound | JsonReport json | CsvReport pystr

definition report_route :: "uuid \<Rightarrow> timestamp \<Rightarrow> uuid \<Rightarrow> pystr option \<Rightarrow> db \<Rightarrow> report_body result" where
  "report_route p now scan_id fmt d =
     (let f = (case fmt of None \<Rightarrow> u ''json'' | Some f \<Rightarrow> f)
      in if f \<noteq> u ''json'' \<and> f \<noteq> u ''csv'' then Inl validation_failed
         else bindE (get_scan (Some p) scan_id d) (\<lambda>_.
              bindE (assemble now scan_id d) (\<lambda>found.
                case found of
                  None \<Rightarrow> Inr ReportNotFound
                | Some doc \<Rightarrow>
                    if f = u ''json'' then bindE (loads_or_raise (render_json_report doc)) (\<lambda>body. Inr (JsonReport body))
                    else Inr (CsvReport (render_csv_report doc)))))"

definition not_ready_assessment :: "timestamp \<Rightarrow> json" where
  "not_ready_assessment now = JObj
     [(u ''available'', JBool False), (u ''provider'', JStr (u ''none'')), (u ''model'', JStr (u ''none'')),
      (u ''promptSchemaVersion'', JStr (u ''v1'')), (u ''outputSchemaVersion'', JStr (u ''v1'')),
      (u ''failureKind'', JStr (u ''not_ready'')), (u ''unsupportedClaimCount'', JInt 0), (u ''payload'', JObj []),
      (u ''createdAt'', JStr (isoformat now))]"

definition assessment_route :: "uuid \<Rightarrow> timestamp \<Rightarrow> uuid \<Rightarrow> db \<Rightarrow> json result" where
  "assessment_route p now scan_id d =
     bindE (get_scan (Some p) scan_id d) (\<lambda>_.
       Inr (case get_assessment_dto d scan_id of
              None \<Rightarrow> not_ready_assessment now
            | Some dto \<Rightarrow>
                JObj (map (\<lambda>k. (u k, dto_field k dto))
                  [''available'', ''provider'', ''model'', ''promptSchemaVersion'', ''outputSchemaVersion'', ''failureKind'',
                   ''unsupportedClaimCount'', ''payload'', ''createdAt''])))"

definition compare_item :: "json \<Rightarrow> json" where
  "compare_item i = JObj (map (\<lambda>k. (u k, JStr (str_value (dto_field k i)))) [''id'', ''fingerprint'', ''title''])"

fun compare_items :: "json \<Rightarrow> json" where
  "compare_items (JArr vs) = JArr (map compare_item vs)"
| "compare_items v = v"

definition compare_route :: "uuid \<Rightarrow> uuid \<Rightarrow> uuid \<Rightarrow> db \<Rightarrow> json result" where
  "compare_route p a b d =
     bindE (compare_scans (Some p) a b d) (\<lambda>r.
       Inr (JObj (map (\<lambda>k. (u k, compare_items (dto_field k r))) [''new'', ''persistent'', ''resolved'', ''regressed''])))"

section \<open>Lemmas\<close>

lemma get_scan_hidden:
  "\<not> (\<exists>s. scan_by_id d i = Some s \<and> sc_initiated_by_user_id s = p) \<Longrightarrow> get_scan (Some p) i d = raise NotFoundError"
  "\<not> (\<exists>s. scan_by_id d i = Some s \<and> sc_initiated_by_user_id s = p) \<Longrightarrow> get_visible_scan (Some p) i d = raise NotFoundError"
  by (auto simp: get_scan_def get_visible_scan_def split: option.splits)

lemma uuid_text_length: "length (uuid_text i) = 36"
  by (simp add: uuid_text_def Let_def del: hex_pad.simps)

lemma dto_ids:
  "list_ex (\<lambda>row. str_value (dto_field ''id'' row) = uuid_text i) (list_finding_dtos d s) \<longleftrightarrow>
     (\<exists>f \<in> set (list_findings d s). category_code d f \<noteq> None \<and> severity_code d f \<noteq> None \<and> uuid_text (fi_id f) = uuid_text i)"
  by (auto simp: list_finding_dtos_def list_ex_iff map_filter_def dict_default_def split: option.splits)

section \<open>Properties\<close>


text \<open>C40 [stored_explanations_never_served]: the explanations the job stores with an assessment are keyed by the engine's
  16-character finding ids, but looked up by the 36-character ids of the database: they are never served, and
  every finding of the scan gets the template of its stored category, labelled as a fallback.\<close>

theorem stored_explanations_never_served:
  assumes "get_scan (Some p) i d = Inr det" and "get_finding_with_evidence d f = Some dto"
    and "r \<in> set (list_findings d i)" "fi_id r = f" "category_code d r \<noteq> None" "severity_code d r \<noteq> None"
    and "get_assessment d i = Some a" "as_payload a = JObj payload"
    and "dict_default payload (u ''findings'') JNull = JObj (per_finding_fallbacks fs)" "\<forall>x \<in> set fs. length (fd_id x) = 16"
  shows "finding_explanation_route p i f d
    = Inr (explanation_answer (u ''fallback_used'')
        (explanation_json (build_fallback_explanation (uuid_text f) (str_value (dto_field ''category'' dto)))))"
proof -
  have "fst ` set (per_finding_fallbacks fs) = fd_id ` set fs"
    using arg_cong [OF dict_of_map [of "map (\<lambda>f. (fd_id f, explanation_json (build_fallback_explanation (fd_id f) (fd_category f)))) fs"], of dom]
    by (auto simp: per_finding_fallbacks_def dom_map_of_conv_image_fst image_image)
  moreover have "uuid_text f \<notin> fd_id ` set fs" using assms(10) uuid_text_length [of f] by auto
  ultimately have "dict_get (per_finding_fallbacks fs) (uuid_text f) = None" by (simp add: map_of_eq_None_iff)
  moreover have "list_ex (\<lambda>row. str_value (dto_field ''id'' row) = uuid_text f) (list_finding_dtos d i)"
    unfolding dto_ids using assms(3-6) by blast
  ultimately show ?thesis
    using assms(1,2,7-9) by (simp add: finding_explanation_route_def template_answer_def build_fallback_explanation_def Let_def)
qed


text \<open>Comparing two scans sorts every fingerprint into exactly one class: those of the second scan are new,
  regressed or persistent, those of the first persistent or resolved; the classes are disjoint, sorted and
  without repetition, and a fingerprint new to the second scan counts as regressed exactly when the target's
  history has a RESOLVED entry for it.\<close>

theorem comparison_partitions:
  fixes d t as bs
  defines "c \<equiv> compare_fingerprints d t as bs"
  shows "set bs = set (cp_new c) \<union> set (cp_regressed c) \<union> set (cp_persistent c)
    \<and> set as = set (cp_persistent c) \<union> set (cp_resolved c)
    \<and> set (cp_new c) \<inter> set (cp_regressed c) = {} \<and> (set (cp_new c) \<union> set (cp_regressed c)) \<inter> set as = {}
    \<and> set (cp_resolved c) \<inter> set bs = {}
    \<and> (\<forall>l \<in> {cp_new c, cp_regressed c, cp_persistent c, cp_resolved c}. sorted l \<and> distinct l)
    \<and> (\<forall>f r. dict_get (ids_by_code (lifecycle_statuses d)) (u ''RESOLVED'') = Some r \<and> f \<in> set bs - set as \<longrightarrow>
         (f \<in> set (cp_regressed c) \<longleftrightarrow>
            f \<noteq> [] \<and> (\<exists>h \<in> set (status_history d). hi_target_id h = t \<and> hi_status_id h = r \<and> hi_fingerprint h = f)))"
  unfolding c_def compare_fingerprints_def sorted_where_def Let_def
  by (auto simp: fingerprints_with_status_def filter_empty_conv)

section \<open>Witnesses\<close>

definition example_assessed :: db where
  "example_assessed = example_report
     \<lparr>assessments := [\<lparr>as_id = 38, as_execution_id = 36, as_provider = u ''p'', as_model = u ''m'',
        as_prompt_schema_version = u ''v1'', as_output_schema_version = u ''v1'', as_is_available = True,
        as_failure_kind = None, as_unsupported_claim_count = 0,
        as_payload = JObj [(u ''findings'', JObj (per_finding_fallbacks [example_finding (u ''0123456789abcdef'') category_headers]))],
        as_created_at = 11\<rparr>]\<rparr>"

lemma example_visible: "\<exists>det. get_scan (Some 1) 35 example_assessed = Inr det"
  by (simp add: get_scan_def get_visible_scan_def scan_by_id_def session_get_def scan_details_of_def profile_code_def
      code_of_id_def example_assessed_def example_report_simps)

lemma example_dto: "\<exists>dto. get_finding_with_evidence example_assessed 37 = Some dto"
  by (simp add: get_finding_with_evidence_def category_code_def severity_code_def code_of_id_def example_assessed_def
      example_report_simps)

theorem stored_explanations_never_served_witness:
  "\<exists>x. finding_explanation_route 1 35 37 example_assessed = Inr (explanation_answer (u ''fallback_used'') x)"
proof -
  obtain det dto where a: "get_scan (Some 1) 35 example_assessed = Inr det"
    "get_finding_with_evidence example_assessed 37 = Some dto"
    using example_visible example_dto by blast
  have r: "hd (scan_findings example_report) \<in> set (list_findings example_assessed 35)"
    "fi_id (hd (scan_findings example_report)) = 37"
    "category_code example_assessed (hd (scan_findings example_report)) \<noteq> None"
    "severity_code example_assessed (hd (scan_findings example_report)) \<noteq> None"
    by (simp_all add: list_findings_def belongs_to_scan_def category_code_def severity_code_def code_of_id_def
        example_assessed_def example_report_simps)
  have g: "get_assessment example_assessed 35 = Some (hd (assessments example_assessed))"
    by (simp add: get_assessment_def order_desc_def belongs_to_scan_def example_assessed_def example_report_simps)
  have p: "as_payload (hd (assessments example_assessed))
      = JObj [(u ''findings'', JObj (per_finding_fallbacks [example_finding (u ''0123456789abcdef'') category_headers]))]"
    by (simp add: example_assessed_def)
  have k: "dict_default [(u ''findings'', JObj (per_finding_fallbacks [example_finding (u ''0123456789abcdef'') category_headers]))]
      (u ''findings'') JNull = JObj (per_finding_fallbacks [example_finding (u ''0123456789abcdef'') category_headers])"
    by (simp add: dict_default_def)
  have l: "\<forall>x \<in> set [example_finding (u ''0123456789abcdef'') category_headers]. length (fd_id x) = 16"
    by (simp add: example_finding_def)
  from stored_explanations_never_served [OF a r g p k l] show ?thesis by blast
qed



theorem comparison_partitions_witness:
  "u ''b'' \<notin> set (cp_regressed (compare_fingerprints example_tenants 20 [u ''a''] [u ''b'']))
    \<and> u ''b'' \<in> set (cp_new (compare_fingerprints example_tenants 20 [u ''a''] [u ''b'']))"
proof -
  have "dict_get (ids_by_code (lifecycle_statuses example_tenants)) (u ''RESOLVED'') = Some 3"
    "status_history example_tenants = []"
    by (simp_all add: ids_by_code_def dict_of_def example_tenants_simps)
  with comparison_partitions [where d = example_tenants and t = 20 and as = "[u ''a'']" and bs = "[u ''b'']"]
  have m: "u ''b'' \<notin> set (cp_regressed (compare_fingerprints example_tenants 20 [u ''a''] [u ''b'']))"
    "{u ''b''} = set (cp_new (compare_fingerprints example_tenants 20 [u ''a''] [u ''b'']))
       \<union> set (cp_regressed (compare_fingerprints example_tenants 20 [u ''a''] [u ''b'']))
       \<union> set (cp_persistent (compare_fingerprints example_tenants 20 [u ''a''] [u ''b'']))"
    "{u ''a''} = set (cp_persistent (compare_fingerprints example_tenants 20 [u ''a''] [u ''b'']))
       \<union> set (cp_resolved (compare_fingerprints example_tenants 20 [u ''a''] [u ''b'']))"
    by simp_all
  have "u ''a'' \<noteq> u ''b''" by simp
  have gen: "b \<in> n" if "b \<notin> r" "{b} = n \<union> r \<union> q" "{a} = q \<union> s" "a \<noteq> b" for a b :: pystr and n r q s
  proof -
    have "b \<in> n \<union> r \<union> q" unfolding that(2) [symmetric] by simp
    moreover have "q \<subseteq> {a}" unfolding that(3) by simp
    ultimately show ?thesis using that(1,4) by auto
  qed
  from m(1) gen [OF m \<open>u ''a'' \<noteq> u ''b''\<close>] show ?thesis by (rule conjI)
qed

end
