(* ===== verification/HttpWorkload.thy ===== *)
theory HttpWorkload
  imports HttpTransport Assessment JsonRoundTrip
begin

text \<open>
  The program that runs inside the sandbox (\<open>scanning/sandbox/http_workload.py\<close>) and does the one exchange the
  transport asks for.  \<open>send\<close> is httpx with the network: it opens the client, sends the request and gives the
  status, the raw headers and the chunks of the body, or fails.  An exception carries its class and its chain.
\<close>

section \<open>Exceptions of the exchange\<close>

datatype workload_exn_class = ConnectTimeout | ReadTimeout | SSLCertVerificationError | ConnectError
  | RemoteProtocolError | LocalProtocolError | InvalidURL | UnsupportedProtocol | OtherClass pystr

fun class_text :: "workload_exn_class \<Rightarrow> pystr" where
  "class_text ConnectTimeout = u ''ConnectTimeout''"
| "class_text ReadTimeout = u ''ReadTimeout''"
| "class_text SSLCertVerificationError = u ''SSLCertVerificationError''"
| "class_text ConnectError = u ''ConnectError''"
| "class_text RemoteProtocolError = u ''RemoteProtocolError''"
| "class_text LocalProtocolError = u ''LocalProtocolError''"
| "class_text InvalidURL = u ''InvalidURL''"
| "class_text UnsupportedProtocol = u ''UnsupportedProtocol''"
| "class_text (OtherClass n) = n"

datatype workload_exn = HttpExn (he_class: workload_exn_class) (he_cause: "workload_exn option") (he_context: "workload_exn option")

definition opt_list :: "'a option \<Rightarrow> 'a list" where
  "opt_list m = (case m of None \<Rightarrow> [] | Some x \<Rightarrow> [x])"

text \<open>The walk over the chain; the top of the stack is the head of the list.\<close>

function cert_in_chain :: "workload_exn list \<Rightarrow> bool" where
  "cert_in_chain [] = False"
| "cert_in_chain (e # stack) =
     (if he_class e = SSLCertVerificationError then True
      else cert_in_chain (opt_list (he_context e) @ opt_list (he_cause e) @ stack))"
  by pat_completeness auto
termination
proof (relation "measure (\<lambda>stack. sum_list (map size stack))", goal_cases)
  case (2 e stack)
  then show ?case by (cases e) (auto simp: opt_list_def split: option.splits)
qed simp

definition classify :: "workload_exn \<Rightarrow> pystr \<times> pystr" where
  "classify e =
     (if he_class e = ConnectTimeout then (u ''connect_timeout'', u ''connect timed out'')
      else if he_class e = ReadTimeout then (u ''read_timeout'', u ''read timed out'')
      else if cert_in_chain [e] then (u ''tls_error'', u ''certificate verification failed'')
      else if he_class e \<in> {ConnectError, RemoteProtocolError, LocalProtocolError, InvalidURL, UnsupportedProtocol}
      then (u ''protocol_error'', class_text (he_class (case he_cause e of None \<Rightarrow> e | Some c \<Rightarrow> c)))
      else (u ''protocol_error'', class_text (he_class e)))"

section \<open>Request and response\<close>

record workload_request =
  wr_method :: json
  wr_url :: json
  wr_headers :: "(pystr \<times> pystr) list"
  wr_body :: "nat list option"
  wr_sni_hostname :: json
  wr_connect_timeout_s :: pystr
  wr_read_timeout_s :: pystr
  wr_ca :: "nat list option"

text \<open>The stream of a response: its chunks, and the exception it ends with if it breaks off.\<close>

record workload_response =
  ws_status :: int
  ws_headers :: "(nat list \<times> nat list) list"
  ws_chunks :: "nat list list"
  ws_broken :: "workload_exn option"

text \<open>\<open>chunk[:keep]\<close>\<close>

definition slice_to :: "int \<Rightarrow> 'a list \<Rightarrow> 'a list" where
  "slice_to keep xs = (if 0 \<le> keep then take (nat keep) xs else take (length xs - nat (- keep)) xs)"

fun clamp_chunks :: "int \<Rightarrow> workload_exn option \<Rightarrow> int \<Rightarrow> nat list list \<Rightarrow> workload_exn + (nat list \<times> bool)" where
  "clamp_chunks max_bytes broken received [] = (case broken of None \<Rightarrow> Inr ([], False) | Some e \<Rightarrow> Inl e)"
| "clamp_chunks max_bytes broken received (chunk # chunks) =
     (let received1 = received + int (length chunk)
      in if received1 \<ge> max_bytes then Inr (slice_to (max_bytes - (received1 - int (length chunk))) chunk, True)
         else bindE (clamp_chunks max_bytes broken received1 chunks) (\<lambda>(body, truncated). Inr (chunk @ body, truncated)))"

section \<open>The program\<close>

text \<open>Strict UTF-8: what the lenient decoder does not change.\<close>

definition utf8_decode :: "nat list \<Rightarrow> pystr option" where
  "utf8_decode bs = (if utf8_encode (utf8_decode_replace bs) = Inr bs then Some (utf8_decode_replace bs) else None)"

definition parse_spec :: "pystr \<Rightarrow> json option" where
  "parse_spec arg =
     (case py_b64decode (JStr arg) of
        Inl _ \<Rightarrow> None
      | Inr bs \<Rightarrow>
          (case utf8_decode bs of
             None \<Rightarrow> None
           | Some txt \<Rightarrow> (case json_loads txt of Inl _ \<Rightarrow> None | Inr v \<Rightarrow> Some v)))"

text \<open>Exit code, standard output and standard error.\<close>

record workload_exit =
  we_code :: int
  we_stdout :: pystr
  we_stderr :: pystr

definition emit_error :: "pystr \<Rightarrow> pystr \<Rightarrow> workload_exit" where
  "emit_error kind detail =
     \<lparr>we_code = 2,
      we_stdout = error_prefix @ dumps_default (JObj [(u ''kind'', JStr kind), (u ''detail'', JStr (take 500 detail))]) @ [10],
      we_stderr = []\<rparr>"

definition emit_success :: "pystr \<Rightarrow> workload_response \<Rightarrow> nat list \<Rightarrow> bool \<Rightarrow> workload_exit" where
  "emit_success elapsed_ms response body truncated =
     \<lparr>we_code = 0,
      we_stdout = success_prefix @ dumps_default (JObj
        [(u ''status'', JInt (ws_status response)),
         (u ''headers'', JArr (map (\<lambda>(k, v). JArr [JStr k, JStr v]) (ws_headers response))),
         (u ''body_b64'', JStr (b64encode body)), (u ''truncated'', JBool truncated),
         (u ''elapsed_ms'', JFloat elapsed_ms)]) @ [10],
      we_stderr = []\<rparr>"

abbreviation plain_exn :: "pystr \<Rightarrow> workload_exn" where
  "plain_exn n \<equiv> HttpExn (OtherClass n) None None"

definition in_try :: "'a result \<Rightarrow> workload_exn + 'a" where
  "in_try r = (case r of Inl e \<Rightarrow> Inl (plain_exn (exn_name e)) | Inr x \<Rightarrow> Inr x)"

text \<open>The certificate authority: \<open>binascii.Error\<close> has the name \<open>Error\<close>.\<close>

definition decode_ca :: "json \<Rightarrow> workload_exn + nat list option" where
  "decode_ca ca_b64 =
     (if \<not> py_truthy ca_b64 then Inr None
      else case (ca_b64, py_b64decode ca_b64) of
             (_, Inr bs) \<Rightarrow> Inr (Some bs)
           | (JStr s, Inl _) \<Rightarrow> Inl (plain_exn (if list_ex (\<lambda>c. c > 127) s then u ''ValueError'' else u ''Error''))
           | (_, Inl e) \<Rightarrow> Inl (plain_exn (exn_name e)))"

definition build_workload_request ::
  "json \<Rightarrow> (pystr \<times> pystr) list \<Rightarrow> nat list option \<Rightarrow> workload_exn + workload_request" where
  "build_workload_request spec headers body =
     bindE (in_try (json_get spec (u ''ca_b64'') JNull)) (\<lambda>ca_b64.
     bindE (decode_ca ca_b64) (\<lambda>ca.
     bindE (in_try (bindE (json_item spec (u ''connect_timeout_s'')) py_float)) (\<lambda>connect.
     bindE (in_try (bindE (json_item spec (u ''read_timeout_s'')) py_float)) (\<lambda>read.
     bindE (in_try (json_item spec (u ''method''))) (\<lambda>method.
     bindE (in_try (json_item spec (u ''url''))) (\<lambda>url.
     bindE (in_try (json_item spec (u ''sni_hostname''))) (\<lambda>sni.
       Inr \<lparr>wr_method = method, wr_url = url, wr_headers = headers, wr_body = body, wr_sni_hostname = sni,
            wr_connect_timeout_s = connect, wr_read_timeout_s = read, wr_ca = ca\<rparr>)))))))"

text \<open>The part before the \<open>try\<close>: headers, body and the size limit.\<close>

definition read_spec :: "json \<Rightarrow> ((pystr \<times> pystr) list \<times> nat list option \<times> int) result" where
  "read_spec spec =
     bindE (bindE (json_get spec (u ''headers'') (JArr [])) py_iter) (\<lambda>hs.
     bindE (mapE unpack_pair hs) (\<lambda>pairs.
     bindE (json_get spec (u ''body_b64'') JNull) (\<lambda>b.
     bindE (if py_truthy b then bindE (json_item spec (u ''body_b64'')) (\<lambda>v. map_sum id Some (py_b64decode v)) else Inr None) (\<lambda>body.
     bindE (bindE (json_item spec (u ''max_response_bytes'')) py_int) (\<lambda>max_bytes.
       Inr (map (\<lambda>(k, v). (str_value k, str_value v)) pairs, body, max_bytes))))))"

definition finish_exchange ::
  "int \<Rightarrow> pystr \<Rightarrow> workload_exn + workload_response \<Rightarrow> workload_exit" where
  "finish_exchange max_bytes elapsed_ms answer =
     (case bindE answer (\<lambda>response. bindE (clamp_chunks max_bytes (ws_broken response) 0 (ws_chunks response))
               (\<lambda>(body, truncated). Inr (response, body, truncated))) of
        Inl e \<Rightarrow> (case classify e of (kind, detail) \<Rightarrow> emit_error kind detail)
      | Inr (response, body, truncated) \<Rightarrow> emit_success elapsed_ms response body truncated)"

text \<open>An \<open>Inl\<close> is an exception that leaves \<open>main\<close>: the interpreter prints its traceback and exits with 1.\<close>

definition workload_main ::
  "(workload_request \<Rightarrow> 's \<Rightarrow> (workload_exn + workload_response) \<times> 's) \<Rightarrow> pystr \<Rightarrow> pystr list \<Rightarrow> 's \<Rightarrow> workload_exit result \<times> 's" where
  "workload_main send elapsed_ms argv s =
     (case argv of
        [flag, arg] \<Rightarrow>
          if flag \<noteq> u ''--spec-b64'' then (Inr \<lparr>we_code = 1, we_stdout = [], we_stderr = u ''usage: workload --spec-b64 <b64json>'' @ [10]\<rparr>, s)
          else (case parse_spec arg of
             None \<Rightarrow> (Inr \<lparr>we_code = 1, we_stdout = [], we_stderr = u ''unparseable spec'' @ [10]\<rparr>, s)
           | Some spec \<Rightarrow>
               (case read_spec spec of
                  Inl e \<Rightarrow> (Inl e, s)
                | Inr (headers, body, max_bytes) \<Rightarrow>
                    (case build_workload_request spec headers body of
                       Inl e \<Rightarrow> (Inr (finish_exchange max_bytes elapsed_ms (Inl e)), s)
                     | Inr request \<Rightarrow>
                         (let (answer, s1) = send request s in (Inr (finish_exchange max_bytes elapsed_ms answer), s1)))))
      | _ \<Rightarrow> (Inr \<lparr>we_code = 1, we_stdout = [], we_stderr = u ''usage: workload --spec-b64 <b64json>'' @ [10]\<rparr>, s))"

text \<open>\<open>docker exec\<close> of the program: its arguments follow the interpreter's four.\<close>

definition run_workload ::
  "(workload_request \<Rightarrow> 's \<Rightarrow> (workload_exn + workload_response) \<times> 's) \<Rightarrow> pystr \<Rightarrow> (exn \<Rightarrow> pystr) \<Rightarrow> pystr list \<Rightarrow> 's
     \<Rightarrow> exec_result result \<times> 's" where
  "run_workload send elapsed_ms traceback argv s =
     (case workload_main send elapsed_ms (drop 4 argv) s of
        (Inl e, s1) \<Rightarrow> (Inr \<lparr>xr_argv = argv, xr_exit_code = 1, xr_stdout = [], xr_stderr = traceback e\<rparr>, s1)
      | (Inr x, s1) \<Rightarrow>
          (Inr \<lparr>xr_argv = argv, xr_exit_code = we_code x, xr_stdout = we_stdout x, xr_stderr = we_stderr x\<rparr>, s1))"

section \<open>Texts on the wire\<close>

lemma b64_value_char: "n < 64 \<Longrightarrow> b64_value (b64_char n) = Some n \<and> b64_char n \<noteq> 61 \<and> b64_char n < 128"
  by (auto simp: b64_char_def b64_value_def)

lemma b64_letters: "n < 64 \<Longrightarrow> b64_char n \<noteq> 45 \<and> b64_char n \<noteq> 95"
  by (auto simp: b64_char_def)

lemma b64_quanta:
  "a < 64 \<Longrightarrow> a2b (b64_char a # cs) 0 l p = a2b cs 1 a 0"
  "a < 64 \<Longrightarrow> a2b (b64_char a # cs) 1 l p = map_option ((#) ((l * 4 + a div 16) mod 256)) (a2b cs 2 (a mod 16) 0)"
  "a < 64 \<Longrightarrow> a2b (b64_char a # cs) 2 l p = map_option ((#) ((l * 16 + a div 4) mod 256)) (a2b cs 3 (a mod 4) 0)"
  "a < 64 \<Longrightarrow> a2b (b64_char a # cs) 3 l p = map_option ((#) ((l * 64 + a) mod 256)) (a2b cs 0 0 0)"
  "a2b [61, 61] 2 l 0 = Some []" "a2b [61] 3 l 0 = Some []" "a2b [] 0 l p = Some []"
  using b64_value_char [of a] by auto

lemma b64_quantum:
  assumes "x < 64" "y < 64" "z < 64" "w < 64"
  shows "a2b (b64_char x # b64_char y # [61, 61]) 0 0 0 = Some [(x * 4 + y div 16) mod 256]"
    and "a2b (b64_char x # b64_char y # b64_char z # [61]) 0 0 0
      = Some [(x * 4 + y div 16) mod 256, (y mod 16 * 16 + z div 4) mod 256]"
    and "a2b (b64_char x # b64_char y # b64_char z # b64_char w # cs) 0 0 0
      = map_option (\<lambda>r. (x * 4 + y div 16) mod 256 # (y mod 16 * 16 + z div 4) mod 256 # (z mod 4 * 64 + w) mod 256 # r)
          (a2b cs 0 0 0)"
  using assms by (simp_all only: b64_quanta option.map_comp option.map comp_def)

lemma two_digits: "y < (k::nat) \<Longrightarrow> (x * k + y) div k = x" "y < (k::nat) \<Longrightarrow> (x * k + y) mod k = y"
  by (simp_all add: add.commute [of "x * k" y])

lemma quantum_values:
  assumes "a < 256" "b < 256" "c < (256::nat)"
  shows "(a div 4 * 4 + (a mod 4 * 16 + b div 16) div 16) mod 256 = a"
    and "((a mod 4 * 16 + b div 16) mod 16 * 16 + (b mod 16 * 4 + c div 64) div 4) mod 256 = b"
    and "((b mod 16 * 4 + c div 64) mod 4 * 64 + c mod 64) mod 256 = c"
    and "a div 4 < 64" and "a mod 4 * 16 + b div 16 < 64" and "b mod 16 * 4 + c div 64 < 64" and "c mod 64 < 64"
proof -
  have q: "b div 16 < 16" "c div 64 < 4" "a mod 4 < 4" "b mod 16 < 16" using assms by (simp_all add: less_mult_imp_div_less)
  note d = two_digits [OF q(1), of "a mod 4"] two_digits [OF q(2), of "b mod 16"]
  show "(a div 4 * 4 + (a mod 4 * 16 + b div 16) div 16) mod 256 = a"
    "((a mod 4 * 16 + b div 16) mod 16 * 16 + (b mod 16 * 4 + c div 64) div 4) mod 256 = b"
    "((b mod 16 * 4 + c div 64) mod 4 * 64 + c mod 64) mod 256 = c"
    unfolding d using assms by (simp_all only: div_mult_mod_eq mod_less)
  show "a mod 4 * 16 + b div 16 < 64" "b mod 16 * 4 + c div 64 < 64" "a div 4 < 64" "c mod 64 < 64"
    using q assms by linarith+
qed

lemma b64_round_trip: "list_all (\<lambda>b. b < 256) bs \<Longrightarrow> b64decode (b64encode bs) = Some bs"
proof (induction bs rule: b64encode.induct)
  case (2 a)
  note q = quantum_values [of a 0 0]
  have "a < 256" using 2 by simp
  with q(1,4,5) show ?case
    using b64_quantum(1) [of "a div 4" "a mod 4 * 16" 0 0] by (simp add: b64decode_def del: a2b.simps)
next
  case (3 a b)
  note q = quantum_values [of a b 0]
  have "a < 256" "b < 256" using 3 by simp_all
  with q(1,2,4,5,6) show ?case
    using b64_quantum(2) [of "a div 4" "a mod 4 * 16 + b div 16" "b mod 16 * 4" 0] by (simp add: b64decode_def del: a2b.simps)
next
  case (4 a b c r)
  then have l: "a < 256" "b < 256" "c < 256" and r: "a2b (b64encode r) 0 0 0 = Some r" by (simp_all add: b64decode_def)
  note q = quantum_values [OF l]
  show ?case unfolding b64decode_def b64encode.simps append_Cons append_Nil b64_quantum(3) [OF q(4,5,6,7)] q(1,2,3) r by simp
qed (simp add: b64decode_def)

lemma b64_ascii: "list_all (\<lambda>b. b < 256) bs \<Longrightarrow> list_all (\<lambda>c. c < 128) (b64encode bs)"
proof (induction bs rule: b64encode.induct)
  case (2 a)
  then show ?case using quantum_values(4,5) [of a 0 0] by (simp add: b64_value_char)
next
  case (3 a b)
  then show ?case using quantum_values(4,5,6) [of a b 0] by (simp add: b64_value_char)
next
  case (4 a b c r)
  then show ?case using quantum_values(4,5,6,7) [of a b c] by (simp add: b64_value_char)
qed simp

lemma py_b64_round_trip: "list_all (\<lambda>b. b < 256) bs \<Longrightarrow> py_b64decode (JStr (b64encode bs)) = Inr bs"
  using b64_ascii [of bs] by (auto simp: b64_round_trip list_all_iff list_ex_iff)

lemma b64_scalar: "list_all (\<lambda>b. b < 256) bs \<Longrightarrow> scalar_text (b64encode bs)"
  using b64_ascii [of bs] by (auto simp: scalar_text_def list_all_iff is_surrogate_def)

lemma utf8_ascii: "list_all (\<lambda>c. c < 128) s \<Longrightarrow> utf8_decode s = Some s"
proof -
  assume s: "list_all (\<lambda>c. c < 128) s"
  then have "utf8_decode_replace s = s" by (induction s) (simp_all add: utf8_shape_def)
  moreover have "utf8_encode s = Inr s"
    using s by (induction s) (auto simp: utf8_encode_def utf8_char_def is_surrogate_def split: if_splits)
  ultimately show ?thesis by (simp add: utf8_decode_def)
qed

definition visible :: "pystr \<Rightarrow> bool" where
  "visible s \<longleftrightarrow> list_all (\<lambda>c. 32 \<le> c \<and> c \<le> 126) s"

lemma visible_simps [simp]:
  "visible []" "visible (c # s) \<longleftrightarrow> 32 \<le> c \<and> c \<le> 126 \<and> visible s" "visible (a @ b) \<longleftrightarrow> visible a \<and> visible b"
  "visible (concat ss) \<longleftrightarrow> list_all visible ss"
  by (auto simp: visible_def list_all_iff)

lemma visible_small: "visible s \<Longrightarrow> list_all (\<lambda>b. b < 256) s" "visible s \<Longrightarrow> list_all (\<lambda>b. b < 128) s"
  by (auto simp: visible_def list_all_iff)

lemma visible_join: "visible sep \<Longrightarrow> list_all visible ss \<Longrightarrow> visible (py_join sep ss)"
  by (induction sep ss rule: py_join.induct) auto

lemma visible_pad: "visible (hex_pad k n)"
  by (induction k arbitrary: n) (auto simp: hex_digit_def)

lemma visible_string: "visible (json_string s)"
  by (auto simp: json_string_def json_char_def unicode_escape_def visible_pad list_all_iff simp del: hex_pad.simps)

lemma visible_nat: "visible (nat_to_text n)"
  by (auto simp: visible_def list_all_iff ascii_digit_def dest!: nat_to_text_digits)

lemma visible_dumps: "visible a \<Longrightarrow> visible b \<Longrightarrow> plain_json v \<Longrightarrow> visible (dumps_plain a b v)"
proof (induction v)
  case (JFloat t)
  then show ?case by (auto simp: float_text_def visible_nat) (auto simp: visible_def list_all_iff ascii_digit_def)
next
  case (JArr vs)
  then have "list_all visible (map (dumps_plain a b) vs)" by (auto simp: list_all_iff)
  with JArr show ?case by (simp add: visible_join)
next
  case (JObj kvs)
  then have "list_all visible (map (\<lambda>(k, v). json_string k @ b @ dumps_plain a b v) kvs)"
    by (fastforce simp: list_all_iff visible_string)
  with JObj show ?case by (simp add: visible_join)
qed (auto simp: visible_string visible_nat int_to_text_def text_defs)

lemma one_line: "visible l \<Longrightarrow> l \<noteq> [] \<Longrightarrow> py_splitlines (l @ [10]) = [l]"
proof -
  have "visible l \<Longrightarrow> splitlines_from acc (l @ [10]) = [rev acc @ l]" for acc
    by (induction l arbitrary: acc) (auto simp: line_break_def)
  then show "visible l \<Longrightarrow> py_splitlines (l @ [10]) = [l]" by (simp add: py_splitlines_def)
qed

section \<open>What the two processes amount to\<close>

text \<open>
  The specification of an exchange without the wire format: the request the transport means, and the answer it gets
  with the body cut at the limit.
\<close>

definition direct_request :: "nat list option \<Rightarrow> http_limits \<Rightarrow> scan_request \<Rightarrow> pystr \<Rightarrow> workload_request" where
  "direct_request ca limits r url =
     \<lparr>wr_method = JStr (py_upper (rq_method (hr_spec r))), wr_url = JStr url,
      wr_headers = rq_headers (hr_spec r) @ [(u ''Host'', ct_hostname (hr_target r))],
      wr_body = (if rq_body (hr_spec r) = Some [] then None else rq_body (hr_spec r)),
      wr_sni_hostname = JStr (ct_hostname (hr_target r)),
      wr_connect_timeout_s = ms_text (min (hl_connect_timeout_ms limits) 30000),
      wr_read_timeout_s = ms_text (min (hl_read_timeout_ms limits) 30000), wr_ca = ca\<rparr>"

definition direct_failure :: "workload_exn \<Rightarrow> exn" where
  "direct_failure e =
     (case classify e of (kind, detail) \<Rightarrow>
        ControlledTransportError (dict_default kind_map kind PROTOCOL_ERROR) (take 500 detail))"

definition direct_answer ::
  "int \<Rightarrow> pystr \<Rightarrow> connection_target \<Rightarrow> workload_exn + workload_response \<Rightarrow> response_data result" where
  "direct_answer max_bytes elapsed_ms t answer =
     (case answer of
        Inl e \<Rightarrow> Inl (direct_failure e)
      | Inr response \<Rightarrow>
          (let body = concat (ws_chunks response); full = max_bytes \<le> int (length body)
           in case (if full then None else ws_broken response) of
                Some e \<Rightarrow> Inl (direct_failure e)
              | None \<Rightarrow> Inr \<lparr>rp_status = ws_status response, rp_headers = ws_headers response,
                  rp_body = take (nat max_bytes) body, rp_elapsed_ms = elapsed_ms, rp_final_target = t,
                  rp_via_redirects = [], rp_truncated = full\<rparr>))"

text \<open>What httpx delivers: bytes are octets, and class names are proper texts.\<close>

definition octets :: "nat list \<Rightarrow> bool" where
  "octets bs \<longleftrightarrow> list_all (\<lambda>b. b < 256) bs"

definition named_exn :: "workload_exn \<Rightarrow> bool" where
  "named_exn e \<longleftrightarrow> scalar_text (class_text (he_class e))
     \<and> (case he_cause e of None \<Rightarrow> True | Some c \<Rightarrow> scalar_text (class_text (he_class c)))"

definition wire_response :: "workload_response \<Rightarrow> bool" where
  "wire_response r \<longleftrightarrow> length (nat_to_text (nat \<bar>ws_status r\<bar>)) \<le> 4300
     \<and> list_all (\<lambda>(k, v). octets k \<and> octets v) (ws_headers r) \<and> list_all octets (ws_chunks r)
     \<and> (case ws_broken r of None \<Rightarrow> True | Some e \<Rightarrow> named_exn e)"

definition wire_answer :: "workload_exn + workload_response \<Rightarrow> bool" where
  "wire_answer a = (case a of Inl e \<Rightarrow> named_exn e | Inr r \<Rightarrow> wire_response r)"

lemma octets_scalar: "octets bs \<Longrightarrow> scalar_text bs"
  by (auto simp: octets_def scalar_text_def list_all_iff is_surrogate_def)

lemma clamp_exact:
  "0 \<le> received \<Longrightarrow> received < max_bytes \<Longrightarrow> clamp_chunks max_bytes broken received chunks =
     (if max_bytes - received \<le> int (length (concat chunks))
      then Inr (take (nat (max_bytes - received)) (concat chunks), True)
      else case broken of None \<Rightarrow> Inr (concat chunks, False) | Some e \<Rightarrow> Inl e)"
proof (induction chunks arbitrary: received)
  case Nil
  then show ?case by (simp split: option.splits)
next
  case (Cons chunk chunks)
  show ?case
  proof (cases "received + int (length chunk) \<ge> max_bytes")
    case True
    have s: "slice_to (max_bytes - received) chunk = take (nat (max_bytes - received)) chunk"
      using Cons.prems by (simp add: slice_to_def)
    have "nat (max_bytes - received) \<le> length chunk" using True by linarith
    then show ?thesis using True s by simp
  next
    case False
    let ?r = "received + int (length chunk)"
    have ih: "clamp_chunks max_bytes broken ?r chunks =
        (if max_bytes - ?r \<le> int (length (concat chunks)) then Inr (take (nat (max_bytes - ?r)) (concat chunks), True)
         else case broken of None \<Rightarrow> Inr (concat chunks, False) | Some e \<Rightarrow> Inl e)"
      using Cons.prems False by (intro Cons.IH) simp_all
    have n: "nat (max_bytes - received) = length chunk + nat (max_bytes - ?r)" using False by linarith
    show ?thesis using False ih by (auto simp: n algebra_simps split: option.splits)
  qed
qed

lemma classify_scalar: "named_exn e \<Longrightarrow> scalar_text (fst (classify e)) \<and> scalar_text (snd (classify e))"
  by (auto simp: classify_def named_exn_def u_scalar split: option.splits)

lemma scalar_take: "scalar_text s \<Longrightarrow> scalar_text (take n s)"
  by (auto simp: scalar_text_def dest: in_set_takeD)

lemma pairs_read: "mapE unpack_pair (map (\<lambda>(k, v). JArr [JStr k, JStr v]) hs) = Inr (map (\<lambda>(k, v). (JStr k, JStr v)) hs)"
  by (induction hs) (auto simp: unpack_pair_def)

lemma error_read_back:
  assumes "scalar_text kind" "scalar_text detail"
  shows "parse_exec_result \<lparr>xr_argv = argv, xr_exit_code = c, xr_stdout = we_stdout (emit_error kind detail), xr_stderr = x\<rparr> t
    = Inl (ControlledTransportError (dict_default kind_map kind PROTOCOL_ERROR) (take 500 detail))"
proof -
  let ?v = "JObj [(u ''kind'', JStr kind), (u ''detail'', JStr (take 500 detail))]"
  have p: "plain_json ?v" using assms by (simp add: scalar_take u_scalar)
  have vis: "visible (error_prefix @ dumps_default ?v)"
    using visible_dumps [OF _ _ p, of "[44, 32]" "[58, 32]"] by (simp add: error_prefix_def text_defs del: dumps_plain.simps)
  have "py_splitlines (error_prefix @ dumps_default ?v @ [10]) = [error_prefix @ dumps_default ?v]"
    using one_line [OF vis] by (simp add: error_prefix_def del: dumps_plain.simps)
  moreover have "\<not> py_startswith (error_prefix @ dumps_default ?v) success_prefix"
    by (simp add: error_prefix_def success_prefix_def text_defs py_startswith_def del: dumps_plain.simps)
  moreover have "py_startswith (error_prefix @ dumps_default ?v) error_prefix" by (simp add: py_startswith_def del: dumps_plain.simps)
  moreover have "loads_or_raise (dumps_default ?v) = Inr ?v"
    unfolding loads_or_raise_def spaced.loads_written [OF p] by simp
  ultimately show ?thesis
    by (simp add: parse_exec_result_def emit_error_def parse_failure_def json_get_def dict_default_def del: dumps_plain.simps)
qed

lemma success_read_back:
  assumes "float_text elapsed" "wire_response r" "octets body"
  shows "parse_exec_result \<lparr>xr_argv = argv, xr_exit_code = c, xr_stdout = we_stdout (emit_success elapsed r body full), xr_stderr = x\<rparr> t
    = Inr \<lparr>rp_status = ws_status r, rp_headers = ws_headers r, rp_body = body, rp_elapsed_ms = elapsed,
           rp_final_target = t, rp_via_redirects = [], rp_truncated = full\<rparr>"
proof -
  let ?hs = "map (\<lambda>(k, v). JArr [JStr k, JStr v]) (ws_headers r)"
  let ?v = "JObj [(u ''status'', JInt (ws_status r)), (u ''headers'', JArr ?hs),
         (u ''body_b64'', JStr (b64encode body)), (u ''truncated'', JBool full), (u ''elapsed_ms'', JFloat elapsed)]"
  have "list_all plain_json ?hs"
    using assms(2) by (auto simp: wire_response_def list_all_iff octets_scalar)
  then have p: "plain_json ?v" using assms by (simp add: u_scalar wire_response_def b64_scalar octets_def)
  have vis: "visible (success_prefix @ dumps_default ?v)"
    using visible_dumps [OF _ _ p, of "[44, 32]" "[58, 32]"] by (simp add: success_prefix_def text_defs del: dumps_plain.simps)
  have "py_splitlines (success_prefix @ dumps_default ?v @ [10]) = [success_prefix @ dumps_default ?v]"
    using one_line [OF vis] by (simp add: success_prefix_def del: dumps_plain.simps)
  moreover have "py_startswith (success_prefix @ dumps_default ?v) success_prefix" by (simp add: py_startswith_def del: dumps_plain.simps)
  moreover have "loads_or_raise (dumps_default ?v) = Inr ?v"
    unfolding loads_or_raise_def spaced.loads_written [OF p] by simp
  moreover have "mapE unpack_pair ?hs = Inr (map (\<lambda>(k, v). (JStr k, JStr v)) (ws_headers r))"
    by (rule pairs_read)
  moreover have "py_b64decode (JStr (b64encode body)) = Inr body"
    using assms(3) by (intro py_b64_round_trip) (simp add: octets_def)
  ultimately show ?thesis
    by (simp add: parse_exec_result_def emit_success_def parse_success_def json_get_def json_item_def dict_default_def
        case_prod_unfold comp_def del: dumps_plain.simps py_b64decode.simps)
qed

lemma finished_read_back:
  assumes "wire_answer answer" "float_text elapsed" "0 < max_bytes"
  shows "parse_exec_result \<lparr>xr_argv = argv, xr_exit_code = we_code (finish_exchange max_bytes elapsed answer),
      xr_stdout = we_stdout (finish_exchange max_bytes elapsed answer),
      xr_stderr = we_stderr (finish_exchange max_bytes elapsed answer)\<rparr> t
    = direct_answer max_bytes elapsed t answer"
proof -
  have fails: "parse_exec_result \<lparr>xr_argv = argv, xr_exit_code = c,
      xr_stdout = we_stdout (case classify e of (kind, detail) \<Rightarrow> emit_error kind detail), xr_stderr = x\<rparr> t = Inl (direct_failure e)"
    if "named_exn e" for e c x
    using classify_scalar [OF that] by (simp add: error_read_back direct_failure_def case_prod_unfold)
  show ?thesis
  proof (cases answer)
    case (Inl e)
    then show ?thesis using assms(1) by (simp add: finish_exchange_def direct_answer_def fails wire_answer_def)
  next
    case (Inr r)
    then have w: "wire_response r" using assms(1) by (simp add: wire_answer_def)
    let ?body = "concat (ws_chunks r)"
    have o: "octets (take n ?body)" for n
      using w by (auto simp: octets_def wire_response_def list_all_iff dest!: in_set_takeD)
    have c: "clamp_chunks max_bytes (ws_broken r) 0 (ws_chunks r) =
        (if max_bytes \<le> int (length ?body) then Inr (take (nat max_bytes) ?body, True)
         else case ws_broken r of None \<Rightarrow> Inr (?body, False) | Some e \<Rightarrow> Inl e)"
      using clamp_exact [of 0 max_bytes "ws_broken r" "ws_chunks r"] assms(3) by simp
    consider "max_bytes \<le> int (length ?body)" | "\<not> max_bytes \<le> int (length ?body)" "ws_broken r = None"
      | e where "\<not> max_bytes \<le> int (length ?body)" "ws_broken r = Some e" by (cases "ws_broken r") auto
    then show ?thesis
    proof cases
      case 1
      then show ?thesis
        using success_read_back [OF assms(2) w o [of "nat max_bytes"]] by (simp add: Inr finish_exchange_def c direct_answer_def Let_def)
    next
      case 2
      then have "octets ?body" "take (nat max_bytes) ?body = ?body" using o [of "length ?body"] by simp_all
      moreover have "clamp_chunks max_bytes None 0 (ws_chunks r) = Inr (?body, False)" using c 2 by simp
      ultimately show ?thesis
        using success_read_back [OF assms(2) w] 2 by (simp add: Inr finish_exchange_def direct_answer_def Let_def)
    next
      case 3
      then have "named_exn e" using w by (simp add: wire_response_def)
      moreover have "clamp_chunks max_bytes (Some e) 0 (ws_chunks r) = Inl e" using c 3 by simp
      ultimately show ?thesis using 3 by (simp add: Inr finish_exchange_def direct_answer_def Let_def fails)
    qed
  qed
qed

lemma spec_read:
  assumes "plain_json spec"
  shows "parse_spec (b64encode (dumps_compact spec)) = Some spec"
proof -
  have v: "visible (dumps_compact spec)" by (rule visible_dumps [OF _ _ assms]) simp_all
  note a = visible_small [OF v]
  show ?thesis
    unfolding parse_spec_def py_b64_round_trip [OF a(1)] by (simp add: utf8_ascii [OF a(2)] compact.loads_written [OF assms])
qed

lemma request_read:
  assumes "spec_json (map_option b64encode ca) limits r = Inr spec" and "pinned_url (hr_target r) (rq_path (hr_spec r)) = Inr url"
    and "ca \<noteq> Some []" and "\<And>bs. ca = Some bs \<or> rq_body (hr_spec r) = Some bs \<Longrightarrow> octets bs"
  shows "\<exists>headers body. read_spec spec = Inr (headers, body, hl_max_response_bytes limits)
    \<and> build_workload_request spec headers body = Inr (direct_request ca limits r url)"
proof -
  have ne: "b64encode bs = [] \<longleftrightarrow> bs = []" for bs by (induction bs rule: b64encode.induct) simp_all
  let ?hs = "rq_headers (hr_spec r) @ [(u ''Host'', ct_hostname (hr_target r))]"
  have hs: "mapE unpack_pair (map (\<lambda>(k, v). JArr [JStr k, JStr v]) (rq_headers (hr_spec r)) @ [JArr [JStr (u ''Host''), JStr (ct_hostname (hr_target r))]])
      = Inr (map (\<lambda>(k, v). (JStr k, JStr v)) ?hs)"
    using pairs_read [of ?hs] by simp
  have ca: "decode_ca (case map_option b64encode ca of None \<Rightarrow> JNull | Some b \<Rightarrow> JStr b) = Inr ca"
    using assms(3,4) by (cases ca) (simp_all add: decode_ca_def ne py_b64_round_trip octets_def del: py_b64decode.simps)
  define b where "b = (case rq_body (hr_spec r) of None \<Rightarrow> JNull | Some b \<Rightarrow> JStr (b64encode b))"
  define q where "q = (if rq_body (hr_spec r) = Some [] then None else rq_body (hr_spec r))"
  have body: "(if py_truthy b then map_sum id Some (py_b64decode b) else Inr None) = Inr q"
    using assms(4) unfolding b_def q_def
    by (cases "rq_body (hr_spec r)") (simp_all add: ne py_b64_round_trip octets_def del: py_b64decode.simps)
  from assms(1,2) have spec: "spec = JObj
           [(u ''url'', JStr url), (u ''method'', JStr (py_upper (rq_method (hr_spec r)))),
            (u ''headers'', JArr (map (\<lambda>(k, v). JArr [JStr k, JStr v]) (rq_headers (hr_spec r))
               @ [JArr [JStr (u ''Host''), JStr (ct_hostname (hr_target r))]])),
            (u ''body_b64'', b),
            (u ''connect_timeout_s'', JFloat (ms_text (min (hl_connect_timeout_ms limits) 30000))),
            (u ''read_timeout_s'', JFloat (ms_text (min (hl_read_timeout_ms limits) 30000))),
            (u ''max_response_bytes'', JInt (hl_max_response_bytes limits)),
            (u ''sni_hostname'', JStr (ct_hostname (hr_target r))),
            (u ''ca_b64'', (case map_option b64encode ca of None \<Rightarrow> JNull | Some b \<Rightarrow> JStr b))]"
    by (simp add: spec_json_def Let_def b_def)
  have "read_spec spec = Inr (?hs, q, hl_max_response_bytes limits)"
    using body hs unfolding spec read_spec_def
    by (simp add: json_get_def json_item_def dict_default_def comp_def case_prod_unfold del: py_truthy.simps py_b64decode.simps
        split: if_splits)
  moreover have "build_workload_request spec ?hs q
      = Inr (direct_request ca limits r url)"
    using ca unfolding spec build_workload_request_def direct_request_def q_def [symmetric]
    by (simp add: json_get_def json_item_def dict_default_def in_try_def)
  ultimately show ?thesis by blast
qed

text \<open>C21 [exchange_through_sandbox]: an exchange of the transport through the program in the sandbox, with its JSON, base64, command
  line and result line in between, amounts to sending exactly the meant request (pinned URL, Host header, SNI,
  body, timeouts) and getting exactly the server's status and headers and the first \<open>max_response_bytes\<close> bytes of
  its body, or the failure of its class: no header, body or error text of the server can break the protocol.\<close>

theorem exchange_through_sandbox:
  assumes "spec_json (map_option b64encode ca) limits r = Inr spec" "pinned_url (hr_target r) (rq_path (hr_spec r)) = Inr url"
    and "plain_json spec" "length (b64encode (dumps_compact spec)) \<le> max_spec_argv_bytes" "limits_ok limits"
    and "ca \<noteq> Some []" "\<And>bs. ca = Some bs \<or> rq_body (hr_spec r) = Some bs \<Longrightarrow> octets bs"
    and "float_text elapsed" "send (direct_request ca limits r url) s = (answer, s1)" "wire_answer answer"
  shows "exchange (run_workload send elapsed traceback) code (map_option b64encode ca) limits r s
    = (direct_answer (hl_max_response_bytes limits) elapsed (hr_target r) answer, s1)"
proof -
  let ?arg = "b64encode (dumps_compact spec)"
  obtain headers body where q: "read_spec spec = Inr (headers, body, hl_max_response_bytes limits)"
    "build_workload_request spec headers body = Inr (direct_request ca limits r url)"
    using request_read [OF assms(1,2,6,7)] by blast
  have "drop 4 (workload_argv code ?arg) = [u ''--spec-b64'', ?arg]" by (simp add: workload_argv_def)
  then have main: "workload_main send elapsed (drop 4 (workload_argv code ?arg)) s
      = (Inr (finish_exchange (hl_max_response_bytes limits) elapsed answer), s1)"
    by (simp only: workload_main_def) (simp add: spec_read [OF assms(3)] q assms(9))
  have "0 < hl_max_response_bytes limits" using assms(5) by (simp add: limits_ok_def)
  from finished_read_back [OF assms(10,8) this] show ?thesis
    using assms(1,4) main by (simp add: exchange_def run_workload_def)
qed

section \<open>Witness\<close>

text \<open>A server that answers with more than the limit, in two chunks, with a line break in a header.\<close>

definition example_send :: "workload_request \<Rightarrow> unit \<Rightarrow> (workload_exn + workload_response) \<times> unit" where
  "example_send q s =
     (Inr \<lparr>ws_status = 200, ws_headers = [(u ''x'', [10])], ws_chunks = [[1, 2], [3, 255]], ws_broken = None\<rparr>, s)"

definition small_limits :: http_limits where
  "small_limits = default_limits\<lparr>hl_max_response_bytes := 3\<rparr>"

lemma example_text: "float_text (u ''1.5'')"
  unfolding float_text_def by (intro exI [of _ 1] exI [of _ "[53]"]) (simp add: text_defs nat_to_text.simps ascii_digit_def)

lemma example_url: "pinned_url (hr_target example_request) [47] = Inr (u ''https://8.8.8.8/'')"
  by (simp add: pinned_url_def example_request_def ipv4_text_def default_ports_def py_startswith_def
      nat_to_text.simps upt_rec text_defs)

definition example_spec_json :: json where
  "example_spec_json = JObj
     [(u ''url'', JStr (u ''https://8.8.8.8/'')), (u ''method'', JStr (u ''GET'')),
      (u ''headers'', JArr [JArr [JStr (u ''Host''), JStr (u ''a'')]]), (u ''body_b64'', JNull),
      (u ''connect_timeout_s'', JFloat (ms_text 5000)), (u ''read_timeout_s'', JFloat (ms_text 15000)),
      (u ''max_response_bytes'', JInt 3), (u ''sni_hostname'', JStr (u ''a'')), (u ''ca_b64'', JNull)]"

lemma example_ms: "ms_text 5000 = u ''5.0''" "ms_text 15000 = u ''15.0''"
  by (simp_all add: ms_text_def nat_to_text.simps rstrip_by_def text_defs)

lemma example_spec_built: "spec_json None small_limits example_request = Inr example_spec_json"
proof -
  have "rq_path (hr_spec example_request) = [47]" by (simp add: example_request_def)
  then show ?thesis
    using example_url by (simp add: spec_json_def small_limits_def default_limits_def example_spec_json_def)
      (simp add: example_request_def py_upper_def upper_char_def is_lower_alpha_def text_defs)
qed

lemma example_spec_plain: "plain_json example_spec_json"
proof -
  have "float_text (u ''5.0'')" unfolding float_text_def
    by (intro exI [of _ 5] exI [of _ "[48]"]) (simp add: text_defs nat_to_text.simps ascii_digit_def)
  moreover have "float_text (u ''15.0'')" unfolding float_text_def
    by (intro exI [of _ 15] exI [of _ "[48]"]) (simp add: text_defs nat_to_text.simps ascii_digit_def)
  moreover have "length (nat_to_text 3) \<le> 4300" by (simp add: nat_to_text.simps)
  ultimately show ?thesis by (simp add: example_spec_json_def example_ms)
qed

lemma example_spec_small: "length (b64encode (dumps_compact example_spec_json)) \<le> max_spec_argv_bytes"
proof -
  have "length (dumps_compact example_spec_json) \<le> 400"
    by (simp add: example_spec_json_def json_string_def json_char_def example_ms nat_to_text.simps int_to_text_def text_defs)
  then show ?thesis by (simp add: length_b64encode max_spec_argv_bytes_def)
qed

theorem exchange_through_sandbox_witness:
  "exchange (run_workload example_send (u ''1.5'') (\<lambda>e. [])) [] None small_limits example_request ()
   = (Inr \<lparr>rp_status = 200, rp_headers = [(u ''x'', [10])], rp_body = [1, 2, 3], rp_elapsed_ms = u ''1.5'',
       rp_final_target = hr_target example_request, rp_via_redirects = [], rp_truncated = True\<rparr>, ())"
proof -
  have path: "rq_path (hr_spec example_request) = [47]" and body: "rq_body (hr_spec example_request) = None"
    by (simp_all add: example_request_def)
  let ?answer = "fst (example_send (direct_request None small_limits example_request (u ''https://8.8.8.8/'')) ())"
  have w: "wire_answer ?answer"
    by (simp add: example_send_def wire_answer_def wire_response_def octets_def nat_to_text.simps text_defs)
  have l: "limits_ok small_limits" by (simp add: limits_ok_def small_limits_def default_limits_def)
  have sent: "example_send (direct_request None small_limits example_request (u ''https://8.8.8.8/'')) () = (?answer, ())"
    by (simp add: example_send_def)
  have "exchange (run_workload example_send (u ''1.5'') (\<lambda>e. [])) [] (map_option b64encode None) small_limits example_request ()
      = (direct_answer (hl_max_response_bytes small_limits) (u ''1.5'') (hr_target example_request) ?answer, ())"
    by (rule exchange_through_sandbox [where send = example_send and ca = None and limits = small_limits and r = example_request
          and url = "u ''https://8.8.8.8/''" and s = "()", OF _ _ example_spec_plain example_spec_small l _ _ example_text sent w])
      (simp_all add: example_spec_built path body example_url)
  then show ?thesis by (simp add: direct_answer_def example_send_def small_limits_def)
qed

end
