(* ===== verification/ApiRoutes.thy ===== *)
theory ApiRoutes
  imports Sessions AuditTrail HttpWorkload
begin

text \<open>
  The management endpoints: organizations, targets, attestations, the audit log and accounts
  (\<open>api/routes\<close>).  A route checks its request, calls its service and records the audit entry within the
  transaction of the request; \<open>clock\<close> gives the readings of one request.  Responses carry the rows' fields
  (times are formatted by pydantic).
\<close>

abbreviation invalid_request :: exn where
  "invalid_request \<equiv> OtherException (u ''RequestValidationError'')"

definition sized :: "nat \<Rightarrow> nat \<Rightarrow> 'a list \<Rightarrow> bool" where
  "sized lo hi s \<longleftrightarrow> lo \<le> length s \<and> length s \<le> hi"

section \<open>Organizations\<close>

definition organization_audit :: "string \<Rightarrow> uuid \<Rightarrow> json pydict \<Rightarrow> uuid \<Rightarrow> timestamp \<Rightarrow> db \<Rightarrow> db" where
  "organization_audit action org metadata p now d =
     snd (record_audit (u action) (u ''organization'') org metadata (Some p) now d)"

definition create_organization_route :: "uuid \<Rightarrow> (nat \<Rightarrow> timestamp) \<Rightarrow> pystr \<Rightarrow> db \<Rightarrow> organization_row result \<times> db" where
  "create_organization_route p clock name d =
     (if \<not> sized 1 255 name then (Inl invalid_request, d)
      else run_request (\<lambda>d0.
        bindE (create_organization p (clock 0) name d0) (\<lambda>(org, d1).
          Inr (org, organization_audit ''ORGANIZATION_CREATED'' (og_id org) [(u ''name'', JStr (og_name org))] p (clock 1) d1))) d)"

definition get_organization_route :: "uuid \<Rightarrow> uuid \<Rightarrow> db \<Rightarrow> organization_row result" where
  "get_organization_route p org d = get_organization p org d"

definition list_members_route :: "uuid \<Rightarrow> uuid \<Rightarrow> db \<Rightarrow> membership_row list result" where
  "list_members_route p org d = list_members p org d"

definition add_member_route ::
  "uuid \<Rightarrow> (nat \<Rightarrow> timestamp) \<Rightarrow> uuid \<Rightarrow> uuid \<Rightarrow> pystr \<Rightarrow> db \<Rightarrow> membership_row result \<times> db" where
  "add_member_route p clock org user role d =
     (if \<not> role_valid role then (Inl invalid_request, d)
      else run_request (\<lambda>d0.
        bindE (add_member p (clock 0) org user role d0) (\<lambda>(m, d1).
          Inr (m, organization_audit ''MEMBER_ADDED'' org
            [(u ''memberUserId'', JStr (uuid_text (mb_user_id m))), (u ''role'', JStr (mb_role m))] p (clock 1) d1))) d)"

definition change_member_role_route ::
  "uuid \<Rightarrow> (nat \<Rightarrow> timestamp) \<Rightarrow> uuid \<Rightarrow> uuid \<Rightarrow> pystr \<Rightarrow> db \<Rightarrow> membership_row result \<times> db" where
  "change_member_role_route p clock org user role d =
     (if \<not> role_valid role then (Inl invalid_request, d)
      else run_request (\<lambda>d0.
        bindE (change_role p org user role d0) (\<lambda>(m, d1).
          Inr (m, organization_audit ''MEMBER_ROLE_CHANGED'' org
            [(u ''memberUserId'', JStr (uuid_text user)), (u ''role'', JStr (mb_role m))] p (clock 0) d1))) d)"

definition remove_member_route :: "uuid \<Rightarrow> (nat \<Rightarrow> timestamp) \<Rightarrow> uuid \<Rightarrow> uuid \<Rightarrow> db \<Rightarrow> unit result \<times> db" where
  "remove_member_route p clock org user d =
     run_request (\<lambda>d0.
       bindE (remove_member p org user d0) (\<lambda>(_, d1).
         Inr ((), organization_audit ''MEMBER_REMOVED'' org [(u ''memberUserId'', JStr (uuid_text user))] p (clock 0) d1))) d"

section \<open>Targets\<close>

text \<open>
  \<open>status\<close> has a default that no route overrides.  A cursor is JSON in URL-safe base64; \<open>parse_time\<close> is
  \<open>datetime.fromisoformat\<close>, \<open>parse_uuid\<close> is \<open>uuid.UUID\<close>, \<open>text_of\<close> the decoding of bytes by \<open>json.loads\<close>.
\<close>

record target_response =
  tr_target :: target_row
  tr_status :: pystr

definition target_response_of :: "target_row \<Rightarrow> target_response" where
  "target_response_of t = \<lparr>tr_target = t, tr_status = status_text PENDING_ATTESTATION\<rparr>"

definition urlsafe :: "pystr \<Rightarrow> pystr" where
  "urlsafe s = map (\<lambda>c. if c = 43 then 45 else if c = 47 then 95 else c) s"

definition from_urlsafe :: "pystr \<Rightarrow> pystr" where
  "from_urlsafe s = map (\<lambda>c. if c = 45 then 43 else if c = 95 then 47 else c) s"

definition encode_cursor :: "timestamp \<times> uuid \<Rightarrow> pystr" where
  "encode_cursor k =
     urlsafe (b64encode (dumps_default (JObj [([99], JStr (isoformat (fst k))), ([105], JStr (uuid_text (snd k)))])))"

definition decode_cursor ::
  "(pystr \<Rightarrow> timestamp option) \<Rightarrow> (pystr \<Rightarrow> uuid option) \<Rightarrow> (nat list \<Rightarrow> pystr option) \<Rightarrow> pystr \<Rightarrow> (timestamp \<times> uuid) result" where
  "decode_cursor parse_time parse_uuid text_of cursor =
     (let bad = Domain InvalidPaginationCursorError;
          raw = bindE (utf8_encode cursor) (\<lambda>bs.
                bindE (some_or bad (b64decode (from_urlsafe bs))) (\<lambda>data.
                bindE (some_or bad (text_of data)) (\<lambda>txt.
                bindE (loads_or_raise txt) (\<lambda>v.
                bindE (json_item v [99]) (\<lambda>c.
                bindE (some_or bad (parse_time (str_value c))) (\<lambda>t.
                bindE (json_item v [105]) (\<lambda>i.
                bindE (some_or bad (parse_uuid (str_value i))) (\<lambda>j. Inr (t, j)))))))))
      in case raw of Inl _ \<Rightarrow> Inl bad | Inr k \<Rightarrow> Inr k)"

definition create_target_route ::
  "uuid \<Rightarrow> timestamp \<Rightarrow> pystr \<Rightarrow> pystr \<Rightarrow> uuid option \<Rightarrow> db \<Rightarrow> target_response result \<times> db" where
  "create_target_route p now hostname url owner d =
     (if \<not> sized 1 255 hostname \<or> \<not> sized 1 2000 url then (Inl invalid_request, d)
      else run_request (\<lambda>d0. bindE (register_target p now hostname url owner d0) (\<lambda>(t, d1). Inr (target_response_of t, d1))) d)"

definition list_targets_route ::
  "(pystr \<Rightarrow> timestamp option) \<Rightarrow> (pystr \<Rightarrow> uuid option) \<Rightarrow> (nat list \<Rightarrow> pystr option) \<Rightarrow> uuid \<Rightarrow> uuid option \<Rightarrow> bool \<Rightarrow> int
     \<Rightarrow> pystr option \<Rightarrow> db \<Rightarrow> (target_response list \<times> pystr option \<times> bool) result" where
  "list_targets_route parse_time parse_uuid text_of p org include_archived limit cursor d =
     (if limit < 1 \<or> 100 < limit then Inl invalid_request
      else bindE (case cursor of None \<Rightarrow> Inr None
                  | Some c \<Rightarrow> bindE (decode_cursor parse_time parse_uuid text_of c) (\<lambda>k. Inr (Some k))) (\<lambda>k.
           bindE (list_targets p org include_archived (nat limit) k d) (\<lambda>(items, more).
             Inr (map target_response_of items,
                  (if more \<and> items \<noteq> [] then Some (encode_cursor (target_key (last items))) else None), more))))"

definition get_target_route :: "uuid \<Rightarrow> uuid \<Rightarrow> db \<Rightarrow> target_response result" where
  "get_target_route p i d = bindE (get_visible_target p i d) (\<lambda>t. Inr (target_response_of t))"

definition update_target_route :: "uuid \<Rightarrow> uuid \<Rightarrow> bool \<Rightarrow> db \<Rightarrow> target_response result \<times> db" where
  "update_target_route p i archived d =
     run_request (\<lambda>d0. bindE (set_archived p i archived d0) (\<lambda>(t, d1). Inr (target_response_of t, d1))) d"

definition delete_target_route :: "uuid \<Rightarrow> uuid \<Rightarrow> db \<Rightarrow> unit result \<times> db" where
  "delete_target_route p i d = run_request (archive_target p i) d"

section \<open>Attestations\<close>

definition create_attestation_route ::
  "uuid \<Rightarrow> timestamp \<Rightarrow> uuid \<Rightarrow> pystr option \<Rightarrow> timestamp option \<Rightarrow> pystr option \<Rightarrow> db \<Rightarrow> attestation_details result \<times> db" where
  "create_attestation_route p now target method expires_at evidence d =
     (if method \<notin> {None, Some self_attestation_code} \<or> (case evidence of None \<Rightarrow> False | Some e \<Rightarrow> \<not> sized 0 500 e)
      then (Inl invalid_request, d)
      else run_request (create_self_attestation p now target expires_at evidence) d)"

definition list_attestations_route :: "uuid \<Rightarrow> uuid \<Rightarrow> db \<Rightarrow> attestation_details list result" where
  "list_attestations_route p target d = list_attestations p target d"

definition revoke_attestation_route :: "uuid \<Rightarrow> timestamp \<Rightarrow> uuid \<Rightarrow> pystr \<Rightarrow> db \<Rightarrow> attestation_details result \<times> db" where
  "revoke_attestation_route p now i reason d =
     (if \<not> sized 1 1000 reason then (Inl invalid_request, d) else run_request (revoke_attestation p now i reason) d)"

section \<open>The audit log\<close>

definition audit_entry_response :: "audit_row \<Rightarrow> json" where
  "audit_entry_response e = JObj
     [(u ''id'', JStr (uuid_text (al_id e))), (u ''actionCode'', JStr (al_action_code e)),
      (u ''entityType'', JStr (al_entity_type e)), (u ''entityId'', JStr (uuid_text (al_entity_id e))),
      (u ''actorUserId'', opt_text (map_option uuid_text (al_actor_user_id e))),
      (u ''metadata'', JObj (al_metadata_json e)), (u ''occurredAt'', JStr (isoformat (al_occurred_at e)))]"

definition query_audit_route :: "uuid \<Rightarrow> timestamp \<Rightarrow> audit_filter \<Rightarrow> int \<Rightarrow> db \<Rightarrow> json list result \<times> db" where
  "query_audit_route p now q limit d =
     (if limit < 1 \<or> 200 < limit then (Inl invalid_request, d)
      else run_request (\<lambda>d0. let (rows, d1) = query_entries p q (nat limit) now d0 in Inr (map audit_entry_response rows, d1)) d)"

definition audit_entry_route :: "uuid \<Rightarrow> timestamp \<Rightarrow> uuid \<Rightarrow> db \<Rightarrow> json result \<times> db" where
  "audit_entry_route p now i d =
     run_request (\<lambda>d0.
       case get_entry i p now d0 of
         (None, d1) \<Rightarrow> raise NotFoundError
       | (Some row, d1) \<Rightarrow> Inr (audit_entry_response row, d1)) d"

section \<open>Accounts\<close>

text \<open>\<open>valid_email\<close> is pydantic's \<open>EmailStr\<close>: the normalized address, when it is one.\<close>

definition register_route ::
  "(pystr \<Rightarrow> pystr option) \<Rightarrow> (pystr \<Rightarrow> pystr) \<Rightarrow> timestamp \<Rightarrow> pystr \<Rightarrow> pystr \<Rightarrow> db \<Rightarrow> account result \<times> db" where
  "register_route valid_email hash_password now email password d =
     (case valid_email email of
        None \<Rightarrow> (Inl invalid_request, d)
      | Some e \<Rightarrow>
          if \<not> sized 12 128 password then (Inl invalid_request, d)
          else run_request (register_user hash_password now e password) d)"

record user_info =
  ui_id :: uuid
  ui_email :: pystr
  ui_mfa_enabled :: bool
  ui_organizations :: "pystr list"

definition user_info_of :: "account \<Rightarrow> user_info" where
  "user_info_of a = \<lparr>ui_id = ac_id a, ui_email = ac_email a, ui_mfa_enabled = False, ui_organizations = []\<rparr>"

definition me_route ::
  "(pystr \<Rightarrow> claims option) \<Rightarrow> (pystr \<Rightarrow> uuid option) \<Rightarrow> pystr option \<Rightarrow> db \<Rightarrow> user_info result" where
  "me_route jwt_decode parse_uuid cookie d =
     bindE (get_current_user jwt_decode parse_uuid cookie d) (\<lambda>a. Inr (user_info_of a))"

text \<open>The cookies of a session: all HttpOnly and SameSite=Strict.\<close>

record set_cookie =
  ck_name :: pystr
  ck_value :: pystr
  ck_max_age :: int
  ck_secure :: bool
  ck_path :: pystr

definition cookie_secure_flag :: "pystr \<Rightarrow> bool" where
  "cookie_secure_flag environment \<longleftrightarrow> environment \<in> {u ''staging'', u ''production''}"

definition session_cookies :: "pystr \<Rightarrow> int \<Rightarrow> int \<Rightarrow> pystr \<Rightarrow> pystr \<Rightarrow> set_cookie list" where
  "session_cookies environment access_minutes ttl_days access refresh_token =
     [\<lparr>ck_name = u ''accessToken'', ck_value = access, ck_max_age = access_minutes * 60,
       ck_secure = cookie_secure_flag environment, ck_path = [47]\<rparr>,
      \<lparr>ck_name = u ''refreshToken'', ck_value = refresh_token, ck_max_age = ttl_days * 24 * 60 * 60,
       ck_secure = cookie_secure_flag environment, ck_path = u ''/api/v1/auth''\<rparr>]"

definition cleared_cookies :: "pystr \<Rightarrow> set_cookie list" where
  "cleared_cookies environment =
     [\<lparr>ck_name = u ''accessToken'', ck_value = [], ck_max_age = 0, ck_secure = cookie_secure_flag environment, ck_path = [47]\<rparr>,
      \<lparr>ck_name = u ''refreshToken'', ck_value = [], ck_max_age = 0, ck_secure = cookie_secure_flag environment,
       ck_path = u ''/api/v1/auth''\<rparr>]"

section \<open>Cursors\<close>

lemma b64_alphabet: "list_all (\<lambda>b. b < 256) bs \<Longrightarrow> 45 \<notin> set (b64encode bs) \<and> 95 \<notin> set (b64encode bs)"
proof (induction bs rule: b64encode.induct)
  case (2 a)
  then show ?case using quantum_values(4,5) [of a 0 0] by (auto simp: b64_letters)
next
  case (3 a b)
  then show ?case using quantum_values(4,5,6) [of a b 0] by (auto simp: b64_letters)
next
  case (4 a b c r)
  then show ?case using quantum_values(4,5,6,7) [of a b c] by (auto simp: b64_letters)
qed simp

lemma urlsafe_back: "45 \<notin> set s \<Longrightarrow> 95 \<notin> set s \<Longrightarrow> from_urlsafe (urlsafe s) = s"
  by (induction s) (auto simp: urlsafe_def from_urlsafe_def)

lemma ascii_encode: "list_all (\<lambda>c. c < 128) s \<Longrightarrow> utf8_encode s = Inr s"
  by (induction s) (auto simp: utf8_encode_def utf8_char_def is_surrogate_def split: if_splits)

text \<open>The laws of the parsers that a cursor relies on.\<close>

definition reads_cursors ::
  "(pystr \<Rightarrow> timestamp option) \<Rightarrow> (pystr \<Rightarrow> uuid option) \<Rightarrow> (nat list \<Rightarrow> pystr option) \<Rightarrow> timestamp \<times> uuid \<Rightarrow> bool" where
  "reads_cursors parse_time parse_uuid text_of k \<longleftrightarrow>
     parse_time (isoformat (fst k)) = Some (fst k) \<and> parse_uuid (uuid_text (snd k)) = Some (snd k)
     \<and> (\<forall>s. list_all (\<lambda>c. c < 128) s \<longrightarrow> text_of s = Some s)"

lemma cursor_round_trip:
  assumes "reads_cursors parse_time parse_uuid text_of k"
  shows "decode_cursor parse_time parse_uuid text_of (encode_cursor k) = Inr k"
proof -
  let ?v = "JObj [([99], JStr (isoformat (fst k))), ([105], JStr (uuid_text (snd k)))]"
  have p: "plain_json ?v" using u_scalar [of "''c''"] u_scalar [of "''i''"] by (simp add: text_defs)
  have v: "visible (dumps_default ?v)" by (rule visible_dumps [OF _ _ p]) simp_all
  note a = visible_small [OF v]
  have "list_all (\<lambda>c. c < 128) (urlsafe (b64encode (dumps_default ?v)))"
    using b64_ascii [OF a(1)] by (auto simp: urlsafe_def list_all_iff)
  moreover have "from_urlsafe (urlsafe (b64encode (dumps_default ?v))) = b64encode (dumps_default ?v)"
    using b64_alphabet [OF a(1)] by (intro urlsafe_back) simp_all
  moreover have "text_of (dumps_default ?v) = Some (dumps_default ?v)" using assms a(2) by (simp add: reads_cursors_def)
  moreover have "loads_or_raise (dumps_default ?v) = Inr ?v"
    unfolding loads_or_raise_def spaced.loads_written [OF p] by simp
  ultimately show ?thesis
    using assms b64_round_trip [OF a(1)]
    by (simp add: decode_cursor_def encode_cursor_def ascii_encode json_item_def reads_cursors_def Let_def del: dumps_plain.simps)
qed

section \<open>Properties\<close>

text \<open>A client that follows \<open>nextCursor\<close> until there is none; \<open>None\<close> when the fuel ran out or a page failed.\<close>

fun follow_cursors :: "(pystr option \<Rightarrow> ('a list \<times> pystr option \<times> bool) result) \<Rightarrow> nat \<Rightarrow> pystr option \<Rightarrow> 'a list option" where
  "follow_cursors page 0 cursor = None"
| "follow_cursors page (Suc fuel) cursor =
     (case page cursor of
        Inl _ \<Rightarrow> None
      | Inr (items, next, has_next) \<Rightarrow>
          (case next of
             None \<Rightarrow> Some items
           | Some c \<Rightarrow> map_option (\<lambda>rest. items @ rest) (follow_cursors page fuel (Some c))))"

lemma listed_in: "list_targets p org archived n k d = Inr (items, has_next) \<Longrightarrow> set items \<subseteq> set (targets d)"
  by (auto simp: list_targets_def list_for_owner_def Let_def order_desc_def dest!: in_set_takeD split: if_splits)

lemma follow_walk:
  assumes laws: "\<And>t. t \<in> set (targets d) \<Longrightarrow> reads_cursors parse_time parse_uuid text_of (target_key t)"
    and "1 \<le> limit" "limit \<le> 100" and "org = None \<or> (\<exists>g. org = Some g \<and> is_member d p g)"
    and "k \<in> insert None (Some ` target_key ` set (targets d))"
  shows "follow_cursors (\<lambda>c. list_targets_route parse_time parse_uuid text_of p org archived limit c d) fuel (map_option encode_cursor k)
    = map_option (map target_response_of) (walk_pages (\<lambda>c. projr (list_targets p org archived (nat limit) c d)) target_key fuel k)"
  using assms(5)
proof (induction fuel arbitrary: k)
  case (Suc fuel)
  have ok: "\<not> (case org of None \<Rightarrow> False | Some o' \<Rightarrow> \<not> is_member d p o')" using assms(4) by (cases org) auto
  then obtain items has_next where page: "list_targets p org archived (nat limit) k d = Inr (items, has_next)"
    by (simp add: list_targets_def Let_def)
  have "list_targets_route parse_time parse_uuid text_of p org archived limit (map_option encode_cursor k) d
      = Inr (map target_response_of items,
          (if has_next \<and> items \<noteq> [] then Some (encode_cursor (target_key (last items))) else None), has_next)"
    using assms(2,3) page Suc.prems cursor_round_trip [OF laws] by (auto simp: list_targets_route_def)
  moreover have "Some (target_key (last items)) \<in> insert None (Some ` target_key ` set (targets d))" if "items \<noteq> []"
    using listed_in [OF page] last_in_set [OF that] by blast
  ultimately show ?case
    using Suc.IH [of "Some (target_key (last items))"] page
    by (cases "walk_pages (\<lambda>c. projr (list_targets p org archived (nat limit) c d)) target_key fuel (Some (target_key (last items)))") auto
qed simp

text \<open>C28 [cursors_reach_every_target]: a client that follows the cursors the API hands out, each one JSON in URL-safe base64 that
  the API reads back, receives every target of the scope exactly once, newest first, whatever page size it asks for.\<close>

theorem cursors_reach_every_target:
  assumes "\<And>t. t \<in> set (targets d) \<Longrightarrow> reads_cursors parse_time parse_uuid text_of (target_key t)"
    and "1 \<le> limit" "limit \<le> 100"
    and "targets_inv d" "length (targets d) < fuel" and "org = None \<or> (\<exists>g. org = Some g \<and> is_member d p g)"
  shows "follow_cursors (\<lambda>c. list_targets_route parse_time parse_uuid text_of p org archived limit c d) fuel None
    = Some (map target_response_of
        (order_desc target_key (owned_targets d org (case org of None \<Rightarrow> Some p | Some _ \<Rightarrow> None) archived)))"
  using follow_walk [OF assms(1-3,6), where k = None and archived = archived and fuel = fuel]
    target_listing_complete [OF assms(4) _ assms(5,6), where limit = "nat limit" and archived = archived] assms(2)
  by simp

text \<open>What a request must leave in the audit log: one new entry by the user, on the organization.\<close>

definition audited :: "db \<Rightarrow> db \<Rightarrow> uuid \<Rightarrow> string \<Rightarrow> uuid \<Rightarrow> bool" where
  "audited d d1 p action org \<longleftrightarrow>
     (\<exists>e. audit_log d1 = audit_log d @ [e] \<and> al_actor_user_id e = Some p \<and> al_action_code e = u action
        \<and> al_entity_type e = u ''organization'' \<and> al_entity_id e = org)"

lemma organization_audited: "audit_log d1 = audit_log d \<Longrightarrow> audited d (organization_audit action org md p now d1) p action org"
  by (simp add: audited_def organization_audit_def record_audit_eq Let_def)

lemma add_member_admin: "add_member p now g user role d = Inr x \<Longrightarrow> is_admin d p g"
  by (auto simp: add_member_def split: if_splits)

lemma change_role_admin: "change_role p g user role d = Inr x \<Longrightarrow> is_admin d p g"
  by (auto simp: change_role_def require_admin_and_get_def bindE_Inr_iff split: if_splits)

lemma remove_member_admin: "remove_member p g user d = Inr x \<Longrightarrow> is_admin d p g"
  by (auto simp: remove_member_def require_admin_and_get_def bindE_Inr_iff split: if_splits)

text \<open>C29 [organization_changes_audited]: every successful change of an organization (its creation, a member added, a role changed,
  a member removed) leaves exactly one audit entry with its action, the acting user and the organization, in the same
  transaction; a refused or failing request changes nothing at all.  Adding who is already a member also leaves an
  entry, although nothing was added and the role asked for is not given.\<close>

theorem organization_changes_audited:
  shows "(case create_organization_route p clock name d of
            (Inl e, d1) \<Rightarrow> d1 = d | (Inr org, d1) \<Rightarrow> audited d d1 p ''ORGANIZATION_CREATED'' (og_id org))
    \<and> (case add_member_route p clock g user role d of
            (Inl e, d1) \<Rightarrow> d1 = d | (Inr m, d1) \<Rightarrow> audited d d1 p ''MEMBER_ADDED'' g \<and> is_admin d p g)
    \<and> (case change_member_role_route p clock g user role d of
            (Inl e, d1) \<Rightarrow> d1 = d | (Inr m, d1) \<Rightarrow> audited d d1 p ''MEMBER_ROLE_CHANGED'' g \<and> is_admin d p g)
    \<and> (case remove_member_route p clock g user d of
            (Inl e, d1) \<Rightarrow> d1 = d | (Inr x, d1) \<Rightarrow> audited d d1 p ''MEMBER_REMOVED'' g \<and> is_admin d p g)
    \<and> (is_admin d p g \<and> role_valid role \<and> get_membership d g user = Some m0 \<longrightarrow>
          fst (add_member_route p clock g user role d) = Inr m0
          \<and> memberships (snd (add_member_route p clock g user role d)) = memberships d
          \<and> audited d (snd (add_member_route p clock g user role d)) p ''MEMBER_ADDED'' g)"
proof (intro conjI impI)
  show "case create_organization_route p clock name d of
      (Inl e, d1) \<Rightarrow> d1 = d | (Inr org, d1) \<Rightarrow> audited d d1 p ''ORGANIZATION_CREATED'' (og_id org)"
    by (cases "create_organization p (clock 0) name d", auto simp: create_organization_route_def run_request_def)
      (rule organization_audited, erule organization_log)
  show "case add_member_route p clock g user role d of
      (Inl e, d1) \<Rightarrow> d1 = d | (Inr m, d1) \<Rightarrow> audited d d1 p ''MEMBER_ADDED'' g \<and> is_admin d p g"
    by (cases "add_member p (clock 0) g user role d", auto simp: add_member_route_def run_request_def add_member_admin)
      (rule organization_audited, erule membership_log)
  show "case change_member_role_route p clock g user role d of
      (Inl e, d1) \<Rightarrow> d1 = d | (Inr m, d1) \<Rightarrow> audited d d1 p ''MEMBER_ROLE_CHANGED'' g \<and> is_admin d p g"
    by (cases "change_role p g user role d", auto simp: change_member_role_route_def run_request_def change_role_admin)
      (rule organization_audited, erule membership_log)
  show "case remove_member_route p clock g user d of
      (Inl e, d1) \<Rightarrow> d1 = d | (Inr x, d1) \<Rightarrow> audited d d1 p ''MEMBER_REMOVED'' g \<and> is_admin d p g"
    by (cases "remove_member p g user d", auto simp: remove_member_route_def run_request_def remove_member_admin)
      (rule organization_audited, erule membership_log)
  assume a: "is_admin d p g \<and> role_valid role \<and> get_membership d g user = Some m0"
  then show "fst (add_member_route p clock g user role d) = Inr m0"
    "memberships (snd (add_member_route p clock g user role d)) = memberships d"
    "audited d (snd (add_member_route p clock g user role d)) p ''MEMBER_ADDED'' g"
    by (simp_all add: add_member_route_def run_request_def add_member_def organization_audited)
      (simp add: organization_audit_def)
qed

section \<open>Witnesses\<close>

text \<open>Two targets of one user created at the same time.\<close>

definition example_pages :: db where
  "example_pages = example_tenants\<lparr>targets := map (\<lambda>i. \<lparr>tg_id = i, tg_owner_organization_id = None,
     tg_owner_user_id = Some 2, tg_hostname = u ''b.com'', tg_normalized_url = replicate i 97, tg_is_archived = False,
     tg_created_at = 6\<rparr>) [21, 22]\<rparr>"

definition example_time :: "pystr \<Rightarrow> timestamp option" where
  "example_time s = List.find (\<lambda>t. isoformat t = s) [6]"

definition example_uuid :: "pystr \<Rightarrow> uuid option" where
  "example_uuid s = List.find (\<lambda>i. uuid_text i = s) [21, 22]"

theorem cursors_reach_every_target_witness:
  "map_option (map (\<lambda>r. tg_id (tr_target r))) (follow_cursors (\<lambda>c. list_targets_route example_time example_uuid Some 2 None False 1 c example_pages) 3 None)
     = Some [22, 21]"
proof -
  have ne: "uuid_text 21 \<noteq> uuid_text 22" using uuid_text_inj [of 21 22] by auto
  have laws: "reads_cursors example_time example_uuid Some (target_key t)" if t: "t \<in> set (targets example_pages)" for t
  proof -
    have "tg_created_at t = 6 \<and> (tg_id t = 21 \<or> tg_id t = 22)" using t by (auto simp: example_pages_def)
    with ne show ?thesis by (auto simp only: reads_cursors_def example_time_def example_uuid_def List.find.simps fst_conv snd_conv
        if_True if_False refl simp_thms)
  qed
  have inv: "targets_inv example_pages"
    by (simp add: targets_inv_def example_pages_def example_tenants_simps)
  have len: "length (targets example_pages) < 3" by (simp add: example_pages_def)
  have all: "order_desc target_key (owned_targets example_pages None (Some 2) False) = rev (targets example_pages)"
    by (simp add: owned_targets_def owned_by_def order_desc_def example_pages_def)
  have w: "follow_cursors (\<lambda>c. list_targets_route example_time example_uuid Some 2 None False 1 c example_pages) 3 None
      = Some (map target_response_of (order_desc target_key
          (owned_targets example_pages None (case None of None \<Rightarrow> Some 2 | Some _ \<Rightarrow> None) False)))"
    using cursors_reach_every_target [where org = None and p = 2 and limit = 1 and fuel = 3 and archived = False, OF laws _ _ inv len]
    by (simp only: refl simp_thms) simp
  then have "follow_cursors (\<lambda>c. list_targets_route example_time example_uuid Some 2 None False 1 c example_pages) 3 None
      = Some (map target_response_of (rev (targets example_pages)))" by (simp only: option.case all)
  moreover have "map (\<lambda>r. tg_id (tr_target r)) (map target_response_of (rev (targets example_pages))) = [22, 21]"
    by (simp add: target_response_of_def example_pages_def)
  ultimately show ?thesis by (simp only: option.map)
qed

theorem organization_changes_audited_witness:
  "\<exists>m0. add_member_route 1 int 10 1 role_member example_tenants = (Inr m0, snd (add_member_route 1 int 10 1 role_member example_tenants))
     \<and> mb_role m0 = role_admin
     \<and> audited example_tenants (snd (add_member_route 1 int 10 1 role_member example_tenants)) 1 ''MEMBER_ADDED'' 10"
proof -
  define m0 where "m0 = hd (memberships example_tenants)"
  have m: "get_membership example_tenants 10 1 = Some m0" "is_admin example_tenants 1 10" "role_valid role_member" "mb_role m0 = role_admin"
    by (simp_all add: m0_def get_membership_def is_admin_def role_valid_def example_tenants_simps)
  then have "fst (add_member_route 1 int 10 1 role_member example_tenants) = Inr m0
      \<and> audited example_tenants (snd (add_member_route 1 int 10 1 role_member example_tenants)) 1 ''MEMBER_ADDED'' 10"
    using organization_changes_audited [where d = example_tenants and p = 1 and g = 10 and user = 1 and role = role_member
        and clock = int and ?m0.0 = m0] by blast
  with m(4) show ?thesis by (metis prod.collapse)
qed

end
