(* ===== verification/GeminiProvider.thy ===== *)
theory GeminiProvider
  imports AiAnalysis
begin

text \<open>
  The analyzer over Google Gemini (\<open>infrastructure/ai/gemini_provider.py\<close>).  \<open>generate\<close> is the SDK's
  \<open>generate_content\<close> of the model, the contents and the system instruction: it raises, or gives a response whose
  \<open>text\<close> can itself raise, be absent or be a text.
\<close>

section \<open>The SDK\<close>

text \<open>
  An exception: an API error (code, message, class name), a \<open>TimeoutError\<close>, or any other with its class name and
  the texts of its chain of causes and contexts, itself first.
\<close>

datatype sdk_exn = APIError "int option" pystr pystr | TimeoutError | OtherSdkExn pystr "pystr list"

datatype sdk_response = TextRaises pystr | TextIs "pystr option"

type_synonym generate_content = "pystr \<Rightarrow> pystr \<Rightarrow> pystr \<Rightarrow> sdk_exn + sdk_response"

definition max_response_chars :: nat where "max_response_chars = 262144"

section \<open>Failures\<close>

definition map_api_error :: "int option \<Rightarrow> pystr \<Rightarrow> pystr \<Rightarrow> provider_exn" where
  "map_api_error code msg name =
     (let message = (if msg = [] then name else msg)
      in if code \<in> {Some 401, Some 403} then make_provider_error AUTHENTICATION_FAILED message
         else if code \<in> {Some 408, Some 504} then make_provider_error TIMEOUT message
         else if (case code of None \<Rightarrow> False | Some c \<Rightarrow> c \<ge> 500) \<or> code = Some 429
         then make_provider_error PROVIDER_UNAVAILABLE message
         else make_provider_error PROVIDER_UNAVAILABLE
                (u ''gemini error '' @ (case code of None \<Rightarrow> u ''None'' | Some c \<Rightarrow> int_to_text c)))"

text \<open>The walk stops after six exceptions of the chain.\<close>

definition find_in_chain :: "pystr list \<Rightarrow> pystr list \<Rightarrow> bool" where
  "find_in_chain chain needles \<longleftrightarrow> list_ex (\<lambda>txt. list_ex (\<lambda>n. py_contains txt n) needles) (take 6 chain)"

fun gemini_failure :: "sdk_exn \<Rightarrow> provider_exn" where
  "gemini_failure (APIError code msg name) = map_api_error code msg name"
| "gemini_failure TimeoutError = make_provider_error TIMEOUT (u ''gemini request timed out'')"
| "gemini_failure (OtherSdkExn name chain) =
     (if find_in_chain chain [u ''Timeout'', u ''timed out''] then make_provider_error TIMEOUT (u ''gemini request timed out'')
      else make_provider_error PROVIDER_UNAVAILABLE name)"

section \<open>The response\<close>

text \<open>Only \<open>JSONDecodeError\<close> is caught around \<open>json.loads\<close>.\<close>

definition parse_text :: "pystr \<Rightarrow> provider_exn + json" where
  "parse_text t =
     (case json_loads t of
        Inl (Decode msg) \<Rightarrow> Inl (make_provider_error MALFORMED_RESPONSE (u ''invalid JSON: '' @ u msg))
      | Inl _ \<Rightarrow> Inl (AnyProviderExn (u ''ValueError''))
      | Inr (JObj kvs) \<Rightarrow> Inr (JObj kvs)
      | Inr _ \<Rightarrow> Inl (make_provider_error MALFORMED_RESPONSE (u ''payload is not a JSON object'')))"

fun extract_json :: "sdk_response \<Rightarrow> provider_exn + json" where
  "extract_json (TextRaises name) =
     Inl (make_provider_error MALFORMED_RESPONSE (u ''no usable response text ('' @ name @ u '')''))"
| "extract_json (TextIs None) = Inl (make_provider_error MALFORMED_RESPONSE (u ''empty response''))"
| "extract_json (TextIs (Some t)) =
     (if py_strip t = [] then Inl (make_provider_error MALFORMED_RESPONSE (u ''empty response''))
      else if length t > max_response_chars then Inl (make_provider_error LIMIT_EXCEEDED (u ''response exceeds size cap''))
      else parse_text t)"

section \<open>The analyzer\<close>

definition gemini_analyze :: "generate_content \<Rightarrow> pystr \<Rightarrow> pystr \<Rightarrow> pystr \<Rightarrow> provider_exn + raw_response" where
  "gemini_analyze generate model system prompt =
     (case generate model prompt system of
        Inl e \<Rightarrow> Inl (gemini_failure e)
      | Inr response \<Rightarrow> bindE (extract_json response) (\<lambda>v. Inr (RawValue v)))"

definition make_gemini :: "pystr \<Rightarrow> pystr \<Rightarrow> pystr option \<Rightarrow> (pystr \<Rightarrow> generate_content) \<Rightarrow> provider_exn + analyzer" where
  "make_gemini api_key model version client =
     (if api_key = [] then Inl (make_provider_error AUTHENTICATION_FAILED (u ''missing Gemini API key''))
      else Inr \<lparr>az_provider = u ''google-genai'', az_model = model,
             az_model_version = (case version of None \<Rightarrow> model | Some v \<Rightarrow> if v = [] then model else v),
             az_analyze = (\<lambda>_ _ system prompt. gemini_analyze (client api_key) model system prompt)\<rparr>)"

text \<open>The composition in the API and the worker: no key, no analyzer.\<close>

definition maybe_gemini :: "pystr \<Rightarrow> pystr \<Rightarrow> (pystr \<Rightarrow> generate_content) \<Rightarrow> analyzer option" where
  "maybe_gemini api_key model client =
     (if api_key = [] then None
      else case make_gemini api_key model None client of Inl _ \<Rightarrow> None | Inr a \<Rightarrow> Some a)"

section \<open>Properties\<close>

lemma parse_text_Inl:
  "parse_text t = Inl e \<Longrightarrow> (\<exists>d. e = AnalysisProviderError MALFORMED_RESPONSE d \<and> length d \<le> 500)
     \<or> (e = AnyProviderExn (u ''ValueError'') \<and> (\<forall>v. json_loads t \<noteq> Inr v) \<and> (\<forall>m. json_loads t \<noteq> Inl (Decode m)))"
  by (auto simp: parse_text_def make_provider_error_def split: sum.splits json_error.splits json.splits)

lemma parse_text_Inr: "parse_text t = Inr v \<longleftrightarrow> json_loads t = Inr v \<and> (\<exists>kvs. v = JObj kvs)"
  by (auto simp: parse_text_def split: sum.splits json_error.splits json.splits)

text \<open>The failure an exception of the SDK stands for.\<close>

fun sdk_failure_kind :: "sdk_exn \<Rightarrow> analysis_failure_kind" where
  "sdk_failure_kind (APIError code _ _) =
     (if code \<in> {Some 401, Some 403} then AUTHENTICATION_FAILED
      else if code \<in> {Some 408, Some 504} then TIMEOUT else PROVIDER_UNAVAILABLE)"
| "sdk_failure_kind TimeoutError = TIMEOUT"
| "sdk_failure_kind (OtherSdkExn _ chain) =
     (if find_in_chain chain [u ''Timeout'', u ''timed out''] then TIMEOUT else PROVIDER_UNAVAILABLE)"

lemma gemini_failure_kind: "\<exists>d. gemini_failure e = AnalysisProviderError (sdk_failure_kind e) d \<and> length d \<le> 500"
  by (cases e) (auto simp: map_api_error_def make_provider_error_def Let_def)

lemma extract_json_Inl:
  assumes "extract_json response = Inl e"
  shows "(\<exists>k d. e = AnalysisProviderError k d \<and> k \<in> {MALFORMED_RESPONSE, LIMIT_EXCEEDED} \<and> length d \<le> 500)
     \<or> (e = AnyProviderExn (u ''ValueError'')
         \<and> (\<exists>t. response = TextIs (Some t) \<and> (\<forall>v. json_loads t \<noteq> Inr v) \<and> (\<forall>m. json_loads t \<noteq> Inl (Decode m))))"
proof (cases "\<exists>t. response = TextIs (Some t) \<and> py_strip t \<noteq> [] \<and> length t \<le> max_response_chars")
  case True
  then show ?thesis using assms by (auto dest!: parse_text_Inl)
next
  case False
  then show ?thesis
    using assms by (cases response rule: extract_json.cases) (auto simp: make_provider_error_def split: if_splits)
qed

lemma extract_json_Inr:
  "extract_json response = Inr v \<Longrightarrow>
     \<exists>t kvs. response = TextIs (Some t) \<and> v = JObj kvs \<and> json_loads t = Inr v \<and> length t \<le> max_response_chars"
  by (cases response rule: extract_json.cases) (auto simp: parse_text_Inr split: if_splits)


end
