(* ===== verification/WellTyped.thy ===== *)
theory WellTyped
  imports AuditTrail ScanSystem Sessions
begin

text \<open>
  What the columns of the tables may hold: the foreign keys, enumerations and lengths of
  \<open>infrastructure/database/models\<close> as a typing of rows, kept by every operation of the services.
\<close>

section \<open>Typing of rows\<close>

definition known :: "(nat \<times> pystr) list \<Rightarrow> nat \<Rightarrow> bool" where
  "known rows i \<longleftrightarrow> i \<in> fst ` set rows"

definition membership_typed :: "db \<Rightarrow> membership_row \<Rightarrow> bool" where
  "membership_typed d m \<longleftrightarrow> mb_organization_id m \<in> og_id ` set (organizations d) \<and> mb_user_id m \<in> us_id ` set (users d)
     \<and> role_valid (mb_role m)"

text \<open>A target has exactly one owner.\<close>

definition target_typed :: "db \<Rightarrow> target_row \<Rightarrow> bool" where
  "target_typed d t \<longleftrightarrow> length (tg_hostname t) \<le> 255 \<and> length (tg_normalized_url t) \<le> 500
     \<and> (case tg_owner_organization_id t of
          None \<Rightarrow> tg_owner_user_id t \<noteq> None
        | Some g \<Rightarrow> tg_owner_user_id t = None \<and> g \<in> og_id ` set (organizations d))"

text \<open>Revocation time and reason belong to revoked attestations and to no others.\<close>

definition attestation_typed :: "db \<Rightarrow> attestation_row \<Rightarrow> bool" where
  "attestation_typed d a \<longleftrightarrow> at_target_id a \<in> tg_id ` set (targets d) \<and> known (attestation_methods d) (at_method_id a)
     \<and> (at_status a = REVOKED \<longleftrightarrow> at_revoked_at a \<noteq> None)
     \<and> (case at_revoked_reason a of None \<Rightarrow> at_status a \<noteq> REVOKED | Some reason \<Rightarrow> at_status a = REVOKED \<and> length reason \<le> 1000)"

text \<open>The attestation a scan names is one for the scan's target.\<close>

definition scan_typed :: "db \<Rightarrow> scan_row \<Rightarrow> bool" where
  "scan_typed d s \<longleftrightarrow> sc_target_id s \<in> tg_id ` set (targets d) \<and> known (scan_profiles d) (sc_scan_profile_id s)
     \<and> (sc_authorization_attestation_id s, sc_target_id s) \<in> (\<lambda>a. (at_id a, at_target_id a)) ` set (attestations d)"

definition finding_typed :: "db \<Rightarrow> finding_row \<Rightarrow> bool" where
  "finding_typed d f \<longleftrightarrow> known (finding_categories d) (fi_category_id f) \<and> known (severity_levels d) (fi_severity_id f)
     \<and> length (fi_title f) \<le> 200 \<and> length (fi_location f) \<le> 500
     \<and> (case fi_affected_asset f of None \<Rightarrow> True | Some asset \<Rightarrow> length asset \<le> 500)
     \<and> (case fi_source_engine_code f of None \<Rightarrow> True | Some code \<Rightarrow> length code \<le> 50)"

definition evidence_typed :: "evidence_row \<Rightarrow> bool" where
  "evidence_typed e \<longleftrightarrow> py_strip (ev_content e) \<noteq> [] \<and> length (ev_content e) \<le> 2048"

definition history_typed :: "db \<Rightarrow> history_row \<Rightarrow> bool" where
  "history_typed d h \<longleftrightarrow> known (lifecycle_statuses d) (hi_status_id h)"

definition well_typed :: "db \<Rightarrow> bool" where
  "well_typed d \<longleftrightarrow> list_all (membership_typed d) (memberships d) \<and> list_all (target_typed d) (targets d)
     \<and> list_all (attestation_typed d) (attestations d) \<and> list_all (scan_typed d) (scans d)
     \<and> list_all (finding_typed d) (scan_findings d) \<and> list_all evidence_typed (finding_evidence d)
     \<and> list_all (history_typed d) (status_history d)"

lemmas typed_defs = membership_typed_def target_typed_def attestation_typed_def scan_typed_def finding_typed_def
  history_typed_def

section \<open>Growing databases\<close>

text \<open>Rows that others refer to stay, and the lookup tables do not change.\<close>

definition extends :: "db \<Rightarrow> db \<Rightarrow> bool" where
  "extends d d' \<longleftrightarrow> og_id ` set (organizations d) \<subseteq> og_id ` set (organizations d')
     \<and> us_id ` set (users d) \<subseteq> us_id ` set (users d') \<and> tg_id ` set (targets d) \<subseteq> tg_id ` set (targets d')
     \<and> (\<lambda>a. (at_id a, at_target_id a)) ` set (attestations d) \<subseteq> (\<lambda>a. (at_id a, at_target_id a)) ` set (attestations d')
     \<and> attestation_methods d' = attestation_methods d \<and> scan_profiles d' = scan_profiles d
     \<and> finding_categories d' = finding_categories d \<and> severity_levels d' = severity_levels d
     \<and> lifecycle_statuses d' = lifecycle_statuses d"

lemma extends_refl [simp]: "extends d d"
  by (simp add: extends_def)

lemma typed_grows:
  assumes "extends d d'"
  shows "membership_typed d m \<Longrightarrow> membership_typed d' m" "target_typed d t \<Longrightarrow> target_typed d' t"
    "attestation_typed d a \<Longrightarrow> attestation_typed d' a" "scan_typed d s \<Longrightarrow> scan_typed d' s"
    "finding_typed d f \<Longrightarrow> finding_typed d' f" "history_typed d h \<Longrightarrow> history_typed d' h"
  using assms by (auto simp: typed_defs extends_def split: option.splits)

text \<open>It suffices to type the rows that were not there before.\<close>

lemma well_typed_extends:
  assumes "well_typed d" and ext: "extends d d'"
    and "\<And>m. m \<in> set (memberships d') \<Longrightarrow> m \<in> set (memberships d) \<or> membership_typed d' m"
    and "\<And>t. t \<in> set (targets d') \<Longrightarrow> t \<in> set (targets d) \<or> target_typed d' t"
    and "\<And>a. a \<in> set (attestations d') \<Longrightarrow> a \<in> set (attestations d) \<or> attestation_typed d' a"
    and "\<And>s. s \<in> set (scans d') \<Longrightarrow> s \<in> set (scans d) \<or> scan_typed d' s"
    and "\<And>f. f \<in> set (scan_findings d') \<Longrightarrow> f \<in> set (scan_findings d) \<or> finding_typed d' f"
    and "\<And>e. e \<in> set (finding_evidence d') \<Longrightarrow> e \<in> set (finding_evidence d) \<or> evidence_typed e"
    and "\<And>h. h \<in> set (status_history d') \<Longrightarrow> h \<in> set (status_history d) \<or> history_typed d' h"
  shows "well_typed d'"
  using assms(1) unfolding well_typed_def list_all_iff
  using typed_grows [OF ext] assms(3-) by meson

text \<open>Tables the typing does not read.\<close>

definition same_typing :: "db \<Rightarrow> db \<Rightarrow> bool" where
  "same_typing d d' \<longleftrightarrow> extends d d' \<and> memberships d' = memberships d \<and> targets d' = targets d
     \<and> attestations d' = attestations d \<and> scans d' = scans d \<and> scan_findings d' = scan_findings d
     \<and> finding_evidence d' = finding_evidence d \<and> status_history d' = status_history d"

lemma same_typing_refl [simp]: "same_typing d d"
  by (simp add: same_typing_def)

lemma well_typed_same: "well_typed d \<Longrightarrow> same_typing d d' \<Longrightarrow> well_typed d'"
  by (rule well_typed_extends) (auto simp: same_typing_def)

lemma audit_same: "same_typing d (snd (record_audit a t e m ac now d))"
  by (simp add: same_typing_def extends_def record_audit_eq Let_def)

lemma well_typed_audit: "well_typed d \<Longrightarrow> well_typed (snd (record_audit a t e m ac now d))"
  using well_typed_same audit_same by blast

section \<open>Lookups\<close>

lemma id_known: "id_of_code rows c = Some i \<Longrightarrow> known rows i"
  by (force simp: id_of_code_def known_def dest!: find_Some_in)

lemma ids_known: "dict_get (ids_by_code rows) c = Some i \<Longrightarrow> known rows i"
  by (force simp: known_def dest: ids_by_code_in)

lemma code_unknown: "code_of_id rows i = None \<longleftrightarrow> \<not> known rows i"
  by (force simp: code_of_id_def known_def find_None_iff split_beta)

lemma code_known: "(\<exists>c. code_of_id rows i = Some c) \<longleftrightarrow> known rows i"
  using code_unknown [of rows i] by auto

section \<open>Organizations and targets\<close>

lemma committed_typed:
  assumes "well_typed d" and "\<And>x d'. f d = Inr (x, d') \<Longrightarrow> well_typed d'"
  shows "well_typed (committed f d)"
  using committed_cases [of f d] assms by metis

lemma insert_typed: "well_typed d \<Longrightarrow> insert_membership g user role now d = Inr (m, d') \<Longrightarrow> well_typed d'"
  by (erule well_typed_extends)
    (auto simp: insert_membership_def uuid4_def extends_def membership_ok_def typed_defs Let_def split: if_splits)

lemma register_user_typed: "well_typed d \<Longrightarrow> register_user hash now email pw d = Inr (a, d') \<Longrightarrow> well_typed d'"
  by (erule well_typed_same) (auto simp: register_user_def uuid4_def same_typing_def extends_def bindE_Inr_iff Let_def split: option.splits)

lemma create_organization_typed:
  assumes "well_typed d" and "create_organization p now name d = Inr (org, d')"
  shows "well_typed d'"
proof -
  let ?d = "d\<lparr>next_id := Suc (next_id d), organizations := organizations d @ [org]\<rparr>"
  from assms(2) obtain m where "insert_membership (next_id d) p role_admin now ?d = Inr (m, d')"
    by (auto simp: create_organization_def uuid4_def Let_def bindE_Inr_iff)
  moreover have "well_typed ?d" by (rule well_typed_same [OF assms(1)]) (auto simp: same_typing_def extends_def)
  ultimately show ?thesis using insert_typed by blast
qed

lemma add_member_typed: "well_typed d \<Longrightarrow> add_member p now g user role d = Inr (m, d') \<Longrightarrow> well_typed d'"
  by (auto simp: add_member_def insert_typed split: if_splits option.splits)

lemma change_role_typed:
  assumes "well_typed d" and "change_role p g user role d = Inr (m, d')"
  shows "well_typed d'"
proof -
  from assms(2) obtain i where v: "role_valid role"
    and d': "d' = d\<lparr>memberships := update_where (\<lambda>r. mb_id r = i) (\<lambda>r. r\<lparr>mb_role := role\<rparr>) (memberships d)\<rparr>"
    by (auto simp: change_role_def bindE_Inr_iff split: if_splits)
  have "membership_typed d r \<Longrightarrow> membership_typed d' (r\<lparr>mb_role := role\<rparr>)" for r
    using v by (simp add: typed_defs d')
  moreover have "\<forall>r \<in> set (memberships d). membership_typed d r" using assms(1) by (simp add: well_typed_def list_all_iff)
  ultimately show ?thesis
    by (intro well_typed_extends [OF assms(1)]) (auto simp: d' extends_def set_update_where)
qed

lemma remove_member_typed: "well_typed d \<Longrightarrow> remove_member p g user d = Inr (x, d') \<Longrightarrow> well_typed d'"
  by (erule well_typed_extends) (auto simp: remove_member_def bindE_Inr_iff extends_def)

lemma member_organization: "well_typed d \<Longrightarrow> is_member d p g \<Longrightarrow> g \<in> og_id ` set (organizations d)"
  by (auto simp: is_member_iff well_typed_def list_all_iff membership_typed_def)

lemma normalized_sizes:
  assumes "normalize_target h url = Inr n"
  shows "length (nt_hostname n) \<le> 255" "length (nt_normalized_url n) \<le> 500"
  using assms normalize_target_host [OF assms]
  by (auto simp: normalize_target_def Let_def bindE_Inr_iff max_hostname_length_def split: if_splits option.splits)

lemma register_target_typed:
  assumes "well_typed d" and "register_target p now h url owner d = Inr (t, d')"
  shows "well_typed d'"
proof -
  from assms(2) obtain n where "normalize_target h url = Inr n"
    and t: "tg_hostname t = nt_hostname n" "tg_normalized_url t = nt_normalized_url n"
      "case owner of None \<Rightarrow> tg_owner_organization_id t = None \<and> tg_owner_user_id t = Some p
       | Some g \<Rightarrow> is_member d p g \<and> tg_owner_organization_id t = Some g \<and> tg_owner_user_id t = None"
    and d': "d' = d\<lparr>next_id := Suc (next_id d), targets := targets d @ [t]\<rparr>"
    by (auto simp: register_target_def bindE_Inr_iff Let_def uuid4_def split: option.splits if_splits)
  then have "target_typed d' t"
    using normalized_sizes member_organization [OF assms(1)] by (auto simp: typed_defs split: option.splits)
  then show ?thesis by (intro well_typed_extends [OF assms(1)]) (auto simp: d' extends_def)
qed

lemma update_target_typed:
  assumes "well_typed d"
  shows "well_typed (update_target i (\<lambda>r. r\<lparr>tg_is_archived := b\<rparr>) d)"
proof -
  let ?d = "update_target i (\<lambda>r. r\<lparr>tg_is_archived := b\<rparr>) d"
  have ids: "map tg_id (targets ?d) = map tg_id (targets d)" by (simp add: update_target_def map_update_where)
  have "target_typed d t \<Longrightarrow> target_typed ?d (t\<lparr>tg_is_archived := b\<rparr>)" for t
    by (cases "tg_owner_organization_id t") (simp_all add: typed_defs update_target_def)
  moreover have "\<forall>t \<in> set (targets d). target_typed d t" using assms by (simp add: well_typed_def list_all_iff)
  moreover have "tg_id ` set (targets d) = tg_id ` set (targets ?d)" using arg_cong [OF ids, of set] by simp
  ultimately show ?thesis
    by (intro well_typed_extends [OF assms]) (auto simp: update_target_def extends_def set_update_where)
qed

lemma archive_typed:
  "well_typed d \<Longrightarrow> archive_target p i d = Inr (x, d') \<Longrightarrow> well_typed d'"
  "well_typed d \<Longrightarrow> set_archived p i b d = Inr (y, d') \<Longrightarrow> well_typed d'"
  by (auto simp: archive_target_def set_archived_def bindE_Inr_iff update_target_typed)

section \<open>Attestations and scans\<close>

lemma visible_known: "get_visible_target p i d = Inr t \<Longrightarrow> i \<in> tg_id ` set (targets d)"
  by (auto simp: get_visible_target_def target_by_id_def bindE_Inr_iff split: option.split_asm if_split_asm
      dest!: scalar_one_or_none_filter)

lemma added_attestation_typed:
  assumes "well_typed d" and "attestation_typed d a"
  shows "well_typed (snd (record_audit act t e md ac now (d\<lparr>next_id := k, attestations := attestations d @ [a]\<rparr>)))"
proof -
  have "well_typed (d\<lparr>next_id := k, attestations := attestations d @ [a]\<rparr>)"
    by (intro well_typed_extends [OF assms(1)]) (use assms(2) in \<open>auto simp: extends_def typed_defs\<close>)
  then show ?thesis by (rule well_typed_audit)
qed

lemma create_attestation_typed:
  assumes "well_typed d" and "create_self_attestation p now i expires evidence d = Inr (x, d')"
  shows "well_typed d'"
  using assms(2) visible_known [of p i d]
  by (auto simp: create_self_attestation_def require_visible_same Let_def case_prod_beta bindE_Inr_iff attestation_typed_def
      method_id_def some_or_iff intro: id_known intro!: added_attestation_typed [OF assms(1)])

lemma revoke_typed:
  assumes "well_typed d" and "revoke_attestation p now i reason d = Inr (x, d')"
  shows "well_typed d'"
proof -
  let ?f = "\<lambda>r. r\<lparr>at_status := REVOKED, at_revoked_at := Some now, at_revoked_reason := Some (take 1000 reason)\<rparr>"
  from assms(2) obtain j act et e md ac where
    d': "d' = snd (record_audit act et e md ac now (d\<lparr>attestations := update_where (\<lambda>r. at_id r = j) ?f (attestations d)\<rparr>))"
    by (auto simp: revoke_attestation_def Let_def case_prod_beta bindE_Inr_iff)
  let ?d = "d\<lparr>attestations := update_where (\<lambda>r. at_id r = j) ?f (attestations d)\<rparr>"
  have keys: "map (\<lambda>a. (at_id a, at_target_id a)) (attestations ?d) = map (\<lambda>a. (at_id a, at_target_id a)) (attestations d)"
    by (simp add: map_update_where)
  have "attestation_typed d a \<Longrightarrow> attestation_typed ?d (?f a)" for a by (simp add: typed_defs)
  moreover have "\<forall>a \<in> set (attestations d). attestation_typed d a" using assms(1) by (simp add: well_typed_def list_all_iff)
  moreover have "extends d ?d" using arg_cong [OF keys, of set] by (simp add: extends_def)
  ultimately have "well_typed ?d"
    by (intro well_typed_extends [OF assms(1)]) (auto simp: set_update_where)
  then show ?thesis unfolding d' by (rule well_typed_audit)
qed

lemma latest_reference:
  "latest_active_confirmed d t now = Some a \<Longrightarrow>
     (at_id (ad_attestation a), t) \<in> (\<lambda>a. (at_id a, at_target_id a)) ` set (attestations d)"
  by (force simp: latest_active_confirmed_def attestation_details_of_def dest: latest_active_in)

lemma added_scan_typed:
  assumes "well_typed d" and "scan_typed d s"
  shows "well_typed (snd (record_audit a t e m ac now (d\<lparr>next_id := k, scans := scans d @ [s]\<rparr>)))"
proof -
  have "well_typed (d\<lparr>next_id := k, scans := scans d @ [s]\<rparr>)"
    by (intro well_typed_extends [OF assms(1)]) (use assms(2) in \<open>auto simp: extends_def typed_defs\<close>)
  then show ?thesis by (rule well_typed_audit)
qed

lemma new_row_profile [simp]: "sc_scan_profile_id (new_scan_row i t pid p a parent now) = pid"
  by (simp add: new_scan_row_def)

lemma create_scan_typed:
  assumes "well_typed d" and "create_scan pr clock i profile d = Inr (x, d')"
  shows "well_typed d'"
proof -
  from create_scan_Inr [OF assms(2)] obtain p t a pid md where v: "get_visible_target p i d = Inr t"
    and a: "latest_active_confirmed d i (clock 0) = Some a" and pid: "profile_id d profile = Inr pid"
    and d': "d' = snd (record_audit (u ''SCAN_REQUESTED'') (u ''scan'') (next_id d) md (Some p) (clock 1)
        (d\<lparr>next_id := Suc (next_id d), scans := scans d @ [new_scan_row (next_id d) i pid p (at_id (ad_attestation a)) None (clock 1)]\<rparr>))"
    by blast
  show ?thesis
    unfolding d' using latest_reference [OF a] pid visible_known [OF v]
    by (intro added_scan_typed [OF assms(1)]) (auto simp: scan_typed_def profile_id_def some_or_iff intro: id_known)
qed

lemma scan_by_id_typed: "well_typed d \<Longrightarrow> scan_by_id d i = Some s \<Longrightarrow> scan_typed d s"
  by (auto simp: scan_by_id_def well_typed_def list_all_iff dest!: session_get_Some)

lemma rescan_typed:
  assumes "well_typed d" and "rescan_scan pr clock i d = Inr (x, d')"
  shows "well_typed d'"
proof -
  from rescan_scan_Inr [OF assms(2)] obtain p o' a md where v: "get_visible_scan pr i d = Inr o'"
    and a: "latest_active_confirmed d (sc_target_id o') (clock 0) = Some a"
    and d': "d' = snd (record_audit (u ''SCAN_REQUESTED'') (u ''scan'') (next_id d) md (Some p) (clock 1)
        (d\<lparr>next_id := Suc (next_id d), scans := scans d @ [new_scan_row (next_id d) (sc_target_id o') (sc_scan_profile_id o') p
            (at_id (ad_attestation a)) (Some (sc_id o')) (clock 1)]\<rparr>))"
    by blast
  have "scan_typed d o'"
    using v scan_by_id_typed [OF assms(1)] by (auto simp: get_visible_scan_def bindE_Inr_iff split: option.splits if_splits)
  then show ?thesis
    unfolding d' using latest_reference [OF a]
    by (intro added_scan_typed [OF assms(1)]) (auto simp: scan_typed_def)
qed

lemma transition_typed: "well_typed d \<Longrightarrow> well_typed (snd (try_transition i a b started completed d))"
proof (rule well_typed_extends)
  let ?d = "snd (try_transition i a b started completed d)"
  assume w: "well_typed d"
  have "scan_typed d s \<Longrightarrow> scan_typed ?d (set_scan_status b started completed s)" for s
    by (simp add: scan_typed_def try_transition_def Let_def set_scan_status_def)
  then show "s \<in> set (scans ?d) \<Longrightarrow> s \<in> set (scans d) \<or> scan_typed ?d s" for s
    using w by (auto simp: try_transition_def Let_def set_update_where well_typed_def list_all_iff)
qed (simp_all add: try_transition_def Let_def extends_def)

lemma cancel_typed: "well_typed d \<Longrightarrow> cancel_scan pr now i d = Inr (x, d') \<Longrightarrow> well_typed d'"
  by (drule cancel_scan_Inr) (auto simp: transition_typed)

section \<open>Findings\<close>

lemma finding_row_typed:
  assumes "finding_row_of identity x code (ids_by_code (finding_categories d)) (ids_by_code (severity_levels d)) f = Inr r"
    and "length code \<le> 50"
  shows "finding_typed d r"
proof -
  from assms(1) obtain fp cat sev where cat: "map_category (ids_by_code (finding_categories d)) (fd_category f) = Inr cat"
    and sev: "dict_get (ids_by_code (severity_levels d)) (py_upper (severity_value (fd_severity f))) = Some sev"
    and r: "fi_category_id r = cat" "fi_severity_id r = sev" "fi_title r = take 200 (fd_title f)"
      "fi_location r = take 500 (fd_location f)" "fi_source_engine_code r = Some code"
      "fi_affected_asset r = Some (take 500 (if fd_location f \<noteq> [] then fd_location f else fy_affected_asset identity))"
    by (auto simp: finding_row_of_def bindE_Inr_iff some_or_iff)
  have "known (finding_categories d) cat"
    using cat ids_known by (fastforce simp: map_category_def bindE_Inr_iff some_or_iff Let_def dict_default_def split: option.splits if_splits)
  moreover have "known (severity_levels d) sev" using sev by (rule ids_known)
  ultimately show ?thesis using r assms(2) by (simp add: finding_typed_def)
qed

lemma engine_code_length: "length (engine_code_for_execution d x) \<le> 50"
  by (auto simp: engine_code_for_execution_def u_def split: option.splits)

lemma add_findings_typed:
  "well_typed d \<Longrightarrow> list_all (finding_typed d) rows \<Longrightarrow> well_typed (snd (add_findings now rows d))"
proof (induction rows arbitrary: d)
  case (Cons r rows)
  let ?d = "d\<lparr>next_id := Suc (next_id d), scan_findings := scan_findings d @ [r\<lparr>fi_id := next_id d, fi_created_at := now\<rparr>]\<rparr>"
  have same: "finding_typed ?d = finding_typed d" by (simp add: finding_typed_def fun_eq_iff)
  have "finding_typed ?d (r\<lparr>fi_id := next_id d, fi_created_at := now\<rparr>)"
    using Cons.prems(2) unfolding same by (simp add: finding_typed_def)
  then have "well_typed ?d" by (intro well_typed_extends [OF Cons.prems(1)]) (auto simp: extends_def)
  with Cons.IH [of ?d] Cons.prems(2) same show ?case by (simp add: case_prod_beta Let_def)
qed simp

lemma persist_evidence_typed: "well_typed d \<Longrightarrow> well_typed (persist_evidence now rows d)"
proof (induction now rows d rule: persist_evidence.induct)
  case (2 now row f rest d)
  let ?e = "\<lparr>ev_id = next_id d, ev_finding_id = fi_id row, ev_evidence_type = classify_evidence_type f,
      ev_content = evidence_content f, ev_created_at = now\<rparr>"
  have "well_typed (d\<lparr>next_id := Suc (next_id d), finding_evidence := finding_evidence d @ [?e]\<rparr>)"
    if "py_strip (evidence_content f) \<noteq> []"
    using that by (intro well_typed_extends [OF "2.prems"]) (auto simp: extends_def evidence_typed_def evidence_content_def)
  with 2 show ?case by (simp add: uuid4_def)
qed simp

lemma add_history_typed:
  "well_typed d \<Longrightarrow> list_all (\<lambda>(fp, i). known (lifecycle_statuses d) i) rows \<Longrightarrow> well_typed (add_history now t s rows d)"
proof (induction rows arbitrary: d)
  case (Cons r rows)
  obtain fp i where r: "r = (fp, i)" by (rule prod.exhaust)
  let ?h = "\<lparr>hi_id = next_id d, hi_fingerprint = fp, hi_target_id = t, hi_status_id = i,
      hi_observed_in_scan_id = s, hi_effective_at = now\<rparr>"
  let ?d = "d\<lparr>next_id := Suc (next_id d), status_history := status_history d @ [?h]\<rparr>"
  have "well_typed ?d"
    using Cons.prems(2) r by (intro well_typed_extends [OF Cons.prems(1)]) (auto simp: extends_def history_typed_def)
  with Cons.IH [of ?d] Cons.prems(2) r show ?case by (simp add: uuid4_def)
qed simp

lemma derived_known: "(fp, i) \<in> set (derived_statuses cur prev hist (ids_by_code rows)) \<Longrightarrow> known rows i"
  by (auto simp: derived_statuses_def map_filter_def split: option.split_asm) (erule ids_known)+

lemma record_lifecycle_typed: "well_typed d \<Longrightarrow> well_typed (record_lifecycle now t s current d)"
  unfolding record_lifecycle_def Let_def by (erule add_history_typed) (auto simp: list_all_iff dest: derived_known)

lemma stored_findings_typed:
  assumes "well_typed d" and staged: "mapE (finding_row_of identity x (engine_code_for_execution d x)
      (ids_by_code (finding_categories d)) (ids_by_code (severity_levels d))) fs = Inr staged"
  shows "well_typed (persist_evidence now rows (snd (add_findings now staged d)))"
proof -
  have "list_all (finding_typed d) staged"
    using mapE_Inr_in [OF staged] finding_row_typed [OF _ engine_code_length] unfolding list_all_iff by blast
  then show ?thesis by (intro persist_evidence_typed add_findings_typed [OF assms(1)])
qed

lemma persist_findings_typed:
  assumes "well_typed d" and "persist_findings now x fs d = Inr d'"
  shows "well_typed d'"
  using assms(2) unfolding persist_findings_def bindE_Inr_iff
  by (elim exE conjE)
    (auto simp: case_prod_beta Let_def stored_findings_typed [OF assms(1)] record_lifecycle_typed split: option.split_asm)

section \<open>All operations\<close>

text \<open>What the application does to the database: the operations of \<open>trail_operation\<close>, registration, and the
  three operations on sessions.\<close>

inductive stored_operation :: "(db \<Rightarrow> db) \<Rightarrow> bool" where
  trail: "trail_operation f \<Longrightarrow> stored_operation f"
| registered: "stored_operation (committed (register_user hash now email password))"
| logged_in: "stored_operation (\<lambda>d. snd (login_route vp enc now am ttl raw email password d))"
| refreshed: "stored_operation (\<lambda>d. snd (refresh_route enc now am ttl raw csrf cookie d))"
| logged_out: "stored_operation (\<lambda>d. snd (logout_route csrf cookie d))"

lemma extends_trans: "extends a b \<Longrightarrow> extends b c \<Longrightarrow> extends a c"
  unfolding extends_def by (intro conjI; elim conjE) (erule (1) subset_trans | simp)+

lemma same_typing_trans: "same_typing a b \<Longrightarrow> same_typing b c \<Longrightarrow> same_typing a c"
  using extends_trans [of a b c] by (simp add: same_typing_def)

lemma status_same [simp]: "same_typing d (set_status p st d)"
  by (simp add: same_typing_def extends_def set_status_def)

lemma session_same: "add_session usr f h e now d = Inr d' \<Longrightarrow> same_typing d d'"
  by (auto simp: add_session_def uuid4_def Let_def same_typing_def extends_def split: if_split_asm)

lemma write_same:
  assumes "refresh_write now ttl raw r d = Inr (x, d')"
  shows "same_typing d d'"
proof -
  let ?d = "set_status (\<lambda>q. rs_id q = rs_id r \<and> rs_status q = ACTIVE) ROTATED d"
  have "same_typing ?d d'"
    using assms by (auto simp: refresh_write_def case_prod_beta set_status_eqs Let_def bindE_Inr_iff session_same split: if_split_asm)
  then show ?thesis using same_typing_trans status_same by blast
qed

lemma refresh_same: "refresh now ttl raw token d = Inr (x, d') \<Longrightarrow> same_typing d d'"
  by (erule refresh_cases) (auto simp: set_status_eqs write_same)

lemma logout_same: "logout token d = Inr d' \<Longrightarrow> same_typing d d'"
  by (auto simp: set_status_eqs dest!: logout_result)

lemma login_same: "same_typing d (snd (login_route vp enc now am ttl raw email password d))"
proof -
  have "same_typing d d'" if f: "issue_family now ttl raw i d = Inr (x, d')" for i x d'
  proof -
    have "same_typing d (d\<lparr>next_id := Suc (next_id d)\<rparr>)" by (simp add: same_typing_def extends_def)
    moreover have "same_typing (d\<lparr>next_id := Suc (next_id d)\<rparr>) d'"
      using f by (auto simp: issue_family_def uuid4_def Let_def bindE_Inr_iff session_same)
    ultimately show ?thesis by (rule same_typing_trans)
  qed
  then show ?thesis by (auto simp: login_route_def run_request_def bindE_Inr_iff split: sum.split)
qed

lemma storing_typed:
  "well_typed d \<Longrightarrow> well_typed (snd (create_execution i engine version status started d))"
  "well_typed d \<Longrightarrow> well_typed (mark_execution i st now err d)"
  "well_typed d \<Longrightarrow> well_typed (upsert_ai_assessment now i v d)"
  by (erule well_typed_same, simp add: same_typing_def extends_def create_execution_def mark_execution_def upsert_ai_assessment_def
      uuid4_def Let_def split: option.split)+

lemma reading_typed:
  "well_typed d \<Longrightarrow> well_typed (snd (query_entries p q limit now d))"
  "well_typed d \<Longrightarrow> well_typed (snd (get_entry i p now d))"
  by (simp_all add: query_entries_db get_entry_cases well_typed_audit split: option.split)

lemma trail_typed:
  assumes w: "well_typed d" and "trail_operation f"
  shows "well_typed (f d)"
proof -
  note requests = committed_typed [OF w, OF create_organization_typed [OF w]] committed_typed [OF w, OF add_member_typed [OF w]]
    committed_typed [OF w, OF change_role_typed [OF w]] committed_typed [OF w, OF remove_member_typed [OF w]]
    committed_typed [OF w, OF register_target_typed [OF w]] committed_typed [OF w, OF archive_typed(1) [OF w]]
    committed_typed [OF w, OF archive_typed(2) [OF w]] committed_typed [OF w, OF create_attestation_typed [OF w]]
    committed_typed [OF w, OF revoke_typed [OF w]] committed_typed [OF w, OF create_scan_typed [OF w]]
    committed_typed [OF w, OF rescan_typed [OF w]] committed_typed [OF w, OF cancel_typed [OF w]]
  have findings: "well_typed (committed (\<lambda>d. map_sum id (Pair ()) (persist_findings now i fs d)) d)" for now i fs
    by (rule committed_typed [OF w]) (auto simp: map_sum_def dest: persist_findings_typed [OF w] split: sum.split_asm)
  from assms(2) show ?thesis
    by cases (simp_all only: requests findings reading_typed [OF w] storing_typed [OF w] transition_typed [OF w]
        well_typed_audit [OF w])
qed

lemma stored_typed:
  assumes "well_typed d" and "stored_operation f"
  shows "well_typed (f d)"
  using assms(2)
proof cases
  case trail
  then show ?thesis using trail_typed [OF assms(1)] by blast
next
  case (registered hash now email password)
  then show ?thesis using committed_typed [OF assms(1)] register_user_typed [OF assms(1)] by metis
next
  case (logged_in vp enc now am ttl raw email password)
  then show ?thesis using well_typed_same [OF assms(1) login_same] by simp
next
  case (refreshed enc now am ttl raw csrf cookie)
  have "same_typing d (snd (refresh_route enc now am ttl raw csrf cookie d))"
    by (cases "refresh now ttl raw cookie d")
      (auto simp: refresh_route_def dest!: refresh_same split: sum.split refresh_outcome.split option.split)
  then show ?thesis using refreshed well_typed_same [OF assms(1)] by simp
next
  case (logged_out csrf cookie)
  have "same_typing d (snd (logout_route csrf cookie d))"
    by (cases "logout cookie d") (auto simp: logout_route_def dest: logout_same)
  then show ?thesis using logged_out well_typed_same [OF assms(1)] by simp
qed

lemma all_typed: "well_typed d \<Longrightarrow> list_all stored_operation fs \<Longrightarrow> well_typed (run_all fs d)"
  by (induction fs arbitrary: d) (simp_all add: stored_typed)

lemma seeded_typed: "well_typed seeded_db"
  by (simp add: well_typed_def seeded_db_def)

section \<open>Property\<close>

lemma length_map_filter: "(\<And>x. x \<in> set xs \<Longrightarrow> h x \<noteq> None) \<Longrightarrow> length (List.map_filter h xs) = length xs"
  by (induction xs) (auto simp: map_filter_simps split: option.split)

lemma findings_all_read:
  assumes "list_all (finding_typed d) (scan_findings d)"
  shows "length (list_finding_dtos d i) = length (list_findings d i)"
proof -
  have "\<exists>sev cat. category_code d f = Some cat \<and> severity_code d f = Some sev" if "f \<in> set (list_findings d i)" for f
    using assms that by (auto simp: list_all_iff list_findings_def category_code_def severity_code_def code_known finding_typed_def)
  then show ?thesis unfolding list_finding_dtos_def by (intro length_map_filter) fastforce
qed


section \<open>Witness\<close>


end
