(* ===== verification/Spec2Isabelle.thy ===== *)
theory Spec2Isabelle
  imports Sessions HttpAnalysis ScanRoutes ApiRoutes GeminiProvider WellTyped Application
begin

text \<open>
  SentinelGPT runs passive security scans of web targets whose owners have attested that they may be scanned, and
  explains the findings.  This development models the Python code of the backend (\<open>src/backend/src\<close>): an API
  over one database, a worker that executes scans, a container sandbox through which all scan traffic goes, an
  analysis engine, and an AI layer whose answers are validated before they are stored.

  \<^bold>\<open>How the parts interact.\<close>  A request resolves the current user (Users), calls a service (Sessions, Tenancy,
  ScanService) inside one transaction (\<open>run_request\<close> of Store, which models \<open>get_db_session\<close>: the state is
  kept when the handler returns and dropped when it raises), and turns exceptions into the error envelope
  (Errors).  Creating a scan needs a visible target (Tenancy) and an active attestation, and puts a message into
  the queue (ScanRoutes).  The worker task (ScanJob) claims the scan by a conditional update, checks the
  attestation again, builds an executor, runs the engine through the sandbox (Executor, Sandbox, HttpTransport,
  ScanNet, HttpAnalysis), stores findings with their fingerprints and lifecycle (ScanPersist, Fingerprints,
  Lifecycle), asks the AI layer (Evidence, AiAnalysis, Assessment) and stores the assessment.  Reports and the
  read endpoints (Reports, ScanRoutes) read the result back.

  \<^bold>\<open>Conventions.\<close>  A Python text is a list of code points (\<open>pystr\<close>; \<open>u ''abc''\<close> is a literal), so that lone
  surrogates and non-ASCII text are values.  A call that can raise returns \<open>exn + 'a\<close>, the left side being the
  exception; \<open>exn\<close> (Errors) has a constructor for the domain errors and one for each other exception the code
  can meet.  Dicts are association lists in insertion order.  Python integers are \<open>int\<close>; IP addresses are words
  of 32 and 128 bits and SHA-256 works on words of 32 bits.  A timestamp is a number of microseconds; a clock is a
  function from the number of the reading to its value.  Uuids are numbers drawn from a counter of the database
  (\<open>next_id\<close>); distinctness is what the code relies on.  The database \<open>db\<close> has one list of rows per table, in
  insertion order, which is also the order among equal sort keys.  Effects outside the database (docker, DNS, the
  broker, an AI provider) act on a world of a type variable, threaded through the calls.

  \<^bold>\<open>Theories.\<close>
  \<^item> Prelude, PyText, Printable, DateText, UrlSplit, JsonText, PyJson, JsonRoundTrip, Sha256: the part of Python
    and its standard library that the code uses (strings, \<open>isprintable\<close>, \<open>isoformat\<close>, \<open>urllib.parse\<close>,
    \<open>json\<close>, \<open>hashlib\<close>), with the shared lemmas and collections.  JsonRoundTrip proves that reading back what
    the stable writer writes gives the value with sorted keys.
  \<^item> Errors: \<open>domain/errors.py\<close> and \<open>api/middlewares/error_handlers.py\<close>.
  \<^item> Store: the rows of \<open>infrastructure/database/models\<close>, the seed rows of the first migration, transactions.
  \<^item> Users, Sessions: \<open>domain/users\<close>, the authentication endpoints.  Sessions proves the invariants of refresh
    credentials over all histories of logins, refreshes, logouts and reuse.
  \<^item> TargetNorm, Addresses: \<open>domain/targets/target_normalization.py\<close>, \<open>domain/scanning/ip_policy.py\<close>: what the
    lexical gate accepts, and how it agrees with the scan-time policy.
  \<^item> AuditRecords, AuditTrail: \<open>domain/audit/audit_service.py\<close>; the trail is append-only under every operation of
    the application.
  \<^item> Paging, Tenancy: organizations, memberships, targets and attestations with their repositories; tenant
    isolation, complete paging (the locale \<open>keyset_listing\<close>), no duplicates, revocation.
  \<^item> ScanNet: resolver, binding, egress policy, redirect validation (\<open>domain/scanning\<close>); the locale
    \<open>hostname_resolver\<close> is the contract of resolvers, interpreted by the platform resolver.
  \<^item> HttpTransport: \<open>http_contract.py\<close> and \<open>scanning/sandbox/http_transport.py\<close>; which exchanges can happen.
  \<^item> HttpWorkload: \<open>scanning/sandbox/http_workload.py\<close>, the program in the container.  Its property composes it with
    the transport: through JSON, base64, the command line and the result line, an exchange amounts to the direct one.
  \<^item> Sandbox: \<open>scanning/sandbox/docker_sandbox.py\<close> and its policy; the locale \<open>egress_sandbox\<close> is the lifecycle
    contract, interpreted by the docker sandbox.
  \<^item> Executor, Findings, HttpAnalysis: \<open>scanning/runner.py\<close>, \<open>domain/scanning/findings.py\<close>,
    \<open>scanning/engines/http_analysis.py\<close>; the gate, cleanup, and what the engine reports.
  \<^item> Fingerprints, Lifecycle, ScanStore, ScanService, ScanPersist: \<open>domain/scans\<close> and \<open>scan_repository.py\<close>.
  \<^item> Evidence, Assessment, AiAnalysis, Explanations: \<open>domain/scanning/analysis\<close>; candidate groups, validation of
    the provider's answer, failing closed, templates.  GeminiProvider: \<open>infrastructure/ai/gemini_provider.py\<close>, the
    typed failures of the one real provider.
  \<^item> ScanJob, ScanSystem, ScanLifecycle, ScanOutcomes: the background job, the worker task, and the application as a
    transition system \<open>service_step\<close> in which requests and stretches of jobs interleave.  ScanLifecycle shows by
    the locale \<open>simulates\<close> that it refines the state machine of \<open>domain/scans/lifecycle.py\<close> (widened by the one
    transition that cancelling makes beyond it), that a scan is executed at most once and only with authorization.
  \<^item> Reports, ScanRoutes: \<open>reporting\<close> and \<open>api/routes/scan_routes.py\<close>; exports read back, reports are exact,
    endpoints are isolated.  ApiRoutes: the other endpoints (\<open>api/routes\<close>: organizations, targets, attestations,
    audit log, accounts); cursors reach every target, changes of organizations are audited.
  \<^item> Application: \<open>config/settings.py\<close>, the probes (\<open>api/routes/health.py\<close>) and the way of every response through
    handlers and middleware (\<open>main.py\<close>); deployed settings are secure, error responses disclose no detail.
  \<^item> WellTyped: the columns' types, references and lengths as an invariant of all operations.

  \<^bold>\<open>Parameters.\<close>  Code outside the repository is an argument: argon2 and JWT (with the laws that verification
  accepts what was produced, as named hypotheses), \<open>getaddrinfo\<close>, the docker command line, the Celery broker, the
  SDK of the AI provider, httpx with the network, pydantic's e-mail check, \<open>datetime.fromisoformat\<close> and \<open>uuid.UUID\<close> of a
  cursor.  Witnesses instantiate them.

  \<^bold>\<open>Bounds and fuel.\<close>  \<open>json.loads\<close> is a recursive-descent reader with fuel \<open>2 * length s + 2\<close>; every level
  consumes a character, and JsonRoundTrip shows that the fuel suffices for everything the writer produces.  The
  redirect loop of the transport runs on the redirect budget, as the code's counter does.  Waiting for the container
  runs on the number of polls of the configuration.  Everything else is structurally recursive or has a measure.

  \<^bold>\<open>Not modelled.\<close>  Floating-point arithmetic (elapsed times are carried as their text); the memory and recursion
  limits of the interpreter; the isolation anomalies of PostgreSQL below the granularity of committed stretches
  (a stretch between two commits is atomic, and conditional updates are the serialization points the code
  relies on); DDL, reading the environment, logging, Celery and FastAPI wiring; the scripts and the frontend.  PROJECT.json
  lists these parts.
\<close>

end
